(* ===== verification/Go_Prelude.thy ===== *)
theory Go_Prelude
  imports Main "HOL-Library.Monad_Syntax" "HOL-Library.Sublist" "HOL-Library.Multiset"
begin

text \<open>
  The vocabulary every component theory shares: Go errors as values, programs as functions
  on an explicit world (\<open>None\<close> is a Go panic or a loop that does not return), the
  \<^verbatim>\<open>for range\<close> loop with early return, Go maps as association lists, and the interface
  locales for encoders and decoders.  It also declares the development's theorem collections.
\<close>

named_theorems emits_intros \<open>introduction rules for what a program may request\<close>
named_theorems prog_simps \<open>unfolding rules that run a program on a world\<close>

named_theorems run_conv \<open>inversion of a run that returned\<close>

section \<open>Errors as values\<close>

text \<open>
  A Go \<^verbatim>\<open>error\<close> is either built by this program (\<^verbatim>\<open>fmt.Errorf\<close>,
  \<^verbatim>\<open>errors.New\<close>), or comes back from code outside the repository.  The only
  distinction the program itself makes on foreign errors is \<^verbatim>\<open>errors.IsNotFound\<close>.
\<close>

datatype error = Errorf string | ExtErr string | NotFoundErr string

fun error_msg :: "error \<Rightarrow> string" where
  "error_msg (Errorf s) = s"
| "error_msg (ExtErr s) = s"
| "error_msg (NotFoundErr s) = s"

fun IsNotFound :: "error \<Rightarrow> bool" where
  "IsNotFound (NotFoundErr s) = True"
| "IsNotFound e = False"

section \<open>Programs\<close>

type_synonym ('w, 'a) prog = "'w \<Rightarrow> ('a \<times> 'w) option"

text \<open>
  \<open>rangeM body xs s\<close> is \<^verbatim>\<open>for _, x := range xs { body }\<close>: the local variables the
  body assigns are the state \<open>s\<close>; \<open>Inl s\<close> continues with the next element and \<open>Inr r\<close>
  is a \<^verbatim>\<open>return r\<close> from inside the loop.
\<close>

fun rangeM :: "('x \<Rightarrow> 's \<Rightarrow> ('w, 's + 'r) prog) \<Rightarrow> 'x list \<Rightarrow> 's \<Rightarrow> ('w, 's + 'r) prog" where
  "rangeM f [] s w = Some (Inl s, w)"
| "rangeM f (x # xs) s w = do {
     (r, w) \<leftarrow> f x s w;
     (case r of Inl s' \<Rightarrow> rangeM f xs s' w | Inr r' \<Rightarrow> Some (Inr r', w))
   }"

text \<open>The body for its effect only, stopping at the first error.\<close>

fun foreach :: "('x \<Rightarrow> ('w, 'e option) prog) \<Rightarrow> 'x list \<Rightarrow> ('w, 'e option) prog" where
  "foreach f [] w = Some (None, w)"
| "foreach f (x # xs) w = do {
     (r, w) \<leftarrow> f x w;
     (case r of None \<Rightarrow> foreach f xs w | Some e \<Rightarrow> Some (Some e, w))
   }"

text \<open>The body for its effect only, whatever it returns.\<close>

fun forall :: "('x \<Rightarrow> ('w, 'a) prog) \<Rightarrow> 'x list \<Rightarrow> ('w, unit) prog" where
  "forall f [] w = Some ((), w)"
| "forall f (x # xs) w = do { (r, w) \<leftarrow> f x w; forall f xs w }"

lemma foreach_append:
  "foreach f (xs @ ys) w =
     (case foreach f xs w of
        None \<Rightarrow> None
      | Some (Some e, w') \<Rightarrow> Some (Some e, w')
      | Some (None, w') \<Rightarrow> foreach f ys w')"
  by (induction xs arbitrary: w) (auto split: option.splits Option.bind_splits)

lemma forall_append:
  "forall f (xs @ ys) w = do { (u, w) \<leftarrow> forall f xs w; forall f ys w }"
  by (induction xs arbitrary: w) (auto split: Option.bind_splits)

lemma forall_total: "(\<And>x w. x \<in> set xs \<Longrightarrow> f x w \<noteq> None) \<Longrightarrow> forall f xs w \<noteq> None"
proof (induction xs arbitrary: w)
  case (Cons x xs)
  from Cons.prems have "f x w \<noteq> None" by simp
  then obtain r w' where "f x w = Some (r, w')" by auto
  with Cons show ?case by simp
qed simp

text \<open>
  Inversion of a run that returned: each equation moves through one construct of a program, and a
  branch that returns something else disappears.
\<close>

declare bind_eq_Some_conv [run_conv]

lemma case_sum_run [run_conv]: "(case r of Inl e \<Rightarrow> A e | Inr x \<Rightarrow> B x) = Some y \<longleftrightarrow>
    (\<exists>e. r = Inl e \<and> A e = Some y) \<or> (\<exists>x. r = Inr x \<and> B x = Some y)"
  by (cases r) simp_all

lemma case_option_run [run_conv]: "(case r of None \<Rightarrow> A | Some x \<Rightarrow> B x) = Some y \<longleftrightarrow>
    (r = None \<and> A = Some y) \<or> (\<exists>x. r = Some x \<and> B x = Some y)"
  by (cases r) simp_all

lemma case_prod_run [run_conv]: "(case p of (a, b) \<Rightarrow> A a b) = Some y \<longleftrightarrow> (\<exists>a b. p = (a, b) \<and> A a b = Some y)"
  by (cases p) simp_all

lemma if_run [run_conv]: "(if b then A else B) = Some y \<longleftrightarrow> (b \<and> A = Some y) \<or> (\<not> b \<and> B = Some y)"
  by simp

lemma case_list_run [run_conv]: "(case xs of [] \<Rightarrow> A | z # zs \<Rightarrow> B z zs) = Some y \<longleftrightarrow>
    (xs = [] \<and> A = Some y) \<or> (\<exists>z zs. xs = z # zs \<and> B z zs = Some y)"
  by (cases xs) simp_all

section \<open>Go maps\<close>

text \<open>
  A Go map with string keys is an association list with distinct keys.  Ranging over it visits
  the keys in an order the runtime chooses; that order is a parameter of the definitions that
  range over a map.
\<close>

type_synonym ('k, 'v) gomap = "('k \<times> 'v) list"

fun map_put :: "'k \<Rightarrow> 'v \<Rightarrow> ('k, 'v) gomap \<Rightarrow> ('k, 'v) gomap" where
  "map_put k v [] = [(k, v)]"
| "map_put k v ((k', v') # m) = (if k = k' then (k, v) # m else (k', v') # map_put k v m)"

definition map_del :: "'k \<Rightarrow> ('k, 'v) gomap \<Rightarrow> ('k, 'v) gomap" where
  "map_del k m = filter (\<lambda>p. fst p \<noteq> k) m"

definition map_keys :: "('k, 'v) gomap \<Rightarrow> 'k list" where
  "map_keys m = map fst m"

definition map_ok :: "('k, 'v) gomap \<Rightarrow> bool" where
  "map_ok m \<longleftrightarrow> distinct (map fst m)"

lemma map_of_map_put [simp]: "map_of (map_put k v m) = (map_of m)(k \<mapsto> v)"
  by (induction m) (auto simp: fun_eq_iff)

lemma map_of_map_del [simp]: "map_of (map_del k m) = (map_of m)(k := None)"
  by (induction m) (auto simp: map_del_def fun_eq_iff)

lemma keys_map_put: "set (map fst (map_put k v m)) = insert k (set (map fst m))"
  by (induction k v m rule: map_put.induct) (simp_all add: insert_commute)

lemma map_put_new: "k \<notin> set (map fst m) \<Longrightarrow> map_put k v m = m @ [(k, v)]"
  by (induction k v m rule: map_put.induct) auto

lemma map_ok_put [simp]: "map_ok m \<Longrightarrow> map_ok (map_put k v m)"
  unfolding map_ok_def
proof (induction k v m rule: map_put.induct)
  case (2 k v k' v' m)
  then show ?case using keys_map_put [of k v m] by (auto simp del: set_map)
qed simp

lemma map_ok_del [simp]: "map_ok m \<Longrightarrow> map_ok (map_del k m)"
  by (auto simp: map_ok_def map_del_def distinct_map inj_on_def)

section \<open>Interfaces: encoders and decoders\<close>

text \<open>
  Several components print a structure into a string that another part of the system parses
  again: comma lists, bridge mappings, decimal numbers.  What the reader relies on is one law.
\<close>

locale codec =
  fixes enc :: "'a \<Rightarrow> 'b" and dec :: "'b \<Rightarrow> 'a option" and wf :: "'a \<Rightarrow> bool"
  assumes dec_enc: "wf x \<Longrightarrow> dec (enc x) = Some x"
begin

lemma enc_inj: "wf x \<Longrightarrow> wf y \<Longrightarrow> enc x = enc y \<Longrightarrow> x = y"
  by (metis dec_enc option.inject)

lemma enc_inj_on: "inj_on enc {x. wf x}"
  by (auto intro: inj_onI enc_inj)

end

text \<open>A finite map stored as an association list, as every Go map of the model is.\<close>

locale string_map =
  fixes put :: "'k \<Rightarrow> 'v \<Rightarrow> 'm \<Rightarrow> 'm" and del :: "'k \<Rightarrow> 'm \<Rightarrow> 'm"
    and look :: "'m \<Rightarrow> 'k \<Rightarrow> 'v option" and ok :: "'m \<Rightarrow> bool"
  assumes look_put: "look (put k v m) = (look m)(k \<mapsto> v)"
    and look_del: "look (del k m) = (look m)(k := None)"
    and ok_put: "ok m \<Longrightarrow> ok (put k v m)"
    and ok_del: "ok m \<Longrightarrow> ok (del k m)"
begin

lemma look_put_same: "look (put k v m) k = Some v"
  by (simp add: look_put)

lemma look_put_other: "k \<noteq> k' \<Longrightarrow> look (put k v m) k' = look m k'"
  by (simp add: look_put)

lemma look_del_put: "look m k = None \<Longrightarrow> look (del k (put k v m)) = look m"
  by (auto simp: look_put look_del fun_eq_iff)

end

interpretation gomap: string_map map_put map_del map_of map_ok
  by unfold_locales simp_all

end
