(* ===== verification/Go_Strings.thy ===== *)
theory Go_Strings
  imports Go_Prelude "HOL-Library.Word"
begin

text \<open>
  The parts of Go's \<^verbatim>\<open>strings\<close>, \<^verbatim>\<open>strconv\<close> and \<^verbatim>\<open>fmt\<close> packages
  the program uses, on byte strings.  Case folding and white space follow the ASCII rules.
\<close>

section \<open>Splitting and joining\<close>

text \<open>\<open>split_pred\<close> cuts a string at every byte satisfying the predicate.\<close>

fun split_pred :: "(char \<Rightarrow> bool) \<Rightarrow> string \<Rightarrow> string list" where
  "split_pred p [] = [[]]"
| "split_pred p (c # cs) =
     (if p c then [] # split_pred p cs
      else (case split_pred p cs of [] \<Rightarrow> [[c]] | s # ss \<Rightarrow> (c # s) # ss))"

definition strings_Split :: "string \<Rightarrow> char \<Rightarrow> string list" where
  "strings_Split s sep = split_pred (\<lambda>c. c = sep) s"

fun strings_Join :: "string list \<Rightarrow> string \<Rightarrow> string" where
  "strings_Join [] sep = []"
| "strings_Join [s] sep = s"
| "strings_Join (s # t # ss) sep = s @ sep @ strings_Join (t # ss) sep"

lemma split_pred_ne [simp]: "split_pred p s \<noteq> []"
  by (induction s) (auto split: list.splits)

lemma strings_Split_ne [simp]: "strings_Split s c \<noteq> []"
  by (simp add: strings_Split_def)

lemma length_strings_Split: "0 < length (strings_Split s c)"
  by simp

lemma split_pred_none: "(\<forall>c \<in> set s. \<not> p c) \<Longrightarrow> split_pred p s = [s]"
  by (induction s) auto

lemma split_pred_append:
  "(\<forall>c \<in> set s. \<not> p c) \<Longrightarrow> p d \<Longrightarrow> split_pred p (s @ d # t) = s # split_pred p t"
  by (induction s) auto

lemma split_pred_parts_hd: "(d # q) \<in> set (split_pred p s) \<Longrightarrow> \<not> p d"
proof (induction s)
  case (Cons c s)
  obtain r rs where "split_pred p s = r # rs" by (cases "split_pred p s") auto
  with Cons show ?case by (auto split: if_splits)
qed simp

lemma split_pred_parts: "part \<in> set (split_pred p s) \<Longrightarrow> c \<in> set part \<Longrightarrow> \<not> p c \<and> c \<in> set s"
proof (induction s arbitrary: part)
  case Nil
  then show ?case by simp
next
  case (Cons d s)
  obtain q qs where q: "split_pred p s = q # qs"
    by (cases "split_pred p s") auto
  show ?case
  proof (cases "part = d # q")
    case True
    with Cons.prems(1) have "\<not> p d" using split_pred_parts_hd by metis
    with True Cons.prems Cons.IH [of q] q show ?thesis by auto
  next
    case False
    with Cons.prems q Cons.IH [of part] show ?thesis by (auto split: if_splits)
  qed
qed

lemma Join_split: "strings_Join (strings_Split s c) [c] = s"
proof (induction s)
  case Nil
  then show ?case by (simp add: strings_Split_def)
next
  case (Cons d s)
  obtain q qs where "strings_Split s c = q # qs"
    by (cases "strings_Split s c") auto
  with Cons show ?case by (cases qs) (auto simp: strings_Split_def)
qed

lemma split_Join:
  "ss \<noteq> [] \<Longrightarrow> (\<forall>s \<in> set ss. c \<notin> set s) \<Longrightarrow> strings_Split (strings_Join ss [c]) c = ss"
proof (induction ss "[c]" rule: strings_Join.induct)
  case (2 s)
  then have "\<forall>d \<in> set s. \<not> d = c" by auto
  then show ?case by (simp add: strings_Split_def split_pred_none)
next
  case (3 s t ss)
  then have "\<forall>d \<in> set s. \<not> d = c" by auto
  with 3 show ?case by (simp add: strings_Split_def split_pred_append)
qed simp

definition wf_list :: "char \<Rightarrow> string list \<Rightarrow> bool" where
  "wf_list c ss \<longleftrightarrow> ss \<noteq> [] \<and> (\<forall>s \<in> set ss. c \<notin> set s)"

interpretation char_list: codec "\<lambda>ss. strings_Join ss [c]" "\<lambda>s. Some (strings_Split s c)" "wf_list c"
  for c :: char
  by unfold_locales (simp add: wf_list_def split_Join)

section \<open>Searching, trimming, replacing\<close>

fun strings_Contains :: "string \<Rightarrow> string \<Rightarrow> bool" where
  "strings_Contains [] sub = (sub = [])"
| "strings_Contains (c # cs) sub = (prefix sub (c # cs) \<or> strings_Contains cs sub)"

lemma Contains_sublist: "strings_Contains s sub = sublist sub s"
  by (induction s) (auto simp: sublist_Cons_right)

lemma Contains_refl [simp]: "strings_Contains s s"
  by (simp add: Contains_sublist)

lemma Contains_append_left: "strings_Contains t sub \<Longrightarrow> strings_Contains (s @ t) sub"
  unfolding Contains_sublist sublist_def by (metis append_assoc)

definition is_space :: "char \<Rightarrow> bool" where
  "is_space c \<longleftrightarrow> of_char c \<in> {9::nat, 10, 11, 12, 13, 32}"

definition trim_left :: "(char \<Rightarrow> bool) \<Rightarrow> string \<Rightarrow> string" where
  "trim_left p s = dropWhile p s"

definition trim_right :: "(char \<Rightarrow> bool) \<Rightarrow> string \<Rightarrow> string" where
  "trim_right p s = rev (dropWhile p (rev s))"

definition strings_Trim :: "string \<Rightarrow> string \<Rightarrow> string" where
  "strings_Trim s cutset = trim_right (\<lambda>c. c \<in> set cutset) (trim_left (\<lambda>c. c \<in> set cutset) s)"

definition strings_TrimLeft :: "string \<Rightarrow> string \<Rightarrow> string" where
  "strings_TrimLeft s cutset = trim_left (\<lambda>c. c \<in> set cutset) s"

definition strings_TrimRight :: "string \<Rightarrow> string \<Rightarrow> string" where
  "strings_TrimRight s cutset = trim_right (\<lambda>c. c \<in> set cutset) s"

definition strings_TrimSpace :: "string \<Rightarrow> string" where
  "strings_TrimSpace s = trim_right is_space (trim_left is_space s)"

definition strings_TrimPrefix :: "string \<Rightarrow> string \<Rightarrow> string" where
  "strings_TrimPrefix s p = (if prefix p s then drop (length p) s else s)"

definition strings_Fields :: "string \<Rightarrow> string list" where
  "strings_Fields s = filter (\<lambda>f. f \<noteq> []) (split_pred is_space s)"

lemma trim_right_snoc: "p c \<Longrightarrow> trim_right p (s @ [c]) = trim_right p s" "\<not> p c \<Longrightarrow> trim_right p (s @ [c]) = s @ [c]"
  by (simp_all add: trim_right_def)

lemma trim_left_id: "(\<forall>c \<in> set s. \<not> p c) \<Longrightarrow> trim_left p s = s"
  by (cases s) (auto simp: trim_left_def)

lemma trim_right_id: "(\<forall>c \<in> set s. \<not> p c) \<Longrightarrow> trim_right p s = s"
proof -
  assume "\<forall>c \<in> set s. \<not> p c"
  then have "\<forall>c \<in> set (rev s). \<not> p c" by simp
  then have "dropWhile p (rev s) = rev s" using trim_left_id [of "rev s" p] by (simp add: trim_left_def)
  then show ?thesis by (simp add: trim_right_def)
qed

lemma TrimSpace_id: "(\<forall>c \<in> set s. \<not> is_space c) \<Longrightarrow> strings_TrimSpace s = s"
  by (simp add: strings_TrimSpace_def trim_left_id trim_right_id)

lemma Fields_no_space: "f \<in> set (strings_Fields s) \<Longrightarrow> f \<noteq> [] \<and> (\<forall>c \<in> set f. \<not> is_space c)"
  by (auto simp: strings_Fields_def dest: split_pred_parts)

text \<open>\<^verbatim>\<open>strings.ReplaceAll\<close> (and \<^verbatim>\<open>Replace\<close> with count -1) for a non-empty pattern.\<close>

function strings_ReplaceAll :: "string \<Rightarrow> string \<Rightarrow> string \<Rightarrow> string" where
  "strings_ReplaceAll s old new =
     (if old \<noteq> [] \<and> prefix old s then new @ strings_ReplaceAll (drop (length old) s) old new
      else (case s of [] \<Rightarrow> [] | c # cs \<Rightarrow> c # strings_ReplaceAll cs old new))"
  by pat_completeness auto
termination
  by (relation "measure (\<lambda>(s, old, new). length s)") (auto simp: prefix_def)

declare strings_ReplaceAll.simps [simp del]

lemma ReplaceAll_char:
  "strings_ReplaceAll s [c] [] = filter (\<lambda>d. d \<noteq> c) s"
  by (induction s) (subst strings_ReplaceAll.simps, auto)+

definition to_lower_char :: "char \<Rightarrow> char" where
  "to_lower_char c = (let n = of_char c :: nat in if 65 \<le> n \<and> n \<le> 90 then char_of (n + 32) else c)"

definition strings_ToLower :: "string \<Rightarrow> string" where
  "strings_ToLower s = map to_lower_char s"

text \<open>
  \<^verbatim>\<open>strings.EqualFold\<close> with an ASCII second argument: the two runes outside ASCII that
  fold to an ASCII letter are U+017F (bytes C5 BF) and U+212A (bytes E2 84 AA).
\<close>

fun fold_runes :: "string \<Rightarrow> string" where
  "fold_runes (a # b # s) =
     (if a = CHR 0xC5 \<and> b = CHR 0xBF then CHR ''s'' # fold_runes s
      else case s of
             c # s' \<Rightarrow> if a = CHR 0xE2 \<and> b = CHR 0x84 \<and> c = CHR 0xAA then CHR ''k'' # fold_runes s'
                       else a # fold_runes (b # s)
           | [] \<Rightarrow> a # fold_runes (b # s))"
| "fold_runes s = s"

definition strings_EqualFold :: "string \<Rightarrow> string \<Rightarrow> bool" where
  "strings_EqualFold s t \<longleftrightarrow> strings_ToLower (fold_runes s) = strings_ToLower t"

section \<open>Numbers\<close>

fun show_nat :: "nat \<Rightarrow> string" where
  "show_nat n = (if n < 10 then [char_of (48 + n)] else show_nat (n div 10) @ [char_of (48 + n mod 10)])"

declare show_nat.simps [simp del]

definition strconv_Itoa :: "int \<Rightarrow> string" where
  "strconv_Itoa i = (if i < 0 then ''-'' @ show_nat (nat (- i)) else show_nat (nat i))"

definition is_digit :: "char \<Rightarrow> bool" where
  "is_digit c \<longleftrightarrow> 48 \<le> (of_char c :: nat) \<and> (of_char c :: nat) \<le> 57"

definition digit_val :: "char \<Rightarrow> nat" where
  "digit_val c = of_char c - 48"

definition read_nat :: "string \<Rightarrow> nat option" where
  "read_nat s = (if s \<noteq> [] \<and> (\<forall>c \<in> set s. is_digit c)
     then Some (foldl (\<lambda>n c. 10 * n + digit_val c) 0 s) else None)"

text \<open>\<^verbatim>\<open>strconv.ParseInt(s, 10, 16)\<close>: an optional sign, decimal digits, and the 16-bit range.\<close>

definition strconv_ParseInt16 :: "string \<Rightarrow> error + int" where
  "strconv_ParseInt16 s =
     (let (neg, body) = (case s of [] \<Rightarrow> (False, [])
                         | c # cs \<Rightarrow> if c = CHR ''-'' then (True, cs)
                                     else if c = CHR ''+'' then (False, cs) else (False, s))
      in case read_nat body of
           None \<Rightarrow> Inl (ExtErr (''strconv.ParseInt: parsing '' @ s @ '': invalid syntax''))
         | Some n \<Rightarrow>
             (if neg \<and> n \<le> 2 ^ 15 \<or> \<not> neg \<and> n < 2 ^ 15
              then Inr (if neg then - int n else int n)
              else Inl (ExtErr (''strconv.ParseInt: parsing '' @ s @ '': value out of range''))))"

lemma of_char_digit: "n < 10 \<Longrightarrow> of_char (char_of (48 + n) :: char) = (48 + n :: nat)"
  by simp

lemma show_nat_digits: "c \<in> set (show_nat n) \<Longrightarrow> is_digit c"
proof (induction n rule: show_nat.induct)
  case (1 n)
  then show ?case
    by (subst (asm) (2) show_nat.simps) (auto simp: is_digit_def split: if_splits)
qed

lemma show_nat_ne [simp]: "show_nat n \<noteq> []"
  by (subst show_nat.simps) simp

lemma read_show_nat_aux: "foldl (\<lambda>n c. 10 * n + digit_val c) 0 (show_nat n) = n"
proof (induction n rule: show_nat.induct)
  case (1 n)
  show ?case
  proof (cases "n < 10")
    case True
    then show ?thesis by (subst show_nat.simps) (simp add: digit_val_def)
  next
    case False
    then have "foldl (\<lambda>n c. 10 * n + digit_val c) 0 (show_nat (n div 10)) = n div 10"
      using 1 by simp
    with False show ?thesis
      by (subst show_nat.simps) (simp add: digit_val_def)
  qed
qed

lemma read_show_nat: "read_nat (show_nat n) = Some n"
  using show_nat_digits by (simp add: read_nat_def read_show_nat_aux)

interpretation decimal: codec show_nat read_nat "\<lambda>_. True"
  by unfold_locales (rule read_show_nat)

lemma not_digit_sign: "\<not> is_digit (CHR ''-'')" "\<not> is_digit (CHR ''+'')"
  by (simp_all add: is_digit_def)

lemma show_nat_Cons: "show_nat n = c # cs \<Longrightarrow> c \<noteq> CHR ''-'' \<and> c \<noteq> CHR ''+''"
  using show_nat_digits [of c n] not_digit_sign by auto

lemma ParseInt16_Itoa:
  assumes "- (2 ^ 15) \<le> i" "i < 2 ^ 15"
  shows "strconv_ParseInt16 (strconv_Itoa i) = Inr i"
proof (cases "i < 0")
  case True
  with assms show ?thesis
    by (auto simp: strconv_ParseInt16_def strconv_Itoa_def read_show_nat)
next
  case False
  obtain c cs where s: "show_nat (nat i) = c # cs" by (cases "show_nat (nat i)") auto
  note sign = show_nat_Cons [OF s]
  have "read_nat (c # cs) = Some (nat i)" using read_show_nat [of "nat i"] s by simp
  with False assms s sign show ?thesis
    by (auto simp: strconv_ParseInt16_def strconv_Itoa_def)
qed

lemma show_nat_length: "n < 10 ^ k \<Longrightarrow> 0 < k \<Longrightarrow> length (show_nat n) \<le> k"
proof (induction n arbitrary: k rule: show_nat.induct)
  case (1 n)
  show ?case
  proof (cases "n < 10")
    case True
    with 1 show ?thesis by (subst show_nat.simps) simp
  next
    case False
    with 1(2) have "k \<noteq> 1" by auto
    with 1(3) obtain j where j: "k = Suc j" "0 < j" by (cases k) auto
    with 1(2) have "n div 10 < 10 ^ j" by (simp add: less_mult_imp_div_less mult.commute)
    with 1(1) False j have "length (show_nat (n div 10)) \<le> j" by simp
    with False j show ?thesis by (subst show_nat.simps) simp
  qed
qed

section \<open>Hexadecimal\<close>

definition hex_digit :: "nat \<Rightarrow> char" where
  "hex_digit n = (if n < 10 then char_of (48 + n) else char_of (87 + n))"

text \<open>\<^verbatim>\<open>%02x\<close> of a byte, and \<^verbatim>\<open>hex.EncodeToString\<close>.\<close>

definition hex2 :: "nat \<Rightarrow> string" where
  "hex2 n = [hex_digit (n div 16 mod 16), hex_digit (n mod 16)]"

definition hex_EncodeToString :: "8 word list \<Rightarrow> string" where
  "hex_EncodeToString bs = concat (map (\<lambda>b. hex2 (unat b)) bs)"

lemma length_hex_Encode: "length (hex_EncodeToString bs) = 2 * length bs"
  by (induction bs) (auto simp: hex_EncodeToString_def hex2_def)

section \<open>Formatting\<close>

text \<open>
  \<^verbatim>\<open>%q\<close> on a string: quotes, backslashes and control characters are escaped; bytes above
  127, parts of printable runes, stay as they are.
\<close>

definition quote_char :: "char \<Rightarrow> string" where
  "quote_char c =
     (if c = CHR 0x22 \<or> c = CHR 0x5C then [CHR 0x5C, c]
      else if c = CHR 0x07 then [CHR 0x5C, CHR ''a'']
      else if c = CHR 0x08 then [CHR 0x5C, CHR ''b'']
      else if c = CHR 0x09 then [CHR 0x5C, CHR ''t'']
      else if c = CHR 0x0A then [CHR 0x5C, CHR ''n'']
      else if c = CHR 0x0B then [CHR 0x5C, CHR ''v'']
      else if c = CHR 0x0C then [CHR 0x5C, CHR ''f'']
      else if c = CHR 0x0D then [CHR 0x5C, CHR ''r'']
      else if of_char c < (32 :: nat) \<or> c = CHR 0x7F then [CHR 0x5C, CHR ''x''] @ hex2 (of_char c)
      else [c])"

definition fmt_q :: "string \<Rightarrow> string" where
  "fmt_q s = [CHR 0x22] @ concat (map quote_char s) @ [CHR 0x22]"

text \<open>\<^verbatim>\<open>%s\<close> and \<^verbatim>\<open>%v\<close> on a slice of strings.\<close>

definition fmt_slice :: "string list \<Rightarrow> string" where
  "fmt_slice xs = ''['' @ strings_Join xs '' '' @ '']''"

end
