(* ===== verification/Go_Json.thy ===== *)
theory Go_Json
  imports Go_Strings
begin

text \<open>
  The decoding half of Go's \<^verbatim>\<open>encoding/json\<close>, as far as the program uses it: the text is
  checked as a whole first, as \<^verbatim>\<open>checkValid\<close> does, and a value is decoded from a valid text
  only.  Reading is split into tokens and a machine with a stack of the open arrays and objects,
  the \<^verbatim>\<open>parseState\<close> of the package's scanner, so that no fuel is needed.
\<close>

section \<open>Values and tokens\<close>

datatype json = JNull | JBool bool | JNum string | JStr string | JArr "json list" | JObj "(string \<times> json) list"

datatype jtoken = TLBrace | TRBrace | TLBrack | TRBrack | TColon | TComma | TVal json

section \<open>Strings\<close>

definition is_hex :: "char \<Rightarrow> bool" where
  "is_hex c \<longleftrightarrow> is_digit c \<or> c \<in> set ''abcdefABCDEF''"

definition hex_val :: "char \<Rightarrow> nat" where
  "hex_val c = (if is_digit c then digit_val c else of_char (to_lower_char c) - 87)"

text \<open>\<^verbatim>\<open>getu4\<close>: the code unit of a \<^verbatim>\<open>\u\<close> escape at the front of the text.\<close>

fun getu4 :: "string \<Rightarrow> nat option" where
  "getu4 (x # u # a # b # c # d # s) =
     (if x = CHR 0x5C \<and> u = CHR ''u'' \<and> list_all is_hex [a, b, c, d]
      then Some (((hex_val a * 16 + hex_val b) * 16 + hex_val c) * 16 + hex_val d) else None)"
| "getu4 s = None"

text \<open>\<^verbatim>\<open>utf8.EncodeRune\<close> of a scalar value.\<close>

definition utf8 :: "nat \<Rightarrow> string" where
  "utf8 r =
     (if r < 0x80 then [char_of r]
      else if r < 0x800 then [char_of (0xC0 + r div 64), char_of (0x80 + r mod 64)]
      else if r < 0x10000 then [char_of (0xE0 + r div 4096), char_of (0x80 + r div 64 mod 64), char_of (0x80 + r mod 64)]
      else [char_of (0xF0 + r div 262144), char_of (0x80 + r div 4096 mod 64), char_of (0x80 + r div 64 mod 64),
            char_of (0x80 + r mod 64)])"

text \<open>
  The length of the well-formed UTF-8 sequence of more than one byte at the front of the text, 0 when there is none
  and \<^verbatim>\<open>utf8.DecodeRune\<close> answers with the replacement character.
\<close>

definition in_range :: "nat \<Rightarrow> nat \<Rightarrow> string \<Rightarrow> nat \<Rightarrow> bool" where
  "in_range lo hi s i \<longleftrightarrow> i < length s \<and> lo \<le> of_char (s ! i) \<and> of_char (s ! i) \<le> hi"

definition utf8_len :: "string \<Rightarrow> nat" where
  "utf8_len s =
     (let tail = in_range 0x80 0xBF s
      in if in_range 0xC2 0xDF s 0 \<and> tail 1 then 2
         else if (in_range 0xE0 0xE0 s 0 \<and> in_range 0xA0 0xBF s 1 \<or> in_range 0xED 0xED s 0 \<and> in_range 0x80 0x9F s 1 \<or>
                  in_range 0xE1 0xEF s 0 \<and> \<not> in_range 0xED 0xED s 0 \<and> tail 1) \<and> tail 2 then 3
         else if (in_range 0xF0 0xF0 s 0 \<and> in_range 0x90 0xBF s 1 \<or> in_range 0xF4 0xF4 s 0 \<and> in_range 0x80 0x8F s 1 \<or>
                  in_range 0xF1 0xF3 s 0 \<and> tail 1) \<and> tail 2 \<and> tail 3 then 4
         else 0)"

definition unescape :: "char \<Rightarrow> char option" where
  "unescape e = map_of [(CHR 0x22, CHR 0x22), (CHR 0x5C, CHR 0x5C), (CHR ''/'', CHR ''/''), (CHR ''b'', CHR 0x08),
     (CHR ''f'', CHR 0x0C), (CHR ''n'', CHR 0x0A), (CHR ''r'', CHR 0x0D), (CHR ''t'', CHR 0x09)] e"

definition runeError :: string where "runeError = utf8 0xFFFD"

definition prepend :: "string \<Rightarrow> (string \<times> 'a) option \<Rightarrow> (string \<times> 'a) option" where
  "prepend x r = map_option (\<lambda>(y, s). (x @ y, s)) r"

lemma prepend_cong [fundef_cong]: "x = x' \<Longrightarrow> r = r' \<Longrightarrow> prepend x r = prepend x' r'"
  by simp

text \<open>
  The text behind an opening quotation mark, up to the closing one: the string it denotes and
  what follows it.
\<close>

fun lex_string :: "string \<Rightarrow> (string \<times> string) option" where
  "lex_string [] = None"
| "lex_string (c # s) =
     (if c = CHR 0x22 then Some ([], s)
      else if c = CHR 0x5C then
        (case s of
           [] \<Rightarrow> None
         | e # s' \<Rightarrow>
             if e = CHR ''u'' then
               (case getu4 (c # s) of
                  None \<Rightarrow> None
                | Some r \<Rightarrow>
                    if r < 0xD800 \<or> 0xE000 \<le> r then prepend (utf8 r) (lex_string (drop 5 s))
                    else (case getu4 (drop 5 s) of
                            None \<Rightarrow> prepend runeError (lex_string (drop 5 s))
                          | Some r1 \<Rightarrow>
                              if r < 0xDC00 \<and> 0xDC00 \<le> r1 \<and> r1 < 0xE000
                              then prepend (utf8 (0x10000 + (r - 0xD800) * 0x400 + (r1 - 0xDC00))) (lex_string (drop 11 s))
                              else prepend runeError (lex_string (drop 5 s))))
             else (case unescape e of None \<Rightarrow> None | Some x \<Rightarrow> prepend [x] (lex_string s')))
      else if of_char c < (0x20 :: nat) then None
      else if of_char c < (0x80 :: nat) then prepend [c] (lex_string s)
      else if utf8_len (c # s) = 0 then prepend runeError (lex_string s)
      else prepend (take (utf8_len (c # s)) (c # s)) (lex_string (drop (utf8_len (c # s) - 1) s)))"

text \<open>Every outcome leaves less than it was given.\<close>

definition leaves_less :: "nat \<Rightarrow> ('a \<times> string) option \<Rightarrow> bool" where
  "leaves_less n m \<longleftrightarrow> (\<forall>y r. m = Some (y, r) \<longrightarrow> length r < n)"

lemma leaves_less_intros:
  "leaves_less n None"
  "length s < n \<Longrightarrow> leaves_less n (Some (y, s))"
  "leaves_less n m \<Longrightarrow> leaves_less n (prepend x m)"
  "leaves_less n p \<Longrightarrow> leaves_less n q \<Longrightarrow> leaves_less n (if b then p else q)"
  "leaves_less n p \<Longrightarrow> (\<And>v. leaves_less n (f v)) \<Longrightarrow> leaves_less n (case d of None \<Rightarrow> p | Some v \<Rightarrow> f v)"
  "leaves_less n p \<Longrightarrow> (\<And>e u. t = e # u \<Longrightarrow> leaves_less n (g e u)) \<Longrightarrow> leaves_less n (case t of [] \<Rightarrow> p | e # u \<Rightarrow> g e u)"
  by (auto simp: leaves_less_def prepend_def split: option.splits list.splits)

lemma lex_string_leaves_less: "leaves_less (length s) (lex_string s)"
proof (induction s rule: length_induct)
  case (1 s)
  have IH: "leaves_less (length s) (lex_string (drop n t))" if "length t < length s" for n t
    using 1 [rule_format, of "drop n t"] that unfolding leaves_less_def
    by (metis diff_le_self le_less_trans length_drop less_trans)
  show ?case
  proof (cases s)
    case (Cons c t)
    have D: "leaves_less (Suc (length t)) (lex_string (drop n t))" "leaves_less (Suc (length t)) (lex_string t)" for n
      using IH [of t n] IH [of t 0] Cons by simp_all
    have T: "leaves_less (Suc (length t)) (lex_string u)" if "t = e # u" for e u using D(1) [of 1] that by simp
    show ?thesis unfolding Cons lex_string.simps(2) length_Cons
      by (intro leaves_less_intros D T) auto
  qed (simp add: leaves_less_intros)
qed

lemma lex_string_consumes: "lex_string s = Some (x, r) \<Longrightarrow> length r < length s"
  using lex_string_leaves_less [of s] by (simp add: leaves_less_def)

section \<open>Numbers and the lexer\<close>

text \<open>The grammar of numbers, read from the front: digits, then fraction, then exponent.\<close>

definition digits1 :: "string \<Rightarrow> bool" where
  "digits1 s \<longleftrightarrow> s \<noteq> [] \<and> list_all is_digit s"

definition exponent_ok :: "string \<Rightarrow> bool" where
  "exponent_ok s \<longleftrightarrow>
     (case s of
        [] \<Rightarrow> True
      | c # t \<Rightarrow> c \<in> set ''eE'' \<and> digits1 (case t of [] \<Rightarrow> [] | d # u \<Rightarrow> if d \<in> set ''+-'' then u else t))"

definition fraction_ok :: "string \<Rightarrow> bool" where
  "fraction_ok s \<longleftrightarrow>
     (case s of
        [] \<Rightarrow> True
      | c # t \<Rightarrow> if c = CHR ''.'' then digits1 (takeWhile is_digit t) \<and> exponent_ok (dropWhile is_digit t) else exponent_ok s)"

definition number_ok :: "string \<Rightarrow> bool" where
  "number_ok s =
     (let t = (case s of [] \<Rightarrow> [] | c # u \<Rightarrow> if c = CHR ''-'' then u else s)
      in case t of
           [] \<Rightarrow> False
         | c # u \<Rightarrow> if c = CHR ''0'' then fraction_ok u else is_digit c \<and> fraction_ok (dropWhile is_digit u))"

definition number_char :: "char \<Rightarrow> bool" where
  "number_char c \<longleftrightarrow> is_digit c \<or> c \<in> set ''+-.eE''"

definition json_space :: "char \<Rightarrow> bool" where
  "json_space c \<longleftrightarrow> c = CHR '' '' \<or> c = CHR 0x09 \<or> c = CHR 0x0A \<or> c = CHR 0x0D"

definition punctuation :: "char \<Rightarrow> jtoken option" where
  "punctuation c = map_of [(CHR ''{'', TLBrace), (CHR ''}'', TRBrace), (CHR ''['', TLBrack), (CHR '']'', TRBrack),
     (CHR '':'', TColon), (CHR '','', TComma)] c"

function jlex :: "string \<Rightarrow> jtoken list option" where
  "jlex [] = Some []"
| "jlex (c # s) =
     (if json_space c then jlex s
      else case punctuation c of
        Some t \<Rightarrow> map_option ((#) t) (jlex s)
      | None \<Rightarrow>
          if c = CHR 0x22 then
            (case lex_string s of None \<Rightarrow> None | Some (x, r) \<Rightarrow> map_option ((#) (TVal (JStr x))) (jlex r))
          else if prefix ''rue'' s \<and> c = CHR ''t'' then map_option ((#) (TVal (JBool True))) (jlex (drop 3 s))
          else if prefix ''alse'' s \<and> c = CHR ''f'' then map_option ((#) (TVal (JBool False))) (jlex (drop 4 s))
          else if prefix ''ull'' s \<and> c = CHR ''n'' then map_option ((#) (TVal JNull)) (jlex (drop 3 s))
          else if number_ok (takeWhile number_char (c # s))
               then map_option ((#) (TVal (JNum (takeWhile number_char (c # s))))) (jlex (dropWhile number_char s))
          else None)"
  by pat_completeness auto
termination
  by (relation "measure length") (auto dest: lex_string_consumes simp: less_Suc_eq_le length_dropWhile_le)

declare jlex.simps [simp del]

section \<open>The machine\<close>

text \<open>
  An open array holds its elements so far, latest first; an open object its members so far and the
  key whose value is being read.  The mode says what may follow: a value, a value or the end of an
  empty array, a key (or the end of an empty object), a colon, or what may follow a complete value.
\<close>

datatype jframe = FArr "json list" | FObj "(string \<times> json) list" string

datatype jmode = MVal bool | MKey bool | MColon string | MAfter json

definition maxNestingDepth :: nat where "maxNestingDepth = 10000"

definition jpush :: "jframe \<Rightarrow> jframe list \<Rightarrow> jmode \<Rightarrow> (jframe list \<times> jmode) option" where
  "jpush f st m = (if length st < maxNestingDepth then Some (f # st, m) else None)"

definition jstep :: "jtoken \<Rightarrow> jframe list \<times> jmode \<Rightarrow> (jframe list \<times> jmode) option" where
  "jstep t c =
     (let (st, m) = c
      in case m of
           MVal e \<Rightarrow>
             (case t of
                TVal v \<Rightarrow> Some (st, MAfter v)
              | TLBrack \<Rightarrow> jpush (FArr []) st (MVal True)
              | TLBrace \<Rightarrow> jpush (FObj [] []) st (MKey True)
              | TRBrack \<Rightarrow> (case st of FArr vs # st' \<Rightarrow> if e then Some (st', MAfter (JArr [])) else None | _ \<Rightarrow> None)
              | _ \<Rightarrow> None)
         | MKey e \<Rightarrow>
             (case t of
                TVal (JStr x) \<Rightarrow> (case st of FObj ms k # st' \<Rightarrow> Some (FObj ms x # st', MColon x) | _ \<Rightarrow> None)
              | TRBrace \<Rightarrow> (case st of FObj ms k # st' \<Rightarrow> if e then Some (st', MAfter (JObj [])) else None | _ \<Rightarrow> None)
              | _ \<Rightarrow> None)
         | MColon x \<Rightarrow> if t = TColon then Some (st, MVal False) else None
         | MAfter v \<Rightarrow>
             (case st of
                FArr vs # st' \<Rightarrow>
                  (case t of
                     TComma \<Rightarrow> Some (FArr (v # vs) # st', MVal False)
                   | TRBrack \<Rightarrow> Some (st', MAfter (JArr (rev (v # vs))))
                   | _ \<Rightarrow> None)
              | FObj ms k # st' \<Rightarrow>
                  (case t of
                     TComma \<Rightarrow> Some (FObj ((k, v) # ms) k # st', MKey False)
                   | TRBrace \<Rightarrow> Some (st', MAfter (JObj (rev ((k, v) # ms))))
                   | _ \<Rightarrow> None)
              | [] \<Rightarrow> None))"

primrec jparse :: "jtoken list \<Rightarrow> jframe list \<times> jmode \<Rightarrow> json option" where
  "jparse [] c = (case c of ([], MAfter v) \<Rightarrow> Some v | _ \<Rightarrow> None)"
| "jparse (t # ts) c = Option.bind (jstep t c) (jparse ts)"

definition json_parse :: "string \<Rightarrow> json option" where
  "json_parse s = Option.bind (jlex s) (\<lambda>ts. jparse ts ([], MVal False))"

section \<open>Decoding into Go values\<close>

text \<open>
  A type mismatch is remembered and reported at the end, so a text with one gives an error
  whatever else it holds; \<^verbatim>\<open>null\<close> leaves the variable as it is.
\<close>

definition jsonTypeError :: error where "jsonTypeError = ExtErr ''json: cannot unmarshal''"

definition jsonSyntaxError :: error where "jsonSyntaxError = ExtErr ''json: invalid character''"

definition decode_string :: "string \<Rightarrow> json \<Rightarrow> error + string" where
  "decode_string old v = (case v of JNull \<Rightarrow> Inr old | JStr s \<Rightarrow> Inr s | _ \<Rightarrow> Inl jsonTypeError)"

primrec mapE :: "('a \<Rightarrow> error + 'b) \<Rightarrow> 'a list \<Rightarrow> error + 'b list" where
  "mapE f [] = Inr []"
| "mapE f (x # xs) = (case f x of Inl e \<Rightarrow> Inl e | Inr y \<Rightarrow> (case mapE f xs of Inl e \<Rightarrow> Inl e | Inr ys \<Rightarrow> Inr (y # ys)))"

primrec foldE :: "('a \<Rightarrow> 's \<Rightarrow> error + 's) \<Rightarrow> 'a list \<Rightarrow> 's \<Rightarrow> error + 's" where
  "foldE f [] s = Inr s"
| "foldE f (x # xs) s = (case f x s of Inl e \<Rightarrow> Inl e | Inr s' \<Rightarrow> foldE f xs s')"

definition decode_slice :: "(json \<Rightarrow> error + 'a) \<Rightarrow> json \<Rightarrow> error + 'a list" where
  "decode_slice f v = (case v of JNull \<Rightarrow> Inr [] | JArr vs \<Rightarrow> mapE f vs | _ \<Rightarrow> Inl jsonTypeError)"

text \<open>
  Members are decoded in their order into the field whose name is equal to the key under case
  folding; a member no field is named by is skipped.
\<close>

definition decode_member :: "(string \<times> (json \<Rightarrow> 'r \<Rightarrow> error + 'r)) list \<Rightarrow> string \<times> json \<Rightarrow> 'r \<Rightarrow> error + 'r" where
  "decode_member fs m r =
     (case find (\<lambda>f. strings_EqualFold (fst m) (fst f)) fs of None \<Rightarrow> Inr r | Some f \<Rightarrow> snd f (snd m) r)"

definition decode_struct :: "(string \<times> (json \<Rightarrow> 'r \<Rightarrow> error + 'r)) list \<Rightarrow> 'r \<Rightarrow> json \<Rightarrow> error + 'r" where
  "decode_struct fs zero v =
     (case v of JNull \<Rightarrow> Inr zero | JObj ms \<Rightarrow> foldE (decode_member fs) ms zero | _ \<Rightarrow> Inl jsonTypeError)"

definition json_Unmarshal :: "(json \<Rightarrow> error + 'a) \<Rightarrow> string \<Rightarrow> error + 'a" where
  "json_Unmarshal f s = (case json_parse s of None \<Rightarrow> Inl jsonSyntaxError | Some v \<Rightarrow> f v)"

section \<open>Reading what was written\<close>

text \<open>
  Characters a string literal may hold as they are; \<open>clean\<close> ones may also be quotation
  marks, which \<open>escq\<close> writes with a backslash.
\<close>

definition clean_char :: "char \<Rightarrow> bool" where
  "clean_char c \<longleftrightarrow> 32 \<le> (of_char c :: nat) \<and> (of_char c :: nat) < 128 \<and> c \<noteq> CHR 0x5C"

definition plain :: "string \<Rightarrow> bool" where
  "plain s \<longleftrightarrow> (\<forall>c \<in> set s. clean_char c \<and> c \<noteq> CHR 0x22)"

definition escq :: "string \<Rightarrow> string" where
  "escq s = concat (map (\<lambda>c. if c = CHR 0x22 then [CHR 0x5C, CHR 0x22] else [c]) s)"

lemma plain_simps [simp]:
  "plain []"
  "plain (c # s) \<longleftrightarrow> clean_char c \<and> c \<noteq> CHR 0x22 \<and> plain s"
  "plain (s @ t) \<longleftrightarrow> plain s \<and> plain t"
  by (auto simp: plain_def)

lemma escq_simps [simp]:
  "escq [] = []"
  "escq (c # s) = (if c = CHR 0x22 then [CHR 0x5C, CHR 0x22] else [c]) @ escq s"
  "escq (s @ t) = escq s @ escq t"
  by (simp_all add: escq_def)

lemma escq_plain: "plain s \<Longrightarrow> escq s = s"
  by (induction s) auto

lemma unescape_quote: "unescape (CHR 0x22) = Some (CHR 0x22)"
  by (simp add: unescape_def)

lemma lex_string_clean:
  "(\<forall>c \<in> set s. clean_char c) \<Longrightarrow> lex_string (escq s @ CHR 0x22 # r) = Some (s, r)"
  by (induction s) (auto simp: prepend_def unescape_quote clean_char_def)

lemma lex_string_plain: "plain s \<Longrightarrow> lex_string (s @ CHR 0x22 # r) = Some (s, r)"
  using lex_string_clean [of s r] by (simp add: escq_plain) (simp add: plain_def)

text \<open>A text that is read as the given tokens, whatever follows it.\<close>

definition lexes :: "string \<Rightarrow> jtoken list \<Rightarrow> bool" where
  "lexes s ts \<longleftrightarrow> (\<forall>r. jlex (s @ r) = map_option (\<lambda>us. ts @ us) (jlex r))"

lemma lexes_Nil: "lexes [] []"
  by (simp add: lexes_def option.map_ident)

lemma lexes_append: "lexes s ts \<Longrightarrow> lexes t us \<Longrightarrow> lexes (s @ t) (ts @ us)"
  by (auto simp: lexes_def option.map_comp o_def)

lemma lexes_space: "json_space c \<Longrightarrow> lexes s ts \<Longrightarrow> lexes (c # s) ts"
  by (simp add: lexes_def jlex.simps)

lemma lexes_punct: "\<not> json_space c \<Longrightarrow> punctuation c = Some t \<Longrightarrow> lexes s ts \<Longrightarrow> lexes (c # s) (t # ts)"
  by (simp add: lexes_def jlex.simps option.map_comp o_def)

lemma lexes_string:
  assumes "\<forall>c \<in> set s. clean_char c" and "lexes t ts"
  shows "lexes (CHR 0x22 # escq s @ CHR 0x22 # t) (TVal (JStr s) # ts)"
  using assms unfolding lexes_def
  by (simp add: jlex.simps(2) [of "CHR 0x22"] json_space_def punctuation_def lex_string_clean option.map_comp o_def append_Cons [abs_def])

lemma lexes_plain: "plain s \<Longrightarrow> lexes t ts \<Longrightarrow> lexes (CHR 0x22 # s @ CHR 0x22 # t) (TVal (JStr s) # ts)"
  using lexes_string [of s t ts] by (simp add: escq_plain) (simp add: plain_def)

lemmas lexes_chars =
  lexes_space [of "CHR '' ''"]
  lexes_punct [of "CHR ''{''" TLBrace] lexes_punct [of "CHR ''}''" TRBrace] lexes_punct [of "CHR ''[''" TLBrack]
  lexes_punct [of "CHR '']''" TRBrack] lexes_punct [of "CHR '':''" TColon] lexes_punct [of "CHR '',''" TComma]

lemmas lexes_marks = lexes_chars [unfolded json_space_def punctuation_def, simplified]

lemma lexes_lex: "lexes s ts \<Longrightarrow> jlex s = Some ts"
  by (auto simp: lexes_def jlex.simps dest: spec [of _ "[]"])

text \<open>The tokens of a value, and that the machine reads the value back from them.\<close>

fun commas :: "jtoken list list \<Rightarrow> jtoken list" where
  "commas [] = []"
| "commas [x] = x"
| "commas (x # y # xs) = x @ TComma # commas (y # xs)"

fun toks :: "json \<Rightarrow> jtoken list" where
  "toks (JArr vs) = TLBrack # commas (map toks vs) @ [TRBrack]"
| "toks (JObj ms) = TLBrace # commas (map (\<lambda>m. TVal (JStr (fst m)) # TColon # toks (snd m)) ms) @ [TRBrace]"
| "toks v = [TVal v]"

fun jdepth :: "json \<Rightarrow> nat" where
  "jdepth (JArr vs) = Suc (Max (set (0 # map jdepth vs)))"
| "jdepth (JObj ms) = Suc (Max (set (0 # map (\<lambda>m. jdepth (snd m)) ms)))"
| "jdepth v = 0"

lemma depth_le:
  "v \<in> set vs \<Longrightarrow> length st + jdepth v \<le> length st + Max (set (0 # map jdepth vs))"
  "m \<in> set ms \<Longrightarrow> length st + jdepth (snd m) \<le> length st + Max (set (0 # map (\<lambda>m. jdepth (snd m)) ms))"
  by simp_all

definition jreads :: "json \<Rightarrow> bool" where
  "jreads v \<longleftrightarrow> (\<forall>st e rest. length st + jdepth v \<le> maxNestingDepth \<longrightarrow>
     jparse (toks v @ rest) (st, MVal e) = jparse rest (st, MAfter v))"

lemma reads_elements:
  assumes "\<forall>v \<in> set (v # vs). jreads v \<and> Suc (length st) + jdepth v \<le> maxNestingDepth"
  shows "jparse (commas (map toks (v # vs)) @ TRBrack # rest) (FArr acc # st, MVal e) =
    jparse rest (st, MAfter (JArr (rev acc @ v # vs)))"
  using assms
proof (induction vs arbitrary: v acc e)
  case (Cons u us)
  from Cons.IH [of u "v # acc" False] Cons.prems show ?case by (simp add: jreads_def jstep_def)
qed (simp add: jreads_def jstep_def)

lemma reads_members:
  assumes "\<forall>m \<in> set (m # ms). jreads (snd m) \<and> Suc (length st) + jdepth (snd m) \<le> maxNestingDepth"
  shows "jparse (commas (map (\<lambda>m. TVal (JStr (fst m)) # TColon # toks (snd m)) (m # ms)) @ TRBrace # rest) (FObj acc k # st, MKey e) =
    jparse rest (st, MAfter (JObj (rev acc @ m # ms)))"
  using assms
proof (induction ms arbitrary: m acc k e)
  case (Cons n ns)
  from Cons.IH [of n "m # acc" "fst m" False] Cons.prems show ?case by (simp add: jreads_def jstep_def)
qed (simp add: jreads_def jstep_def)

lemma reads_all: "jreads v"
proof (induction v rule: toks.induct)
  case (1 vs)
  have "jparse (toks (JArr vs) @ rest) (st, MVal e) = jparse rest (st, MAfter (JArr vs))"
    if l: "length st + jdepth (JArr vs) \<le> maxNestingDepth" for st e rest
  proof (cases vs)
    case (Cons u us)
    have "jreads v \<and> Suc (length st) + jdepth v \<le> maxNestingDepth" if "v \<in> set vs" for v
      using 1 [OF that] l depth_le(1) [OF that, of st] unfolding jdepth.simps by linarith
    with Cons reads_elements [of u us st rest "[]" True] l show ?thesis by (simp add: jstep_def jpush_def)
  qed (use l in \<open>simp add: jstep_def jpush_def\<close>)
  then show ?case by (simp add: jreads_def)
next
  case (2 ms)
  have "jparse (toks (JObj ms) @ rest) (st, MVal e) = jparse rest (st, MAfter (JObj ms))"
    if l: "length st + jdepth (JObj ms) \<le> maxNestingDepth" for st e rest
  proof (cases ms)
    case (Cons u us)
    have "jreads (snd m) \<and> Suc (length st) + jdepth (snd m) \<le> maxNestingDepth" if "m \<in> set ms" for m
      using 2 [OF that] l depth_le(2) [OF that, of st] unfolding jdepth.simps by linarith
    with Cons reads_members [of u us st rest "[]" "[]" True] l show ?thesis by (simp add: jstep_def jpush_def)
  qed (use l in \<open>simp add: jstep_def jpush_def\<close>)
  then show ?case by (simp add: jreads_def)
qed (simp_all add: jreads_def jstep_def)

lemma json_parse_lexes:
  assumes "lexes s (toks v)" and "jdepth v \<le> maxNestingDepth"
  shows "json_parse s = Some v"
  using reads_all [of v] assms lexes_lex [OF assms(1)]
  by (auto simp: json_parse_def jreads_def dest!: spec [of _ "[]"] spec [of _ False])

section \<open>Encoding\<close>

text \<open>
  \<^verbatim>\<open>json.Marshal\<close>: strings with the escapes of \<^verbatim>\<open>encodeState.string\<close>, which also
  escapes the characters special to HTML and the two line separators of Unicode and replaces bytes
  that are not UTF-8.
\<close>

definition json_hex :: "nat \<Rightarrow> char" where
  "json_hex n = ''0123456789abcdef'' ! n"

definition json_char :: "char \<Rightarrow> string" where
  "json_char c =
     (if c = CHR 0x22 \<or> c = CHR 0x5C then [CHR 0x5C, c]
      else if c = CHR 0x0A then [CHR 0x5C, CHR ''n'']
      else if c = CHR 0x0D then [CHR 0x5C, CHR ''r'']
      else if c = CHR 0x09 then [CHR 0x5C, CHR ''t'']
      else if of_char c < (0x20 :: nat) \<or> c \<in> set ''<>&''
        then [CHR 0x5C, CHR ''u'', CHR ''0'', CHR ''0'', json_hex (of_char c div 16), json_hex (of_char c mod 16)]
      else [c])"

fun json_enc :: "string \<Rightarrow> string" where
  "json_enc [] = []"
| "json_enc (c # s) =
     (if of_char c < (0x80 :: nat) then json_char c @ json_enc s
      else if utf8_len (c # s) = 0 then CHR 0x5C # ''ufffd'' @ json_enc s
      else (if prefix [CHR 0xE2, CHR 0x80, CHR 0xA8] (c # s) then CHR 0x5C # ''u2028''
            else if prefix [CHR 0xE2, CHR 0x80, CHR 0xA9] (c # s) then CHR 0x5C # ''u2029''
            else take (utf8_len (c # s)) (c # s)) @ json_enc (drop (utf8_len (c # s) - 1) s))"

definition json_str :: "string \<Rightarrow> string" where
  "json_str s = CHR 0x22 # json_enc s @ [CHR 0x22]"

fun json_print :: "json \<Rightarrow> string" where
  "json_print JNull = ''null''"
| "json_print (JBool b) = (if b then ''true'' else ''false'')"
| "json_print (JNum n) = n"
| "json_print (JStr s) = json_str s"
| "json_print (JArr vs) = ''['' @ strings_Join (map json_print vs) '','' @ '']''"
| "json_print (JObj ms) = ''{'' @ strings_Join (map (\<lambda>m. json_str (fst m) @ '':'' @ json_print (snd m)) ms) '','' @ ''}''"

definition ascii :: "string \<Rightarrow> bool" where
  "ascii s \<longleftrightarrow> (\<forall>c \<in> set s. of_char c < (0x80 :: nat))"

text \<open>Values that survive: strings are ASCII and numbers are written as the grammar wants them.\<close>

fun printable :: "json \<Rightarrow> bool" where
  "printable (JNum n) \<longleftrightarrow> number_ok n \<and> list_all number_char n"
| "printable (JStr s) \<longleftrightarrow> ascii s"
| "printable (JArr vs) \<longleftrightarrow> (\<forall>v \<in> set vs. printable v)"
| "printable (JObj ms) \<longleftrightarrow> (\<forall>m \<in> set ms. ascii (fst m) \<and> printable (snd m))"
| "printable v \<longleftrightarrow> True"

lemma json_hex_val: "n < 16 \<Longrightarrow> is_hex (json_hex n) \<and> hex_val (json_hex n) = n"
proof -
  assume "n < 16"
  then have "n \<in> {0, 1, 2, 3, 4, 5, 6, 7, 8, 9, 10, 11, 12, 13, 14, 15}" by (simp, presburger)
  then show ?thesis by (auto simp: json_hex_def is_hex_def hex_val_def is_digit_def digit_val_def to_lower_char_def)
qed

lemma hex_zero: "is_hex (CHR ''0'')" "hex_val (CHR ''0'') = 0"
  by (simp_all add: is_hex_def hex_val_def is_digit_def digit_val_def)

lemma lex_string_u:
  assumes "n < 0x80"
  shows "lex_string ([CHR 0x5C, CHR ''u'', CHR ''0'', CHR ''0'', json_hex (n div 16), json_hex (n mod 16)] @ r) =
    prepend [char_of n] (lex_string r)"
proof -
  have "n div 16 < 16" "n mod 16 < 16" using assms by auto
  then have "getu4 ([CHR 0x5C, CHR ''u'', CHR ''0'', CHR ''0'', json_hex (n div 16), json_hex (n mod 16)] @ r) = Some n"
    by (simp add: json_hex_val hex_zero)
  with assms show ?thesis by (simp add: utf8_def del: getu4.simps)
qed

lemma lex_string_esc: "e \<noteq> CHR ''u'' \<Longrightarrow> unescape e = Some x \<Longrightarrow> lex_string (CHR 0x5C # e # r) = prepend [x] (lex_string r)"
  by (subst lex_string.simps(2)) simp

lemma lex_string_safe:
  "c \<noteq> CHR 0x22 \<Longrightarrow> c \<noteq> CHR 0x5C \<Longrightarrow> 0x20 \<le> (of_char c :: nat) \<Longrightarrow> of_char c < (0x80 :: nat) \<Longrightarrow> lex_string (c # r) = prepend [c] (lex_string r)"
  by (subst lex_string.simps(2)) simp

lemma unescapes:
  "unescape (CHR 0x22) = Some (CHR 0x22)" "unescape (CHR 0x5C) = Some (CHR 0x5C)" "unescape (CHR ''n'') = Some (CHR 0x0A)"
  "unescape (CHR ''r'') = Some (CHR 0x0D)" "unescape (CHR ''t'') = Some (CHR 0x09)"
  by (simp_all add: unescape_def)

lemma lex_string_char:
  assumes "of_char c < (0x80 :: nat)"
  shows "lex_string (json_char c @ r) = prepend [c] (lex_string r)"
proof -
  have u: "lex_string ([CHR 0x5C, CHR ''u'', CHR ''0'', CHR ''0'', json_hex (of_char c div 16), json_hex (of_char c mod 16)] @ r) =
      prepend [c] (lex_string r)" using lex_string_u [OF assms, of r] by simp
  note e = lex_string_esc [OF _ unescapes(1)] lex_string_esc [OF _ unescapes(2)] lex_string_esc [OF _ unescapes(3)]
    lex_string_esc [OF _ unescapes(4)] lex_string_esc [OF _ unescapes(5)]
  show ?thesis
    using assms u unfolding json_char_def by (simp add: e lex_string_safe del: lex_string.simps)
qed

lemma lex_string_enc: "ascii s \<Longrightarrow> lex_string (json_enc s @ CHR 0x22 # r) = Some (s, r)"
proof (induction s)
  case (Cons c s)
  then show ?case by (simp add: ascii_def lex_string_char prepend_def del: lex_string.simps)
qed simp

text \<open>Read back when followed by a comma or a closing bracket; everything but a number whatever follows.\<close>

definition lexes_sep :: "string \<Rightarrow> jtoken list \<Rightarrow> bool" where
  "lexes_sep s ts \<longleftrightarrow> (\<forall>c r. c \<in> set '',]}'' \<longrightarrow> jlex (s @ c # r) = map_option (\<lambda>us. ts @ us) (jlex (c # r)))"

lemma cons_append_fun: "(@) [t] = (#) t"
  by (rule ext) simp

lemma lexes_sep_append: "lexes s ts \<Longrightarrow> lexes_sep t us \<Longrightarrow> lexes_sep (s @ t) (ts @ us)"
  by (auto simp: lexes_sep_def lexes_def option.map_comp o_def)

lemma lexes_sepI: "lexes s ts \<Longrightarrow> lexes_sep s ts"
  by (simp add: lexes_sep_def lexes_def)

lemma lexes_str: "ascii s \<Longrightarrow> lexes (json_str s) [TVal (JStr s)]"
  unfolding lexes_def json_str_def
  by (simp add: jlex.simps(2) [of "CHR 0x22"] json_space_def punctuation_def lex_string_enc cons_append_fun)

lemma lexes_literals: "lexes ''null'' [TVal JNull]" "lexes ''true'' [TVal (JBool True)]" "lexes ''false'' [TVal (JBool False)]"
  unfolding lexes_def by (simp_all add: jlex.simps(2) [of "CHR ''n''"] jlex.simps(2) [of "CHR ''t''"] jlex.simps(2) [of "CHR ''f''"]
    json_space_def punctuation_def cons_append_fun)

lemma number_char_head: "number_char c \<Longrightarrow> \<not> json_space c \<and> punctuation c = None \<and> c \<noteq> CHR 0x22 \<and> c \<noteq> CHR ''t'' \<and> c \<noteq> CHR ''f'' \<and> c \<noteq> CHR ''n''"
proof -
  assume n: "number_char c"
  have "\<forall>d \<in> set ([CHR 0x09, CHR 0x0A, CHR 0x0D, CHR 0x22] @ '' {}[]:,tfn''). \<not> number_char d" by (simp add: number_char_def is_digit_def)
  with n have "c \<notin> set ([CHR 0x09, CHR 0x0A, CHR 0x0D, CHR 0x22] @ '' {}[]:,tfn'')" by blast
  then show ?thesis by (simp add: json_space_def punctuation_def)
qed

lemma lexes_number:
  assumes "number_ok n" and "list_all number_char n"
  shows "lexes_sep n [TVal (JNum n)]"
  unfolding lexes_sep_def
proof (intro allI impI)
  fix c r assume c: "c \<in> set '',]}''"
  obtain d m where n: "n = d # m" using assms(1) by (cases n) (auto simp: number_ok_def)
  have "\<not> number_char c" using c by (auto simp: number_char_def is_digit_def)
  with assms(2) have t: "takeWhile number_char (n @ c # r) = n" "dropWhile number_char (m @ c # r) = c # r"
    by (auto simp: n list_all_iff takeWhile_append2 dropWhile_append2)
  have "number_char d" using assms(2) n by simp
  from number_char_head [OF this] t assms(1) show "jlex (n @ c # r) = map_option (\<lambda>us. [TVal (JNum n)] @ us) (jlex (c # r))"
    unfolding n by (simp add: jlex.simps(2) [of d])
qed

lemma lexes_join:
  assumes "xs \<noteq> []" and "\<forall>x \<in> set xs. lexes_sep (f x) (g x)" and "c \<in> set '']}''"
  shows "jlex (strings_Join (map f xs) '','' @ c # r) = map_option (\<lambda>us. commas (map g xs) @ us) (jlex (c # r))"
  using assms(1,2)
proof (induction xs)
  case (Cons x xs)
  show ?case
  proof (cases xs)
    case Nil
    with Cons.prems assms(3) show ?thesis by (auto simp: lexes_sep_def)
  next
    case (Cons y ys)
    have "jlex (f x @ CHR '','' # strings_Join (map f xs) '','' @ c # r) =
        map_option (\<lambda>us. g x @ us) (jlex (CHR '','' # strings_Join (map f xs) '','' @ c # r))"
      using Cons.prems by (simp add: lexes_sep_def)
    also have "jlex (CHR '','' # strings_Join (map f xs) '','' @ c # r) = map_option ((#) TComma) (jlex (strings_Join (map f xs) '','' @ c # r))"
      by (simp add: jlex.simps(2) [of "CHR '',''"] json_space_def punctuation_def)
    finally show ?thesis using Cons.IH Cons.prems local.Cons by (simp add: option.map_comp o_def)
  qed
qed simp

lemma jlex_punct: "\<not> json_space c \<Longrightarrow> punctuation c = Some t \<Longrightarrow> jlex (c # r) = map_option ((#) t) (jlex r)"
  by (subst jlex.simps(2)) simp

lemma lexes_wrap:
  assumes "\<forall>x \<in> set xs. lexes_sep (f x) (g x)" and "(a, A, b, B) \<in> {(CHR ''['', TLBrack, CHR '']'', TRBrack), (CHR ''{'', TLBrace, CHR ''}'', TRBrace)}"
  shows "lexes ([a] @ strings_Join (map f xs) '','' @ [b]) (A # commas (map g xs) @ [B])"
proof -
  have b: "jlex (b # r) = map_option ((#) B) (jlex r)" and a: "jlex (a # r) = map_option ((#) A) (jlex r)" for r
    using assms(2) jlex_punct [of b B r] jlex_punct [of a A r] by (auto simp: json_space_def punctuation_def)
  have "jlex (strings_Join (map f xs) '','' @ b # r) = map_option (\<lambda>us. commas (map g xs) @ B # us) (jlex r)" for r
  proof (cases "xs = []")
    case False
    have "b \<in> set '']}''" using assms(2) by auto
    from lexes_join [OF False assms(1) this] show ?thesis by (simp add: b option.map_comp o_def)
  qed (simp add: b)
  then show ?thesis by (simp add: lexes_def a option.map_comp o_def)
qed

lemma lexes_containers:
  "\<forall>v \<in> set vs. lexes_sep (json_print v) (toks v) \<Longrightarrow> lexes (json_print (JArr vs)) (toks (JArr vs))"
  "\<forall>m \<in> set ms. ascii (fst m) \<and> lexes_sep (json_print (snd m)) (toks (snd m)) \<Longrightarrow> lexes (json_print (JObj ms)) (toks (JObj ms))"
proof -
  show "\<forall>v \<in> set vs. lexes_sep (json_print v) (toks v) \<Longrightarrow> lexes (json_print (JArr vs)) (toks (JArr vs))"
    using lexes_wrap [of vs json_print toks "CHR ''[''" TLBrack "CHR '']''" TRBrack] by simp
  assume ms: "\<forall>m \<in> set ms. ascii (fst m) \<and> lexes_sep (json_print (snd m)) (toks (snd m))"
  have "lexes_sep (json_str (fst m) @ '':'' @ json_print (snd m)) (TVal (JStr (fst m)) # TColon # toks (snd m))" if "m \<in> set ms" for m
  proof -
    from ms that have "lexes (json_str (fst m)) [TVal (JStr (fst m))]" "lexes_sep (json_print (snd m)) (toks (snd m))" by (simp_all add: lexes_str)
    moreover have "lexes '':'' [TColon]" by (rule lexes_marks(6) [OF lexes_Nil])
    ultimately have "lexes_sep (json_str (fst m) @ '':'' @ json_print (snd m)) ([TVal (JStr (fst m))] @ [TColon] @ toks (snd m))"
      by (intro lexes_sep_append)
    then show ?thesis by simp
  qed
  then have "\<forall>m \<in> set ms. lexes_sep (json_str (fst m) @ '':'' @ json_print (snd m)) (TVal (JStr (fst m)) # TColon # toks (snd m))" by blast
  from lexes_wrap [OF this, of "CHR ''{''" TLBrace "CHR ''}''" TRBrace] show "lexes (json_print (JObj ms)) (toks (JObj ms))" by simp
qed

lemma lexes_print: "printable v \<Longrightarrow> lexes_sep (json_print v) (toks v)"
proof (induction v rule: json_print.induct)
  case (5 vs)
  then show ?case by (intro lexes_sepI lexes_containers) simp
next
  case (6 ms)
  then show ?case by (intro lexes_sepI lexes_containers) simp
qed (auto intro: lexes_sepI lexes_literals lexes_str lexes_number simp del: append_Cons)

text \<open>What is written for an array or an object is read back.\<close>

lemma json_parse_print:
  "printable (JArr vs) \<Longrightarrow> jdepth (JArr vs) \<le> maxNestingDepth \<Longrightarrow> json_parse (json_print (JArr vs)) = Some (JArr vs)"
  "printable (JObj ms) \<Longrightarrow> jdepth (JObj ms) \<le> maxNestingDepth \<Longrightarrow> json_parse (json_print (JObj ms)) = Some (JObj ms)"
  by (auto intro!: json_parse_lexes lexes_containers simp del: json_print.simps toks.simps jdepth.simps dest: lexes_print)

end
