(* ===== verification/Go_Net.thy ===== *)
theory Go_Net
  imports Go_Strings
begin

unbundle bit_operations_syntax

text \<open>
  The part of Go's \<^verbatim>\<open>net\<close> and \<^verbatim>\<open>math/big\<close> packages that
  \<^verbatim>\<open>internal/pkg/ovn/common.go\<close> uses: parsing and printing IPv4 and IPv6 addresses and
  CIDR blocks on byte slices.  A nil slice is \<open>None\<close>.
\<close>

type_synonym IP = "8 word list"

record IPNet =
  ipn_IP :: IP
  ipn_Mask :: "8 word list"

section \<open>Numbers\<close>

definition is_hex :: "char \<Rightarrow> bool" where
  "is_hex c \<longleftrightarrow> (let n = of_char c :: nat in is_digit c \<or> (97 \<le> n \<and> n \<le> 102) \<or> (65 \<le> n \<and> n \<le> 70))"

definition hex_val :: "char \<Rightarrow> nat" where
  "hex_val c = (if is_digit c then digit_val c else if 97 \<le> (of_char c :: nat) then of_char c - 87 else of_char c - 55)"

text \<open>
  \<^verbatim>\<open>dtoi\<close> and \<^verbatim>\<open>xtoi\<close>: the number at the front of the string and how many
  bytes it takes; \<open>None\<close> when there is none or it reaches \<^verbatim>\<open>0xFFFFFF\<close>.
\<close>

definition dtoi :: "string \<Rightarrow> (nat \<times> nat) option" where
  "dtoi s = (let ds = takeWhile is_digit s; n = foldl (\<lambda>n c. 10 * n + digit_val c) 0 ds
     in if ds = [] \<or> n \<ge> 0xFFFFFF then None else Some (n, length ds))"

definition xtoi :: "string \<Rightarrow> (nat \<times> nat) option" where
  "xtoi s = (let ds = takeWhile is_hex s; n = foldl (\<lambda>n c. 16 * n + hex_val c) 0 ds
     in if ds = [] \<or> n \<ge> 0xFFFFFF then None else Some (n, length ds))"

section \<open>Addresses\<close>

definition v4InV6Prefix :: IP where
  "v4InV6Prefix = replicate 10 0 @ [0xFF, 0xFF]"

fun v4_parts :: "nat \<Rightarrow> bool \<Rightarrow> string \<Rightarrow> (8 word list \<times> string) option" where
  "v4_parts 0 first s = Some ([], s)"
| "v4_parts (Suc k) first s =
     (if s = [] \<or> (\<not> first \<and> hd s \<noteq> CHR ''.'') then None
      else let s = (if first then s else tl s)
      in case dtoi s of
           None \<Rightarrow> None
         | Some (n, c) \<Rightarrow>
             if n > 0xFF \<or> (c > 1 \<and> hd s = CHR ''0'') then None
             else (case v4_parts k False (drop c s) of
                     None \<Rightarrow> None
                   | Some (ps, r) \<Rightarrow> Some (of_nat n # ps, r)))"

definition parseIPv4 :: "string \<Rightarrow> IP option" where
  "parseIPv4 s = (case v4_parts 4 True s of
     Some (p, []) \<Rightarrow> Some (v4InV6Prefix @ p)
   | _ \<Rightarrow> None)"

text \<open>The loop over the eight groups; the ellipsis is the position of \<^verbatim>\<open>::\<close>.\<close>

fun v6_groups :: "nat \<Rightarrow> string \<Rightarrow> IP \<Rightarrow> nat option \<Rightarrow> (string \<times> IP \<times> nat option) option" where
  "v6_groups 0 s ip ellipsis = Some (s, ip, ellipsis)"
| "v6_groups (Suc k) s ip ellipsis =
     (case xtoi s of
        None \<Rightarrow> None
      | Some (n, c) \<Rightarrow>
          if n > 0xFFFF then None
          else if c < length s \<and> s ! c = CHR ''.'' then
            (if (ellipsis = None \<and> length ip \<noteq> 12) \<or> length ip + 4 > 16 then None
             else (case parseIPv4 s of
                     None \<Rightarrow> None
                   | Some ip4 \<Rightarrow> Some ([], ip @ drop 12 ip4, ellipsis)))
          else let ip = ip @ [of_nat (n div 256), of_nat n]; s = drop c s
            in if s = [] then Some ([], ip, ellipsis)
               else if hd s \<noteq> CHR '':'' \<or> length s = 1 then None
               else if hd (tl s) = CHR '':'' then
                 (if ellipsis \<noteq> None then None
                  else if tl (tl s) = [] then Some ([], ip, Some (length ip))
                  else v6_groups k (tl (tl s)) ip (Some (length ip)))
               else v6_groups k (tl s) ip ellipsis)"

definition parseIPv6 :: "string \<Rightarrow> IP option" where
  "parseIPv6 s =
     (let lead = (take 2 s = ''::''); rest = (if lead then drop 2 s else s)
      in if lead \<and> rest = [] then Some (replicate 16 0)
         else (case v6_groups 8 rest [] (if lead then Some 0 else None) of
                 None \<Rightarrow> None
               | Some (r, ip, ellipsis) \<Rightarrow>
                   if r \<noteq> [] then None
                   else if length ip < 16 then
                     (case ellipsis of
                        None \<Rightarrow> None
                      | Some e \<Rightarrow> Some (take e ip @ replicate (16 - length ip) 0 @ drop e ip))
                   else if ellipsis \<noteq> None then None else Some ip))"

definition net_ParseIP :: "string \<Rightarrow> IP option" where
  "net_ParseIP s =
     (case filter (\<lambda>c. c = CHR ''.'' \<or> c = CHR '':'') s of
        [] \<Rightarrow> None
      | c # _ \<Rightarrow> if c = CHR ''.'' then parseIPv4 s else parseIPv6 s)"

definition IP_To4 :: "IP \<Rightarrow> IP option" where
  "IP_To4 ip = (if length ip = 4 then Some ip
     else if length ip = 16 \<and> take 12 ip = v4InV6Prefix then Some (drop 12 ip) else None)"

definition IP_To16 :: "IP \<Rightarrow> IP option" where
  "IP_To16 ip = (if length ip = 4 then Some (v4InV6Prefix @ ip) else if length ip = 16 then Some ip else None)"

fun show_hex :: "nat \<Rightarrow> string" where
  "show_hex n = (if n < 16 then [hex_digit n] else show_hex (n div 16) @ [hex_digit (n mod 16)])"

definition dotted4 :: "IP \<Rightarrow> string" where
  "dotted4 p = strings_Join (map (show_nat \<circ> unat) p) ''.''"

fun v6_words :: "IP \<Rightarrow> nat list" where
  "v6_words (a # b # p) = (256 * unat a + unat b) # v6_words p"
| "v6_words p = []"

text \<open>The first longest run of zero groups, as its position and length.\<close>

fun zero_run :: "nat \<Rightarrow> nat list \<Rightarrow> nat \<times> nat \<Rightarrow> nat \<times> nat" where
  "zero_run i [] b = b"
| "zero_run i (g # gs) (e, l) =
     (let r = length (takeWhile (\<lambda>g. g = 0) (g # gs))
      in zero_run (i + 1) gs (if r > l then (i, r) else (e, l)))"

definition v6_string :: "IP \<Rightarrow> string" where
  "v6_string p =
     (let gs = v6_words p; (e, l) = zero_run 0 gs (0, 0); show_groups = (\<lambda>gs. strings_Join (map show_hex gs) '':'')
      in if l \<le> 1 then show_groups gs
         else show_groups (take e gs) @ ''::'' @ show_groups (drop (e + l) gs))"

definition IP_String :: "IP \<Rightarrow> string" where
  "IP_String ip =
     (if ip = [] then ''<nil>''
      else case IP_To4 ip of
        Some p4 \<Rightarrow> dotted4 p4
      | None \<Rightarrow> if length ip \<noteq> 16 then ''?'' @ hex_EncodeToString ip else v6_string ip)"

definition IP_Equal :: "IP \<Rightarrow> IP \<Rightarrow> bool" where
  "IP_Equal a b =
     (if length a = length b then a = b
      else if length a = 4 \<and> length b = 16 then take 12 b = v4InV6Prefix \<and> a = drop 12 b
      else if length a = 16 \<and> length b = 4 then take 12 a = v4InV6Prefix \<and> drop 12 a = b
      else False)"

definition IP_IsUnspecified :: "IP \<Rightarrow> bool" where
  "IP_IsUnspecified ip = (IP_Equal ip (v4InV6Prefix @ [0, 0, 0, 0]) \<or> IP_Equal ip (replicate 16 0))"

definition IP_IsLoopback :: "IP \<Rightarrow> bool" where
  "IP_IsLoopback ip = (case IP_To4 ip of Some p \<Rightarrow> p ! 0 = 127 | None \<Rightarrow> IP_Equal ip (replicate 15 0 @ [1]))"

definition IP_IsMulticast :: "IP \<Rightarrow> bool" where
  "IP_IsMulticast ip =
     (case IP_To4 ip of Some p \<Rightarrow> p ! 0 AND 0xf0 = 0xe0 | None \<Rightarrow> length ip = 16 \<and> ip ! 0 = 0xff)"

definition IP_IsLinkLocalUnicast :: "IP \<Rightarrow> bool" where
  "IP_IsLinkLocalUnicast ip =
     (case IP_To4 ip of
        Some p \<Rightarrow> p ! 0 = 169 \<and> p ! 1 = 254
      | None \<Rightarrow> length ip = 16 \<and> ip ! 0 = 0xfe \<and> ip ! 1 AND 0xc0 = 0x80)"

definition IP_IsGlobalUnicast :: "IP \<Rightarrow> bool" where
  "IP_IsGlobalUnicast ip =
     ((length ip = 4 \<or> length ip = 16) \<and> \<not> IP_Equal ip (v4InV6Prefix @ [255, 255, 255, 255]) \<and>
      \<not> IP_IsUnspecified ip \<and> \<not> IP_IsLoopback ip \<and> \<not> IP_IsMulticast ip \<and> \<not> IP_IsLinkLocalUnicast ip)"

section \<open>Hardware addresses\<close>

definition xtoi2 :: "char \<Rightarrow> char \<Rightarrow> 8 word option" where
  "xtoi2 a b = (if is_hex a \<and> is_hex b then Some (of_nat (16 * hex_val a + hex_val b)) else None)"

text \<open>Octets separated by \<open>e\<close>, and pairs of octets separated by dots.\<close>

fun mac_octets :: "char \<Rightarrow> string \<Rightarrow> 8 word list option" where
  "mac_octets e [a, b] = map_option (\<lambda>x. [x]) (xtoi2 a b)"
| "mac_octets e (a # b # c # s) =
     (case (xtoi2 a b, mac_octets e s) of (Some x, Some xs) \<Rightarrow> if c = e then Some (x # xs) else None | _ \<Rightarrow> None)"
| "mac_octets e s = None"

fun mac_pairs :: "string \<Rightarrow> 8 word list option" where
  "mac_pairs [a, b, c, d] = (case (xtoi2 a b, xtoi2 c d) of (Some x, Some y) \<Rightarrow> Some [x, y] | _ \<Rightarrow> None)"
| "mac_pairs (a # b # c # d # e # s) =
     (case (xtoi2 a b, xtoi2 c d, mac_pairs s) of
        (Some x, Some y, Some xs) \<Rightarrow> if e = CHR ''.'' then Some (x # y # xs) else None | _ \<Rightarrow> None)"
| "mac_pairs s = None"

definition net_ParseMAC :: "string \<Rightarrow> error + 8 word list" where
  "net_ParseMAC s =
     (let r = (if length s < 14 then None
               else if s ! 2 = CHR '':'' \<or> s ! 2 = CHR ''-'' then
                 (if (length s + 1) mod 3 = 0 \<and> (length s + 1) div 3 \<in> {6, 8, 20} then mac_octets (s ! 2) s else None)
               else if s ! 4 = CHR ''.'' then
                 (if (length s + 1) mod 5 = 0 \<and> 2 * (length s + 1) div 5 \<in> {6, 8, 20} then mac_pairs s else None)
               else None)
      in case r of Some hw \<Rightarrow> Inr hw | None \<Rightarrow> Inl (ExtErr (''address '' @ s @ '': invalid MAC address'')))"

definition HardwareAddr_String :: "8 word list \<Rightarrow> string" where
  "HardwareAddr_String hw = strings_Join (map (hex2 \<circ> unat) hw) '':''"

section \<open>CIDR blocks\<close>

definition net_CIDRMask :: "nat \<Rightarrow> nat \<Rightarrow> 8 word list" where
  "net_CIDRMask ones l = map (\<lambda>i. of_nat (256 - 2 ^ (8 - min 8 (ones - 8 * i)))) [0..<l]"

text \<open>\<^verbatim>\<open>simpleMaskLength\<close>: the number of leading ones, \<open>None\<close> if a one follows a zero.\<close>

definition byte_ones :: "8 word \<Rightarrow> nat" where
  "byte_ones v = length (takeWhile (\<lambda>i. bit v (7 - i)) [0..<8])"

fun simpleMaskLength :: "8 word list \<Rightarrow> nat option" where
  "simpleMaskLength [] = Some 0"
| "simpleMaskLength (v # msk) =
     (if v = 0xFF then map_option (\<lambda>n. n + 8) (simpleMaskLength msk)
      else if push_bit (byte_ones v) v = 0 \<and> (\<forall>m \<in> set msk. m = 0)
        then Some (byte_ones v) else None)"

definition IP_Mask :: "IP \<Rightarrow> 8 word list \<Rightarrow> IP option" where
  "IP_Mask ip msk =
     (let ip = (if length msk = 4 \<and> length ip = 16 \<and> take 12 ip = v4InV6Prefix then drop 12 ip else ip)
      in if length ip \<noteq> length msk then None else Some (map2 (\<lambda>a m. a AND m) ip msk))"

text \<open>The address as written, and the network it lies in.\<close>

definition net_ParseCIDR :: "string \<Rightarrow> error + (IP \<times> IPNet)" where
  "net_ParseCIDR s =
     (if CHR ''/'' \<notin> set s then Inl (ExtErr (''invalid CIDR address: '' @ s))
      else let addr = takeWhile (\<lambda>c. c \<noteq> CHR ''/'') s; msk = tl (dropWhile (\<lambda>c. c \<noteq> CHR ''/'') s);
               (iplen, ip) = (case parseIPv4 addr of Some ip \<Rightarrow> (4, Some ip) | None \<Rightarrow> (16, parseIPv6 addr))
      in case (ip, dtoi msk) of
           (Some ip, Some (n, i)) \<Rightarrow>
             if i \<noteq> length msk \<or> n > 8 * iplen then Inl (ExtErr (''invalid CIDR address: '' @ s))
             else let m = net_CIDRMask n iplen
               in (case IP_Mask ip m of
                     Some nn \<Rightarrow> Inr (ip, \<lparr>ipn_IP = nn, ipn_Mask = m\<rparr>)
                   | None \<Rightarrow> Inr (ip, \<lparr>ipn_IP = [], ipn_Mask = m\<rparr>))
         | _ \<Rightarrow> Inl (ExtErr (''invalid CIDR address: '' @ s)))"

text \<open>\<^verbatim>\<open>IPMask.Size\<close>, its first result.\<close>

definition IPMask_Size :: "8 word list \<Rightarrow> nat" where
  "IPMask_Size m = (case simpleMaskLength m of Some n \<Rightarrow> n | None \<Rightarrow> 0)"

definition IPNet_String :: "IPNet \<Rightarrow> string" where
  "IPNet_String n =
     (let ip = (case IP_To4 (ipn_IP n) of Some p \<Rightarrow> p | None \<Rightarrow> ipn_IP n);
          m = (if length (ipn_Mask n) = 16 \<and> length ip = 4 then drop 12 (ipn_Mask n) else ipn_Mask n)
      in if length ip \<noteq> length m \<or> length ip \<notin> {4, 16} then ''<nil>''
         else IP_String ip @ ''/'' @
           (case simpleMaskLength m of Some l \<Rightarrow> show_nat l | None \<Rightarrow> hex_EncodeToString m))"

section \<open>Round trips\<close>

lemma takeWhile_show_nat:
  "r = [] \<or> \<not> is_digit (hd r) \<Longrightarrow> takeWhile is_digit (show_nat n @ r) = show_nat n"
  using show_nat_digits [of _ n] by (cases r) (auto simp: takeWhile_append)

lemma dtoi_show_nat:
  "n < 0xFFFFFF \<Longrightarrow> r = [] \<or> \<not> is_digit (hd r) \<Longrightarrow> dtoi (show_nat n @ r) = Some (n, length (show_nat n))"
  unfolding dtoi_def Let_def takeWhile_show_nat read_show_nat_aux by simp

lemma of_char_zero_digit: "of_char (CHR ''0'') = (48 :: nat)"
  by simp

lemma hd_show_nat: "10 \<le> n \<Longrightarrow> hd (show_nat n) = hd (show_nat (n div 10))"
  by (subst show_nat.simps) simp

lemma show_nat_no_zero: "0 < n \<Longrightarrow> hd (show_nat n) \<noteq> CHR ''0''"
proof (induction n rule: show_nat.induct)
  case (1 n)
  show ?case
  proof (cases "n < 10")
    case True
    then have "of_char (hd (show_nat n)) = (48 + n :: nat)" by (subst show_nat.simps) simp
    with 1(2) show ?thesis by (metis add_cancel_right_right neq0_conv of_char_zero_digit)
  next
    case False
    with 1 hd_show_nat [of n] show ?thesis by (simp add: div_greater_zero_iff)
  qed
qed

lemma v4_parts_first:
  fixes a :: "8 word"
  assumes "r = [] \<or> hd r = CHR ''.''"
  shows "v4_parts (Suc k) True (show_nat (unat a) @ r) =
     (case v4_parts k False r of None \<Rightarrow> None | Some (ps, t) \<Rightarrow> Some (a # ps, t))"
proof -
  have lt: "unat a < 256" using unsigned_less [of a] by simp
  have "\<not> is_digit (CHR ''.'')" by (simp add: is_digit_def)
  with assms have "dtoi (show_nat (unat a) @ r) = Some (unat a, length (show_nat (unat a)))"
    using lt by (intro dtoi_show_nat) auto
  moreover have "\<not> (1 < length (show_nat (unat a)) \<and> hd (show_nat (unat a)) = CHR ''0'')"
    using show_nat_no_zero [of "unat a"] by (cases "unat a = 0") (auto simp: show_nat.simps [of 0])
  ultimately show ?thesis using lt by (auto simp: Let_def split: option.splits)
qed

lemma v4_parts_next:
  fixes a :: "8 word"
  assumes "r = [] \<or> hd r = CHR ''.''"
  shows "v4_parts (Suc k) False (CHR ''.'' # show_nat (unat a) @ r) =
     (case v4_parts k False r of None \<Rightarrow> None | Some (ps, t) \<Rightarrow> Some (a # ps, t))"
  using v4_parts_first [OF assms, of k a] by simp

lemma parseIPv4_dotted4: "parseIPv4 (dotted4 [a, b, c, d]) = Some (v4InV6Prefix @ [a, b, c, d])"
proof -
  have "v4_parts (Suc (Suc (Suc (Suc 0)))) True (show_nat (unat a) @ CHR ''.'' # show_nat (unat b) @ CHR ''.'' #
      show_nat (unat c) @ CHR ''.'' # show_nat (unat d) @ []) = Some ([a, b, c, d], [])"
    by (simp add: v4_parts_first v4_parts_next del: v4_parts.simps(2) append_Nil2)
  then show ?thesis by (simp add: parseIPv4_def dotted4_def eval_nat_numeral)
qed

lemma To4_v4: "length p = 4 \<Longrightarrow> IP_To4 (v4InV6Prefix @ p) = Some p"
  by (simp add: IP_To4_def v4InV6Prefix_def)

lemma String_v4: "length p = 4 \<Longrightarrow> IP_String (v4InV6Prefix @ p) = dotted4 p"
  by (simp add: IP_String_def To4_v4) (simp add: v4InV6Prefix_def)

text \<open>Printing an IPv4 address and parsing it again gives the same address.\<close>

definition wf_v4 :: "IP \<Rightarrow> bool" where
  "wf_v4 ip \<longleftrightarrow> (\<exists>a b c d. ip = v4InV6Prefix @ [a, b, c, d])"

interpretation ipv4: codec IP_String parseIPv4 wf_v4
  by unfold_locales (auto simp: wf_v4_def String_v4 parseIPv4_dotted4)

lemma mask_size_4: "n \<le> 32 \<Longrightarrow> simpleMaskLength (net_CIDRMask n 4) = Some n"
proof -
  have "\<forall>n \<in> set [0..<33]. simpleMaskLength (net_CIDRMask n 4) = Some n" by code_simp
  then show "n \<le> 32 \<Longrightarrow> ?thesis" by auto
qed

lemma dotted4_chars: "x \<in> set (dotted4 [a, b, c, d]) \<Longrightarrow> x = CHR ''.'' \<or> is_digit x"
  by (auto simp: dotted4_def dest: show_nat_digits)

lemma ParseCIDR_dotted4:
  assumes "n \<le> 32"
  shows "net_ParseCIDR (dotted4 [a, b, c, d] @ ''/'' @ show_nat n) =
     Inr (v4InV6Prefix @ [a, b, c, d],
       \<lparr>ipn_IP = map2 (\<lambda>a m. a AND m) [a, b, c, d] (net_CIDRMask n 4), ipn_Mask = net_CIDRMask n 4\<rparr>)"
proof -
  let ?a = "dotted4 [a, b, c, d]"
  have no: "\<forall>x \<in> set ?a. x \<noteq> CHR ''/''" using dotted4_chars [of "CHR ''/''" a b c d] by (auto simp: is_digit_def)
  then have "takeWhile (\<lambda>c. c \<noteq> CHR ''/'') (?a @ ''/'' @ show_nat n) = ?a"
    and "dropWhile (\<lambda>c. c \<noteq> CHR ''/'') (?a @ ''/'' @ show_nat n) = ''/'' @ show_nat n"
    by (simp_all add: takeWhile_append dropWhile_append)
  moreover have "dtoi (show_nat n) = Some (n, length (show_nat n))"
    using assms dtoi_show_nat [of n "[]"] by simp
  moreover have "IP_Mask (v4InV6Prefix @ [a, b, c, d]) (net_CIDRMask n 4) =
      Some (map2 (\<lambda>a m. a AND m) [a, b, c, d] (net_CIDRMask n 4))"
    by (simp add: IP_Mask_def v4InV6Prefix_def net_CIDRMask_def)
  ultimately show ?thesis using assms by (simp add: net_ParseCIDR_def parseIPv4_dotted4 Let_def)
qed

end
