(* ===== verification/Nodus_Types.thy ===== *)
theory Nodus_Types
  imports Go_Net
begin

text \<open>
  The data of the program: the custom resources of \<^verbatim>\<open>pkg/apis/k8s/v1alpha1\<close>, the
  fields the code reads of the Kubernetes core and networking objects, and the messages of
  \<^verbatim>\<open>internal/pkg/nfnNotify/proto\<close>.  A Go struct is a record whose fields carry the
  struct's initials; a nil-able pointer is an option.
\<close>

section \<open>Custom resources\<close>

record IpSubnet =
  sn_Name :: string
  sn_Subnet :: string
  sn_Gateway :: string
  sn_ExcludeIps :: string

record NetworkPool =
  np_PoolNr :: int
  np_Network :: IpSubnet
  np_Available :: bool

record Route =
  rt_Dst :: string
  rt_GW :: string

text \<open>\<^verbatim>\<open>Route.IsEmpty\<close>: deep equality with the zero value.\<close>

definition Route_IsEmpty :: "Route \<Rightarrow> bool" where
  "Route_IsEmpty r \<longleftrightarrow> r = \<lparr>rt_Dst = [], rt_GW = []\<rparr>"

definition Created :: string where "Created = ''Created''"
definition Pending :: string where "Pending = ''Pending''"
definition Creating :: string where "Creating = ''Creating''"
definition CreateInternalError :: string where "CreateInternalError = ''CreateInternalError''"
definition DeleteInternalError :: string where "DeleteInternalError = ''DeleteInternalError''"
definition Deleted :: string where "Deleted = ''Deleted''"
definition VirtualMode :: string where "VirtualMode = ''VirtualMode''"

lemmas state_names = Created_def Pending_def Creating_def CreateInternalError_def
  DeleteInternalError_def Deleted_def

text \<open>The part of \<^verbatim>\<open>metav1.ObjectMeta\<close> the code reads; a zero deletion timestamp is \<open>False\<close>.\<close>

record ObjectMeta =
  om_Name :: string
  om_Namespace :: string
  om_Labels :: "(string, string) gomap option"
  om_Annotations :: "(string, string) gomap"
  om_Finalizers :: "string list"
  om_Deleting :: bool
  om_Generation :: int

record Network =
  nw_Meta :: ObjectMeta
  nw_CniType :: string
  nw_Ipv4Subnets :: "IpSubnet list"
  nw_Ipv6Subnets :: "IpSubnet list"
  nw_State :: string

record VlanSpec =
  vs_VlanId :: string
  vs_VlanNodeSelector :: string
  vs_NodeLabelList :: "string list"
  vs_ProviderInterfaceName :: string
  vs_LogicalInterfaceName :: string

record DirectSpec =
  ds_DirectNodeSelector :: string
  ds_NodeLabelList :: "string list"
  ds_ProviderInterfaceName :: string

record ProviderNetwork =
  pn_Meta :: ObjectMeta
  pn_CniType :: string
  pn_Ipv4Subnets :: "IpSubnet list"
  pn_Ipv6Subnets :: "IpSubnet list"
  pn_ProviderNetType :: string
  pn_Vlan :: VlanSpec
  pn_Direct :: DirectSpec
  pn_State :: string

type_synonym LabelSelector = "(string, string) gomap"

record RoutingNetwork =
  rn_NetworkName :: string
  rn_GatewayIP :: string
  rn_Subnet :: string
  rn_PodSelector :: LabelSelector
  rn_NamespaceSelector :: LabelSelector

record NetworkChaining =
  nc_Meta :: ObjectMeta
  nc_ChainType :: string
  nc_LeftNetwork :: "RoutingNetwork list"
  nc_RightNetwork :: "RoutingNetwork list"
  nc_NetworkChain :: string
  nc_State :: string

section \<open>Kubernetes objects\<close>

record ContainerStatus =
  cs_ContainerID :: string
  cs_Ready :: bool

record Pod =
  pod_Meta :: ObjectMeta
  pod_NodeName :: string
  pod_HostNetwork :: bool
  pod_Phase :: string
  pod_PodIP :: string
  pod_ContainerStatuses :: "ContainerStatus list"

abbreviation pod_Name :: "Pod \<Rightarrow> string" where "pod_Name p \<equiv> om_Name (pod_Meta p)"
abbreviation pod_Namespace :: "Pod \<Rightarrow> string" where "pod_Namespace p \<equiv> om_Namespace (pod_Meta p)"
abbreviation pod_Annotations :: "Pod \<Rightarrow> (string, string) gomap" where
  "pod_Annotations p \<equiv> om_Annotations (pod_Meta p)"

record ConfigMap =
  cm_Name :: string
  cm_Namespace :: string
  cm_Data :: "(string, string) gomap"

datatype IntOrString = IntPort int | NamedPort string

record NetworkPolicyPort =
  npp_Protocol :: "string option"
  npp_Port :: "IntOrString option"

record IPBlock =
  ib_CIDR :: string
  ib_Except :: "string list"

record NetworkPolicyPeer =
  peer_PodSelector :: "LabelSelector option"
  peer_NamespaceSelector :: "LabelSelector option"
  peer_IPBlock :: "IPBlock option"

record NetworkPolicyIngressRule =
  ing_Ports :: "NetworkPolicyPort list"
  ing_From :: "NetworkPolicyPeer list"

record NetworkPolicyEgressRule =
  eg_Ports :: "NetworkPolicyPort list"
  eg_To :: "NetworkPolicyPeer list"

record NetworkPolicy =
  pol_Meta :: ObjectMeta
  pol_PodSelector :: LabelSelector
  pol_Ingress :: "NetworkPolicyIngressRule list"
  pol_Egress :: "NetworkPolicyEgressRule list"
  pol_PolicyTypes :: "string list"

section \<open>Notifications\<close>

record RouteData =
  rd_Dst :: string
  rd_Gw :: string

record VlanInfo =
  vi_VlanId :: string
  vi_ProviderIntf :: string
  vi_LogicalIntf :: string

record DirectInfo =
  di_ProviderIntf :: string

record ProviderNetworkCreate =
  pc_ProviderNwName :: string
  pc_Vlan :: "VlanInfo option"
  pc_Direct :: "DirectInfo option"

record ProviderNetworkRemove =
  pr_ProviderNwName :: string
  pr_VlanLogicalIntf :: string
  pr_DirectProviderIntf :: string

record ContainerRoute =
  cr_ContainerId :: string
  cr_Route :: "RouteData list"

record PodNetwork =
  pnw_ContainerId :: string
  pnw_PodNamespace :: string
  pnw_PodName :: string
  pnw_NetData :: string
  pnw_Route :: "RouteData list"

record InSync =
  is_NodeIntfIpAddress :: string
  is_NodeIntfMacAddress :: string
  is_NodeIntfIpv6Address :: string

datatype payload =
    Notification_InSync InSync
  | Notification_ProviderNwCreate ProviderNetworkCreate
  | Notification_ProviderNwRemove ProviderNetworkRemove
  | Notification_ContainterRtInsert ContainerRoute
  | Notification_ContainterRtRemove ContainerRoute
  | Notification_PodAddNetwork PodNetwork
  | Notification_PodDelNetwork PodNetwork

record Notification =
  nt_CniType :: string
  nt_Payload :: "payload option"

definition empty_Notification :: Notification where
  "empty_Notification = \<lparr>nt_CniType = [], nt_Payload = None\<rparr>"

section \<open>OVN data\<close>

record NetInterface =
  ni_Name :: string
  ni_Interface :: string
  ni_NetType :: string
  ni_DefaultGateway :: string
  ni_IPAddress :: string
  ni_MacAddress :: string
  ni_GWIPaddress :: string

definition empty_NetInterface :: NetInterface where
  "empty_NetInterface = \<lparr>ni_Name = [], ni_Interface = [], ni_NetType = [], ni_DefaultGateway = [],
     ni_IPAddress = [], ni_MacAddress = [], ni_GWIPaddress = []\<rparr>"

text \<open>A decoded JSON object of strings, \<^verbatim>\<open>map[string]interface{}\<close> in the code.\<close>

type_synonym jobject = "(string, string) gomap"

record nfnNetwork =
  nfn_Type :: string
  nfn_Interface :: "jobject list"

record RoutingInfo =
  ri_Name :: string
  ri_Namespace :: string
  ri_Id :: string
  ri_Node :: string
  ri_LeftNetworkRoute :: "Route list"
  ri_RightNetworkRoute :: "Route list"
  ri_DynamicNetworkRoutes :: "Route list"

record PodNetworkInfo =
  pi_Name :: string
  pi_Namespace :: string
  pi_Id :: string
  pi_Node :: string
  pi_NetworkInfo :: string
  pi_Route :: "Route list"

section \<open>Host networking and CNI data\<close>

text \<open>The fields of \<^verbatim>\<open>netlink.Route\<close> the code reads; a nil destination is \<open>None\<close>, a nil gateway \<open>[]\<close>.\<close>

record nlRoute =
  nl_Dst :: "IPNet option"
  nl_Gw :: IP
  nl_LinkIndex :: int

text \<open>\<^verbatim>\<open>kubeadmtypes.Networking\<close>.\<close>

record Networking =
  kn_ServiceSubnet :: string
  kn_PodSubnet :: string
  kn_DNSDomain :: string

record IPTablesRule =
  ipt_table :: string
  ipt_chain :: string
  ipt_rulespec :: "string list"

datatype Protocol = ProtocolIPv4 | ProtocolIPv6

datatype iptop = IptExists Protocol IPTablesRule | IptAppendUnique Protocol IPTablesRule | IptDelete Protocol IPTablesRule

text \<open>The changes the code asks netlink and the CNI \<^verbatim>\<open>ip\<close> package for.\<close>

datatype nlop =
    LinkSetDown string
  | LinkSetUp string
  | LinkSetName string string
  | LinkSetHardwareAddr string "8 word list"
  | LinkDel string
  | AddrAdd string string
  | AddRoute "IPNet option" "IP option" string

record OvnNetwork =
  on_IpAddress :: "string list"
  on_MacAddress :: string
  on_GatewayIP :: "string list"
  on_DefaultGateway :: string
  on_Interface :: string

text \<open>
  The result of a CNI request, \<^verbatim>\<open>current.Result\<close> of the CNI library, and the configuration it
  is called with, of which the code reads the name of the network and whether a previous result is
  given.
\<close>

record CniInterface =
  ci_Name :: string
  ci_Mac :: string
  ci_Sandbox :: string

record IPConfig =
  ic_Version :: string
  ic_Interface :: "int option"
  ic_Address :: IPNet
  ic_Gateway :: IP

record CniRoute =
  cro_Dst :: IPNet
  cro_GW :: IP

record DNS =
  dns_Nameservers :: "string list"
  dns_Domain :: string
  dns_Search :: "string list"
  dns_Options :: "string list"

record CniResult =
  res_Interfaces :: "CniInterface list"
  res_IPs :: "IPConfig list"
  res_Routes :: "CniRoute list"
  res_DNS :: DNS

record NetConf =
  ncf_CNIVersion :: string
  ncf_NFNNetwork :: string
  ncf_RawPrevResult :: "string option"

record nfnInterface =
  nfi_Interface :: string
  nfi_Name :: string
  nfi_DefaultGateway :: string
  nfi_IPAddress :: string

record cniNfnNetwork =
  cnn_Type :: string
  cnn_Interface :: "nfnInterface list"

record CNIEndpointRequest =
  cer_ArgEnv :: "(string, string) gomap"
  cer_NetConfig :: string

section \<open>Secrets, certificates and nodes\<close>

record Secret =
  sec_Annotations :: "(string, string) gomap"
  sec_Data :: "(string, string) gomap"

record Certificate =
  crt_Namespace :: string
  crt_Name :: string
  crt_SecretName :: string
  crt_IPAddresses :: "string list"

record Node =
  node_Name :: string
  node_ContainerRuntimeVersion :: string

section \<open>Files\<close>

text \<open>What the system knows of a file: \<^verbatim>\<open>*syscall.Stat_t\<close> with its owner, or another type.\<close>

datatype SysInfo = Stat_t int | OtherSys string

record FileInfo =
  fi_Sys :: SysInfo
  fi_Mode :: "32 word"

datatype fsop =
    RemoveAll string
  | Remove string
  | MkdirAll string "32 word"
  | ListenUnix string
  | Chmod string "32 word"
  | CloseListener string
  | OpenFile string

section \<open>Configuration of the operator and of the agent\<close>

record OVNNetworkConf =
  oc_Subnetv4 :: string
  oc_GatewayIPv4 :: string
  oc_ExcludeIPs :: string
  oc_Subnetv6 :: string
  oc_GatewayIPv6 :: string

record execHelper =
  eh_nbctlPath :: string
  eh_vsctlPath :: string
  eh_ipPath :: string
  eh_hostIP :: string
  eh_hostPort :: string

end
