(* ===== verification/Nodus_Json.thy ===== *)
theory Nodus_Json
  imports Go_Json Nodus_Types
begin

text \<open>
  The texts of the program's data that pass through \<^verbatim>\<open>encoding/json\<close>: the interfaces of a
  pod in its \<^verbatim>\<open>ovnInterfaces\<close> annotation (\<^verbatim>\<open>OvnNetwork\<close> of
  \<^verbatim>\<open>internal/pkg/cniserver/cni.go\<close>), with the text the operator composes for them.
\<close>

section \<open>Interfaces of a pod\<close>

definition zero_OvnNetwork :: OvnNetwork where
  "zero_OvnNetwork = \<lparr>on_IpAddress = [], on_MacAddress = [], on_GatewayIP = [], on_DefaultGateway = [], on_Interface = []\<rparr>"

definition decode_strings :: "json \<Rightarrow> error + string list" where
  "decode_strings = decode_slice (decode_string [])"

text \<open>The decoder of a field: the value it decodes to replaces the field.\<close>

definition json_field :: "('r \<Rightarrow> json \<Rightarrow> error + 'a) \<Rightarrow> (('a \<Rightarrow> 'a) \<Rightarrow> 'r \<Rightarrow> 'r) \<Rightarrow> json \<Rightarrow> 'r \<Rightarrow> error + 'r" where
  "json_field dec upd v r = (case dec r v of Inl e \<Rightarrow> Inl e | Inr a \<Rightarrow> Inr (upd (\<lambda>_. a) r))"

definition ovnFields :: "(string \<times> (json \<Rightarrow> OvnNetwork \<Rightarrow> error + OvnNetwork)) list" where
  "ovnFields =
     [(''ip_address'', json_field (\<lambda>_. decode_strings) on_IpAddress_update),
      (''mac_address'', json_field (\<lambda>n. decode_string (on_MacAddress n)) on_MacAddress_update),
      (''gateway_ip'', json_field (\<lambda>_. decode_strings) on_GatewayIP_update),
      (''defaultGateway'', json_field (\<lambda>n. decode_string (on_DefaultGateway n)) on_DefaultGateway_update),
      (''interface'', json_field (\<lambda>n. decode_string (on_Interface n)) on_Interface_update)]"

definition unmarshalOvnNets :: "string \<Rightarrow> error + OvnNetwork list" where
  "unmarshalOvnNets = json_Unmarshal (decode_slice (decode_struct ovnFields zero_OvnNetwork))"

text \<open>
  The other two texts the CNI server reads: the networks a pod asks for (\<^verbatim>\<open>nfnNetwork\<close> of
  \<^verbatim>\<open>cni.go\<close>) and lists of string maps.
\<close>

definition zero_nfnInterface :: nfnInterface where
  "zero_nfnInterface = \<lparr>nfi_Interface = [], nfi_Name = [], nfi_DefaultGateway = [], nfi_IPAddress = []\<rparr>"

definition nfnInterfaceFields :: "(string \<times> (json \<Rightarrow> nfnInterface \<Rightarrow> error + nfnInterface)) list" where
  "nfnInterfaceFields =
     [(''interface'', json_field (\<lambda>n. decode_string (nfi_Interface n)) nfi_Interface_update),
      (''name'', json_field (\<lambda>n. decode_string (nfi_Name n)) nfi_Name_update),
      (''defaultGateway'', json_field (\<lambda>n. decode_string (nfi_DefaultGateway n)) nfi_DefaultGateway_update),
      (''ipAddress'', json_field (\<lambda>n. decode_string (nfi_IPAddress n)) nfi_IPAddress_update)]"

definition cniNfnFields :: "(string \<times> (json \<Rightarrow> cniNfnNetwork \<Rightarrow> error + cniNfnNetwork)) list" where
  "cniNfnFields =
     [(''type'', json_field (\<lambda>n. decode_string (cnn_Type n)) cnn_Type_update),
      (''interface'', json_field (\<lambda>_. decode_slice (decode_struct nfnInterfaceFields zero_nfnInterface)) cnn_Interface_update)]"

definition unmarshalCniNfn :: "string \<Rightarrow> error + cniNfnNetwork" where
  "unmarshalCniNfn = json_Unmarshal (decode_struct cniNfnFields \<lparr>cnn_Type = [], cnn_Interface = []\<rparr>)"

text \<open>Members are added to the map the variable holds.\<close>

definition decode_mapInto :: "(string, string) gomap \<Rightarrow> json \<Rightarrow> error + (string, string) gomap" where
  "decode_mapInto m v =
     (case v of
        JNull \<Rightarrow> Inr []
      | JObj ms \<Rightarrow> foldE (\<lambda>p r. case decode_string [] (snd p) of Inl e \<Rightarrow> Inl e | Inr s \<Rightarrow> Inr (map_put (fst p) s r)) ms m
      | _ \<Rightarrow> Inl jsonTypeError)"

definition unmarshalStringMaps :: "string \<Rightarrow> error + (string, string) gomap list" where
  "unmarshalStringMaps = json_Unmarshal (decode_slice (decode_mapInto []))"

text \<open>The object an interface is written as; the default gateway is left out when it is empty.\<close>

definition jsonOfNet :: "OvnNetwork \<Rightarrow> json" where
  "jsonOfNet n = JObj ([(''ip_address'', JArr (map JStr (on_IpAddress n))), (''mac_address'', JStr (on_MacAddress n)),
     (''gateway_ip'', JArr (map JStr (on_GatewayIP n)))] @
     (if on_DefaultGateway n = [] then [] else [(''defaultGateway'', JStr (on_DefaultGateway n))]) @
     [(''interface'', JStr (on_Interface n))])"

lemma mapE_map: "(\<And>x. x \<in> set xs \<Longrightarrow> f (g x) = Inr (h x)) \<Longrightarrow> mapE f (map g xs) = Inr (map h xs)"
  by (induction xs) auto

lemma decode_strings_JStr: "decode_strings (JArr (map JStr xs)) = Inr xs"
  using mapE_map [of xs "decode_string []" JStr id] by (simp add: decode_strings_def decode_slice_def decode_string_def)

lemma fold_plain: "(\<forall>c \<in> set s. of_char c < (128 :: nat)) \<Longrightarrow> fold_runes s = s"
  by (induction s rule: fold_runes.induct) (auto split: list.splits)

lemma find_ovnFields:
  "find (\<lambda>f. strings_EqualFold ''ip_address'' (fst f)) ovnFields = Some (ovnFields ! 0)"
  "find (\<lambda>f. strings_EqualFold ''mac_address'' (fst f)) ovnFields = Some (ovnFields ! 1)"
  "find (\<lambda>f. strings_EqualFold ''gateway_ip'' (fst f)) ovnFields = Some (ovnFields ! 2)"
  "find (\<lambda>f. strings_EqualFold ''defaultGateway'' (fst f)) ovnFields = Some (ovnFields ! 3)"
  "find (\<lambda>f. strings_EqualFold ''interface'' (fst f)) ovnFields = Some (ovnFields ! 4)"
  by (simp_all add: ovnFields_def strings_EqualFold_def fold_plain strings_ToLower_def to_lower_char_def)

lemma ovn_members:
  "decode_member ovnFields (''ip_address'', v) n = json_field (\<lambda>_. decode_strings) on_IpAddress_update v n"
  "decode_member ovnFields (''mac_address'', v) n = json_field (\<lambda>n. decode_string (on_MacAddress n)) on_MacAddress_update v n"
  "decode_member ovnFields (''gateway_ip'', v) n = json_field (\<lambda>_. decode_strings) on_GatewayIP_update v n"
  "decode_member ovnFields (''defaultGateway'', v) n = json_field (\<lambda>n. decode_string (on_DefaultGateway n)) on_DefaultGateway_update v n"
  "decode_member ovnFields (''interface'', v) n = json_field (\<lambda>n. decode_string (on_Interface n)) on_Interface_update v n"
  unfolding decode_member_def by (simp_all only: fst_conv snd_conv find_ovnFields option.case) (simp_all add: ovnFields_def)

lemma decode_jsonOfNet: "decode_struct ovnFields zero_OvnNetwork (jsonOfNet n) = Inr n"
  by (simp add: decode_struct_def jsonOfNet_def ovn_members json_field_def decode_strings_JStr decode_string_def zero_OvnNetwork_def)

section \<open>The composed text\<close>

text \<open>
  The text of an interface with a given quotation mark: \<^verbatim>\<open>addLogicalPortWithSwitch\<close> and
  \<^verbatim>\<open>AddLogicalPorts\<close> write it with the escaped one, and once the escapes are removed it has the
  plain one.
\<close>

definition qstr :: "string \<Rightarrow> string \<Rightarrow> string" where "qstr q s = q @ s @ q"

primrec qlist :: "string \<Rightarrow> string list \<Rightarrow> string" where
  "qlist q [] = []"
| "qlist q (s # ss) = qstr q s @ (if ss = [] then [] else '','' @ qlist q ss)"

definition netText :: "string \<Rightarrow> OvnNetwork \<Rightarrow> string" where
  "netText q n = ''{'' @ qstr q ''ip_address'' @ '':['' @ qlist q (on_IpAddress n) @ ''], '' @ qstr q ''mac_address'' @ '':'' @
     qstr q (on_MacAddress n) @ '', '' @ qstr q ''gateway_ip'' @ '': ['' @ qlist q (on_GatewayIP n) @ '']'' @
     (if on_DefaultGateway n = [] then [] else '','' @ qstr q ''defaultGateway'' @ '':'' @ qstr q (on_DefaultGateway n)) @
     '','' @ qstr q ''interface'' @ '':'' @ qstr q (on_Interface n) @ ''}''"

primrec netsText :: "string \<Rightarrow> OvnNetwork list \<Rightarrow> string" where
  "netsText q [] = []"
| "netsText q (n # ns) = netText q n @ (if ns = [] then [] else '','' @ netsText q ns)"

definition plain_net :: "OvnNetwork \<Rightarrow> bool" where
  "plain_net n \<longleftrightarrow> (\<forall>s \<in> set (on_IpAddress n) \<union> set (on_GatewayIP n). plain s) \<and> plain (on_MacAddress n) \<and>
     plain (on_DefaultGateway n) \<and> plain (on_Interface n)"

abbreviation "quote \<equiv> [CHR 0x22]"
abbreviation "escaped_quote \<equiv> [CHR 0x5C, CHR 0x22]"

lemma lexes_qstr: "plain s \<Longrightarrow> lexes t ts \<Longrightarrow> lexes (qstr quote s @ t) (TVal (JStr s) # ts)"
  using lexes_plain by (simp add: qstr_def)

lemma lexes_qlist:
  "\<forall>s \<in> set ss. plain s \<Longrightarrow> lexes t ts \<Longrightarrow> lexes (qlist quote ss @ t) (commas (map (\<lambda>s. [TVal (JStr s)]) ss) @ ts)"
proof (induction ss)
  case (Cons s ss)
  then show ?case by (cases ss) (auto intro!: lexes_qstr lexes_marks)
qed simp

lemma plain_keys: "plain ''ip_address''" "plain ''mac_address''" "plain ''gateway_ip''" "plain ''defaultGateway''" "plain ''interface''"
  by (simp_all add: clean_char_def)

lemma lexes_netText:
  assumes "plain_net n" and "lexes t ts"
  shows "lexes (netText quote n @ t) (toks (jsonOfNet n) @ ts)"
proof -
  have p: "\<forall>s \<in> set (on_IpAddress n). plain s" "\<forall>s \<in> set (on_GatewayIP n). plain s" "plain (on_MacAddress n)"
    "plain (on_DefaultGateway n)" "plain (on_Interface n)"
    using assms(1) by (auto simp: plain_net_def)
  show ?thesis
    unfolding netText_def jsonOfNet_def
    by (cases "on_DefaultGateway n = []")
      (auto simp: o_def intro!: lexes_marks lexes_qstr lexes_qlist p assms(2) simp del: plain_simps intro: plain_keys)
qed

lemma lexes_netsText:
  "list_all plain_net ns \<Longrightarrow> lexes t ts \<Longrightarrow> lexes (netsText quote ns @ t) (commas (map (\<lambda>n. toks (jsonOfNet n)) ns) @ ts)"
proof (induction ns)
  case (Cons n ns)
  then show ?case by (cases ns) (auto simp del: netText_def intro!: lexes_netText lexes_marks)
qed simp

lemma depth_jsonOfNet: "jdepth (jsonOfNet n) = 2"
  by (auto simp: jsonOfNet_def o_def image_constant_conv)

text \<open>What is composed for a list of interfaces is decoded to the same interfaces, in order.\<close>

lemma unmarshalOvnNets_text:
  assumes "list_all plain_net ns"
  shows "unmarshalOvnNets (''['' @ netsText quote ns @ '']'') = Inr ns"
proof -
  let ?v = "JArr (map jsonOfNet ns)"
  have "lexes (''['' @ netsText quote ns @ '']'') (toks ?v)"
    using lexes_netsText [OF assms lexes_marks(5) [OF lexes_Nil]] by (auto simp: o_def intro: lexes_marks)
  moreover have "jdepth ?v \<le> maxNestingDepth"
    by (auto simp: depth_jsonOfNet maxNestingDepth_def o_def image_constant_conv)
  ultimately have "json_parse (''['' @ netsText quote ns @ '']'') = Some ?v" by (rule json_parse_lexes)
  then show ?thesis
    using mapE_map [of ns _ jsonOfNet id] by (simp add: unmarshalOvnNets_def json_Unmarshal_def decode_slice_def decode_jsonOfNet)
qed

text \<open>Escaping its quotation marks gives the text the operator writes; dropping the backslashes gives it back.\<close>

definition unslash :: "string \<Rightarrow> string" where "unslash s = filter (\<lambda>c. c \<noteq> CHR 0x5C) s"

definition escapes :: "string \<Rightarrow> string \<Rightarrow> bool" where
  "escapes s t \<longleftrightarrow> (\<forall>c \<in> set s. clean_char c) \<and> escq s = t \<and> unslash t = s"

lemma escapes_intros:
  "escapes [] []"
  "clean_char c \<Longrightarrow> c \<noteq> CHR 0x22 \<Longrightarrow> escapes s t \<Longrightarrow> escapes (c # s) (c # t)"
  "escapes s t \<Longrightarrow> escapes s' t' \<Longrightarrow> escapes (s @ s') (t @ t')"
  by (auto simp: escapes_def unslash_def clean_char_def)

lemma escapes_plain: "plain s \<Longrightarrow> escapes s s"
  by (induction s) (auto intro: escapes_intros)

lemma escapes_qstr: "plain s \<Longrightarrow> escapes (qstr quote s) (qstr escaped_quote s)"
  using escapes_plain [of s] by (auto simp: escapes_def qstr_def unslash_def clean_char_def)

lemma escapes_qlist: "\<forall>s \<in> set ss. plain s \<Longrightarrow> escapes (qlist quote ss) (qlist escaped_quote ss)"
  by (induction ss) (auto intro!: escapes_intros escapes_qstr simp: clean_char_def)

lemma escapes_netText:
  assumes "plain_net n" shows "escapes (netText quote n) (netText escaped_quote n)"
proof -
  have p: "\<forall>s \<in> set (on_IpAddress n). plain s" "\<forall>s \<in> set (on_GatewayIP n). plain s" "plain (on_MacAddress n)"
    "plain (on_DefaultGateway n)" "plain (on_Interface n)"
    using assms by (auto simp: plain_net_def)
  show ?thesis
    unfolding netText_def
    by (cases "on_DefaultGateway n = []")
      (auto intro!: escapes_intros escapes_qstr escapes_qlist p simp del: plain_simps intro: plain_keys simp: clean_char_def)
qed

lemma escapes_netsText: "list_all plain_net ns \<Longrightarrow> escapes (netsText quote ns) (netsText escaped_quote ns)"
  by (induction ns) (auto intro!: escapes_intros escapes_netText simp: clean_char_def)

section \<open>The network pool\<close>

text \<open>
  \<^verbatim>\<open>strconv.ParseInt(s, 10, 64)\<close> on the text of a JSON number, and the fields of
  \<^verbatim>\<open>NetworkPool\<close> and \<^verbatim>\<open>IpSubnet\<close> with their tags.  A nil slice is written as
  \<^verbatim>\<open>null\<close>, an empty one as \<^verbatim>\<open>[]\<close>, which is what the flag tells apart.
\<close>

definition strconv_ParseInt64 :: "string \<Rightarrow> int option" where
  "strconv_ParseInt64 s =
     (let (neg, body) = (case s of [] \<Rightarrow> (False, []) | c # cs \<Rightarrow> if c = CHR ''-'' then (True, cs) else (False, s))
      in case read_nat body of
           None \<Rightarrow> None
         | Some n \<Rightarrow> if neg \<and> n \<le> 2 ^ 63 \<or> \<not> neg \<and> n < 2 ^ 63 then Some (if neg then - int n else int n) else None)"

definition decode_int :: "int \<Rightarrow> json \<Rightarrow> error + int" where
  "decode_int old v =
     (case v of
        JNull \<Rightarrow> Inr old
      | JNum s \<Rightarrow> (case strconv_ParseInt64 s of None \<Rightarrow> Inl jsonTypeError | Some i \<Rightarrow> Inr i)
      | _ \<Rightarrow> Inl jsonTypeError)"

definition decode_bool :: "bool \<Rightarrow> json \<Rightarrow> error + bool" where
  "decode_bool old v = (case v of JNull \<Rightarrow> Inr old | JBool b \<Rightarrow> Inr b | _ \<Rightarrow> Inl jsonTypeError)"

definition subnetFields :: "(string \<times> (json \<Rightarrow> IpSubnet \<Rightarrow> error + IpSubnet)) list" where
  "subnetFields =
     [(''name'', json_field (\<lambda>n. decode_string (sn_Name n)) sn_Name_update),
      (''subnet'', json_field (\<lambda>n. decode_string (sn_Subnet n)) sn_Subnet_update),
      (''gateway'', json_field (\<lambda>n. decode_string (sn_Gateway n)) sn_Gateway_update),
      (''excludeIps'', json_field (\<lambda>n. decode_string (sn_ExcludeIps n)) sn_ExcludeIps_update)]"

definition poolFields :: "(string \<times> (json \<Rightarrow> NetworkPool \<Rightarrow> error + NetworkPool)) list" where
  "poolFields =
     [(''poolnumber'', json_field (\<lambda>p. decode_int (np_PoolNr p)) np_PoolNr_update),
      (''network'', json_field (\<lambda>p. decode_struct subnetFields (np_Network p)) np_Network_update),
      (''available'', json_field (\<lambda>p. decode_bool (np_Available p)) np_Available_update)]"

definition zero_NetworkPool :: NetworkPool where
  "zero_NetworkPool = \<lparr>np_PoolNr = 0, np_Network = \<lparr>sn_Name = [], sn_Subnet = [], sn_Gateway = [], sn_ExcludeIps = []\<rparr>, np_Available = False\<rparr>"

definition unmarshalPools :: "string \<Rightarrow> error + NetworkPool list" where
  "unmarshalPools = json_Unmarshal (decode_slice (decode_struct poolFields zero_NetworkPool))"

definition nilSlice :: "string \<Rightarrow> bool" where
  "nilSlice s \<longleftrightarrow> json_parse s = Some JNull"

definition jsonOfSubnet :: "IpSubnet \<Rightarrow> json" where
  "jsonOfSubnet n = JObj ([(''name'', JStr (sn_Name n)), (''subnet'', JStr (sn_Subnet n))] @
     (if sn_Gateway n = [] then [] else [(''gateway'', JStr (sn_Gateway n))]) @
     (if sn_ExcludeIps n = [] then [] else [(''excludeIps'', JStr (sn_ExcludeIps n))]))"

definition jsonOfPool :: "NetworkPool \<Rightarrow> json" where
  "jsonOfPool p = JObj [(''poolnumber'', JNum (strconv_Itoa (np_PoolNr p))), (''network'', jsonOfSubnet (np_Network p)),
     (''available'', JBool (np_Available p))]"

definition marshalPools :: "bool \<Rightarrow> NetworkPool list \<Rightarrow> error + string" where
  "marshalPools isNil nps = Inr (if isNil then ''null'' else json_print (JArr (map jsonOfPool nps)))"

text \<open>Pools whose strings are ASCII and whose numbers fit into an \<^verbatim>\<open>int\<close> are read back as written.\<close>

definition ascii_subnet :: "IpSubnet \<Rightarrow> bool" where
  "ascii_subnet n \<longleftrightarrow> ascii (sn_Name n) \<and> ascii (sn_Subnet n) \<and> ascii (sn_Gateway n) \<and> ascii (sn_ExcludeIps n)"

definition storable :: "NetworkPool \<Rightarrow> bool" where
  "storable p \<longleftrightarrow> ascii_subnet (np_Network p) \<and> - (2 ^ 63) \<le> np_PoolNr p \<and> np_PoolNr p < 2 ^ 63"

lemma ParseInt64_Itoa:
  assumes "- (2 ^ 63) \<le> i" "i < 2 ^ 63"
  shows "strconv_ParseInt64 (strconv_Itoa i) = Some i"
proof (cases "i < 0")
  case True
  with assms show ?thesis by (auto simp: strconv_ParseInt64_def strconv_Itoa_def read_show_nat)
next
  case False
  obtain c cs where s: "show_nat (nat i) = c # cs" by (cases "show_nat (nat i)") auto
  have "read_nat (c # cs) = Some (nat i)" using read_show_nat [of "nat i"] s by simp
  with False assms s show_nat_Cons [OF s] show ?thesis by (auto simp: strconv_ParseInt64_def strconv_Itoa_def)
qed

lemma show_nat_leading: "show_nat n = c # cs \<Longrightarrow> c = CHR ''0'' \<Longrightarrow> cs = []"
proof (induction n arbitrary: c cs rule: show_nat.induct)
  case (1 n)
  show ?case
  proof (cases "n < 10")
    case True
    with 1(2) show ?thesis by (simp add: show_nat.simps)
  next
    case False
    obtain d ds where d: "show_nat (n div 10) = d # ds" by (cases "show_nat (n div 10)") auto
    with 1(2,3) False have "d = CHR ''0''" by (simp add: show_nat.simps [of n])
    from 1(1) [OF False d this] have "show_nat (n div 10) = ''0''" using d \<open>d = _\<close> by simp
    then have "n div 10 = 0" using read_show_nat [of "n div 10"] by (simp add: read_nat_def is_digit_def digit_val_def)
    with False show ?thesis by simp
  qed
qed

lemma number_ok_Itoa: "number_ok (strconv_Itoa i) \<and> list_all number_char (strconv_Itoa i)"
proof -
  have n: "(case show_nat n of [] \<Rightarrow> False | c # u \<Rightarrow> if c = CHR ''0'' then fraction_ok u else is_digit c \<and> fraction_ok (dropWhile is_digit u))" for n
  proof -
    obtain c cs where s: "show_nat n = c # cs" by (cases "show_nat n") auto
    have "\<forall>d \<in> set (c # cs). is_digit d" using show_nat_digits [of _ n] s by metis
    then have "dropWhile is_digit cs = []" "is_digit c" by (auto simp: dropWhile_eq_Nil_conv)
    moreover have "fraction_ok []" by (simp add: fraction_ok_def)
    ultimately show ?thesis using s show_nat_leading [OF s] by (simp del: dropWhile_eq_Nil_conv)
  qed
  have m: "(case show_nat n of [] \<Rightarrow> [] | c # u \<Rightarrow> if c = CHR ''-'' then u else show_nat n) = show_nat n" for n
    using show_nat_Cons [of n] by (cases "show_nat n") auto
  have "list_all number_char (show_nat n)" for n using show_nat_digits [of _ n] by (auto simp: list_all_iff number_char_def)
  then show ?thesis using n m by (simp add: strconv_Itoa_def number_ok_def Let_def number_char_def)
qed

lemma find_subnetFields:
  "find (\<lambda>f. strings_EqualFold ''name'' (fst f)) subnetFields = Some (subnetFields ! 0)"
  "find (\<lambda>f. strings_EqualFold ''subnet'' (fst f)) subnetFields = Some (subnetFields ! 1)"
  "find (\<lambda>f. strings_EqualFold ''gateway'' (fst f)) subnetFields = Some (subnetFields ! 2)"
  "find (\<lambda>f. strings_EqualFold ''excludeIps'' (fst f)) subnetFields = Some (subnetFields ! 3)"
  by (simp_all add: subnetFields_def strings_EqualFold_def fold_plain strings_ToLower_def to_lower_char_def)

lemma find_poolFields:
  "find (\<lambda>f. strings_EqualFold ''poolnumber'' (fst f)) poolFields = Some (poolFields ! 0)"
  "find (\<lambda>f. strings_EqualFold ''network'' (fst f)) poolFields = Some (poolFields ! 1)"
  "find (\<lambda>f. strings_EqualFold ''available'' (fst f)) poolFields = Some (poolFields ! 2)"
  by (simp_all add: poolFields_def strings_EqualFold_def fold_plain strings_ToLower_def to_lower_char_def)

lemma subnet_members:
  "decode_member subnetFields (''name'', v) n = json_field (\<lambda>n. decode_string (sn_Name n)) sn_Name_update v n"
  "decode_member subnetFields (''subnet'', v) n = json_field (\<lambda>n. decode_string (sn_Subnet n)) sn_Subnet_update v n"
  "decode_member subnetFields (''gateway'', v) n = json_field (\<lambda>n. decode_string (sn_Gateway n)) sn_Gateway_update v n"
  "decode_member subnetFields (''excludeIps'', v) n = json_field (\<lambda>n. decode_string (sn_ExcludeIps n)) sn_ExcludeIps_update v n"
  unfolding decode_member_def by (simp_all only: fst_conv snd_conv find_subnetFields option.case) (simp_all add: subnetFields_def)

lemma pool_members:
  "decode_member poolFields (''poolnumber'', v) p = json_field (\<lambda>p. decode_int (np_PoolNr p)) np_PoolNr_update v p"
  "decode_member poolFields (''network'', v) p = json_field (\<lambda>p. decode_struct subnetFields (np_Network p)) np_Network_update v p"
  "decode_member poolFields (''available'', v) p = json_field (\<lambda>p. decode_bool (np_Available p)) np_Available_update v p"
  unfolding decode_member_def by (simp_all only: fst_conv snd_conv find_poolFields option.case) (simp_all add: poolFields_def)

lemma decode_jsonOfSubnet:
  "decode_struct subnetFields \<lparr>sn_Name = [], sn_Subnet = [], sn_Gateway = [], sn_ExcludeIps = []\<rparr> (jsonOfSubnet n) = Inr n"
  by (simp add: decode_struct_def jsonOfSubnet_def subnet_members json_field_def decode_string_def)

lemma decode_jsonOfPool: "storable p \<Longrightarrow> decode_struct poolFields zero_NetworkPool (jsonOfPool p) = Inr p"
  by (simp add: decode_struct_def [of poolFields] jsonOfPool_def pool_members json_field_def decode_int_def decode_bool_def zero_NetworkPool_def
      decode_jsonOfSubnet storable_def ParseInt64_Itoa)

lemma printable_pool: "storable p \<Longrightarrow> printable (jsonOfPool p) \<and> jdepth (jsonOfPool p) = 2"
proof -
  assume "storable p"
  moreover have "ascii ''name''" "ascii ''subnet''" "ascii ''gateway''" "ascii ''excludeIps''" "ascii ''poolnumber''" "ascii ''network''" "ascii ''available''"
    by (simp_all add: ascii_def)
  ultimately show ?thesis
    by (auto simp: jsonOfPool_def jsonOfSubnet_def storable_def ascii_subnet_def number_ok_Itoa)
qed

lemma pools_roundtrip:
  assumes "list_all storable nps"
  shows "\<exists>s. marshalPools isNil nps = Inr s \<and> unmarshalPools s = Inr (if isNil then [] else nps) \<and> (nilSlice s \<longleftrightarrow> isNil)"
proof (cases isNil)
  case True
  have "json_parse ''null'' = Some JNull" using json_parse_lexes [of "''null''" JNull] lexes_literals(1) by simp
  with True show ?thesis by (simp add: marshalPools_def unmarshalPools_def json_Unmarshal_def decode_slice_def nilSlice_def)
next
  case False
  let ?v = "JArr (map jsonOfPool nps)"
  have p: "\<forall>p \<in> set nps. storable p" using assms by (simp add: list_all_iff)
  have "jdepth ?v \<le> 3" using printable_pool p by (auto simp: Max_le_iff)
  then have "json_parse (json_print ?v) = Some ?v" using p printable_pool
    by (intro json_parse_print(1)) (auto simp: maxNestingDepth_def)
  with False mapE_map [of nps _ jsonOfPool id] decode_jsonOfPool p show ?thesis
    by (simp add: marshalPools_def unmarshalPools_def json_Unmarshal_def decode_slice_def nilSlice_def)
qed

end
