(* ===== verification/Nodus_World.thy ===== *)
theory Nodus_World
  imports Nodus_Json
begin

text \<open>
  The world a component runs in.  \<open>event\<close> lists the requests the program makes to code outside
  the repository (the OVN and OVS command line tools, the Kubernetes API server, gRPC streams,
  netlink); \<open>env\<close> is that code, a parameter of the model: each answer may depend on the whole
  history of requests.  \<open>world\<close> is the history together with the process-wide variables of
  the operator and of the agent.  \<open>emits P m\<close> says that every request the program \<open>m\<close>
  makes satisfies \<open>P\<close>; its rules are collected in \<open>emits_intros\<close>.
\<close>

section \<open>Requests\<close>

datatype kind = KPod | KNamespace | KNetwork | KProviderNetwork | KNetworkChaining
  | KConfigMap | KNode | KNetworkPolicy | KSecret | KCertificate | KService | KEndpoints

datatype event =
    ExecCmd string "string list"
  | KubeGet kind string string
  | KubeList kind string string
  | KubeListPods "LabelSelector option list"
  | CreateConfigMap ConfigMap
  | UpdateConfigMap ConfigMap
  | CreateNetworkCR Network
  | WatchNetwork string
  | UpdateNetworkCR Network
  | StatusNetworkCR Network
  | UpdateProviderCR ProviderNetwork
  | StatusProviderCR ProviderNetwork
  | UpdateChainingCR NetworkChaining
  | StatusChainingCR NetworkChaining
  | PatchPod string string string
  | UpdatePodStatus Pod
  | StreamSend nat Notification
  | LinkByName string
  | LinkList
  | RouteList
  | ReadFile string
  | ContainerPid string
  | NsEnter string
  | NsLeave
  | AddrList int
  | SetupVeth string int
  | Netlink nlop
  | Iptables iptop
  | PatchNode string string
  | PatchNamespace string string
  | CreateCertificate Certificate
  | UpdateCertificate Certificate
  | StatFile string
  | FileOp fsop
  | HttpPost string
  | PrintResult CniResult string
  | LoadKubeConfig
  | NewManager
  | AddTypes "string \<times> string" "string list"
  | NewController string
  | WatchKind kind
  | GoRoutine string
  | StartManager
  | ServeHttp string bool
  | ListenTcp string
  | ServeGrpc
  | SubscribeCall string
  | RecvNotif

type_synonym history = "event list"

text \<open>
  What a watch of a Network delivers until its channel is closed: a timeout of the waiting loop, the
  state of the network in an event, or an event whose object is not a Network, such as the
  \<^verbatim>\<open>Status\<close> of an error event.
\<close>

datatype watchEvent = WatchTimeout | NetworkEvent string | OtherObject

section \<open>The environment\<close>

record env =
  env_exec :: "history \<Rightarrow> string \<Rightarrow> string list \<Rightarrow> string \<times> string \<times> error option"
  env_LookPath :: "string \<Rightarrow> error + string"
  env_Getenv :: "string \<Rightarrow> string"
  env_rand :: "history \<Rightarrow> nat \<times> nat \<times> nat"
  env_rangeOrder :: "history \<Rightarrow> string list \<Rightarrow> string list"
  env_kubeConfig :: "history \<Rightarrow> error option"
  env_v1alpha1Config :: "history \<Rightarrow> error option"
  env_getPod :: "history \<Rightarrow> string \<Rightarrow> string \<Rightarrow> error + Pod"
  env_listPods :: "history \<Rightarrow> string \<Rightarrow> string \<Rightarrow> error + Pod list"
  env_listPodsSel :: "history \<Rightarrow> LabelSelector option list \<Rightarrow> error + Pod list"
  env_getNamespace :: "history \<Rightarrow> string \<Rightarrow> error + ObjectMeta"
  env_listNamespaces :: "history \<Rightarrow> string \<Rightarrow> error + ObjectMeta list"
  env_getNetwork :: "history \<Rightarrow> string \<Rightarrow> string \<Rightarrow> error + Network"
  env_listNetworks :: "history \<Rightarrow> string \<Rightarrow> error + Network list"
  env_getProvider :: "history \<Rightarrow> string \<Rightarrow> string \<Rightarrow> error + ProviderNetwork"
  env_listProviders :: "history \<Rightarrow> error + ProviderNetwork list"
  env_getChaining :: "history \<Rightarrow> string \<Rightarrow> string \<Rightarrow> error + NetworkChaining"
  env_listChainings :: "history \<Rightarrow> error + NetworkChaining list"
  env_listNodes :: "history \<Rightarrow> string \<Rightarrow> error + string list"
  env_listPolicies :: "history \<Rightarrow> error + NetworkPolicy list"
  env_getConfigMap :: "history \<Rightarrow> string \<Rightarrow> string \<Rightarrow> error + ConfigMap"
  env_write :: "history \<Rightarrow> event \<Rightarrow> error option"
  env_createNetwork :: "history \<Rightarrow> Network \<Rightarrow> error + string"
  env_watchNetwork :: "history \<Rightarrow> string \<Rightarrow> error + watchEvent list"
  env_selectorString :: "LabelSelector \<Rightarrow> string"
  env_retryAgain :: "history \<Rightarrow> error \<Rightarrow> bool"
  env_statFile :: "history \<Rightarrow> string \<Rightarrow> error option"
  env_readFile :: "history \<Rightarrow> string \<Rightarrow> error + string"
  env_unmarshalNfn :: "string \<Rightarrow> error + nfnNetwork"
  env_unmarshalObjects :: "string \<Rightarrow> error + jobject list"
  env_marshalObjects :: "jobject list \<Rightarrow> error + string"
  env_mapstructure :: "jobject \<Rightarrow> NetInterface \<Rightarrow> error + NetInterface"
  env_linkByName :: "history \<Rightarrow> string \<Rightarrow> error option"
  env_linkList :: "history \<Rightarrow> (string \<times> string) list"
  env_pid :: "history \<Rightarrow> string \<Rightarrow> error + int"
  env_routeList :: "history \<Rightarrow> error + nlRoute list"
  env_ifaceByIndex :: "history \<Rightarrow> int \<Rightarrow> error option"
  env_addrList :: "history \<Rightarrow> int \<Rightarrow> error + IPNet list"
  env_yamlToJSON :: "string \<Rightarrow> error + string"
  env_unmarshalCluster :: "string \<Rightarrow> error + Networking"
  env_getNS :: "history \<Rightarrow> string \<Rightarrow> error option"
  env_nsEnter :: "history \<Rightarrow> string \<Rightarrow> error option"
  env_netlink :: "history \<Rightarrow> nlop \<Rightarrow> error option"
  env_setupVeth :: "history \<Rightarrow> string \<Rightarrow> int \<Rightarrow> error + (string \<times> string \<times> string)"
  env_newIPTables :: "history \<Rightarrow> Protocol \<Rightarrow> error option"
  env_iptExists :: "history \<Rightarrow> Protocol \<Rightarrow> IPTablesRule \<Rightarrow> error + bool"
  env_iptChange :: "history \<Rightarrow> iptop \<Rightarrow> error option"
  env_combined :: "history \<Rightarrow> string \<Rightarrow> string list \<Rightarrow> string \<times> error option"
  env_parseAddr :: "string \<Rightarrow> error + IP"
  env_unmarshalNetConf :: "string \<Rightarrow> error + NetConf"
  env_parsePrevResult :: "string \<Rightarrow> error option"
  env_newResult :: "CniResult \<Rightarrow> error + CniResult"
  env_marshalResult :: "CniResult \<Rightarrow> error + string"
  env_backoffTries :: "history \<Rightarrow> nat"
  env_fmtPointer :: "NetConf option \<Rightarrow> string"
  env_getNode :: "history \<Rightarrow> string \<Rightarrow> error + Node"
  env_getSecret :: "history \<Rightarrow> string \<Rightarrow> string \<Rightarrow> error + Secret option"
  env_certManager :: "history \<Rightarrow> error option"
  env_getCertificate :: "history \<Rightarrow> string \<Rightarrow> string \<Rightarrow> error + Certificate"
  env_writeCertificate :: "history \<Rightarrow> Certificate \<Rightarrow> error + Certificate"
  env_X509KeyPair :: "string \<Rightarrow> string \<Rightarrow> error + string"
  env_certsFromPEM :: "string \<Rightarrow> string list"
  env_kubeConfigFile :: "history \<Rightarrow> error option"
  env_stat :: "history \<Rightarrow> string \<Rightarrow> error + FileInfo"
  env_fs :: "history \<Rightarrow> fsop \<Rightarrow> error option"
  env_isNotExist :: "error \<Rightarrow> bool"
  env_fmtMode :: "32 word \<Rightarrow> string"
  env_parseResult :: "string \<Rightarrow> error + CniResult"
  env_printResult :: "history \<Rightarrow> CniResult \<Rightarrow> string \<Rightarrow> error option"

text \<open>An environment in which every command succeeds silently and every object is absent.\<close>

definition null_env :: env where
  "null_env = \<lparr>env_exec = (\<lambda>h c args. ([], [], None)),
     env_LookPath = (\<lambda>f. Inr f),
     env_Getenv = (\<lambda>v. []),
     env_rand = (\<lambda>h. (0, 0, 0)),
     env_rangeOrder = (\<lambda>h ks. ks),
     env_kubeConfig = (\<lambda>_. None),
     env_v1alpha1Config = (\<lambda>_. None),
     env_getPod = (\<lambda>_ _ _. Inl (ExtErr [])),
     env_listPods = (\<lambda>_ _ _. Inr []),
     env_listPodsSel = (\<lambda>_ _. Inr []),
     env_getNamespace = (\<lambda>_ _. Inl (ExtErr [])),
     env_listNamespaces = (\<lambda>_ _. Inr []),
     env_getNetwork = (\<lambda>_ _ _. Inl (ExtErr [])),
     env_listNetworks = (\<lambda>_ _. Inr []),
     env_getProvider = (\<lambda>_ _ _. Inl (ExtErr [])),
     env_listProviders = (\<lambda>_. Inr []),
     env_getChaining = (\<lambda>_ _ _. Inl (ExtErr [])),
     env_listChainings = (\<lambda>_. Inr []),
     env_listNodes = (\<lambda>_ _. Inr []),
     env_listPolicies = (\<lambda>_. Inr []),
     env_getConfigMap = (\<lambda>_ _ _. Inl (ExtErr [])),
     env_write = (\<lambda>_ _. None),
     env_createNetwork = (\<lambda>_ _. Inr []),
     env_watchNetwork = (\<lambda>_ _. Inr []),
     env_selectorString = (\<lambda>s. []),
     env_retryAgain = (\<lambda>_ _. False),
     env_statFile = (\<lambda>_ _. None),
     env_readFile = (\<lambda>_ _. Inr []),
     env_unmarshalNfn = (\<lambda>_. Inl (ExtErr [])),
     env_unmarshalObjects = (\<lambda>_. Inr []),
     env_marshalObjects = (\<lambda>_. Inr []),
     env_mapstructure = (\<lambda>_ _. Inl (ExtErr [])),
     env_linkByName = (\<lambda>_ _. None),
     env_linkList = (\<lambda>_. []),
     env_pid = (\<lambda>_ _. Inl (ExtErr [])),
     env_routeList = (\<lambda>_. Inr []),
     env_ifaceByIndex = (\<lambda>_ _. None),
     env_addrList = (\<lambda>_ _. Inr []),
     env_yamlToJSON = Inr,
     env_unmarshalCluster = (\<lambda>_. Inl (ExtErr [])),
     env_getNS = (\<lambda>_ _. None),
     env_nsEnter = (\<lambda>_ _. None),
     env_netlink = (\<lambda>_ _. None),
     env_setupVeth = (\<lambda>_ n _. Inr (n, n, n)),
     env_newIPTables = (\<lambda>_ _. None),
     env_iptExists = (\<lambda>_ _ _. Inr True),
     env_iptChange = (\<lambda>_ _. None),
     env_combined = (\<lambda>_ _ _. ([], None)),
     env_parseAddr = (\<lambda>s. case net_ParseCIDR s of Inl e \<Rightarrow> Inl e | Inr (ip, n) \<Rightarrow> Inr ip),
     env_unmarshalNetConf = (\<lambda>_. Inr \<lparr>ncf_CNIVersion = [], ncf_NFNNetwork = [], ncf_RawPrevResult = None\<rparr>),
     env_parsePrevResult = (\<lambda>_. None),
     env_newResult = Inr,
     env_marshalResult = (\<lambda>_. Inr []),
     env_backoffTries = (\<lambda>_. 14),
     env_fmtPointer = (\<lambda>_. ''<nil>''),
     env_getNode = (\<lambda>_ _. Inl (ExtErr [])),
     env_getSecret = (\<lambda>_ _ _. Inl (ExtErr [])),
     env_certManager = (\<lambda>_. None),
     env_getCertificate = (\<lambda>_ _ _. Inl (ExtErr [])),
     env_writeCertificate = (\<lambda>_. Inr),
     env_X509KeyPair = (\<lambda>c k. Inr c),
     env_certsFromPEM = (\<lambda>pem. [pem]),
     env_kubeConfigFile = (\<lambda>_. None),
     env_stat = (\<lambda>_ _. Inl (ExtErr [])),
     env_fs = (\<lambda>_ _. None),
     env_isNotExist = (\<lambda>_. True),
     env_fmtMode = (\<lambda>_. []),
     env_parseResult = (\<lambda>_. Inl (ExtErr [])),
     env_printResult = (\<lambda>_ _ _. None)\<rparr>"

record client =
  cl_node :: string
  cl_stream :: "nat option"

record world =
  trace :: history
  runner :: "execHelper option"
  ovnConf :: "OVNNetworkConf option"
  gatewayCache :: "(string, string) gomap option"
  clientList :: "(string, client) gomap option"
  inSync :: bool
  pnCreateStore :: "ProviderNetworkCreate list"

definition init_world :: world where
  "init_world = \<lparr>trace = [], runner = None, ovnConf = None, gatewayCache = None,
     clientList = None, inSync = False, pnCreateStore = []\<rparr>"

section \<open>Primitive programs\<close>

definition request :: "event \<Rightarrow> (history \<Rightarrow> 'a) \<Rightarrow> (world, 'a) prog" where
  "request e answer w = Some (answer (trace w), w\<lparr>trace := trace w @ [e]\<rparr>)"

definition ask :: "(history \<Rightarrow> 'a) \<Rightarrow> (world, 'a) prog" where
  "ask answer w = Some (answer (trace w), w)"

definition kube_write :: "env \<Rightarrow> event \<Rightarrow> (world, error option) prog" where
  "kube_write E e = request e (\<lambda>h. env_write E h e)"

lemma request_Some [simp]:
  "request e answer w = Some (a, w') \<longleftrightarrow> a = answer (trace w) \<and> w' = w\<lparr>trace := trace w @ [e]\<rparr>"
  by (auto simp: request_def)

lemma request_bind [simp, prog_simps]:
  "Option.bind (request e answer w) f = f (answer (trace w), w\<lparr>trace := trace w @ [e]\<rparr>)"
  by (simp add: request_def)

lemma ask_Some [simp]: "ask answer w = Some (a, w') \<longleftrightarrow> a = answer (trace w) \<and> w' = w"
  by (auto simp: ask_def)

lemma ask_bind [simp, prog_simps]: "Option.bind (ask answer w) f = f (answer (trace w), w)"
  by (simp add: ask_def)

section \<open>What a program may request\<close>

definition emits :: "(event \<Rightarrow> bool) \<Rightarrow> (world, 'a) prog \<Rightarrow> bool" where
  "emits P m \<longleftrightarrow> (\<forall>w a w'. m w = Some (a, w') \<longrightarrow>
     (\<exists>es. trace w' = trace w @ es \<and> (\<forall>e \<in> set es. P e)))"

lemma emitsD:
  "emits P m \<Longrightarrow> m w = Some (a, w') \<Longrightarrow> \<exists>es. trace w' = trace w @ es \<and> (\<forall>e \<in> set es. P e)"
  unfolding emits_def by blast

lemma emits_mono: "emits P m \<Longrightarrow> (\<And>e. P e \<Longrightarrow> Q e) \<Longrightarrow> emits Q m"
  unfolding emits_def by blast

lemma emits_return [emits_intros]: "emits P (\<lambda>w. Some (a, w))"
  by (auto simp: emits_def)

lemma emits_panic [emits_intros]: "emits P (\<lambda>w. None)"
  by (simp add: emits_def)

lemma emits_request [emits_intros]: "P e \<Longrightarrow> emits P (request e answer)"
  by (auto simp: emits_def)

lemma emits_ask [emits_intros]: "emits P (ask answer)"
  by (auto simp: emits_def)

lemma emits_write [emits_intros]: "P e \<Longrightarrow> emits P (kube_write E e)"
  by (simp add: kube_write_def emits_request)

lemma emits_bind [emits_intros]:
  assumes "emits P m" and "\<And>a. emits P (f a)"
  shows "emits P (\<lambda>w. Option.bind (m w) (\<lambda>(a, w). f a w))"
  unfolding emits_def
proof (intro allI impI)
  fix w b w'
  assume "Option.bind (m w) (\<lambda>(a, w). f a w) = Some (b, w')"
  then obtain a v where m: "m w = Some (a, v)" and f: "f a v = Some (b, w')"
    by (auto simp: bind_eq_Some_conv)
  from emitsD [OF assms(1) m] emitsD [OF assms(2) f]
  obtain es es' where "trace v = trace w @ es" "\<forall>e \<in> set es. P e"
    "trace w' = trace v @ es'" "\<forall>e \<in> set es'. P e" by blast
  then have "trace w' = trace w @ es @ es' \<and> (\<forall>e \<in> set (es @ es'). P e)" by auto
  then show "\<exists>es. trace w' = trace w @ es \<and> (\<forall>e \<in> set es. P e)" by blast
qed

lemma emits_bind_unsplit [emits_intros]:
  assumes "emits P m" and "\<And>a b. emits P (f a b)"
  shows "emits P (\<lambda>w. Option.bind (m w) (\<lambda>((a, b), w). f a b w))"
  using emits_bind [OF assms(1), of "\<lambda>p. f (fst p) (snd p)"] assms(2) by (simp add: split_def)

lemma emits_bind3 [emits_intros]:
  assumes "emits P m" and "\<And>a b c. emits P (f a b c)"
  shows "emits P (\<lambda>w. Option.bind (m w) (\<lambda>((a, b, c), w). f a b c w))"
  using emits_bind [OF assms(1), of "\<lambda>p. f (fst p) (fst (snd p)) (snd (snd p))"] assms(2)
  by (simp add: split_def)

lemma emits_if [emits_intros]:
  "(b \<Longrightarrow> emits P m) \<Longrightarrow> (\<not> b \<Longrightarrow> emits P n) \<Longrightarrow> emits P (\<lambda>w. if b then m w else n w)"
  by (simp add: emits_def)

lemma emits_case_option [emits_intros]:
  "(x = None \<Longrightarrow> emits P m) \<Longrightarrow> (\<And>y. x = Some y \<Longrightarrow> emits P (n y)) \<Longrightarrow>
     emits P (\<lambda>w. case x of None \<Rightarrow> m w | Some y \<Rightarrow> n y w)"
  by (cases x) (simp_all add: emits_def)

lemma emits_case_sum [emits_intros]:
  "(\<And>y. x = Inl y \<Longrightarrow> emits P (m y)) \<Longrightarrow> (\<And>y. x = Inr y \<Longrightarrow> emits P (n y)) \<Longrightarrow>
     emits P (\<lambda>w. case x of Inl y \<Rightarrow> m y w | Inr y \<Rightarrow> n y w)"
  by (cases x) (simp_all add: emits_def)

lemma emits_case_prod [emits_intros]:
  "(\<And>a b. x = (a, b) \<Longrightarrow> emits P (m a b)) \<Longrightarrow> emits P (\<lambda>w. case x of (a, b) \<Rightarrow> m a b w)"
  by (cases x) (simp add: emits_def)

lemma emits_case_list [emits_intros]:
  "(x = [] \<Longrightarrow> emits P m) \<Longrightarrow> (\<And>y ys. x = y # ys \<Longrightarrow> emits P (n y ys)) \<Longrightarrow>
     emits P (\<lambda>w. case x of [] \<Rightarrow> m w | y # ys \<Rightarrow> n y ys w)"
  by (cases x) (simp_all add: emits_def)

lemma emits_option_bind [emits_intros]: "(\<And>x. y = Some x \<Longrightarrow> emits P (f x)) \<Longrightarrow> emits P (\<lambda>w. Option.bind y (\<lambda>x. f x w))"
  by (cases y) (simp_all add: emits_def)

lemma emits_bind_result:
  assumes "emits P m" and "\<And>a w w'. m w = Some (a, w') \<Longrightarrow> emits P (f a)"
  shows "emits P (\<lambda>w. Option.bind (m w) (\<lambda>(a, w). f a w))"
  unfolding emits_def
proof (intro allI impI)
  fix w b w'
  assume "Option.bind (m w) (\<lambda>(a, w). f a w) = Some (b, w')"
  then obtain a v where m: "m w = Some (a, v)" and f: "f a v = Some (b, w')" by (auto simp: run_conv)
  from emitsD [OF assms(1) m] emitsD [OF assms(2) [OF m] f] obtain es fs where
    "trace w' = trace w @ (es @ fs)" "\<forall>e \<in> set (es @ fs). P e" by fastforce
  then show "\<exists>es. trace w' = trace w @ es \<and> (\<forall>e \<in> set es. P e)" by blast
qed

lemma emits_let [emits_intros]: "emits P (m x) \<Longrightarrow> emits P (\<lambda>w. let y = x in m y w)"
  by (simp add: emits_def)

lemma emits_foreach [emits_intros]:
  assumes "\<And>x. x \<in> set xs \<Longrightarrow> emits P (f x)"
  shows "emits P (foreach f xs)"
  using assms
proof (induction xs)
  case Nil
  show ?case by (auto simp: emits_def)
next
  case (Cons x xs)
  then have "emits P (f x)" and "emits P (foreach f xs)" by simp_all
  then have "emits P (\<lambda>w. Option.bind (f x w) (\<lambda>(r, w).
      case r of None \<Rightarrow> foreach f xs w | Some e \<Rightarrow> Some (Some e, w)))"
    by (intro emits_intros)
  then show ?case by (simp add: emits_def)
qed

lemma emits_rangeM [emits_intros]:
  assumes "\<And>x s. x \<in> set xs \<Longrightarrow> emits P (f x s)"
  shows "emits P (rangeM f xs s)"
  using assms
proof (induction xs arbitrary: s)
  case Nil
  show ?case by (auto simp: emits_def)
next
  case (Cons x xs)
  then have "emits P (f x s)" and "\<And>s. emits P (rangeM f xs s)" by simp_all
  then have "emits P (\<lambda>w. Option.bind (f x s w) (\<lambda>(r, w).
      case r of Inl s' \<Rightarrow> rangeM f xs s' w | Inr r' \<Rightarrow> Some (Inr r', w)))"
    by (intro emits_intros)
  then show ?case by (simp add: emits_def)
qed

text \<open>A loop whose state keeps an invariant.\<close>

lemma rangeM_inv:
  assumes "rangeM f xs s w = Some (Inl s', w')" and "I s"
    and "\<And>x s w s' w'. x \<in> set xs \<Longrightarrow> I s \<Longrightarrow> f x s w = Some (Inl s', w') \<Longrightarrow> I s'"
  shows "I s'"
  using assms
proof (induction xs arbitrary: s w)
  case (Cons x xs)
  from Cons.prems(1) obtain t v where "f x s w = Some (Inl t, v)" "rangeM f xs t v = Some (Inl s', w')"
    by (auto simp: run_conv)
  with Cons show ?case by (metis list.set_intros)
qed simp

lemma emits_rangeM_inv:
  assumes "I s" and "\<And>x s. x \<in> set xs \<Longrightarrow> I s \<Longrightarrow> emits P (f x s)"
    and "\<And>x s w s' w'. x \<in> set xs \<Longrightarrow> I s \<Longrightarrow> f x s w = Some (Inl s', w') \<Longrightarrow> I s'"
  shows "emits P (rangeM f xs s)"
  using assms
proof (induction xs arbitrary: s)
  case Nil
  show ?case by (auto simp: emits_def)
next
  case (Cons x xs)
  show ?case unfolding emits_def
  proof (intro allI impI)
    fix w a w'
    assume "rangeM f (x # xs) s w = Some (a, w')"
    then obtain r v where r: "f x s w = Some (r, v)"
      and rest: "(case r of Inl s' \<Rightarrow> rangeM f xs s' v | Inr r' \<Rightarrow> Some (Inr r', v)) = Some (a, w')"
      by (auto simp: run_conv)
    from emitsD [OF Cons.prems(2) [OF _ Cons.prems(1)] r] obtain es where
      es: "trace v = trace w @ es" "\<forall>e \<in> set es. P e" by auto
    show "\<exists>es. trace w' = trace w @ es \<and> (\<forall>e \<in> set es. P e)"
    proof (cases r)
      case (Inl t)
      with Cons.prems r have "I t" by (metis list.set_intros(1))
      with Cons.IH Cons.prems have em: "emits P (rangeM f xs t)" by (metis list.set_intros(2))
      from rest Inl have "rangeM f xs t v = Some (a, w')" by simp
      from emitsD [OF em this] obtain fs where "trace w' = trace v @ fs" "\<forall>e \<in> set fs. P e" by blast
      with es have "trace w' = trace w @ (es @ fs) \<and> (\<forall>e \<in> set (es @ fs). P e)" by auto
      then show ?thesis by blast
    next
      case (Inr r')
      with rest es show ?thesis by auto
    qed
  qed
qed

lemma emits_forall [emits_intros]:
  assumes "\<And>x. x \<in> set xs \<Longrightarrow> emits P (f x)"
  shows "emits P (forall f xs)"
  using assms
proof (induction xs)
  case Nil
  show ?case by (auto simp: emits_def)
next
  case (Cons x xs)
  then have "emits P (f x)" and "emits P (forall f xs)" by simp_all
  then have "emits P (\<lambda>w. Option.bind (f x w) (\<lambda>(r, w). forall f xs w))"
    by (intro emits_intros)
  then show ?case by (simp add: emits_def)
qed

text \<open>The requests a program adds to the history.\<close>

definition new_events :: "world \<Rightarrow> world \<Rightarrow> history" where
  "new_events w w' = drop (length (trace w)) (trace w')"

lemma new_events_emits:
  "emits P m \<Longrightarrow> m w = Some (a, w') \<Longrightarrow> e \<in> set (new_events w w') \<Longrightarrow> P e"
  by (auto simp: new_events_def dest!: emitsD)

text \<open>
  An operation of a component seen from its clients: it makes only requests of a certain kind.
  The locale carries the loop lemmas to every such operation.
\<close>

locale requests_only =
  fixes ev :: "event \<Rightarrow> bool" and opn :: "'x \<Rightarrow> (world, 'a) prog"
  assumes opn_emits: "emits ev (opn x)"
begin

lemma forall_emits: "emits ev (forall opn xs)"
  by (intro emits_intros opn_emits)

lemma history_grows: "opn x w = Some (a, w') \<Longrightarrow> prefix (trace w) (trace w')"
  using emitsD [OF opn_emits] by (fastforce simp: prefix_def)

lemma new_event_ok: "opn x w = Some (a, w') \<Longrightarrow> e \<in> set (new_events w w') \<Longrightarrow> ev e"
  by (rule new_events_emits [OF opn_emits])

end

end
