(* ===== verification/Ovn_Exec.thy ===== *)
theory Ovn_Exec
  imports Nodus_World
begin

text \<open>
  \<^verbatim>\<open>internal/pkg/ovn/utils.go\<close>: the runner of the OVN, OVS and iproute2 command line
  tools.  A command is a request \<open>ExecCmd path args\<close>; its output and error come from the
  environment.  Using the runner before \<^verbatim>\<open>SetExec\<close> is a nil dereference, \<open>None\<close>.
\<close>

section \<open>Operations\<close>

definition getHostIP :: "env \<Rightarrow> string" where
  "getHostIP E = (let hostIP = env_Getenv E ''OVN_NB_TCP_SERVICE_HOST''
     in if strings_Contains hostIP '':'' then ''['' @ hostIP @ '']'' else hostIP)"

text \<open>\<^verbatim>\<open>runner\<close> is replaced before the paths are looked up and keeps what was found.\<close>

definition SetExec :: "env \<Rightarrow> (world, error option) prog" where
  "SetExec E w =
     (let r = \<lparr>eh_nbctlPath = [], eh_vsctlPath = [], eh_ipPath = [], eh_hostIP = [], eh_hostPort = []\<rparr>
      in case env_LookPath E ''ovn-nbctl'' of
           Inl e \<Rightarrow> Some (Some e, w\<lparr>runner := Some r\<rparr>)
         | Inr nb \<Rightarrow>
      (let r = r\<lparr>eh_nbctlPath := nb\<rparr>
       in case env_LookPath E ''ovs-vsctl'' of
            Inl e \<Rightarrow> Some (Some e, w\<lparr>runner := Some r\<rparr>)
          | Inr vs \<Rightarrow>
      (let r = r\<lparr>eh_vsctlPath := vs\<rparr>
       in case env_LookPath E ''ip'' of
            Inl e \<Rightarrow> Some (Some e, w\<lparr>runner := Some r\<rparr>)
          | Inr p \<Rightarrow> Some (None, w\<lparr>runner := Some (r\<lparr>eh_ipPath := p, eh_hostIP := getHostIP E,
                eh_hostPort := ''6641''\<rparr>)\<rparr>))))"

definition run :: "env \<Rightarrow> string \<Rightarrow> string list \<Rightarrow> (world, string \<times> string \<times> error option) prog" where
  "run E cmdPath args w =
     (case runner w of
        None \<Rightarrow> None
      | Some _ \<Rightarrow> request (ExecCmd cmdPath args) (\<lambda>h. env_exec E h cmdPath args) w)"

fun retryLoop :: "env \<Rightarrow> nat \<Rightarrow> string \<Rightarrow> string list \<Rightarrow> (world, string \<times> string \<times> error option) prog" where
  "retryLoop E retriesLeft cmdPath args w = do {
     ((stdout, stderr, err), w) \<leftarrow> run E cmdPath args w;
     (if err = None then Some ((stdout, stderr, err), w)
      else if strings_Contains stderr ''Connection refused'' then
        (case retriesLeft of
           0 \<Rightarrow> Some ((stdout, stderr, err), w)
         | Suc n \<Rightarrow> retryLoop E n cmdPath args w)
      else Some ((stdout, stderr, err), w))
   }"

declare retryLoop.simps [simp del]

definition runOVNretry :: "env \<Rightarrow> string \<Rightarrow> string list \<Rightarrow> (world, string \<times> string \<times> error option) prog" where
  "runOVNretry E = retryLoop E 200"

definition nbctlArgs :: "execHelper \<Rightarrow> nat \<Rightarrow> string list \<Rightarrow> string list" where
  "nbctlArgs r timeout args =
     (if eh_hostIP r \<noteq> []
      then [''--db=ssl:'' @ eh_hostIP r @ '':'' @ eh_hostPort r,
            ''-p'', ''/opt/ovn-certs/tls.key'',
            ''-c'', ''/opt/ovn-certs/tls.crt'',
            ''-C'', ''/opt/ovn-certs/ca.crt'']
      else []) @ [''--timeout='' @ show_nat timeout] @ args"

definition trimOutput :: "string \<Rightarrow> string" where
  "trimOutput s = strings_Trim (strings_TrimSpace s) [CHR 0x22]"

definition RunOVNNbctlWithTimeout :: "env \<Rightarrow> nat \<Rightarrow> string list \<Rightarrow> (world, string \<times> string \<times> error option) prog" where
  "RunOVNNbctlWithTimeout E timeout args w =
     (case runner w of
        None \<Rightarrow> None
      | Some r \<Rightarrow> do {
          ((stdout, stderr, err), w) \<leftarrow> runOVNretry E (eh_nbctlPath r) (nbctlArgs r timeout args) w;
          Some ((trimOutput stdout, stderr, err), w)
        })"

definition ovsCommandTimeout :: nat where
  "ovsCommandTimeout = 15"

definition RunOVNNbctl :: "env \<Rightarrow> string list \<Rightarrow> (world, string \<times> string \<times> error option) prog" where
  "RunOVNNbctl E args = RunOVNNbctlWithTimeout E ovsCommandTimeout args"

definition RunIP :: "env \<Rightarrow> string list \<Rightarrow> (world, string \<times> string \<times> error option) prog" where
  "RunIP E args w =
     (case runner w of
        None \<Rightarrow> None
      | Some r \<Rightarrow> do {
          ((stdout, stderr, err), w) \<leftarrow> run E (eh_ipPath r) args w;
          Some ((strings_TrimSpace stdout, stderr, err), w)
        })"

definition RunOVSVsctl :: "env \<Rightarrow> string list \<Rightarrow> (world, string \<times> string \<times> error option) prog" where
  "RunOVSVsctl E args w =
     (case runner w of
        None \<Rightarrow> None
      | Some r \<Rightarrow> do {
          ((stdout, stderr, err), w) \<leftarrow> run E (eh_vsctlPath r) ([''--timeout='' @ show_nat ovsCommandTimeout] @ args) w;
          Some ((trimOutput stdout, stderr, err), w)
        })"

definition RunSysctl :: "env \<Rightarrow> string list \<Rightarrow> (world, string \<times> string \<times> error option) prog" where
  "RunSysctl E args = run E ''sysctl'' args"

text \<open>\<^verbatim>\<open>hash/fnv\<close>'s 64-bit FNV-1a on the bytes of the string, printed in decimal.\<close>

unbundle bit_operations_syntax

definition fnv64a :: "string \<Rightarrow> 64 word" where
  "fnv64a s = foldl (\<lambda>h c. (h XOR of_nat (of_char c)) * 1099511628211) 14695981039346656037 s"

definition Hash :: "string \<Rightarrow> string" where
  "Hash s = show_nat (unat (fnv64a s))"

section \<open>Runs that return\<close>

text \<open>
  Once the runner is set, a program built from commands always returns, and keeps the runner.
\<close>

definition runs :: "(world, 'a) prog \<Rightarrow> bool" where
  "runs m \<longleftrightarrow> (\<forall>w. runner w \<noteq> None \<longrightarrow> (\<exists>a w'. m w = Some (a, w') \<and> runner w' = runner w))"

named_theorems runs_intros \<open>rules for programs that return once the runner is set\<close>

lemma runsD: "runs m \<Longrightarrow> runner w \<noteq> None \<Longrightarrow> \<exists>a w'. m w = Some (a, w') \<and> runner w' = runner w"
  by (simp add: runs_def)

lemma runs_return [runs_intros]: "runs (\<lambda>w. Some (a, w))"
  by (simp add: runs_def)

lemma runs_request [runs_intros]: "runs (request e answer)"
  by (simp add: runs_def)

lemma runs_ask [runs_intros]: "runs (ask answer)"
  by (simp add: runs_def)

lemma runs_write [runs_intros]: "runs (kube_write E e)"
  by (simp add: kube_write_def runs_request)

lemma runs_bind [runs_intros]:
  assumes "runs m" and "\<And>a. runs (f a)"
  shows "runs (\<lambda>w. Option.bind (m w) (\<lambda>(a, w). f a w))"
  unfolding runs_def
proof (intro allI impI)
  fix w :: world
  assume w: "runner w \<noteq> None"
  with runsD [OF assms(1)] obtain a v where v: "m w = Some (a, v)" "runner v = runner w" by blast
  with w runsD [OF assms(2), of v a] show "\<exists>b w'. Option.bind (m w) (\<lambda>(a, w). f a w) = Some (b, w') \<and> runner w' = runner w"
    by auto
qed

lemma runs_bind2 [runs_intros]:
  assumes "runs m" and "\<And>a b. runs (f a b)"
  shows "runs (\<lambda>w. Option.bind (m w) (\<lambda>((a, b), w). f a b w))"
  using runs_bind [OF assms(1), of "\<lambda>p. f (fst p) (snd p)"] assms(2) by (simp add: split_def)

lemma runs_bind3 [runs_intros]:
  assumes "runs m" and "\<And>a b c. runs (f a b c)"
  shows "runs (\<lambda>w. Option.bind (m w) (\<lambda>((a, b, c), w). f a b c w))"
  using runs_bind [OF assms(1), of "\<lambda>p. f (fst p) (fst (snd p)) (snd (snd p))"] assms(2) by (simp add: split_def)

lemma runs_if [runs_intros]:
  "(b \<Longrightarrow> runs m) \<Longrightarrow> (\<not> b \<Longrightarrow> runs n) \<Longrightarrow> runs (\<lambda>w. if b then m w else n w)"
  by (simp add: runs_def)

lemma runs_case_option [runs_intros]:
  "(x = None \<Longrightarrow> runs m) \<Longrightarrow> (\<And>y. x = Some y \<Longrightarrow> runs (n y)) \<Longrightarrow>
     runs (\<lambda>w. case x of None \<Rightarrow> m w | Some y \<Rightarrow> n y w)"
  by (cases x) (simp_all add: runs_def)

lemma runs_case_sum [runs_intros]:
  "(\<And>y. x = Inl y \<Longrightarrow> runs (m y)) \<Longrightarrow> (\<And>y. x = Inr y \<Longrightarrow> runs (n y)) \<Longrightarrow>
     runs (\<lambda>w. case x of Inl y \<Rightarrow> m y w | Inr y \<Rightarrow> n y w)"
  by (cases x) (simp_all add: runs_def)

lemma runs_case_prod [runs_intros]:
  "(\<And>a b. x = (a, b) \<Longrightarrow> runs (m a b)) \<Longrightarrow> runs (\<lambda>w. case x of (a, b) \<Rightarrow> m a b w)"
  by (cases x) (simp add: runs_def)

lemma runs_case_list [runs_intros]:
  "(x = [] \<Longrightarrow> runs m) \<Longrightarrow> (\<And>y ys. x = y # ys \<Longrightarrow> runs (n y ys)) \<Longrightarrow>
     runs (\<lambda>w. case x of [] \<Rightarrow> m w | y # ys \<Rightarrow> n y ys w)"
  by (cases x) (simp_all add: runs_def)

lemma runs_let [runs_intros]: "runs (m x) \<Longrightarrow> runs (\<lambda>w. let y = x in m y w)"
  by (simp add: runs_def)

lemma runs_foreach [runs_intros]:
  "(\<And>x. x \<in> set xs \<Longrightarrow> runs (f x)) \<Longrightarrow> runs (foreach f xs)"
proof (induction xs)
  case Nil
  show ?case by (simp add: runs_def)
next
  case (Cons x xs)
  then have "runs (\<lambda>w. Option.bind (f x w) (\<lambda>(r, w).
      case r of None \<Rightarrow> foreach f xs w | Some e \<Rightarrow> Some (Some e, w)))"
    by (intro runs_intros) simp_all
  then show ?case by (simp add: runs_def)
qed

lemma runs_rangeM [runs_intros]:
  "(\<And>x s. x \<in> set xs \<Longrightarrow> runs (f x s)) \<Longrightarrow> runs (rangeM f xs s)"
proof (induction xs arbitrary: s)
  case Nil
  show ?case by (simp add: runs_def)
next
  case (Cons x xs)
  then have "runs (\<lambda>w. Option.bind (f x s w) (\<lambda>(r, w).
      case r of Inl s' \<Rightarrow> rangeM f xs s' w | Inr r' \<Rightarrow> Some (Inr r', w)))"
    by (intro runs_intros) simp_all
  then show ?case by (simp add: runs_def)
qed

lemma runs_forall [runs_intros]:
  "(\<And>x. x \<in> set xs \<Longrightarrow> runs (f x)) \<Longrightarrow> runs (forall f xs)"
proof (induction xs)
  case Nil
  show ?case by (simp add: runs_def)
next
  case (Cons x xs)
  then have "runs (\<lambda>w. Option.bind (f x w) (\<lambda>(r, w). forall f xs w))"
    by (intro runs_intros) simp_all
  then show ?case by (simp add: runs_def)
qed

lemma runs_runner:
  "(\<And>r. runs (m r)) \<Longrightarrow> runs (\<lambda>w. case runner w of None \<Rightarrow> None | Some r \<Rightarrow> m r w)"
  unfolding runs_def by (metis (no_types, lifting) option.case_eq_if option.collapse)

lemma emits_read: "(\<And>x. emits P (m x)) \<Longrightarrow> emits P (\<lambda>w. m (g w) w)"
  by (simp add: emits_def)

lemma emits_runner:
  "(\<And>r. emits P (m r)) \<Longrightarrow> emits P (\<lambda>w. case runner w of None \<Rightarrow> None | Some r \<Rightarrow> m r w)"
  by (auto simp: emits_def split: option.splits)

section \<open>The commands\<close>

lemma run_runs [runs_intros]: "runs (run E p args)"
  unfolding run_def [abs_def] by (intro runs_runner runs_intros)

lemma run_emits: "P (ExecCmd p args) \<Longrightarrow> emits P (run E p args)"
  unfolding run_def [abs_def] by (intro emits_runner emits_intros)

lemma retryLoop_runs: "runs (retryLoop E n p args)"
proof (induction n)
  case 0
  have "runs (\<lambda>w. Option.bind (run E p args w) (\<lambda>((stdout, stderr, err), w).
      if err = None then Some ((stdout, stderr, err), w)
      else if strings_Contains stderr ''Connection refused'' then Some ((stdout, stderr, err), w)
      else Some ((stdout, stderr, err), w)))"
    by (intro runs_intros)
  then show ?case by (subst retryLoop.simps [abs_def]) (simp only: nat.case)
next
  case (Suc n)
  have "runs (\<lambda>w. Option.bind (run E p args w) (\<lambda>((stdout, stderr, err), w).
      if err = None then Some ((stdout, stderr, err), w)
      else if strings_Contains stderr ''Connection refused'' then retryLoop E n p args w
      else Some ((stdout, stderr, err), w)))"
    by (intro runs_intros Suc)
  then show ?case by (subst retryLoop.simps [abs_def]) (simp only: nat.case)
qed

lemma RunOVNNbctl_runs [runs_intros]: "runs (RunOVNNbctl E args)"
  unfolding RunOVNNbctl_def RunOVNNbctlWithTimeout_def [abs_def] runOVNretry_def
  by (intro runs_runner runs_intros retryLoop_runs)

lemma RunIP_runs [runs_intros]: "runs (RunIP E args)"
  unfolding RunIP_def [abs_def] by (intro runs_runner runs_intros)

lemma RunOVSVsctl_runs [runs_intros]: "runs (RunOVSVsctl E args)"
  unfolding RunOVSVsctl_def [abs_def] by (intro runs_runner runs_intros)

text \<open>The requests the three tools give rise to.\<close>

definition nbctl :: "string list \<Rightarrow> event \<Rightarrow> bool" where
  "nbctl args e \<longleftrightarrow> (\<exists>r. e = ExecCmd (eh_nbctlPath r) (nbctlArgs r ovsCommandTimeout args))"

definition vsctl :: "string list \<Rightarrow> event \<Rightarrow> bool" where
  "vsctl args e \<longleftrightarrow> (\<exists>p. e = ExecCmd p ([''--timeout='' @ show_nat ovsCommandTimeout] @ args))"

definition ipcmd :: "string list \<Rightarrow> event \<Rightarrow> bool" where
  "ipcmd args e \<longleftrightarrow> (\<exists>p. e = ExecCmd p args)"

definition any_nbctl :: "event \<Rightarrow> bool" where
  "any_nbctl e \<longleftrightarrow> (\<exists>args. nbctl args e)"

definition any_vsctl :: "event \<Rightarrow> bool" where
  "any_vsctl e \<longleftrightarrow> (\<exists>args. vsctl args e)"

lemma retryLoop_emits: "emits (\<lambda>e. e = ExecCmd p args) (retryLoop E n p args)"
proof (induction n)
  case 0
  have "emits (\<lambda>e. e = ExecCmd p args) (\<lambda>w. Option.bind (run E p args w) (\<lambda>((stdout, stderr, err), w).
      if err = None then Some ((stdout, stderr, err), w)
      else if strings_Contains stderr ''Connection refused'' then Some ((stdout, stderr, err), w)
      else Some ((stdout, stderr, err), w)))"
    by (intro emits_intros run_emits) simp
  then show ?case by (subst retryLoop.simps [abs_def]) (simp only: nat.case)
next
  case (Suc n)
  have "emits (\<lambda>e. e = ExecCmd p args) (\<lambda>w. Option.bind (run E p args w) (\<lambda>((stdout, stderr, err), w).
      if err = None then Some ((stdout, stderr, err), w)
      else if strings_Contains stderr ''Connection refused'' then retryLoop E n p args w
      else Some ((stdout, stderr, err), w)))"
    by (intro emits_intros run_emits Suc) simp
  then show ?case by (subst retryLoop.simps [abs_def]) (simp only: nat.case)
qed

lemma RunOVNNbctl_nbctl: "emits (nbctl args) (RunOVNNbctl E args)"
  unfolding RunOVNNbctl_def RunOVNNbctlWithTimeout_def [abs_def] runOVNretry_def
  by (intro emits_runner emits_intros emits_mono [OF retryLoop_emits]) (auto simp: nbctl_def)

lemma RunOVNNbctl_emits [emits_intros]:
  "(\<And>e. nbctl args e \<Longrightarrow> P e) \<Longrightarrow> emits P (RunOVNNbctl E args)"
  by (rule emits_mono [OF RunOVNNbctl_nbctl])

lemma RunIP_emits [emits_intros]: "(\<And>e. ipcmd args e \<Longrightarrow> P e) \<Longrightarrow> emits P (RunIP E args)"
  unfolding RunIP_def [abs_def] by (intro emits_runner emits_intros run_emits) (auto simp: ipcmd_def)

lemma RunOVSVsctl_emits [emits_intros]: "(\<And>e. vsctl args e \<Longrightarrow> P e) \<Longrightarrow> emits P (RunOVSVsctl E args)"
  unfolding RunOVSVsctl_def [abs_def] by (intro emits_runner emits_intros run_emits) (auto simp: vsctl_def)

interpretation nbctl_cmd: requests_only any_nbctl "RunOVNNbctl E"
  by unfold_locales (intro emits_intros, auto simp: any_nbctl_def)

interpretation vsctl_cmd: requests_only any_vsctl "RunOVSVsctl E"
  by unfold_locales (intro emits_intros, auto simp: any_vsctl_def)

section \<open>Retries\<close>

definition refused :: "string \<times> string \<times> error option \<Rightarrow> bool" where
  "refused r \<longleftrightarrow> snd (snd r) \<noteq> None \<and> strings_Contains (fst (snd r)) ''Connection refused''"

lemma retryLoop_spec:
  assumes "runner w \<noteq> None"
  shows "\<exists>k \<le> n. retryLoop E n p args w =
       Some (env_exec E (trace w @ replicate k (ExecCmd p args)) p args,
             w\<lparr>trace := trace w @ replicate (Suc k) (ExecCmd p args)\<rparr>) \<and>
     (\<forall>j < k. refused (env_exec E (trace w @ replicate j (ExecCmd p args)) p args)) \<and>
     (k < n \<longrightarrow> \<not> refused (env_exec E (trace w @ replicate k (ExecCmd p args)) p args))"
  using assms
proof (induction n arbitrary: w)
  case 0
  obtain a b c where "env_exec E (trace w) p args = (a, b, c)" by (metis prod_cases3)
  with 0 show ?case by (auto simp: retryLoop.simps [of E 0] run_def)
next
  case (Suc n)
  let ?e = "ExecCmd p args" and ?w = "w\<lparr>trace := trace w @ [ExecCmd p args]\<rparr>"
  obtain a b c where abc: "env_exec E (trace w) p args = (a, b, c)" by (metis prod_cases3)
  show ?case
  proof (cases "refused (a, b, c)")
    case False
    with Suc.prems abc have "retryLoop E (Suc n) p args w = Some ((a, b, c), ?w)"
      by (auto simp: retryLoop.simps [of E "Suc n"] run_def refused_def)
    with abc False show ?thesis by (intro exI [of _ 0]) simp
  next
    case True
    with Suc.prems abc have step: "retryLoop E (Suc n) p args w = retryLoop E n p args ?w"
      by (auto simp: retryLoop.simps [of E "Suc n"] run_def refused_def)
    have "runner ?w \<noteq> None" using Suc.prems by simp
    from Suc.IH [OF this] obtain k where k: "k \<le> n"
      "retryLoop E n p args ?w = Some (env_exec E (trace w @ replicate (Suc k) ?e) p args,
         w\<lparr>trace := trace w @ replicate (Suc (Suc k)) ?e\<rparr>)"
      "\<forall>j < k. refused (env_exec E (trace w @ replicate (Suc j) ?e) p args)"
      "k < n \<longrightarrow> \<not> refused (env_exec E (trace w @ replicate (Suc k) ?e) p args)" by auto
    have "\<forall>j < Suc k. refused (env_exec E (trace w @ replicate j ?e) p args)"
      using k(3) True abc by (auto simp: less_Suc_eq_0_disj)
    with k step show ?thesis by (intro exI [of _ "Suc k"]) auto
  qed
qed

section \<open>Programs that only make requests\<close>

lemma SetExec_runner:
  assumes "SetExec E w = Some (None, w')"
  shows "\<exists>r. w' = w\<lparr>runner := Some r\<rparr> \<and> env_LookPath E ''ovn-nbctl'' = Inr (eh_nbctlPath r) \<and>
     env_LookPath E ''ovs-vsctl'' = Inr (eh_vsctlPath r) \<and> env_LookPath E ''ip'' = Inr (eh_ipPath r)"
  using assms by (auto simp: SetExec_def Let_def split: sum.splits)

text \<open>Everything but the history is left alone.\<close>

definition frame :: "(world, 'a) prog \<Rightarrow> bool" where
  "frame m \<longleftrightarrow> (\<forall>w a w'. m w = Some (a, w') \<longrightarrow> w' = w\<lparr>trace := trace w'\<rparr>)"

named_theorems frame_intros \<open>rules for programs that only make requests\<close>

lemma frameD: "frame m \<Longrightarrow> m w = Some (a, w') \<Longrightarrow> w' = w\<lparr>trace := trace w'\<rparr>"
  unfolding frame_def by blast

lemma frame_fields:
  assumes "frame m" and "m w = Some (a, w')"
  shows "runner w' = runner w" "ovnConf w' = ovnConf w" "gatewayCache w' = gatewayCache w" "clientList w' = clientList w"
    "inSync w' = inSync w" "pnCreateStore w' = pnCreateStore w"
  by (subst frameD [OF assms], simp)+

lemma frame_return [frame_intros]: "frame (\<lambda>w. Some (a, w))"
  by (simp add: frame_def)

lemma frame_panic [frame_intros]: "frame (\<lambda>w. None)"
  by (simp add: frame_def)

lemma frame_request [frame_intros]: "frame (request e answer)"
  by (simp add: frame_def)

lemma frame_ask [frame_intros]: "frame (ask answer)"
  by (simp add: frame_def)

lemma frame_write [frame_intros]: "frame (kube_write E e)"
  by (simp add: kube_write_def frame_request)

lemma frame_bind [frame_intros]:
  assumes "frame m" and "\<And>a. frame (f a)"
  shows "frame (\<lambda>w. Option.bind (m w) (\<lambda>(a, w). f a w))"
  unfolding frame_def
proof (intro allI impI)
  fix w b w'
  assume "Option.bind (m w) (\<lambda>(a, w). f a w) = Some (b, w')"
  then obtain a v where m: "m w = Some (a, v)" and f: "f a v = Some (b, w')" by (auto simp: run_conv)
  have "w' = v\<lparr>trace := trace w'\<rparr>" "v = w\<lparr>trace := trace v\<rparr>" by (rule frameD [OF assms(2) f], rule frameD [OF assms(1) m])
  then show "w' = w\<lparr>trace := trace w'\<rparr>" by (metis world.update_convs(1) world.surjective)
qed

lemma frame_bind2 [frame_intros]:
  assumes "frame m" and "\<And>a b. frame (f a b)"
  shows "frame (\<lambda>w. Option.bind (m w) (\<lambda>((a, b), w). f a b w))"
  using frame_bind [OF assms(1), of "\<lambda>p. f (fst p) (snd p)"] assms(2) by (simp add: split_def)

lemma frame_bind3 [frame_intros]:
  assumes "frame m" and "\<And>a b c. frame (f a b c)"
  shows "frame (\<lambda>w. Option.bind (m w) (\<lambda>((a, b, c), w). f a b c w))"
  using frame_bind [OF assms(1), of "\<lambda>p. f (fst p) (fst (snd p)) (snd (snd p))"] assms(2) by (simp add: split_def)

lemma frame_if [frame_intros]: "frame m \<Longrightarrow> frame n \<Longrightarrow> frame (\<lambda>w. if b then m w else n w)"
  by (simp add: frame_def)

lemma frame_case_option [frame_intros]:
  "frame m \<Longrightarrow> (\<And>y. frame (n y)) \<Longrightarrow> frame (\<lambda>w. case x of None \<Rightarrow> m w | Some y \<Rightarrow> n y w)"
  by (cases x) simp_all

lemma frame_case_sum [frame_intros]:
  "(\<And>y. frame (m y)) \<Longrightarrow> (\<And>y. frame (n y)) \<Longrightarrow> frame (\<lambda>w. case x of Inl y \<Rightarrow> m y w | Inr y \<Rightarrow> n y w)"
  by (cases x) simp_all

lemma frame_case_prod [frame_intros]: "(\<And>a b. frame (m a b)) \<Longrightarrow> frame (\<lambda>w. case x of (a, b) \<Rightarrow> m a b w)"
  by (cases x) simp

lemma frame_case_list [frame_intros]:
  "frame m \<Longrightarrow> (\<And>y ys. frame (n y ys)) \<Longrightarrow> frame (\<lambda>w. case x of [] \<Rightarrow> m w | y # ys \<Rightarrow> n y ys w)"
  by (cases x) simp_all

lemma frame_let [frame_intros]: "frame (m x) \<Longrightarrow> frame (\<lambda>w. let y = x in m y w)"
  by simp

lemma frame_option_bind [frame_intros]: "(\<And>x. y = Some x \<Longrightarrow> frame (f x)) \<Longrightarrow> frame (\<lambda>w. Option.bind y (\<lambda>x. f x w))"
  by (cases y) (simp_all add: frame_def)

lemma frame_rangeM [frame_intros]: "(\<And>x s. frame (f x s)) \<Longrightarrow> frame (rangeM f xs s)"
proof (induction xs arbitrary: s)
  case Nil
  show ?case by (simp add: frame_def)
next
  case (Cons x xs)
  then have "frame (\<lambda>w. Option.bind (f x s w) (\<lambda>(r, w).
      case r of Inl s' \<Rightarrow> rangeM f xs s' w | Inr r' \<Rightarrow> Some (Inr r', w)))"
    by (intro frame_intros) simp_all
  then show ?case by (simp add: frame_def)
qed

lemma frame_foreach [frame_intros]: "(\<And>x. frame (f x)) \<Longrightarrow> frame (foreach f xs)"
proof (induction xs)
  case Nil
  show ?case by (simp add: frame_def)
next
  case (Cons x xs)
  then have "frame (\<lambda>w. Option.bind (f x w) (\<lambda>(r, w). case r of None \<Rightarrow> foreach f xs w | Some e \<Rightarrow> Some (Some e, w)))"
    by (intro frame_intros) simp_all
  then show ?case by (simp add: frame_def)
qed

lemma frame_forall [frame_intros]: "(\<And>x. frame (f x)) \<Longrightarrow> frame (forall f xs)"
proof (induction xs)
  case Nil
  show ?case by (simp add: frame_def)
next
  case (Cons x xs)
  then have "frame (\<lambda>w. Option.bind (f x w) (\<lambda>(r, w). forall f xs w))"
    by (intro frame_intros) simp_all
  then show ?case by (simp add: frame_def)
qed

lemma frame_read: "(\<And>x. frame (m x)) \<Longrightarrow> frame (\<lambda>w. m (g w) w)"
  by (simp add: frame_def)

lemma frame_runner: "(\<And>r. frame (m r)) \<Longrightarrow> frame (\<lambda>w. case runner w of None \<Rightarrow> None | Some r \<Rightarrow> m r w)"
  by (auto simp: frame_def split: option.splits)

lemma run_frame [frame_intros]: "frame (run E p args)"
  unfolding run_def [abs_def] by (intro frame_runner frame_intros)

lemma retryLoop_frame: "frame (retryLoop E n p args)"
proof (induction n)
  case 0
  have "frame (\<lambda>w. Option.bind (run E p args w) (\<lambda>((stdout, stderr, err), w).
      if err = None then Some ((stdout, stderr, err), w)
      else if strings_Contains stderr ''Connection refused'' then Some ((stdout, stderr, err), w)
      else Some ((stdout, stderr, err), w)))"
    by (intro frame_intros)
  then show ?case by (subst retryLoop.simps [abs_def]) (simp only: nat.case)
next
  case (Suc n)
  have "frame (\<lambda>w. Option.bind (run E p args w) (\<lambda>((stdout, stderr, err), w).
      if err = None then Some ((stdout, stderr, err), w)
      else if strings_Contains stderr ''Connection refused'' then retryLoop E n p args w
      else Some ((stdout, stderr, err), w)))"
    by (intro frame_intros Suc)
  then show ?case by (subst retryLoop.simps [abs_def]) (simp only: nat.case)
qed

lemma RunOVNNbctl_frame [frame_intros]: "frame (RunOVNNbctl E args)"
  unfolding RunOVNNbctl_def RunOVNNbctlWithTimeout_def [abs_def] runOVNretry_def
  by (intro frame_runner frame_intros retryLoop_frame)

lemma RunIP_frame [frame_intros]: "frame (RunIP E args)"
  unfolding RunIP_def [abs_def] by (intro frame_runner frame_intros)

lemma RunOVSVsctl_frame [frame_intros]: "frame (RunOVSVsctl E args)"
  unfolding RunOVSVsctl_def [abs_def] by (intro frame_runner frame_intros)

text \<open>A command that returned was sent at least once.\<close>

lemma nbctl_sent:
  assumes "RunOVNNbctl E args w = Some (r, w')"
  shows "\<exists>e \<in> set (new_events w w'). nbctl args e"
proof -
  obtain h where h: "runner w = Some h" using assms
    by (cases "runner w") (simp_all add: RunOVNNbctl_def RunOVNNbctlWithTimeout_def)
  let ?e = "ExecCmd (eh_nbctlPath h) (nbctlArgs h ovsCommandTimeout args)"
  have "runner w \<noteq> None" using h by simp
  from retryLoop_spec [OF this, of 200 E "eh_nbctlPath h" "nbctlArgs h ovsCommandTimeout args"]
  obtain k o' where k: "retryLoop E 200 (eh_nbctlPath h) (nbctlArgs h ovsCommandTimeout args) w =
      Some (o', w\<lparr>trace := trace w @ replicate (Suc k) ?e\<rparr>)" by blast
  with assms h have "trace w' = trace w @ replicate (Suc k) ?e"
    by (auto simp: RunOVNNbctl_def RunOVNNbctlWithTimeout_def runOVNretry_def run_conv split: prod.splits)
  then show ?thesis by (auto simp: new_events_def nbctl_def)
qed

lemma nbctl_last: "nbctl (xs @ [x]) e \<Longrightarrow> nbctl (ys @ [y]) e \<Longrightarrow> x = y"
  by (auto simp: nbctl_def nbctlArgs_def split: if_splits)

section \<open>Properties\<close>

text \<open>
  C8.  A command that is refused a connection is sent again, the same each time, and nothing else
  is: once the runner is set the call always returns, after at most 200 repetitions, with the
  answer to the last one sent, and it stops earlier only when the answer is not a refusal.
\<close>

theorem runOVNretry_bounded:
  assumes "runner w \<noteq> None"
  shows "\<exists>k \<le> 200. runOVNretry E p args w =
       Some (env_exec E (trace w @ replicate k (ExecCmd p args)) p args,
             w\<lparr>trace := trace w @ replicate (Suc k) (ExecCmd p args)\<rparr>) \<and>
     (\<forall>j < k. refused (env_exec E (trace w @ replicate j (ExecCmd p args)) p args)) \<and>
     (k < 200 \<longrightarrow> \<not> refused (env_exec E (trace w @ replicate k (ExecCmd p args)) p args))"
  unfolding runOVNretry_def by (rule retryLoop_spec [OF assms])

definition exec_world :: world where
  "exec_world = init_world\<lparr>runner := Some \<lparr>eh_nbctlPath = ''nbctl'', eh_vsctlPath = ''vsctl'', eh_ipPath = ''ip'',
     eh_hostIP = [], eh_hostPort = ''6641''\<rparr>\<rparr>"

text \<open>A service that refuses the first two connections.\<close>

theorem runOVNretry_bounded_witness:
  "\<exists>k \<le> 200. runOVNretry (null_env\<lparr>env_exec := (\<lambda>h c args. if length h < 2
       then ([], ''Connection refused'', Some (ExtErr [])) else (''ok'', [], None))\<rparr>) ''nbctl'' [''show''] exec_world =
     Some ((''ok'', [], None), exec_world\<lparr>trace := replicate (Suc k) (ExecCmd ''nbctl'' [''show''])\<rparr>)"
proof -
  let ?E = "null_env\<lparr>env_exec := (\<lambda>h c args. if length h < 2
       then ([], ''Connection refused'', Some (ExtErr [])) else (''ok'', [], None))\<rparr>"
  have r: "runner exec_world \<noteq> None" and t: "trace exec_world = []" by (simp_all add: exec_world_def init_world_def)
  from runOVNretry_bounded [OF r, of ?E "''nbctl''" "[''show'']"] obtain k where k: "k \<le> 200"
    "runOVNretry ?E ''nbctl'' [''show''] exec_world = Some (env_exec ?E (replicate k (ExecCmd ''nbctl'' [''show''])) ''nbctl'' [''show''],
       exec_world\<lparr>trace := replicate (Suc k) (ExecCmd ''nbctl'' [''show''])\<rparr>)"
    "k < 200 \<longrightarrow> \<not> refused (env_exec ?E (replicate k (ExecCmd ''nbctl'' [''show''])) ''nbctl'' [''show''])"
    unfolding t append_Nil by blast
  have "\<not> k < 2" using k(3) by (auto simp: refused_def)
  with k show ?thesis by auto
qed

lemma Hash_digits: "c \<in> set (Hash s) \<Longrightarrow> is_digit c"
  by (simp add: Hash_def show_nat_digits)

lemma Hash_length: "length (Hash s) \<le> 20"
proof -
  have "unat (fnv64a s) < 10 ^ 20" 
    using unsigned_less [of "fnv64a s", where 'a = nat] by simp
  then show ?thesis unfolding Hash_def by (rule show_nat_length) simp
qed

lemma Hash_ne: "Hash s \<noteq> []"
  by (simp add: Hash_def)

end
