(* ===== verification/Host_Network.thy ===== *)
theory Host_Network
  imports Ovn_Exec
begin

text \<open>
  \<^verbatim>\<open>internal/pkg/network/iface.go\<close> and \<^verbatim>\<open>iptables.go\<close>: the routes and addresses of
  a network namespace, read over netlink, and the packet filter rules of the node.  Netlink and
  iptables are the environment; the theory states what iptables documents about its rules and
  shows what the rule setup achieves then.
\<close>

section \<open>Routes\<close>

definition netlink_RouteList :: "env \<Rightarrow> (world, error + nlRoute list) prog" where
  "netlink_RouteList E = request RouteList (env_routeList E)"

text \<open>\<^verbatim>\<open>route.Gw.To4()\<close>, \<open>[]\<close> for nil.\<close>

definition gw4 :: "nlRoute \<Rightarrow> IP" where
  "gw4 r = (case IP_To4 (nl_Gw r) of Some p \<Rightarrow> p | None \<Rightarrow> [])"

fun gatewayOf :: "string \<Rightarrow> nlRoute list \<Rightarrow> error + string" where
  "gatewayOf dst [] = Inl (Errorf (''Unable to find gw for route dst -'' @ dst))"
| "gatewayOf dst (r # rs) =
     (case nl_Dst r of
        None \<Rightarrow> gatewayOf dst rs
      | Some d \<Rightarrow>
          if IPNet_String d = dst then
            (if gw4 r = [] then Inl (Errorf ''Found dst route but could not determine gateway'') else Inr (IP_String (gw4 r)))
          else gatewayOf dst rs)"

definition GetGatewayInterface :: "env \<Rightarrow> string \<Rightarrow> (world, error + string) prog" where
  "GetGatewayInterface E dst w = do {
     (r, w) \<leftarrow> netlink_RouteList E w;
     (case r of Inl e \<Rightarrow> Some (Inl e, w) | Inr routes \<Rightarrow> Some (gatewayOf dst routes, w))
   }"

fun routeExists :: "string \<Rightarrow> string \<Rightarrow> nlRoute list \<Rightarrow> bool" where
  "routeExists dst gw [] = False"
| "routeExists dst gw (r # rs) =
     (case nl_Dst r of
        None \<Rightarrow> routeExists dst gw rs
      | Some d \<Rightarrow>
          if IPNet_String d = dst then
            (if gw4 r = [] then False else if IP_String (nl_Gw r) = gw then True else routeExists dst gw rs)
          else routeExists dst gw rs)"

definition IsRouteExist :: "env \<Rightarrow> string \<Rightarrow> string \<Rightarrow> (world, error + bool) prog" where
  "IsRouteExist E dst gw w = do {
     (r, w) \<leftarrow> netlink_RouteList E w;
     (case r of Inl e \<Rightarrow> Some (Inl e, w) | Inr routes \<Rightarrow> Some (Inr (routeExists dst gw routes), w))
   }"

definition is_default :: "nlRoute \<Rightarrow> bool" where
  "is_default r = (case nl_Dst r of None \<Rightarrow> True | Some d \<Rightarrow> IPNet_String d = ''0.0.0.0/0'')"

definition GetDefaultGateway :: "env \<Rightarrow> (world, error + string) prog" where
  "GetDefaultGateway E w = do {
     (r, w) \<leftarrow> netlink_RouteList E w;
     (case r of
        Inl e \<Rightarrow> Some (Inl e, w)
      | Inr routes \<Rightarrow> Some (case find is_default routes of
            None \<Rightarrow> Inl (Errorf ''Unable to find default route'')
          | Some r \<Rightarrow> if gw4 r = [] then Inl (Errorf ''Found default route but could not determine gateway'')
              else Inr (IP_String (gw4 r)), w))
   }"

text \<open>\<^verbatim>\<open>CheckRoute\<close> prints the destination of every route: a nil destination panics.\<close>

fun checkRoutes :: "string \<Rightarrow> string \<Rightarrow> bool \<Rightarrow> nlRoute list \<Rightarrow> bool option" where
  "checkRoutes dst gw isPresent [] = Some isPresent"
| "checkRoutes dst gw isPresent (r # rs) =
     (case nl_Dst r of
        None \<Rightarrow> None
      | Some d \<Rightarrow> checkRoutes dst gw (if IPNet_String d = dst \<and> IP_String (gw4 r) = gw then True else isPresent) rs)"

definition CheckRoute :: "env \<Rightarrow> string \<Rightarrow> string \<Rightarrow> (world, error + bool) prog" where
  "CheckRoute E dst gw w = do {
     (r, w) \<leftarrow> netlink_RouteList E w;
     (case r of
        Inl e \<Rightarrow> Some (Inl e, w)
      | Inr routes \<Rightarrow> do { b \<leftarrow> checkRoutes dst gw False routes; Some (Inr b, w) })
   }"

section \<open>The host network\<close>

text \<open>An interface is its index.\<close>

definition GetDefaultGatewayInterface :: "env \<Rightarrow> (world, error + int) prog" where
  "GetDefaultGatewayInterface E w = do {
     (r, w) \<leftarrow> netlink_RouteList E w;
     (case r of
        Inl e \<Rightarrow> Some (Inl e, w)
      | Inr routes \<Rightarrow>
          (case find is_default routes of
             None \<Rightarrow> Some (Inl (Errorf ''Unable to find default route''), w)
           | Some r \<Rightarrow>
               if nl_LinkIndex r \<le> 0 then Some (Inl (Errorf ''Found default route but could not determine interface''), w)
               else do {
                 (e, w) \<leftarrow> ask (\<lambda>h. env_ifaceByIndex E h (nl_LinkIndex r)) w;
                 (case e of Some e \<Rightarrow> Some (Inl e, w) | None \<Rightarrow> Some (Inr (nl_LinkIndex r), w)) }))
   }"

definition getIfaceAddrs :: "env \<Rightarrow> int \<Rightarrow> (world, error + IPNet list) prog" where
  "getIfaceAddrs E iface = request (AddrList iface) (\<lambda>h. env_addrList E h iface)"

text \<open>
  The loop over the addresses; \<open>ll\<close> is the last link-local address seen.  The zero
  \<^verbatim>\<open>netlink.Addr\<close> has a nil \<^verbatim>\<open>IPNet\<close>, so reading the address of an \<open>ll\<close> that was
  never assigned panics: the error after it is never returned for want of an address.
\<close>

fun pickIP4Addr :: "IPNet option \<Rightarrow> IPNet list \<Rightarrow> (error + IPNet) option" where
  "pickIP4Addr ll [] =
     (case ll of
        None \<Rightarrow> None
      | Some a \<Rightarrow> Some (if IP_To4 (ipn_IP a) \<noteq> None then Inr a else Inl (Errorf ''No IPv4 address found for given interface'')))"
| "pickIP4Addr ll (addr # addrs) =
     (if IP_To4 (ipn_IP addr) = None then pickIP4Addr ll addrs
      else if IP_IsGlobalUnicast (ipn_IP addr) then Some (Inr addr)
      else pickIP4Addr (if IP_IsLinkLocalUnicast (ipn_IP addr) then Some addr else ll) addrs)"

definition GetInterfaceIP4Addr :: "env \<Rightarrow> int \<Rightarrow> (world, error + IPNet) prog" where
  "GetInterfaceIP4Addr E iface w = do {
     (r, w) \<leftarrow> getIfaceAddrs E iface w;
     (case r of Inl e \<Rightarrow> Some (Inl e, w) | Inr addrs \<Rightarrow> do { r \<leftarrow> pickIP4Addr None addrs; Some (r, w) })
   }"

definition GetHostNetwork :: "env \<Rightarrow> (world, error + string) prog" where
  "GetHostNetwork E w = do {
     (r, w) \<leftarrow> GetDefaultGatewayInterface E w;
     (case r of Inl e \<Rightarrow> Some (Inl e, w) | Inr iface \<Rightarrow> do {
     (r, w) \<leftarrow> GetInterfaceIP4Addr E iface w;
     (case r of Inl e \<Rightarrow> Some (Inl e, w) | Inr ipv4addr \<Rightarrow>
     (case net_ParseCIDR (IPNet_String ipv4addr) of
        Inl e \<Rightarrow> Some (Inl e, w)
      | Inr (ip, ipv4Net) \<Rightarrow> Some (Inr (IPNet_String ipv4Net), w))) })
   }"

section \<open>Packet filter rules\<close>

definition rule :: "string \<Rightarrow> string \<Rightarrow> string list \<Rightarrow> IPTablesRule" where
  "rule t c spec = \<lparr>ipt_table = t, ipt_chain = c, ipt_rulespec = spec\<rparr>"

definition MasqRules :: "env \<Rightarrow> string \<Rightarrow> IPTablesRule list \<times> IPTablesRule list" where
  "MasqRules E ifname =
     (let subnet = env_Getenv E ''OVN_SUBNET''; subnetV6 = env_Getenv E ''OVN_SUBNET_V6''
      in (if subnet \<noteq> [] then
            [rule ''nat'' ''POSTROUTING'' [''-o'', ifname, ''-j'', ''MASQUERADE''],
             rule ''nat'' ''POSTROUTING'' [''-s'', subnet, ''!'', ''-d'', ''224.0.0.0/4'', ''-j'', ''MASQUERADE'']]
          else [],
          if subnetV6 \<noteq> [] then
            [rule ''nat'' ''POSTROUTING'' [''-o'', ifname, ''-j'', ''MASQUERADE''],
             rule ''nat'' ''POSTROUTING'' [''-s'', subnet, ''!'', ''-d'', ''ff00::/8'', ''-j'', ''MASQUERADE'']]
          else []))"

definition acceptPort :: "string \<Rightarrow> string \<Rightarrow> IPTablesRule" where
  "acceptPort proto port = rule ''filter'' ''INPUT'' [''-p'', proto, ''-m'', proto, ''--dport'', port, ''-j'', ''ACCEPT'']"

definition FilterRules :: "IPTablesRule list \<times> IPTablesRule list" where
  "FilterRules =
     (let rules = concat (map (\<lambda>port. [acceptPort ''tcp'' port, acceptPort ''udp'' port]) [''6081'', ''6641'', ''6642'', ''8080'', ''50000''])
      in (rules, rules))"

definition ForwardRules :: "string \<Rightarrow> IPTablesRule list" where
  "ForwardRules ovnNetwork =
     [rule ''filter'' ''FORWARD'' [''-s'', ovnNetwork, ''-j'', ''ACCEPT''],
      rule ''filter'' ''FORWARD'' [''-d'', ovnNetwork, ''-j'', ''ACCEPT'']]"

definition ipt_Exists :: "env \<Rightarrow> Protocol \<Rightarrow> IPTablesRule \<Rightarrow> (world, error + bool) prog" where
  "ipt_Exists E p r = request (Iptables (IptExists p r)) (\<lambda>h. env_iptExists E h p r)"

definition ipt_change :: "env \<Rightarrow> iptop \<Rightarrow> (world, error option) prog" where
  "ipt_change E c = request (Iptables c) (\<lambda>h. env_iptChange E h c)"

fun ipTablesRulesExist :: "env \<Rightarrow> Protocol \<Rightarrow> IPTablesRule list \<Rightarrow> (world, error + bool) prog" where
  "ipTablesRulesExist E p [] w = Some (Inr True, w)"
| "ipTablesRulesExist E p (r # rs) w = do {
     (x, w) \<leftarrow> ipt_Exists E p r w;
     (case x of
        Inl e \<Rightarrow> Some (Inl (Errorf (''failed to check rule existence: '' @ error_msg e)), w)
      | Inr exists \<Rightarrow> if \<not> exists then Some (Inr False, w) else ipTablesRulesExist E p rs w)
   }"

definition setupIPTables :: "env \<Rightarrow> Protocol \<Rightarrow> IPTablesRule list \<Rightarrow> (world, error option) prog" where
  "setupIPTables E p = foreach (\<lambda>r w. do {
     (err, w) \<leftarrow> ipt_change E (IptAppendUnique p r) w;
     Some (map_option (\<lambda>e. Errorf (''failed to insert IPTables rule: '' @ error_msg e)) err, w) })"

definition teardownIPTables :: "env \<Rightarrow> Protocol \<Rightarrow> IPTablesRule list \<Rightarrow> (world, unit) prog" where
  "teardownIPTables E p = forall (\<lambda>r. ipt_change E (IptDelete p r))"

definition ensureIPTables :: "env \<Rightarrow> Protocol \<Rightarrow> IPTablesRule list \<Rightarrow> (world, error option) prog" where
  "ensureIPTables E p rules w = do {
     (x, w) \<leftarrow> ipTablesRulesExist E p rules w;
     (case x of
        Inl e \<Rightarrow> Some (Some (Errorf (''Error checking rule existence: '' @ error_msg e)), w)
      | Inr exists \<Rightarrow>
          if exists then Some (None, w)
          else do {
            (u, w) \<leftarrow> teardownIPTables E p rules w;
            (err, w) \<leftarrow> setupIPTables E p rules w;
            Some (map_option (\<lambda>e. Errorf (''Error setting up rules: '' @ error_msg e)) err, w) })
   }"

definition SetupAndEnsureIPTables :: "env \<Rightarrow> IPTablesRule list \<Rightarrow> Protocol \<Rightarrow> (world, error option) prog" where
  "SetupAndEnsureIPTables E rules p w = do {
     (err, w) \<leftarrow> ask (\<lambda>h. env_newIPTables E h p) w;
     (case err of Some e \<Rightarrow> Some (Some e, w) | None \<Rightarrow> ensureIPTables E p rules w)
   }"

definition DeleteIPTables :: "env \<Rightarrow> IPTablesRule list \<Rightarrow> (world, error option) prog" where
  "DeleteIPTables E rules w = do {
     (err, w) \<leftarrow> ask (\<lambda>h. env_newIPTables E h ProtocolIPv4) w;
     (case err of
        Some e \<Rightarrow> Some (Some e, w)
      | None \<Rightarrow> do { (u, w) \<leftarrow> teardownIPTables E ProtocolIPv4 rules w; Some (None, w) })
   }"

section \<open>Which address the host network is taken from\<close>

definition global4 :: "IPNet \<Rightarrow> bool" where
  "global4 a \<longleftrightarrow> IP_To4 (ipn_IP a) \<noteq> None \<and> IP_IsGlobalUnicast (ipn_IP a)"

definition linklocal4 :: "IPNet \<Rightarrow> bool" where
  "linklocal4 a \<longleftrightarrow> IP_To4 (ipn_IP a) \<noteq> None \<and> IP_IsLinkLocalUnicast (ipn_IP a)"

lemma global_not_linklocal: "global4 a \<Longrightarrow> \<not> linklocal4 a"
  by (simp add: global4_def linklocal4_def IP_IsGlobalUnicast_def)

lemma pickIP4Addr_Cons:
  "pickIP4Addr ll (a # addrs) = (if global4 a then Some (Inr a) else pickIP4Addr (if linklocal4 a then Some a else ll) addrs)"
  by (auto simp: global4_def linklocal4_def)

lemma pickIP4Addr_ref:
  assumes "\<And>a. ll = Some a \<Longrightarrow> linklocal4 a"
  shows "pickIP4Addr ll addrs =
     (case find global4 addrs of
        Some a \<Rightarrow> Some (Inr a)
      | None \<Rightarrow> if filter linklocal4 addrs = [] then map_option Inr ll else Some (Inr (last (filter linklocal4 addrs))))"
  using assms
proof (induction addrs arbitrary: ll)
  case Nil
  then show ?case by (cases ll) (auto simp: linklocal4_def)
next
  case (Cons a addrs)
  have "pickIP4Addr (if linklocal4 a then Some a else ll) addrs =
     (case find global4 addrs of
        Some a \<Rightarrow> Some (Inr a)
      | None \<Rightarrow> if filter linklocal4 addrs = [] then map_option Inr (if linklocal4 a then Some a else ll)
          else Some (Inr (last (filter linklocal4 addrs))))"
    by (rule Cons.IH) (use Cons.prems in \<open>auto split: if_splits\<close>)
  then show ?case
    by (auto simp: pickIP4Addr_Cons simp del: pickIP4Addr.simps dest: global_not_linklocal split: option.splits)
qed

text \<open>
  The address chosen for an interface: the first global unicast IPv4 address; failing that
  the last link-local one; and when the interface has neither, the process panics, so that the
  error meant for this case is never seen.
\<close>

theorem GetInterfaceIP4Addr_chooses:
  assumes "env_addrList E (trace w) iface = Inr addrs"
  shows "GetInterfaceIP4Addr E iface w =
     (case (find global4 addrs, filter linklocal4 addrs) of
        (Some a, _) \<Rightarrow> Some (Inr a, w\<lparr>trace := trace w @ [AddrList iface]\<rparr>)
      | (None, ls) \<Rightarrow> if ls = [] then None else Some (Inr (last ls), w\<lparr>trace := trace w @ [AddrList iface]\<rparr>))"
  using assms by (simp add: GetInterfaceIP4Addr_def getIfaceAddrs_def pickIP4Addr_ref [of None, simplified] split: option.splits)

theorem GetInterfaceIP4Addr_chooses_witness:
  "GetInterfaceIP4Addr (null_env\<lparr>env_addrList := (\<lambda>h i. Inr [\<lparr>ipn_IP = [127, 0, 0, 1], ipn_Mask = [255, 0, 0, 0]\<rparr>])\<rparr>) 2 exec_world = None \<and>
   (\<exists>w'. GetInterfaceIP4Addr (null_env\<lparr>env_addrList := (\<lambda>h i. Inr [\<lparr>ipn_IP = [169, 254, 0, 1], ipn_Mask = [255, 255, 0, 0]\<rparr>,
       \<lparr>ipn_IP = [10, 0, 0, 5], ipn_Mask = [255, 255, 255, 0]\<rparr>])\<rparr>) 2 exec_world = Some (Inr \<lparr>ipn_IP = [10, 0, 0, 5], ipn_Mask = [255, 255, 255, 0]\<rparr>, w'))"
proof -
  have "\<not> global4 \<lparr>ipn_IP = [127, 0, 0, 1], ipn_Mask = [255, 0, 0, 0]\<rparr>" "\<not> linklocal4 \<lparr>ipn_IP = [127, 0, 0, 1], ipn_Mask = [255, 0, 0, 0]\<rparr>"
    "\<not> global4 \<lparr>ipn_IP = [169, 254, 0, 1], ipn_Mask = [255, 255, 0, 0]\<rparr>" "global4 \<lparr>ipn_IP = [10, 0, 0, 5], ipn_Mask = [255, 255, 255, 0]\<rparr>"
    by code_simp+
  then show ?thesis
    using GetInterfaceIP4Addr_chooses [of "null_env\<lparr>env_addrList := (\<lambda>h i. Inr [\<lparr>ipn_IP = [127, 0, 0, 1], ipn_Mask = [255, 0, 0, 0]\<rparr>])\<rparr>" exec_world 2]
      GetInterfaceIP4Addr_chooses [of "null_env\<lparr>env_addrList := (\<lambda>h i. Inr [\<lparr>ipn_IP = [169, 254, 0, 1], ipn_Mask = [255, 255, 0, 0]\<rparr>,
        \<lparr>ipn_IP = [10, 0, 0, 5], ipn_Mask = [255, 255, 255, 0]\<rparr>])\<rparr>" exec_world 2]
    by simp
qed

section \<open>What the rule setup achieves\<close>

text \<open>The rules of one protocol after the requests of a history, as iptables documents its operations.\<close>

fun ipt_step :: "Protocol \<Rightarrow> event \<Rightarrow> IPTablesRule list \<Rightarrow> IPTablesRule list" where
  "ipt_step p (Iptables (IptAppendUnique q r)) t = (if q = p \<and> r \<notin> set t then t @ [r] else t)"
| "ipt_step p (Iptables (IptDelete q r)) t = (if q = p then remove1 r t else t)"
| "ipt_step p e t = t"

definition rules_after :: "Protocol \<Rightarrow> IPTablesRule list \<Rightarrow> history \<Rightarrow> IPTablesRule list" where
  "rules_after p t h = fold (ipt_step p) h t"

lemma rules_after_snoc [simp]: "rules_after p t (h @ [e]) = ipt_step p e (rules_after p t h)"
  by (simp add: rules_after_def)

text \<open>
  An iptables that works and that nobody else changes, starting with the rules \<open>t\<close>: a rule
  exists when it is in the table, every change that is asked for takes effect as its manual says, and
  appending never fails; deleting an absent rule may fail.  This is an idealisation: where the
  kernel refuses a change (no memory, a missing module, the lock held by another process) nothing is
  claimed.
\<close>

definition working_iptables :: "env \<Rightarrow> Protocol \<Rightarrow> IPTablesRule list \<Rightarrow> bool" where
  "working_iptables E p t \<longleftrightarrow>
     (\<forall>h. env_newIPTables E h p = None) \<and>
     (\<forall>h r. env_iptExists E h p r = Inr (r \<in> set (rules_after p t h))) \<and>
     (\<forall>h r. env_iptChange E h (IptAppendUnique p r) = None)"

lemma ipTablesRulesExist_documented:
  assumes "working_iptables E p t"
  shows "\<exists>w'. ipTablesRulesExist E p rs w = Some (Inr (set rs \<subseteq> set (rules_after p t (trace w))), w') \<and>
     rules_after p t (trace w') = rules_after p t (trace w)"
proof (induction rs arbitrary: w)
  case (Cons r rs)
  let ?w = "w\<lparr>trace := trace w @ [Iptables (IptExists p r)]\<rparr>"
  from assms have "env_iptExists E (trace w) p r = Inr (r \<in> set (rules_after p t (trace w)))" by (simp add: working_iptables_def)
  with Cons.IH [of ?w] show ?case by (auto simp: ipt_Exists_def)
qed simp

lemma teardown_documented:
  "\<exists>w'. teardownIPTables E p rs w = Some ((), w') \<and> rules_after p t (trace w') = fold remove1 rs (rules_after p t (trace w))"
  unfolding teardownIPTables_def
proof (induction rs arbitrary: w)
  case (Cons r rs)
  from Cons.IH [of "w\<lparr>trace := trace w @ [Iptables (IptDelete p r)]\<rparr>"] show ?case by (auto simp: ipt_change_def)
qed simp

lemma setup_documented:
  assumes "working_iptables E p t" and "distinct rs" and "set rs \<inter> set (rules_after p t (trace w)) = {}"
  shows "\<exists>w'. setupIPTables E p rs w = Some (None, w') \<and> rules_after p t (trace w') = rules_after p t (trace w) @ rs"
  using assms(2,3) unfolding setupIPTables_def
proof (induction rs arbitrary: w)
  case (Cons r rs)
  let ?w = "w\<lparr>trace := trace w @ [Iptables (IptAppendUnique p r)]\<rparr>"
  from assms(1) have ok: "env_iptChange E (trace w) (IptAppendUnique p r) = None" by (simp add: working_iptables_def)
  from Cons.prems have "rules_after p t (trace ?w) = rules_after p t (trace w) @ [r]" by simp
  with Cons.prems Cons.IH [of ?w] ok show ?case by (auto simp: ipt_change_def)
qed simp

lemma fold_remove1: "distinct t \<Longrightarrow> fold remove1 rs t = filter (\<lambda>r. r \<notin> set rs) t"
  by (induction rs arbitrary: t) (auto simp: distinct_remove1_removeAll removeAll_filter_not_eq intro: filter_cong)

text \<open>
  C31.  On a node whose iptables answers every check from its table and carries out every change it is
  asked for, setting up duplicate-free rules in a duplicate-free table always succeeds.  Rules that
  are all present are left alone; otherwise the table ends up with the other rules, in their order,
  followed by exactly the rules asked for, in the order given.
\<close>

theorem SetupAndEnsureIPTables_establishes:
  assumes "working_iptables E p t" and "distinct rules" and "distinct (rules_after p t (trace w))"
  shows "\<exists>w'. SetupAndEnsureIPTables E rules p w = Some (None, w') \<and>
     rules_after p t (trace w') =
       (if set rules \<subseteq> set (rules_after p t (trace w)) then rules_after p t (trace w)
        else filter (\<lambda>r. r \<notin> set rules) (rules_after p t (trace w)) @ rules)"
proof -
  let ?t = "rules_after p t (trace w)"
  from assms(1) have new: "env_newIPTables E (trace w) p = None" by (simp add: working_iptables_def)
  obtain w1 where w1: "ipTablesRulesExist E p rules w = Some (Inr (set rules \<subseteq> set ?t), w1)" "rules_after p t (trace w1) = ?t"
    using ipTablesRulesExist_documented [OF assms(1)] by blast
  show ?thesis
  proof (cases "set rules \<subseteq> set ?t")
    case True
    with w1 new show ?thesis by (simp add: SetupAndEnsureIPTables_def ensureIPTables_def)
  next
    case False
    obtain w2 where w2: "teardownIPTables E p rules w1 = Some ((), w2)" "rules_after p t (trace w2) = filter (\<lambda>r. r \<notin> set rules) ?t"
      using teardown_documented [of E p rules w1 t] w1(2) fold_remove1 [OF assms(3)] by auto
    obtain w3 where "setupIPTables E p rules w2 = Some (None, w3)" "rules_after p t (trace w3) = rules_after p t (trace w2) @ rules"
      using setup_documented [OF assms(1,2), of w2] w2(2) by auto
    with False w1 w2 new show ?thesis by (simp add: SetupAndEnsureIPTables_def ensureIPTables_def)
  qed
qed

definition kernel_env :: "IPTablesRule list \<Rightarrow> env" where
  "kernel_env t = null_env\<lparr>env_iptExists := (\<lambda>h p r. Inr (r \<in> set (rules_after p t h)))\<rparr>"

lemma kernel_env_documented: "working_iptables (kernel_env t) p t"
  by (simp add: working_iptables_def kernel_env_def null_env_def)

theorem SetupAndEnsureIPTables_establishes_witness:
  "\<exists>w'. SetupAndEnsureIPTables (kernel_env [acceptPort ''udp'' ''53'', acceptPort ''udp'' ''6081'']) (fst FilterRules) ProtocolIPv4 exec_world = Some (None, w') \<and>
     rules_after ProtocolIPv4 [acceptPort ''udp'' ''53'', acceptPort ''udp'' ''6081''] (trace w') = acceptPort ''udp'' ''53'' # fst FilterRules"
proof -
  let ?t = "[acceptPort ''udp'' ''53'', acceptPort ''udp'' ''6081'']"
  have d: "distinct (fst FilterRules)" by code_simp
  have t: "rules_after ProtocolIPv4 ?t (trace exec_world) = ?t" by (simp add: exec_world_def init_world_def rules_after_def)
  have "distinct ?t" "acceptPort ''udp'' ''53'' \<notin> set (fst FilterRules)" "acceptPort ''udp'' ''6081'' \<in> set (fst FilterRules)"
    "\<not> set (fst FilterRules) \<subseteq> set ?t" by code_simp+
  with SetupAndEnsureIPTables_establishes [OF kernel_env_documented d, of ProtocolIPv4 ?t exec_world] t show ?thesis by auto
qed

text \<open>The masquerading rule meant for the IPv6 subnet names the IPv4 subnet as its source.\<close>

lemma MasqRules_v6_source:
  assumes "env_Getenv E ''OVN_SUBNET_V6'' \<noteq> []"
  shows "\<exists>r. snd (MasqRules E ifname) = [rule ''nat'' ''POSTROUTING'' [''-o'', ifname, ''-j'', ''MASQUERADE''], r] \<and>
     ipt_rulespec r = [''-s'', env_Getenv E ''OVN_SUBNET'', ''!'', ''-d'', ''ff00::/8'', ''-j'', ''MASQUERADE'']"
  using assms by (simp add: MasqRules_def Let_def rule_def)

end
