(* ===== verification/Virtual_Subnet.thy ===== *)
theory Virtual_Subnet
  imports Nodus_Types
begin

unbundle bit_operations_syntax

text \<open>
  \<^verbatim>\<open>internal/pkg/network/subnet.go\<close>: reading the virtual network configuration and cutting
  the configured network into equally sized subnets.  The IPv4 types of flannel's
  \<^verbatim>\<open>pkg/ip\<close> (a 32-bit address, a network with its prefix length) appear as words; its
  functions are the parameter record \<open>flannel\<close>.  The lemmas show that the generated subnets
  partition the network and that the generating loop returns.
\<close>

section \<open>Data\<close>

record IP4Net =
  net_IP :: "32 word"
  net_PrefixLen :: "64 word"

record Config =
  cfg_Network :: IP4Net
  cfg_SubnetMin :: "32 word"
  cfg_SubnetMax :: "32 word"
  cfg_SubnetLen :: "64 word"

record flannel =
  fl_Unmarshal :: "string \<Rightarrow> error + Config"
  fl_Next :: "IP4Net \<Rightarrow> IP4Net"
  fl_Contains :: "IP4Net \<Rightarrow> 32 word \<Rightarrow> bool"
  fl_String :: "32 word \<Rightarrow> string"

section \<open>Operations\<close>

text \<open>The default and the checks on \<^verbatim>\<open>SubnetLen\<close>.\<close>

definition checkSubnetLen :: "Config \<Rightarrow> error + Config" where
  "checkSubnetLen cfg =
     (if cfg_SubnetLen cfg > 0 then
        (if cfg_SubnetLen cfg > 30 then Inl (Errorf ''SubnetLen must be less than /31'')
         else if cfg_SubnetLen cfg < net_PrefixLen (cfg_Network cfg) + 2
           then Inl (Errorf ''Network must be able to accommodate at least four subnets'')
         else Inr cfg)
      else if net_PrefixLen (cfg_Network cfg) > 28
        then Inl (Errorf ''Network is too small. Minimum useful network prefix is /28'')
      else if net_PrefixLen (cfg_Network cfg) \<le> 22 then Inr (cfg\<lparr>cfg_SubnetLen := 24\<rparr>)
      else Inr (cfg\<lparr>cfg_SubnetLen := net_PrefixLen (cfg_Network cfg) + 2\<rparr>))"

definition subnetSize :: "Config \<Rightarrow> 32 word" where
  "subnetSize cfg = push_bit (unat (32 - cfg_SubnetLen cfg)) 1"

definition subnetMask :: "Config \<Rightarrow> 32 word" where
  "subnetMask cfg = push_bit (unat (32 - cfg_SubnetLen cfg)) 0xFFFFFFFF"

text \<open>Defaults, containment and alignment of \<^verbatim>\<open>SubnetMin\<close> and \<^verbatim>\<open>SubnetMax\<close>.\<close>

definition checkSubnetRange :: "flannel \<Rightarrow> Config \<Rightarrow> error + Config" where
  "checkSubnetRange F cfg =
     (let net = cfg_Network cfg;
          min = (if cfg_SubnetMin cfg = 0 then Inr (net_IP net + subnetSize cfg)
                 else if \<not> fl_Contains F net (cfg_SubnetMin cfg)
                   then Inl (Errorf ''SubnetMin is not in the range of the Network'')
                 else Inr (cfg_SubnetMin cfg));
          max = (if cfg_SubnetMax cfg = 0 then Inr (net_IP (fl_Next F net) - subnetSize cfg)
                 else if \<not> fl_Contains F net (cfg_SubnetMax cfg)
                   then Inl (Errorf ''SubnetMax is not in the range of the Network'')
                 else Inr (cfg_SubnetMax cfg))
      in case min of Inl e \<Rightarrow> Inl e
       | Inr mn \<Rightarrow> (case max of Inl e \<Rightarrow> Inl e
         | Inr mx \<Rightarrow>
             (if mn \<noteq> mn AND subnetMask cfg
                then Inl (Errorf (''SubnetMin is not on a SubnetLen boundary: '' @ fl_String F mn))
              else if mx \<noteq> mx AND subnetMask cfg
                then Inl (Errorf (''SubnetMax is not on a SubnetLen boundary: '' @ fl_String F mx))
              else Inr (cfg\<lparr>cfg_SubnetMin := mn, cfg_SubnetMax := mx\<rparr>))))"

definition subnetAt :: "flannel \<Rightarrow> Config \<Rightarrow> 32 word \<Rightarrow> IpSubnet" where
  "subnetAt F cfg currentIP =
     (let len = show_nat (unat (cfg_SubnetLen cfg))
      in \<lparr>sn_Name = ''nil'',
          sn_Subnet = fl_String F currentIP @ ''/'' @ len,
          sn_Gateway = fl_String F (currentIP + 1) @ ''/'' @ len,
          sn_ExcludeIps = fl_String F (currentIP + 2)\<rparr>)"

text \<open>The loop over the addresses of the network; \<open>None\<close> if it does not stop.\<close>

partial_function (option) subnetLoop ::
  "flannel \<Rightarrow> Config \<Rightarrow> 32 word \<Rightarrow> IpSubnet list \<Rightarrow> IpSubnet list option" where
  "subnetLoop F cfg currentIP vn =
     (if currentIP = net_IP (fl_Next F (cfg_Network cfg)) then Some vn
      else subnetLoop F cfg (currentIP + subnetSize cfg) (vn @ [subnetAt F cfg currentIP]))"

definition ParseConfig :: "flannel \<Rightarrow> string \<Rightarrow> (error + IpSubnet list) option" where
  "ParseConfig F s =
     (case fl_Unmarshal F s of Inl e \<Rightarrow> Some (Inl e)
      | Inr cfg \<Rightarrow>
     (case checkSubnetLen cfg of Inl e \<Rightarrow> Some (Inl e)
      | Inr cfg \<Rightarrow>
     (case checkSubnetRange F cfg of Inl e \<Rightarrow> Some (Inl e)
      | Inr cfg \<Rightarrow> do {
          vn \<leftarrow> subnetLoop F cfg (net_IP (cfg_Network cfg)) [];
          (if vn = [] then Some (Inl (Errorf ''value of virtual network is nil, user subnet is not right''))
           else Some (Inr vn))
        })))"

section \<open>What the code relies on\<close>

text \<open>
  flannel's \<^verbatim>\<open>IP4Net.Next\<close> is the following network of the same size: the address moves by
  the size of the network.
\<close>

definition next_is_following :: "flannel \<Rightarrow> bool" where
  "next_is_following F \<longleftrightarrow> (\<forall>n. 1 \<le> net_PrefixLen n \<and> net_PrefixLen n \<le> 32 \<longrightarrow>
     net_IP (fl_Next F n) = net_IP n + 2 ^ (32 - unat (net_PrefixLen n)))"

section \<open>The generated subnets\<close>

abbreviation prefix_len :: "Config \<Rightarrow> nat" where
  "prefix_len cfg \<equiv> unat (net_PrefixLen (cfg_Network cfg))"

abbreviation subnet_len :: "Config \<Rightarrow> nat" where
  "subnet_len cfg \<equiv> unat (cfg_SubnetLen cfg)"

definition block_size :: "Config \<Rightarrow> nat" where
  "block_size cfg = 2 ^ (32 - subnet_len cfg)"

definition block_count :: "Config \<Rightarrow> nat" where
  "block_count cfg = 2 ^ (subnet_len cfg - prefix_len cfg)"

definition len_ok :: "Config \<Rightarrow> bool" where
  "len_ok cfg \<longleftrightarrow> 1 \<le> prefix_len cfg \<and> prefix_len cfg + 2 \<le> subnet_len cfg \<and> subnet_len cfg \<le> 30"

lemma checkSubnetLen_ok:
  assumes ok: "checkSubnetLen cfg = Inr cfg'" and "1 \<le> net_PrefixLen (cfg_Network cfg)"
    and "net_PrefixLen (cfg_Network cfg) \<le> 32"
  shows "len_ok cfg' \<and> cfg_Network cfg' = cfg_Network cfg"
proof -
  let ?n = "net_PrefixLen (cfg_Network cfg)"
  have n: "1 \<le> unat ?n" "unat ?n \<le> 32" using assms(2,3) by (simp_all add: word_le_nat_alt)
  then have two: "unat (?n + 2) = unat ?n + 2"
    by (subst unat_add_lem [THEN iffD1]) simp_all
  from ok show ?thesis
    unfolding checkSubnetLen_def len_ok_def
    using n by (auto simp: word_less_nat_alt word_le_nat_alt two split: if_splits)
qed

lemma checkSubnetRange_same:
  "checkSubnetRange F cfg = Inr cfg' \<Longrightarrow>
     cfg_Network cfg' = cfg_Network cfg \<and> cfg_SubnetLen cfg' = cfg_SubnetLen cfg"
  by (auto simp: checkSubnetRange_def Let_def split: if_splits sum.splits)

lemma unat_shift: "subnet_len cfg \<le> 32 \<Longrightarrow> unat (32 - cfg_SubnetLen cfg) = 32 - subnet_len cfg"
  by (subst unat_sub) (simp_all add: word_le_nat_alt)

lemma subnetSize_eq: "len_ok cfg \<Longrightarrow> subnetSize cfg = of_nat (block_size cfg)"
  by (simp add: subnetSize_def block_size_def unat_shift len_ok_def push_bit_eq_mult)

lemma count_times_size: "len_ok cfg \<Longrightarrow> block_count cfg * block_size cfg = 2 ^ (32 - prefix_len cfg)"
  by (simp add: block_count_def block_size_def len_ok_def flip: power_add)

lemma network_bound: "len_ok cfg \<Longrightarrow> (2::nat) ^ (32 - prefix_len cfg) < 2 ^ 32"
  by (rule power_strict_increasing) (auto simp: len_ok_def)

lemma block_size_ge4: "len_ok cfg \<Longrightarrow> 4 \<le> block_size cfg"
proof -
  assume "len_ok cfg"
  then have "(2::nat) ^ 2 \<le> 2 ^ (32 - subnet_len cfg)"
    by (intro power_increasing) (auto simp: len_ok_def)
  then show ?thesis by (simp add: block_size_def)
qed

lemma of_nat_eq_small:
  assumes "a < 2 ^ 32" "b < 2 ^ 32"
  shows "((of_nat a :: 32 word) = of_nat b) = (a = b)"
proof
  assume "(of_nat a :: 32 word) = of_nat b"
  then have "unat (of_nat a :: 32 word) = unat (of_nat b :: 32 word)" by simp
  with assms show "a = b" by (simp add: unat_of_nat)
qed simp

lemma block_before_end:
  assumes "len_ok cfg" "k < block_count cfg"
  shows "net_IP n + of_nat (k * block_size cfg) \<noteq> net_IP n + 2 ^ (32 - prefix_len cfg)"
proof -
  have "k * block_size cfg < 2 ^ (32 - prefix_len cfg)"
    using assms count_times_size [OF assms(1)] by (metis block_size_def mult_less_cancel2 zero_less_numeral zero_less_power)
  with network_bound [OF assms(1)]
  have "(of_nat (k * block_size cfg) :: 32 word) \<noteq> of_nat (2 ^ (32 - prefix_len cfg))"
    by (subst of_nat_eq_small) (auto simp del: of_nat_mult)
  then show ?thesis by simp
qed

lemma subnetLoop_from:
  assumes "len_ok cfg"
    and stop: "net_IP (fl_Next F (cfg_Network cfg)) = net_IP (cfg_Network cfg) + 2 ^ (32 - prefix_len cfg)"
    and "k \<le> block_count cfg"
  shows "subnetLoop F cfg (net_IP (cfg_Network cfg) + of_nat (k * block_size cfg)) vn =
     Some (vn @ map (\<lambda>j. subnetAt F cfg (net_IP (cfg_Network cfg) + of_nat (j * block_size cfg)))
       [k..<block_count cfg])"
  using assms(3)
proof (induction "block_count cfg - k" arbitrary: k vn)
  case 0
  then have k: "k = block_count cfg" by simp
  have "(of_nat (k * block_size cfg) :: 32 word) = 2 ^ (32 - prefix_len cfg)"
    using count_times_size [OF assms(1)] k by (metis of_nat_numeral of_nat_power)
  with k show ?case by (subst subnetLoop.simps) (simp add: stop del: of_nat_mult)
next
  case (Suc m)
  then have k: "k < block_count cfg" by simp
  let ?ip = "net_IP (cfg_Network cfg)"
  have "?ip + of_nat (k * block_size cfg) \<noteq> net_IP (fl_Next F (cfg_Network cfg))"
    unfolding stop by (rule block_before_end [OF assms(1) k])
  moreover have "?ip + of_nat (k * block_size cfg) + subnetSize cfg = ?ip + of_nat (Suc k * block_size cfg)"
    by (simp add: subnetSize_eq [OF assms(1)] algebra_simps)
  ultimately have "subnetLoop F cfg (?ip + of_nat (k * block_size cfg)) vn =
      subnetLoop F cfg (?ip + of_nat (Suc k * block_size cfg)) (vn @ [subnetAt F cfg (?ip + of_nat (k * block_size cfg))])"
    by (subst subnetLoop.simps) (simp add: ac_simps del: of_nat_mult)
  also have "\<dots> = Some ((vn @ [subnetAt F cfg (?ip + of_nat (k * block_size cfg))]) @
      map (\<lambda>j. subnetAt F cfg (?ip + of_nat (j * block_size cfg))) [Suc k..<block_count cfg])"
    using Suc.hyps(2) k by (intro Suc.hyps(1)) simp_all
  finally show ?case using k by (simp add: upt_conv_Cons)
qed

lemma subnetAt_cong: "cfg_SubnetLen c = cfg_SubnetLen d \<Longrightarrow> subnetAt F c = subnetAt F d"
  by (simp add: subnetAt_def fun_eq_iff)

lemma ParseConfig_cases:
  assumes next_ok: "next_is_following F" and cfg: "fl_Unmarshal F s = Inr cfg"
    and "1 \<le> net_PrefixLen (cfg_Network cfg)" "net_PrefixLen (cfg_Network cfg) \<le> 32"
  shows "(\<exists>e. ParseConfig F s = Some (Inl e)) \<or>
     (\<exists>c. checkSubnetLen cfg = Inr c \<and> len_ok c \<and> cfg_Network c = cfg_Network cfg \<and>
        ParseConfig F s = Some (Inr (map (\<lambda>k. subnetAt F c
          (net_IP (cfg_Network cfg) + of_nat (k * block_size c))) [0..<block_count c])))"
proof (cases "checkSubnetLen cfg")
  case (Inl e)
  with cfg show ?thesis by (simp add: ParseConfig_def)
next
  case (Inr c)
  from checkSubnetLen_ok [OF Inr assms(3,4)] have c: "len_ok c" "cfg_Network c = cfg_Network cfg" by auto
  show ?thesis
  proof (cases "checkSubnetRange F c")
    case (Inl e)
    with cfg Inr show ?thesis by (simp add: ParseConfig_def)
  next
    case range: (Inr d)
    from checkSubnetRange_same [OF range]
    have d: "cfg_Network d = cfg_Network cfg" "cfg_SubnetLen d = cfg_SubnetLen c" using c(2) by auto
    have eqs: "block_size d = block_size c" "block_count d = block_count c" "len_ok d"
      using c d by (simp_all add: block_size_def block_count_def len_ok_def)
    have "net_IP (fl_Next F (cfg_Network d)) = net_IP (cfg_Network d) + 2 ^ (32 - prefix_len d)"
      using next_ok assms(3,4) d(1) by (simp add: next_is_following_def)
    from subnetLoop_from [OF eqs(3) this, of 0 "[]"]
    have "subnetLoop F d (net_IP (cfg_Network d)) [] = Some (map (\<lambda>k. subnetAt F c
        (net_IP (cfg_Network cfg) + of_nat (k * block_size c))) [0..<block_count c])"
      using d eqs subnetAt_cong [of d c F] by simp
    moreover have "block_count c \<noteq> 0" by (simp add: block_count_def)
    ultimately show ?thesis using cfg Inr range c d by (simp add: ParseConfig_def)
  qed
qed

text \<open>The addresses of a block of \<open>n\<close> addresses starting at \<open>base\<close>.\<close>

definition addresses :: "32 word \<Rightarrow> nat \<Rightarrow> 32 word set" where
  "addresses base n = (\<lambda>j. base + of_nat j) ` {..<n}"

lemma addresses_offset:
  assumes "k * b + n \<le> m" "m \<le> 2 ^ 32" "i < m"
  shows "base + of_nat i \<in> addresses (base + of_nat (k * b)) n \<longleftrightarrow> k * b \<le> i \<and> i < k * b + n"
proof
  assume "base + of_nat i \<in> addresses (base + of_nat (k * b)) n"
  then obtain j where j: "j < n" and "(of_nat i :: 32 word) = of_nat (k * b + j)"
    by (auto simp: addresses_def add.assoc)
  then have "i = k * b + j"
    using assms of_nat_eq_small [of i "k * b + j"] by simp
  with j show "k * b \<le> i \<and> i < k * b + n" by simp
next
  assume i: "k * b \<le> i \<and> i < k * b + n"
  then have "base + of_nat i = base + of_nat (k * b) + (of_nat (i - k * b) :: 32 word)"
    by (simp add: of_nat_diff del: of_nat_mult)
  with i show "base + of_nat i \<in> addresses (base + of_nat (k * b)) n"
    unfolding addresses_def by (intro image_eqI [where x = "i - k * b"]) auto
qed

lemma blocks_partition:
  assumes c: "len_ok c" and a: "a \<in> addresses ip (2 ^ (32 - prefix_len c))"
  shows "\<exists>!k. k < block_count c \<and> a \<in> addresses (ip + of_nat (k * block_size c)) (block_size c)"
proof -
  let ?b = "block_size c" and ?m = "block_count c * block_size c"
  have m: "?m = 2 ^ (32 - prefix_len c)" "?m \<le> 2 ^ 32"
    using count_times_size [OF c] network_bound [OF c] by simp_all
  have b: "0 < ?b" by (simp add: block_size_def)
  from a m obtain i where i: "i < ?m" "a = ip + of_nat i" by (auto simp: addresses_def)
  have mem: "a \<in> addresses (ip + of_nat (k * ?b)) ?b \<longleftrightarrow> i div ?b = k" if "k < block_count c" for k
  proof -
    from that have "Suc k * ?b \<le> ?m" by (intro mult_le_mono1) simp
    then have "k * ?b + ?b \<le> ?m" by simp
    from addresses_offset [OF this m(2) i(1), of ip]
    have "a \<in> addresses (ip + of_nat (k * ?b)) ?b \<longleftrightarrow> k * ?b \<le> i \<and> i < k * ?b + ?b"
      using i(2) by simp
    also have "\<dots> \<longleftrightarrow> i div ?b = k"
      using b by (metis div_nat_eqI less_mult_imp_div_less mult.commute mult_Suc nat_less_le
          add.commute div_times_less_eq_dividend dividend_less_div_times)
    finally show ?thesis .
  qed
  have "i div ?b < block_count c" using i(1) by (simp add: less_mult_imp_div_less)
  with mem show ?thesis by (intro ex1I [where a = "i div ?b"]) auto
qed

section \<open>Properties\<close>

text \<open>A concrete flannel for the witnesses: dotted-quad printing, a fixed configuration.\<close>

definition dotted :: "32 word \<Rightarrow> string" where
  "dotted a = (let n = unat a in show_nat (n div 2 ^ 24) @ ''.'' @ show_nat (n div 2 ^ 16 mod 256) @
     ''.'' @ show_nat (n div 2 ^ 8 mod 256) @ ''.'' @ show_nat (n mod 256))"

definition flannel_ex :: flannel where
  "flannel_ex = \<lparr>fl_Unmarshal = (\<lambda>s. Inr \<lparr>cfg_Network = \<lparr>net_IP = 0x0A80F000, net_PrefixLen = 28\<rparr>,
       cfg_SubnetMin = 0, cfg_SubnetMax = 0, cfg_SubnetLen = 0\<rparr>),
     fl_Next = (\<lambda>n. n\<lparr>net_IP := net_IP n + 2 ^ (32 - unat (net_PrefixLen n))\<rparr>),
     fl_Contains = (\<lambda>n a. drop_bit (32 - unat (net_PrefixLen n)) a = drop_bit (32 - unat (net_PrefixLen n)) (net_IP n)),
     fl_String = dotted\<rparr>"

lemma flannel_ex_next: "next_is_following flannel_ex"
  by (simp add: next_is_following_def flannel_ex_def)

lemma flannel_ex_loop:
  "ParseConfig flannel_ex s = Some (Inr (map (subnetAt flannel_ex \<lparr>cfg_Network = \<lparr>net_IP = 0x0A80F000,
     net_PrefixLen = 28\<rparr>, cfg_SubnetMin = 0x0A80F004, cfg_SubnetMax = 0x0A80F00C, cfg_SubnetLen = 30\<rparr>)
     [0x0A80F000, 0x0A80F004, 0x0A80F008, 0x0A80F00C]))"
  by (simp add: ParseConfig_def flannel_ex_def checkSubnetLen_def checkSubnetRange_def subnetSize_def
      subnetMask_def subnetLoop.simps)

text \<open>
  C1.  When the configuration is accepted, there is one record for each block of
  \<open>2 ^ (32 - SubnetLen)\<close> addresses from the network's first address on, in order: record
  \<open>k\<close> names the base address of block \<open>k\<close> with the subnet length, and every address of the
  configured network lies in exactly one of these blocks, so no two virtual networks overlap and no
  address is lost.  This is not what the comments of the source announce: they say that the first
  subnet is not used and that \<^verbatim>\<open>SubnetMin\<close> skips it, but record 0 is the first block,
  because the loop starts at the network's address and never looks at \<^verbatim>\<open>SubnetMin\<close>.
\<close>

theorem ParseConfig_partitions_network:
  assumes "next_is_following F" and "fl_Unmarshal F s = Inr cfg"
    and "1 \<le> net_PrefixLen (cfg_Network cfg)" "net_PrefixLen (cfg_Network cfg) \<le> 32"
    and "ParseConfig F s = Some (Inr vn)"
  shows "\<exists>c. checkSubnetLen cfg = Inr c \<and> length vn = 2 ^ (subnet_len c - prefix_len cfg) \<and>
     (\<forall>k < length vn. sn_Name (vn ! k) = ''nil'' \<and>
        sn_Subnet (vn ! k) = fl_String F (net_IP (cfg_Network cfg) + of_nat (k * block_size c)) @ ''/'' @ show_nat (subnet_len c)) \<and>
     (\<forall>a \<in> addresses (net_IP (cfg_Network cfg)) (2 ^ (32 - prefix_len cfg)).
        \<exists>!k. k < length vn \<and> a \<in> addresses (net_IP (cfg_Network cfg) + of_nat (k * block_size c)) (block_size c))"
proof -
  from ParseConfig_cases [OF assms(1-4)] assms(5) obtain c where c: "checkSubnetLen cfg = Inr c"
    "len_ok c" "cfg_Network c = cfg_Network cfg"
    "vn = map (\<lambda>k. subnetAt F c (net_IP (cfg_Network cfg) + of_nat (k * block_size c))) [0..<block_count c]"
    by auto
  then have l: "length vn = block_count c" by simp
  have "\<forall>a \<in> addresses (net_IP (cfg_Network cfg)) (2 ^ (32 - prefix_len cfg)).
      \<exists>!k. k < length vn \<and> a \<in> addresses (net_IP (cfg_Network cfg) + of_nat (k * block_size c)) (block_size c)"
    using blocks_partition [OF c(2)] l c(3) by (metis (no_types, lifting))
  moreover have "\<forall>k < length vn. sn_Name (vn ! k) = ''nil'' \<and>
      sn_Subnet (vn ! k) = fl_String F (net_IP (cfg_Network cfg) + of_nat (k * block_size c)) @ ''/'' @ show_nat (subnet_len c)"
    by (simp add: c(4) subnetAt_def Let_def)
  ultimately show ?thesis using c(1,3) l by (auto simp: block_count_def)
qed

theorem ParseConfig_partitions_network_witness:
  "\<exists>cfg vn c. fl_Unmarshal flannel_ex ''x'' = Inr cfg \<and> ParseConfig flannel_ex ''x'' = Some (Inr vn) \<and>
     checkSubnetLen cfg = Inr c \<and> length vn = 4 \<and> sn_Subnet (vn ! 0) = fl_String flannel_ex 0x0A80F000 @ ''/'' @ show_nat 30 \<and>
     (\<forall>a \<in> addresses 0x0A80F000 (2 ^ (32 - prefix_len cfg)).
        \<exists>!k. k < length vn \<and> a \<in> addresses (0x0A80F000 + of_nat (k * block_size c)) (block_size c))"
proof -
  obtain cfg where cfg: "fl_Unmarshal flannel_ex ''x'' = Inr cfg"
    "cfg = \<lparr>cfg_Network = \<lparr>net_IP = 0x0A80F000, net_PrefixLen = 28\<rparr>,
       cfg_SubnetMin = 0, cfg_SubnetMax = 0, cfg_SubnetLen = 0\<rparr>"
    by (simp add: flannel_ex_def)
  obtain vn where vn: "ParseConfig flannel_ex ''x'' = Some (Inr vn)" using flannel_ex_loop by blast
  have "1 \<le> net_PrefixLen (cfg_Network cfg)" "net_PrefixLen (cfg_Network cfg) \<le> 32" using cfg by simp_all
  from ParseConfig_partitions_network [OF flannel_ex_next cfg(1) this vn]
  obtain c where c: "checkSubnetLen cfg = Inr c" "length vn = 2 ^ (subnet_len c - prefix_len cfg)"
    "\<forall>k < length vn. sn_Name (vn ! k) = ''nil'' \<and>
       sn_Subnet (vn ! k) = fl_String flannel_ex (net_IP (cfg_Network cfg) + of_nat (k * block_size c)) @ ''/'' @ show_nat (subnet_len c)"
    "\<forall>a \<in> addresses (net_IP (cfg_Network cfg)) (2 ^ (32 - prefix_len cfg)).
       \<exists>!k. k < length vn \<and> a \<in> addresses (net_IP (cfg_Network cfg) + of_nat (k * block_size c)) (block_size c)"
    by blast
  have ip: "net_IP (cfg_Network cfg) = 0x0A80F000" "prefix_len cfg = 28" using cfg(2) by simp_all
  have len: "subnet_len c = 30" using c(1) cfg(2) by (auto simp: checkSubnetLen_def)
  with c(2) ip(2) have "length vn = 4" by simp
  moreover from this c(3) len ip(1) have "sn_Subnet (vn ! 0) = fl_String flannel_ex 0x0A80F000 @ ''/'' @ show_nat 30" by simp
  ultimately show ?thesis using c(1,4) cfg(1) vn ip(1) by auto
qed

text \<open>
  C2.  Reading the configuration always returns: for every prefix length a network can have, the
  loop that steps through the network by the size of a subnet meets the first address of the
  following network and stops.
\<close>

theorem ParseConfig_returns:
  assumes "next_is_following F"
    and "\<And>cfg. fl_Unmarshal F s = Inr cfg \<Longrightarrow>
      1 \<le> net_PrefixLen (cfg_Network cfg) \<and> net_PrefixLen (cfg_Network cfg) \<le> 32"
  shows "\<exists>r. ParseConfig F s = Some r"
proof (cases "fl_Unmarshal F s")
  case (Inl e)
  then show ?thesis by (simp add: ParseConfig_def)
next
  case (Inr cfg)
  with ParseConfig_cases [OF assms(1) Inr] assms(2) [OF Inr] show ?thesis by blast
qed

theorem ParseConfig_returns_witness: "\<exists>r. ParseConfig flannel_ex ''conf'' = Some r"
  by (rule ParseConfig_returns [OF flannel_ex_next]) (simp add: flannel_ex_def)

lemma addressesI: "j < n \<Longrightarrow> b + of_nat j \<in> addresses b n"
  unfolding addresses_def by (rule image_eqI [where x = j]) simp_all

text \<open>
  C3.  The record of every virtual network is consistent: its subnet is written with the base
  address of a block of the configured network, its gateway with the second and its excluded
  address with the third address of the same block, both gateway and subnet with the block's length;
  and neither of the two addresses is the block's first or last one, so every virtual network can
  route: the subnet length checks leave room for them.
\<close>

theorem ParseConfig_gateway_inside:
  assumes "next_is_following F" and "fl_Unmarshal F s = Inr cfg"
    and "1 \<le> net_PrefixLen (cfg_Network cfg)" "net_PrefixLen (cfg_Network cfg) \<le> 32"
    and "ParseConfig F s = Some (Inr vn)" and "n \<in> set vn"
  shows "\<exists>c base gw ex. checkSubnetLen cfg = Inr c \<and>
     base \<in> addresses (net_IP (cfg_Network cfg)) (2 ^ (32 - prefix_len cfg)) \<and>
     sn_Subnet n = fl_String F base @ ''/'' @ show_nat (subnet_len c) \<and>
     sn_Gateway n = fl_String F gw @ ''/'' @ show_nat (subnet_len c) \<and> sn_ExcludeIps n = fl_String F ex \<and>
     gw = base + 1 \<and> ex = base + 2 \<and>
     {gw, ex} \<subseteq> addresses base (block_size c) - {base, base + of_nat (block_size c - 1)}"
proof -
  from ParseConfig_cases [OF assms(1-4)] assms(5,6) obtain c k where c: "checkSubnetLen cfg = Inr c"
    "len_ok c" "cfg_Network c = cfg_Network cfg" and k: "k < block_count c"
    "n = subnetAt F c (net_IP (cfg_Network cfg) + of_nat (k * block_size c))"
    by auto
  define base where "base = net_IP (cfg_Network cfg) + of_nat (k * block_size c)"
  have size: "4 \<le> block_size c" by (rule block_size_ge4 [OF c(2)])
  have "block_size c \<le> 2 ^ 32" unfolding block_size_def by (rule power_increasing) simp_all
  note size = size this
  have "k * block_size c < block_count c * block_size c" using k size by simp
  then have lt: "k * block_size c < 2 ^ (32 - prefix_len cfg)"
    using count_times_size [OF c(2)] c(3) by simp
  have mem: "base \<in> addresses (net_IP (cfg_Network cfg)) (2 ^ (32 - prefix_len cfg))"
    unfolding base_def by (rule addressesI [OF lt])
  have inside: "base + of_nat j \<in> addresses base (block_size c) - {base, base + of_nat (block_size c - 1)}" if "j = 1 \<or> j = 2" for j
  proof -
    have "(of_nat j :: 32 word) \<noteq> of_nat (block_size c - 1)" "(of_nat j :: 32 word) \<noteq> of_nat 0"
      using that size of_nat_eq_small [of j "block_size c - 1"] of_nat_eq_small [of j 0] by auto
    moreover have "base + of_nat j \<in> addresses base (block_size c)" by (rule addressesI) (use that size in auto)
    ultimately show ?thesis by simp
  qed
  have "n = subnetAt F c base" using k(2) by (simp only: base_def)
  with c(1) mem inside [of 1] inside [of 2] show ?thesis
    by (intro exI [of _ c] exI [of _ base] exI [of _ "base + 1"] exI [of _ "base + 2"]) (simp add: subnetAt_def Let_def)
qed

theorem ParseConfig_gateway_inside_witness:
  "\<exists>n vn. ParseConfig flannel_ex ''x'' = Some (Inr vn) \<and> n \<in> set vn \<and> sn_Gateway n = ''10.128.240.1/30'' \<and>
     (\<exists>base. sn_Gateway n = fl_String flannel_ex (base + 1) @ ''/'' @ show_nat 30 \<and> sn_ExcludeIps n = fl_String flannel_ex (base + 2) \<and>
        {base + 1, base + 2} \<subseteq> addresses base 4 - {base, base + 3})"
proof -
  let ?cfg = "\<lparr>cfg_Network = \<lparr>net_IP = 0x0A80F000, net_PrefixLen = 28\<rparr>,
       cfg_SubnetMin = 0, cfg_SubnetMax = 0, cfg_SubnetLen = 0\<rparr> :: Config"
  let ?c = "\<lparr>cfg_Network = \<lparr>net_IP = 0x0A80F000, net_PrefixLen = 28\<rparr>,
       cfg_SubnetMin = 0x0A80F004, cfg_SubnetMax = 0x0A80F00C, cfg_SubnetLen = 30\<rparr> :: Config"
  let ?n = "subnetAt flannel_ex ?c 0x0A80F000"
  let ?vn = "map (subnetAt flannel_ex ?c) [0x0A80F000, 0x0A80F004, 0x0A80F008, 0x0A80F00C]"
  have vn: "ParseConfig flannel_ex ''x'' = Some (Inr ?vn)" by (rule flannel_ex_loop)
  have gw: "sn_Gateway ?n = ''10.128.240.1/30''"
    by (simp add: subnetAt_def flannel_ex_def dotted_def show_nat.simps Let_def) code_simp
  have cfg: "fl_Unmarshal flannel_ex ''x'' = Inr ?cfg" by (simp add: flannel_ex_def)
  have n: "?n \<in> set ?vn" by simp
  have len: "1 \<le> net_PrefixLen (cfg_Network ?cfg)" "net_PrefixLen (cfg_Network ?cfg) \<le> 32" by simp_all
  obtain c base where cb: "checkSubnetLen ?cfg = Inr c" "sn_Gateway ?n = fl_String flannel_ex (base + 1) @ ''/'' @ show_nat (subnet_len c)"
    "sn_ExcludeIps ?n = fl_String flannel_ex (base + 2)"
    "{base + 1, base + 2} \<subseteq> addresses base (block_size c) - {base, base + of_nat (block_size c - 1)}"
    using ParseConfig_gateway_inside [OF flannel_ex_next cfg len vn n] by blast
  from cb(1) have "subnet_len c = 30" by (auto simp: checkSubnetLen_def)
  moreover from this have "block_size c = 4" by (simp add: block_size_def)
  ultimately show ?thesis using cb(2-4) by (intro exI [of _ ?n] exI [of _ ?vn] conjI vn n gw exI [of _ base]) simp_all
qed

lemma checkSubnetLen_cong:
  assumes "checkSubnetLen cfg = Inr c" and "checkSubnetLen cfg' = Inr d"
    and "cfg_Network cfg' = cfg_Network cfg" "cfg_SubnetLen cfg' = cfg_SubnetLen cfg"
  shows "cfg_SubnetLen d = cfg_SubnetLen c" and "cfg_Network d = cfg_Network c"
proof -
  have *: "cfg_Network x = cfg_Network y \<and> cfg_SubnetLen x =
      (if 0 < cfg_SubnetLen y then cfg_SubnetLen y
       else if net_PrefixLen (cfg_Network y) \<le> 22 then 24 else net_PrefixLen (cfg_Network y) + 2)"
    if "checkSubnetLen y = Inr x" for x y
    using that unfolding checkSubnetLen_def
    by (cases "0 < cfg_SubnetLen y"; cases "net_PrefixLen (cfg_Network y) \<le> 22")
      (simp_all only: if_True if_False split: if_split_asm, (clarsimp simp del: word_gt_0)+)
  show "cfg_SubnetLen d = cfg_SubnetLen c" "cfg_Network d = cfg_Network c"
    using * [OF assms(1)] * [OF assms(2)] assms(3,4) by simp_all
qed

text \<open>
  \<^verbatim>\<open>SubnetMin\<close> and \<^verbatim>\<open>SubnetMax\<close> are validated and then not used: two
  configurations that agree on the network and the subnet length and are both accepted give the
  same virtual networks, the first of which starts at the network's own address.
\<close>

theorem ParseConfig_ignores_min_max:
  assumes "next_is_following F" and "fl_Unmarshal F s = Inr cfg" "fl_Unmarshal F t = Inr cfg'"
    and "1 \<le> net_PrefixLen (cfg_Network cfg)" "net_PrefixLen (cfg_Network cfg) \<le> 32"
    and "cfg_Network cfg' = cfg_Network cfg" "cfg_SubnetLen cfg' = cfg_SubnetLen cfg"
    and "ParseConfig F s = Some (Inr vn)" "ParseConfig F t = Some (Inr vn')"
  shows "vn' = vn \<and> (\<exists>c. hd vn = subnetAt F c (net_IP (cfg_Network cfg)))"
proof -
  from ParseConfig_cases [OF assms(1,2,4,5)] assms(8) obtain c where c: "checkSubnetLen cfg = Inr c"
    "vn = map (\<lambda>k. subnetAt F c (net_IP (cfg_Network cfg) + of_nat (k * block_size c))) [0..<block_count c]"
    by auto
  have "1 \<le> net_PrefixLen (cfg_Network cfg')" "net_PrefixLen (cfg_Network cfg') \<le> 32"
    using assms(4-6) by simp_all
  from ParseConfig_cases [OF assms(1,3) this] assms(9) assms(6) obtain d where d: "checkSubnetLen cfg' = Inr d"
    "vn' = map (\<lambda>k. subnetAt F d (net_IP (cfg_Network cfg) + of_nat (k * block_size d))) [0..<block_count d]"
    by auto
  have same: "cfg_SubnetLen d = cfg_SubnetLen c" "cfg_Network d = cfg_Network c"
    by (rule checkSubnetLen_cong [OF c(1) d(1) assms(6,7)])+
  then have "block_size d = block_size c" "block_count d = block_count c"
    by (simp_all add: block_size_def block_count_def)
  moreover have "subnetAt F d = subnetAt F c"
    using same by (auto simp: subnetAt_def fun_eq_iff)
  moreover have "0 < block_count c" by (simp add: block_count_def)
  ultimately show ?thesis using c(2) d(2) by (auto simp: hd_map)
qed

theorem ParseConfig_ignores_min_max_witness:
  "\<exists>F. \<exists>vn. ParseConfig F ''a'' = Some (Inr vn) \<and> ParseConfig F ''b'' = Some (Inr vn) \<and>
     (\<exists>c. hd vn = subnetAt F c 0x0A80F000) \<and>
     (\<exists>cfg. fl_Unmarshal F ''b'' = Inr cfg \<and> cfg_SubnetMin cfg = 0x0A80F008)"
proof -
  let ?cfg = "\<lparr>cfg_Network = \<lparr>net_IP = 0x0A80F000, net_PrefixLen = 28\<rparr>,
       cfg_SubnetMin = 0, cfg_SubnetMax = 0, cfg_SubnetLen = 0\<rparr> :: Config"
  define F where "F = flannel_ex\<lparr>fl_Unmarshal := (\<lambda>s. if s = ''a'' then Inr ?cfg
     else Inr (?cfg\<lparr>cfg_SubnetMin := 0x0A80F008\<rparr>))\<rparr>"
  have F: "next_is_following F" by (simp add: next_is_following_def F_def flannel_ex_def)
  have a: "fl_Unmarshal F ''a'' = Inr ?cfg" and b: "fl_Unmarshal F ''b'' = Inr (?cfg\<lparr>cfg_SubnetMin := 0x0A80F008\<rparr>)"
    by (simp_all add: F_def)
  have "\<exists>vn. ParseConfig F ''a'' = Some (Inr vn)" "\<exists>vn. ParseConfig F ''b'' = Some (Inr vn)"
    by (simp_all add: ParseConfig_def F_def flannel_ex_def checkSubnetLen_def checkSubnetRange_def
        subnetSize_def subnetMask_def subnetLoop.simps)
  then obtain vn vn' where vn: "ParseConfig F ''a'' = Some (Inr vn)" "ParseConfig F ''b'' = Some (Inr vn')" by blast
  have "1 \<le> net_PrefixLen (cfg_Network ?cfg)" "net_PrefixLen (cfg_Network ?cfg) \<le> 32"
    "cfg_Network (?cfg\<lparr>cfg_SubnetMin := 0x0A80F008\<rparr>) = cfg_Network ?cfg"
    "cfg_SubnetLen (?cfg\<lparr>cfg_SubnetMin := 0x0A80F008\<rparr>) = cfg_SubnetLen ?cfg" by simp_all
  from ParseConfig_ignores_min_max [OF F a b this vn]
  have "vn' = vn" and hd: "\<exists>c. hd vn = subnetAt F c 0x0A80F000" by simp_all
  with vn have vn2: "ParseConfig F ''b'' = Some (Inr vn)" by simp
  have m: "cfg_SubnetMin (?cfg\<lparr>cfg_SubnetMin := 0x0A80F008\<rparr>) = 0x0A80F008" by simp
  show ?thesis
    by (intro exI [of _ F] exI [of _ vn] exI [of _ "?cfg\<lparr>cfg_SubnetMin := 0x0A80F008\<rparr>"]
        conjI vn(1) vn2 hd b m)
qed

end
