(* ===== verification/Network_Pool.thy ===== *)
theory Network_Pool
  imports Nodus_World Virtual_Subnet
begin

text \<open>
  The dynamic network pool of \<^verbatim>\<open>internal/pkg/network/pool.go\<close>: the virtual networks cut
  from the configured subnet are kept as a JSON list in the config map
  \<^verbatim>\<open>kube-system/nodus-dynamic-network-pool\<close>; a namespace takes the first free one, a
  Network resource is created for it and the list is written back.  The mutex around
  \<^verbatim>\<open>CreateNetworkFromPool\<close> makes the operation one step, which is how it is modelled.
  \<^verbatim>\<open>retry.RetryOnConflict\<close> and the watch channel belong to client-go: whether a failed update
  is tried again, and what the watch delivers until it is closed, are answers of the environment.
\<close>

section \<open>The configuration file\<close>

definition netConfPath :: string where
  "netConfPath = ''/etc/subnet/virtual-net-conf.json''"

definition networkpoolconfig :: string where
  "networkpoolconfig = ''nodus-dynamic-network-pool''"

definition networkpoolns :: string where
  "networkpoolns = ''kube-system''"

definition CheckVirtualNetworkConf :: "env \<Rightarrow> (world, error + bool) prog" where
  "CheckVirtualNetworkConf E w = do {
     (err, w) \<leftarrow> ask (\<lambda>h. env_statFile E h netConfPath) w;
     (case err of
        Some e \<Rightarrow> if IsNotFound e then Some (Inr False, w) else Some (Inl e, w)
      | None \<Rightarrow> Some (Inr True, w))
   }"

definition CalculateVirtualNetworkSubnet :: "env \<Rightarrow> flannel \<Rightarrow> (world, error + IpSubnet list) prog" where
  "CalculateVirtualNetworkSubnet E F w = do {
     (r, w) \<leftarrow> request (ReadFile netConfPath) (\<lambda>h. env_readFile E h netConfPath) w;
     (case r of
        Inl e \<Rightarrow> Some (Inl (Errorf (''Error in reading the subnet conf file: '' @ error_msg e)), w)
      | Inr netConf \<Rightarrow> do {
          vn \<leftarrow> ParseConfig F netConf;
          (case vn of
             Inl e \<Rightarrow> Some (Inl (Errorf
               (''Error in Parsing netConfPath file and creating virtual networks : '' @ error_msg e)), w)
           | Inr virtualNets \<Rightarrow> Some (Inr virtualNets, w))
        })
   }"

section \<open>Writing the pool\<close>

definition CreateNetworkPool :: "env \<Rightarrow> NetworkPool list \<Rightarrow> (world, error option) prog" where
  "CreateNetworkPool E np w =
     (case marshalPools (np = []) np of
        Inl e \<Rightarrow> Some (Some (Errorf (''Error in Marshalling nps -'' @ error_msg e)), w)
      | Inr npsByte \<Rightarrow> do {
          (err, w) \<leftarrow> ask (env_kubeConfig E) w;
          (case err of
             Some e \<Rightarrow> Some (Some (Errorf (''Error in getting k8s clientset -'' @ error_msg e)), w)
           | None \<Rightarrow> kube_write E (CreateConfigMap \<lparr>cm_Name = networkpoolconfig, cm_Namespace = networkpoolns,
               cm_Data = [(''networkpools'', npsByte)]\<rparr>) w)
        })"

fun numberPools :: "int \<Rightarrow> IpSubnet list \<Rightarrow> NetworkPool list" where
  "numberPools k [] = []"
| "numberPools k (n # nets) =
     \<lparr>np_PoolNr = k, np_Network = n, np_Available = True\<rparr> # numberPools (k + 1) nets"

definition CheckandCreateNetworkPools :: "env \<Rightarrow> flannel \<Rightarrow> (world, error option) prog" where
  "CheckandCreateNetworkPools E F w = do {
     (r, w) \<leftarrow> CheckVirtualNetworkConf E w;
     (case r of
        Inl e \<Rightarrow> Some (Some e, w)
      | Inr isExist \<Rightarrow>
          if \<not> isExist then Some (None, w)
          else do {
            (nets, w) \<leftarrow> CalculateVirtualNetworkSubnet E F w;
            (case nets of
               Inl e \<Rightarrow> Some (Some e, w)
             | Inr nets \<Rightarrow> do {
                 (err, w) \<leftarrow> CreateNetworkPool E (numberPools 0 nets) w;
                 (case err of
                    Some e \<Rightarrow> Some (Some (Errorf (''Error in creating CreateNetworkPool - '' @ error_msg e)), w)
                  | None \<Rightarrow> Some (None, w))
               })
          })
   }"

text \<open>
  \<^verbatim>\<open>retry.RetryOnConflict\<close> calls the function until it succeeds or the error is not to be
  tried again.
\<close>

partial_function (option) RetryOnConflict ::
  "env \<Rightarrow> (world \<Rightarrow> ((error option \<times> 'a) \<times> world) option) \<Rightarrow> world \<Rightarrow> ((error option \<times> 'a) \<times> world) option"
  where
  "RetryOnConflict E fn w = do {
     ((err, x), w) \<leftarrow> fn w;
     (case err of
        None \<Rightarrow> Some ((None, x), w)
      | Some e \<Rightarrow> if env_retryAgain E (trace w) e then RetryOnConflict E fn w else Some ((Some e, x), w))
   }"

text \<open>The closure handed to \<^verbatim>\<open>RetryOnConflict\<close>; it also sets the captured \<^verbatim>\<open>cm\<close>.\<close>

definition updatePoolOnce :: "env \<Rightarrow> (string, string) gomap \<Rightarrow> (world, error option \<times> ConfigMap) prog" where
  "updatePoolOnce E npsmap w = do {
     (r, w) \<leftarrow> request (KubeGet KConfigMap networkpoolns networkpoolconfig)
        (\<lambda>h. env_getConfigMap E h networkpoolns networkpoolconfig) w;
     (case r of
        Inl e \<Rightarrow> Some ((Some e, \<lparr>cm_Name = [], cm_Namespace = [], cm_Data = []\<rparr>), w)
      | Inr cm \<Rightarrow> do {
          let cm = cm\<lparr>cm_Data := npsmap\<rparr>;
          (err, w) \<leftarrow> kube_write E (UpdateConfigMap cm) w;
          Some ((err, cm), w)
        })
   }"

definition UpdateNetworkPool :: "env \<Rightarrow> bool \<Rightarrow> NetworkPool list \<Rightarrow> (world, error option) prog" where
  "UpdateNetworkPool E isNil np w =
     (case marshalPools isNil np of
        Inl e \<Rightarrow> Some (Some (Errorf (''Error in Marshalling nps -'' @ error_msg e)), w)
      | Inr npsByte \<Rightarrow> do {
          (err, w) \<leftarrow> ask (env_kubeConfig E) w;
          (case err of
             Some e \<Rightarrow> Some (Some (Errorf (''Error in getting k8s clientset -'' @ error_msg e)), w)
           | None \<Rightarrow> do {
               ((r, cm), w) \<leftarrow> RetryOnConflict E (updatePoolOnce E [(''networkpools'', npsByte)]) w;
               (case r of
                  Some e \<Rightarrow> Some (Some (Errorf (''status update failed for configmap '' @ cm_Namespace cm @ ''/'' @
                    cm_Name cm @ '': '' @ error_msg e)), w)
                | None \<Rightarrow> do {
                    (g, w) \<leftarrow> request (KubeGet KConfigMap (cm_Namespace cm) (cm_Name cm))
                       (\<lambda>h. env_getConfigMap E h (cm_Namespace cm) (cm_Name cm)) w;
                    (case g of Inl e \<Rightarrow> Some (Some e, w) | Inr cm \<Rightarrow> Some (None, w))
                  })
             })
        })"

section \<open>Creating the Network resource\<close>

text \<open>
  The watch loop keeps the status of the last event until the channel is closed; a timeout only
  stops the watch.  The type assertion on the object of an event panics if it is not a Network.
\<close>

fun watchStatus :: "watchEvent list \<Rightarrow> string \<Rightarrow> string option" where
  "watchStatus [] status = Some status"
| "watchStatus (WatchTimeout # evs) status = watchStatus evs status"
| "watchStatus (NetworkEvent s # evs) status = watchStatus evs s"
| "watchStatus (OtherObject # evs) status = None"

definition networkRequest :: "IpSubnet \<Rightarrow> Network" where
  "networkRequest sn = \<lparr>nw_Meta = \<lparr>om_Name = sn_Name sn, om_Namespace = ''default'',
       om_Labels = Some [(''net'', sn_Name sn)], om_Annotations = [], om_Finalizers = [],
       om_Deleting = False, om_Generation = 0\<rparr>,
     nw_CniType = ''ovn4nfv'', nw_Ipv4Subnets = [sn], nw_Ipv6Subnets = [], nw_State = []\<rparr>"

definition CreateNetwork :: "env \<Rightarrow> IpSubnet \<Rightarrow> (world, error option) prog" where
  "CreateNetwork E sn w = do {
     (err, w) \<leftarrow> ask (env_v1alpha1Config E) w;
     (case err of
        Some e \<Rightarrow> Some (Some e, w)
      | None \<Rightarrow> do {
          (resp, w) \<leftarrow> request (CreateNetworkCR (networkRequest sn))
             (\<lambda>h. env_createNetwork E h (networkRequest sn)) w;
          (case resp of
             Inl e \<Rightarrow> Some (Some e, w)
           | Inr status \<Rightarrow> do {
               (ch, w) \<leftarrow> request (WatchNetwork (sn_Name sn)) (\<lambda>h. env_watchNetwork E h (sn_Name sn)) w;
               (case ch of
                  Inl e \<Rightarrow> Some (Some e, w)
                | Inr evs \<Rightarrow>
                    (case watchStatus evs status of
                       None \<Rightarrow> None
                     | Some state \<Rightarrow>
                         if state \<noteq> Created then Some (Some (Errorf (''Network is not created: '' @ state)), w)
                         else Some (None, w)))
             })
        })
   }"

section \<open>Taking a network from the pool\<close>

definition zero_IpSubnet :: IpSubnet where
  "zero_IpSubnet = \<lparr>sn_Name = [], sn_Subnet = [], sn_Gateway = [], sn_ExcludeIps = []\<rparr>"

text \<open>
  The loop over the decoded list: the position \<^verbatim>\<open>i == poollength-1\<close> is the last element.
  The result is the changed list and \<^verbatim>\<open>networkConf\<close>, which keeps its zero value when the
  loop runs out without a \<^verbatim>\<open>break\<close>.
\<close>

fun takePool :: "string \<Rightarrow> NetworkPool list \<Rightarrow> error + (NetworkPool list \<times> IpSubnet)" where
  "takePool ns [] = Inr ([], zero_IpSubnet)"
| "takePool ns (p # ps) =
     (if sn_Name (np_Network p) \<noteq> ''nil'' \<and> \<not> np_Available p \<and> ps = []
        then Inl (Errorf ''all the network pools are taken'')
      else if sn_Name (np_Network p) = ''nil'' \<and> np_Available p
        then let n = (np_Network p)\<lparr>sn_Name := ns\<rparr>
             in Inr (p\<lparr>np_Network := n, np_Available := False\<rparr> # ps, n)
      else (case takePool ns ps of
              Inl e \<Rightarrow> Inl e
            | Inr (ps', conf) \<Rightarrow> Inr (p # ps', conf)))"

definition CreateNetworkFromPool :: "env \<Rightarrow> string \<Rightarrow> (world, error option) prog" where
  "CreateNetworkFromPool E ns w = do {
     (r, w) \<leftarrow> CheckVirtualNetworkConf E w;
     (case r of
        Inl e \<Rightarrow> Some (Some e, w)
      | Inr isExist \<Rightarrow>
     if \<not> isExist
     then Some (Some (Errorf ''Can't create virtual network as the network pool config doesn't exit''), w)
     else do {
       (err, w) \<leftarrow> ask (env_kubeConfig E) w;
       (case err of
          Some e \<Rightarrow> Some (Some (Errorf (''Error in getting k8s clientset -'' @ error_msg e)), w)
        | None \<Rightarrow> do {
       (g, w) \<leftarrow> request (KubeGet KConfigMap networkpoolns networkpoolconfig)
          (\<lambda>h. env_getConfigMap E h networkpoolns networkpoolconfig) w;
       (case g of
          Inl e \<Rightarrow> Some (Some (Errorf (''Error in getting k8s configmaps -'' @ error_msg e)), w)
        | Inr configmaps \<Rightarrow>
       (case map_of (cm_Data configmaps) ''networkpools'' of
          None \<Rightarrow> Some (Some (Errorf ''Error in getting k8s configmaps''), w)
        | Some val \<Rightarrow>
       (case unmarshalPools val of
          Inl e \<Rightarrow> Some (Some (Errorf (''Error in unmarshalling networkpool data -'' @ error_msg e)), w)
        | Inr nps \<Rightarrow>
       (case takePool ns nps of
          Inl e \<Rightarrow> Some (Some e, w)
        | Inr (nps', networkConf) \<Rightarrow>
       (case marshalPools (nilSlice val) nps' of
          Inl e \<Rightarrow> Some (Some (Errorf (''Error in Marshalling nps -'' @ error_msg e)), w)
        | Inr _ \<Rightarrow> do {
            (err, w) \<leftarrow> CreateNetwork E networkConf w;
            (case err of
               Some e \<Rightarrow> Some (Some (Errorf (''Error in the creating the network -'' @ error_msg e)), w)
             | None \<Rightarrow> do {
                 (err, w) \<leftarrow> UpdateNetworkPool E (nilSlice val) nps' w;
                 (case err of
                    Some e \<Rightarrow> Some (Some (Errorf (''Error in the updating the config map -'' @ error_msg e)), w)
                  | None \<Rightarrow> Some (None, w))
               })
          })))))})})
   }"

section \<open>Allocation as an interface\<close>

text \<open>
  What a namespace relies on: the store holds a list of free items, an allocation hands out the
  first of them under the client's name, and an empty store is an error.
\<close>

fun allocate :: "('n \<Rightarrow> 's \<Rightarrow> 'e + ('s \<times> 'i)) \<Rightarrow> 'n list \<Rightarrow> 's \<Rightarrow> 'e + ('s \<times> 'i list)" where
  "allocate get [] s = Inr (s, [])"
| "allocate get (n # ns) s =
     (case get n s of
        Inl e \<Rightarrow> Inl e
      | Inr (s', i) \<Rightarrow> (case allocate get ns s' of Inl e \<Rightarrow> Inl e | Inr (s'', js) \<Rightarrow> Inr (s'', i # js)))"

locale allocator =
  fixes get :: "'n \<Rightarrow> 's \<Rightarrow> 'e + ('s \<times> 'i)" and free :: "'s \<Rightarrow> 'i list" and named :: "'n \<Rightarrow> 'i \<Rightarrow> 'i"
    and inv :: "'s \<Rightarrow> bool" and okn :: "'n \<Rightarrow> bool"
  assumes get_free: "inv s \<Longrightarrow> okn n \<Longrightarrow> free s = i # js \<Longrightarrow>
      \<exists>s'. get n s = Inr (s', named n i) \<and> free s' = js \<and> inv s'"
    and get_empty: "inv s \<Longrightarrow> free s = [] \<Longrightarrow> \<exists>e. get n s = Inl e"
begin

lemma allocate_in_order:
  "inv s \<Longrightarrow> \<forall>n \<in> set ns. okn n \<Longrightarrow> length ns \<le> length (free s) \<Longrightarrow>
     \<exists>s'. allocate get ns s = Inr (s', map2 named ns (free s)) \<and> free s' = drop (length ns) (free s) \<and> inv s'"
proof (induction ns arbitrary: s)
  case (Cons n ns)
  from Cons.prems obtain i js where f: "free s = i # js" by (cases "free s") auto
  with Cons.prems get_free obtain s' where s': "get n s = Inr (s', named n i)" "free s' = js" "inv s'"
    by (metis list.set_intros(1))
  with Cons.IH [of s'] Cons.prems f show ?case by auto
qed simp

lemma allocate_exhausted:
  "inv s \<Longrightarrow> \<forall>n \<in> set ns. okn n \<Longrightarrow> length (free s) < length ns \<Longrightarrow> \<exists>e. allocate get ns s = Inl e"
proof (induction ns arbitrary: s)
  case (Cons n ns)
  show ?case
  proof (cases "free s")
    case Nil
    with get_empty [OF Cons.prems(1)] obtain e where "get n s = Inl e" by blast
    then show ?thesis by simp
  next
    case (Cons i js)
    with \<open>inv s\<close> Cons.prems get_free obtain s' where s': "get n s = Inr (s', named n i)" "free s' = js" "inv s'"
      by (metis list.set_intros(1))
    with Cons.IH [of s'] Cons.prems Cons obtain e where "allocate get ns s' = Inl e" by auto
    with s' show ?thesis by simp
  qed
qed simp

end

definition free_entry :: "NetworkPool \<Rightarrow> bool" where
  "free_entry p \<longleftrightarrow> sn_Name (np_Network p) = ''nil'' \<and> np_Available p"

definition free_nets :: "NetworkPool list \<Rightarrow> IpSubnet list" where
  "free_nets nps = map np_Network (filter free_entry nps)"

text \<open>A pool as the program writes it: not empty, and an entry is named exactly when it is taken.\<close>

definition wf_pool :: "NetworkPool list \<Rightarrow> bool" where
  "wf_pool nps \<longleftrightarrow> nps \<noteq> [] \<and> (\<forall>p \<in> set nps. (sn_Name (np_Network p) = ''nil'') = np_Available p)"

definition claimed :: "string \<Rightarrow> IpSubnet \<Rightarrow> IpSubnet" where
  "claimed ns n = n\<lparr>sn_Name := ns\<rparr>"

text \<open>The first free entry is the one that changes.\<close>

lemma takePool_split:
  "\<forall>p \<in> set ps. \<not> free_entry p \<Longrightarrow> free_entry p \<Longrightarrow>
     takePool ns (ps @ p # qs) = Inr (ps @ p\<lparr>np_Network := claimed ns (np_Network p), np_Available := False\<rparr> # qs,
       claimed ns (np_Network p))"
  by (induction ps) (auto simp: free_entry_def claimed_def Let_def)

lemma takePool_full:
  "nps \<noteq> [] \<Longrightarrow> \<forall>p \<in> set nps. sn_Name (np_Network p) \<noteq> ''nil'' \<and> \<not> np_Available p \<Longrightarrow>
     takePool ns nps = Inl (Errorf ''all the network pools are taken'')"
  by (induction nps) auto

lemma takePool_length: "takePool ns nps = Inr (nps', conf) \<Longrightarrow> length nps' = length nps"
  by (induction nps arbitrary: nps') (auto simp: Let_def split: if_splits sum.splits)

lemma free_split:
  assumes "free_nets nps = i # js"
  obtains ps p qs where "nps = ps @ p # qs" "\<forall>p \<in> set ps. \<not> free_entry p" "free_entry p"
    "i = np_Network p" "js = free_nets qs"
proof -
  from assms obtain p rest where "filter free_entry nps = p # rest" "i = np_Network p" "js = map np_Network rest"
    by (auto simp: free_nets_def)
  with filter_eq_ConsD [OF this(1)] that show ?thesis
    unfolding free_nets_def by (metis filter.simps(2) list.inject)
qed

interpretation pool: allocator takePool free_nets claimed wf_pool "\<lambda>ns. ns \<noteq> ''nil''"
proof
  fix nps ns i js
  assume wf: "wf_pool nps" and ns: "ns \<noteq> ''nil''" and "free_nets nps = i # js"
  then obtain ps p qs where s: "nps = ps @ p # qs" "\<forall>p \<in> set ps. \<not> free_entry p" "free_entry p"
    "i = np_Network p" "js = free_nets qs" by (rule_tac free_split)
  let ?nps = "ps @ p\<lparr>np_Network := claimed ns (np_Network p), np_Available := False\<rparr> # qs"
  have "free_nets ?nps = js" using s ns by (auto simp: free_nets_def free_entry_def claimed_def)
  moreover have "wf_pool ?nps" using wf ns s by (auto simp: wf_pool_def claimed_def)
  ultimately show "\<exists>s'. takePool ns nps = Inr (s', claimed ns i) \<and> free_nets s' = js \<and> wf_pool s'"
    using takePool_split [OF s(2,3)] s(1,4) by blast
next
  fix nps ns
  assume "wf_pool nps" and "free_nets nps = []"
  then have "nps \<noteq> []" "\<forall>p \<in> set nps. sn_Name (np_Network p) \<noteq> ''nil'' \<and> \<not> np_Available p"
    by (auto simp: wf_pool_def free_nets_def free_entry_def filter_empty_conv)
  from takePool_full [OF this] show "\<exists>e. takePool ns nps = Inl e" by blast
qed

lemma free_numberPools:
  "\<forall>n \<in> set nets. sn_Name n = ''nil'' \<Longrightarrow> free_nets (numberPools k nets) = nets"
  by (induction nets arbitrary: k) (auto simp: free_nets_def free_entry_def)

lemma wf_numberPools: "nets \<noteq> [] \<Longrightarrow> \<forall>n \<in> set nets. sn_Name n = ''nil'' \<Longrightarrow> wf_pool (numberPools k nets)"
proof -
  have "\<forall>n \<in> set nets. sn_Name n = ''nil'' \<Longrightarrow>
      \<forall>p \<in> set (numberPools k nets). (sn_Name (np_Network p) = ''nil'') = np_Available p" for k
    by (induction nets arbitrary: k) auto
  moreover have "nets \<noteq> [] \<Longrightarrow> numberPools k nets \<noteq> []" by (cases nets) simp_all
  ultimately show "nets \<noteq> [] \<Longrightarrow> \<forall>n \<in> set nets. sn_Name n = ''nil'' \<Longrightarrow> wf_pool (numberPools k nets)"
    by (simp add: wf_pool_def)
qed

section \<open>What the operations request\<close>

lemma RetryOnConflict_rule:
  assumes run: "RetryOnConflict E fn w = Some y"
    and stop: "\<And>w. fn w = Some y \<Longrightarrow> Q w"
    and again: "\<And>w r v. fn w = Some (r, v) \<Longrightarrow> Q v \<Longrightarrow> Q w"
  shows "Q w"
proof -
  have "E = E \<longrightarrow> fn = fn \<longrightarrow> y = y \<longrightarrow> Q w"
  proof (rule RetryOnConflict.raw_induct [of "\<lambda>E' fn' w y'. E' = E \<longrightarrow> fn' = fn \<longrightarrow> y' = y \<longrightarrow> Q w", OF _ run])
    fix rec E' fn' w y'
    assume IH: "\<And>E' fn' w y'. rec E' fn' w = Some y' \<Longrightarrow> E' = E \<longrightarrow> fn' = fn \<longrightarrow> y' = y \<longrightarrow> Q w"
      and body: "Option.bind (fn' w) (\<lambda>a. case a of (x, xa) \<Rightarrow> (case x of (err, x) \<Rightarrow> \<lambda>w.
         case err of None \<Rightarrow> Some ((None, x), w)
         | Some e \<Rightarrow> if env_retryAgain E' (trace w) e then rec E' fn' w else Some ((Some e, x), w)) xa) = Some y'"
    show "E' = E \<longrightarrow> fn' = fn \<longrightarrow> y' = y \<longrightarrow> Q w"
    proof (intro impI)
      assume eq: "E' = E" "fn' = fn" "y' = y"
      from body eq obtain err x v where v: "fn w = Some ((err, x), v)"
        and rest: "(case err of None \<Rightarrow> Some ((None, x), v)
          | Some e \<Rightarrow> if env_retryAgain E (trace v) e then rec E fn v else Some ((Some e, x), v)) = Some y"
        by (auto simp: bind_eq_Some_conv)
      then have "((err, x), v) = y \<or> rec E fn v = Some y" by (auto split: option.splits if_splits)
      with v IH [of E fn v y] again [OF v] stop [of w] show "Q w" by auto
    qed
  qed
  then show ?thesis by simp
qed

lemma RetryOnConflict_emits [emits_intros]:
  assumes "emits P fn"
  shows "emits P (RetryOnConflict E fn)"
  unfolding emits_def
proof (intro allI impI)
  fix w a w'
  assume "RetryOnConflict E fn w = Some (a, w')"
  then show "\<exists>es. trace w' = trace w @ es \<and> (\<forall>e \<in> set es. P e)"
  proof (rule RetryOnConflict_rule)
    fix w r v assume "fn w = Some (r, v)" "\<exists>es. trace w' = trace v @ es \<and> (\<forall>e \<in> set es. P e)"
    with emitsD [OF assms, of w r v] obtain es es' where "trace v = trace w @ es" "trace w' = trace v @ es'"
      "\<forall>e \<in> set es. P e" "\<forall>e \<in> set es'. P e" by blast
    then have "trace w' = trace w @ (es @ es') \<and> (\<forall>e \<in> set (es @ es'). P e)" by auto
    then show "\<exists>es. trace w' = trace w @ es \<and> (\<forall>e \<in> set es. P e)" by blast
  qed (rule emitsD [OF assms])
qed

lemma RetryOnConflict_last:
  assumes "RetryOnConflict E fn w = Some y" and "emits P fn"
  shows "\<exists>v. fn v = Some y \<and> prefix (trace w) (trace v)"
  using assms(1)
proof (rule RetryOnConflict_rule)
  fix w r v assume "fn w = Some (r, v)" "\<exists>u. fn u = Some y \<and> prefix (trace v) (trace u)"
  with emitsD [OF assms(2), of w r v] show "\<exists>u. fn u = Some y \<and> prefix (trace w) (trace u)"
    by (metis prefixI prefix_order.trans)
qed auto

abbreviation pool_data :: "string \<Rightarrow> (string, string) gomap" where
  "pool_data json \<equiv> [(''networkpools'', json)]"

definition pool_event :: "string \<Rightarrow> event \<Rightarrow> bool" where
  "pool_event json e \<longleftrightarrow> (\<exists>ns nm. e = KubeGet KConfigMap ns nm) \<or>
     (\<exists>cm. e = UpdateConfigMap cm \<and> cm_Data cm = pool_data json)"

lemma updatePoolOnce_emits: "emits (pool_event json) (updatePoolOnce E (pool_data json))"
  unfolding updatePoolOnce_def [abs_def] Let_def
  by (intro emits_intros) (auto simp: pool_event_def)

lemma CreateNetwork_emits:
  "emits (\<lambda>e. e = CreateNetworkCR (networkRequest sn) \<or> e = WatchNetwork (sn_Name sn)) (CreateNetwork E sn)"
  unfolding CreateNetwork_def [abs_def] by (intro emits_intros) auto

lemma CreateNetwork_ok:
  assumes "CreateNetwork E sn w = Some (None, w')"
  shows "trace w' = trace w @ [CreateNetworkCR (networkRequest sn), WatchNetwork (sn_Name sn)] \<and>
     (\<exists>status evs. env_createNetwork E (trace w) (networkRequest sn) = Inr status \<and>
        env_watchNetwork E (trace w @ [CreateNetworkCR (networkRequest sn)]) (sn_Name sn) = Inr evs \<and>
        watchStatus evs status = Some Created)"
  using assms by (auto simp: CreateNetwork_def split: option.splits sum.splits if_splits)

lemma UpdateNetworkPool_ok:
  assumes "UpdateNetworkPool E b np w = Some (None, w')"
  shows "\<exists>json cm es. marshalPools b np = Inr json \<and> cm_Data cm = pool_data json \<and>
     trace w' = trace w @ es @ [UpdateConfigMap cm, KubeGet KConfigMap (cm_Namespace cm) (cm_Name cm)] \<and>
     (\<forall>e \<in> set es. pool_event json e)"
proof -
  from assms obtain json cm v where m: "marshalPools b np = Inr json"
    and r: "RetryOnConflict E (updatePoolOnce E (pool_data json)) w = Some ((None, cm), v)"
    and w': "trace w' = trace v @ [KubeGet KConfigMap (cm_Namespace cm) (cm_Name cm)]"
    by (auto simp: UpdateNetworkPool_def bind_eq_Some_conv split: option.splits sum.splits if_splits)
  from RetryOnConflict_last [OF r updatePoolOnce_emits] obtain u where
    u: "updatePoolOnce E (pool_data json) u = Some ((None, cm), v)" "prefix (trace w) (trace u)" by blast
  from emitsD [OF RetryOnConflict_emits [OF updatePoolOnce_emits] r] obtain es where
    es: "trace v = trace w @ es" "\<forall>e \<in> set es. pool_event json e" by blast
  from u(1) obtain g where "trace v = trace u @ [g, UpdateConfigMap cm]" "cm_Data cm = pool_data json"
    by (auto simp: updatePoolOnce_def kube_write_def Let_def split: sum.splits)
  moreover from this u(2) es(1) obtain fs where fs: "es = fs @ [UpdateConfigMap cm]"
    by (auto simp: prefix_def)
  ultimately show ?thesis using m w' es
    by (intro exI [of _ json] exI [of _ cm] exI [of _ fs]) auto
qed

lemma UpdateNetworkPool_emits:
  "emits (\<lambda>e. \<exists>json. pool_event json e) (UpdateNetworkPool E b np)"
  unfolding UpdateNetworkPool_def [abs_def]
  by (intro emits_intros RetryOnConflict_emits [OF emits_mono [OF updatePoolOnce_emits]]) (auto simp: pool_event_def)

section \<open>Properties\<close>

text \<open>
  C4.  Namespaces that take a network one after the other get the free networks in pool order, each
  under its own name, with pairwise different subnets when the pool's are; one request more than
  there are free networks is refused.
\<close>

theorem takePool_allocates_in_order:
  assumes "wf_pool nps" and "\<forall>ns \<in> set names. ns \<noteq> ''nil''"
  shows "if length names \<le> length (free_nets nps)
    then \<exists>nps'. allocate takePool names nps = Inr (nps', map2 claimed names (free_nets nps)) \<and>
           free_nets nps' = drop (length names) (free_nets nps) \<and> wf_pool nps' \<and>
           (distinct (map sn_Subnet (free_nets nps)) \<longrightarrow>
              distinct (map sn_Subnet (map2 claimed names (free_nets nps))))
    else \<exists>e. allocate takePool names nps = Inl e"
proof -
  have *: "map sn_Subnet (map2 claimed names nets) = take (length names) (map sn_Subnet nets)"
    if "length names \<le> length nets" for names nets
    using that by (induction names nets rule: list_induct2') (auto simp: claimed_def)
  show ?thesis
    using pool.allocate_in_order [OF assms] pool.allocate_exhausted [OF assms] * [of names "free_nets nps"]
    by (auto simp: distinct_take)
qed

definition two_pools :: "NetworkPool list" where
  "two_pools = numberPools 0 [\<lparr>sn_Name = ''nil'', sn_Subnet = ''10.0.0.0/30'', sn_Gateway = ''10.0.0.1/30'', sn_ExcludeIps = ''10.0.0.2''\<rparr>,
     \<lparr>sn_Name = ''nil'', sn_Subnet = ''10.0.0.4/30'', sn_Gateway = ''10.0.0.5/30'', sn_ExcludeIps = ''10.0.0.6''\<rparr>]"

theorem takePool_allocates_in_order_witness:
  "\<exists>nps' nets. allocate takePool [''red'', ''blue''] two_pools = Inr (nps', nets) \<and>
     map sn_Name nets = [''red'', ''blue''] \<and> map sn_Subnet nets = [''10.0.0.0/30'', ''10.0.0.4/30'']"
proof -
  have wf: "wf_pool two_pools" by (simp add: two_pools_def wf_pool_def)
  have names: "\<forall>ns \<in> set [''red'', ''blue'']. ns \<noteq> ''nil''" by simp
  have f: "free_nets two_pools = map np_Network two_pools"
    by (simp add: two_pools_def free_nets_def free_entry_def)
  then have l: "length [''red'', ''blue''] \<le> length (free_nets two_pools)" by (simp add: two_pools_def)
  from takePool_allocates_in_order [OF wf names, unfolded if_P [OF l]] obtain nps' where
    "allocate takePool [''red'', ''blue''] two_pools = Inr (nps', map2 claimed [''red'', ''blue''] (free_nets two_pools))"
    by blast
  then show ?thesis by (simp add: f) (simp add: two_pools_def claimed_def)
qed

text \<open>
  C5.  When \<^verbatim>\<open>CreateNetworkFromPool\<close> returns nil it has read the pool, created a Network
  for the entry it took, waited until that network was reported \<^verbatim>\<open>Created\<close>, and only then
  written a pool that differs in that entry, and it made no other request.
\<close>

theorem CreateNetworkFromPool_success:
  assumes "CreateNetworkFromPool E ns w = Some (None, w')"
  shows "\<exists>cm val nps nps' conf json status evs c es.
     env_getConfigMap E (trace w) networkpoolns networkpoolconfig = Inr cm \<and>
     map_of (cm_Data cm) ''networkpools'' = Some val \<and> unmarshalPools val = Inr nps \<and>
     takePool ns nps = Inr (nps', conf) \<and> marshalPools (nilSlice val) nps' = Inr json \<and>
     watchStatus evs status = Some Created \<and>
     env_watchNetwork E (trace w @ [KubeGet KConfigMap networkpoolns networkpoolconfig,
       CreateNetworkCR (networkRequest conf)]) (sn_Name conf) = Inr evs \<and>
     trace w' = trace w @ [KubeGet KConfigMap networkpoolns networkpoolconfig,
       CreateNetworkCR (networkRequest conf), WatchNetwork (sn_Name conf)] @ es @
       [UpdateConfigMap c, KubeGet KConfigMap (cm_Namespace c) (cm_Name c)] \<and>
     cm_Data c = pool_data json \<and> (\<forall>e \<in> set es. pool_event json e)"
proof -
  let ?get = "KubeGet KConfigMap networkpoolns networkpoolconfig"
  from assms obtain cm val nps nps' conf json v where
    pool: "env_getConfigMap E (trace w) networkpoolns networkpoolconfig = Inr cm"
      "map_of (cm_Data cm) ''networkpools'' = Some val" "unmarshalPools val = Inr nps"
      "takePool ns nps = Inr (nps', conf)" "marshalPools (nilSlice val) nps' = Inr json"
    and create: "CreateNetwork E conf (w\<lparr>trace := trace w @ [?get]\<rparr>) = Some (None, v)"
    and upd: "UpdateNetworkPool E (nilSlice val) nps' v = Some (None, w')"
    by (auto simp: CreateNetworkFromPool_def CheckVirtualNetworkConf_def run_conv)
  from CreateNetwork_ok [OF create] obtain status evs where
    v: "trace v = trace w @ [?get, CreateNetworkCR (networkRequest conf), WatchNetwork (sn_Name conf)]"
    and "env_watchNetwork E (trace w @ [?get, CreateNetworkCR (networkRequest conf)]) (sn_Name conf) = Inr evs"
      "watchStatus evs status = Some Created" by auto
  moreover from UpdateNetworkPool_ok [OF upd] pool(5) obtain c es where
    "cm_Data c = pool_data json" "\<forall>e \<in> set es. pool_event json e"
      "trace w' = trace v @ es @ [UpdateConfigMap c, KubeGet KConfigMap (cm_Namespace c) (cm_Name c)]" by auto
  ultimately show ?thesis using pool by (intro exI conjI) (assumption | simp)+
qed

definition pool_text :: "NetworkPool list \<Rightarrow> string" where
  "pool_text nps = json_print (JArr (map jsonOfPool nps))"

lemma pool_text_reads: "list_all storable nps \<Longrightarrow> unmarshalPools (pool_text nps) = Inr nps"
  using pools_roundtrip [of nps False] by (simp add: marshalPools_def pool_text_def)

lemma taken: "\<exists>nps' conf. takePool ns two_pools = Inr (nps', conf)"
  by (simp add: two_pools_def Let_def)

lemma two_pools_text: "unmarshalPools (pool_text two_pools) = Inr two_pools"
  by (rule pool_text_reads) (simp add: two_pools_def storable_def ascii_subnet_def ascii_def)

definition pool_env :: env where
  "pool_env = null_env\<lparr>env_getConfigMap := (\<lambda>h ns nm. Inr \<lparr>cm_Name = nm, cm_Namespace = ns, cm_Data = pool_data (pool_text two_pools)\<rparr>),
     env_watchNetwork := (\<lambda>h n. Inr [NetworkEvent [], WatchTimeout, NetworkEvent Created])\<rparr>"

theorem CreateNetworkFromPool_success_witness:
  "\<exists>w' conf c es. CreateNetworkFromPool pool_env ''red'' init_world = Some (None, w') \<and>
     trace w' = [KubeGet KConfigMap networkpoolns networkpoolconfig,
       CreateNetworkCR (networkRequest conf), WatchNetwork (sn_Name conf)] @ es @
       [UpdateConfigMap c, KubeGet KConfigMap (cm_Namespace c) (cm_Name c)]"
proof -
  obtain nps' conf where t: "takePool ''red'' two_pools = Inr (nps', conf)" using taken by blast
  have "\<exists>w'. CreateNetworkFromPool pool_env ''red'' init_world = Some (None, w')"
    by (simp add: CreateNetworkFromPool_def CheckVirtualNetworkConf_def pool_env_def null_env_def two_pools_text t marshalPools_def
        Let_def CreateNetwork_def UpdateNetworkPool_def updatePoolOnce_def kube_write_def
        RetryOnConflict.simps [of _ "updatePoolOnce _ _"])
  then obtain w' where w': "CreateNetworkFromPool pool_env ''red'' init_world = Some (None, w')" ..
  with CreateNetworkFromPool_success [OF w'] show ?thesis by (fastforce simp: init_world_def)
qed

text \<open>
  C6.  Whatever happens, the pool is written only after the network of the entry taken was created:
  if any update of the config map is requested, the request for the Network resource precedes it
  and the watch ended with status \<^verbatim>\<open>Created\<close>.
\<close>

theorem CreateNetworkFromPool_update_after_created:
  assumes "CreateNetworkFromPool E ns w = Some (r, w')" and "UpdateConfigMap c \<in> set (new_events w w')"
  shows "\<exists>nps nps' conf status evs es. takePool ns nps = Inr (nps', conf) \<and>
     trace w' = trace w @ [KubeGet KConfigMap networkpoolns networkpoolconfig,
       CreateNetworkCR (networkRequest conf), WatchNetwork (sn_Name conf)] @ es \<and>
     env_createNetwork E (trace w @ [KubeGet KConfigMap networkpoolns networkpoolconfig]) (networkRequest conf) = Inr status \<and>
     env_watchNetwork E (trace w @ [KubeGet KConfigMap networkpoolns networkpoolconfig,
       CreateNetworkCR (networkRequest conf)]) (sn_Name conf) = Inr evs \<and> watchStatus evs status = Some Created"
proof -
  let ?get = "KubeGet KConfigMap networkpoolns networkpoolconfig"
  let ?w = "w\<lparr>trace := trace w @ [?get]\<rparr>"
  consider "new_events w w' = [] \<or> new_events w w' = [?get]"
    | (fails) nps nps' conf e where "takePool ns nps = Inr (nps', conf)"
        "CreateNetwork E conf ?w = Some (Some e, w')"
    | (creates) nps nps' conf v b err where "takePool ns nps = Inr (nps', conf)"
        "CreateNetwork E conf ?w = Some (None, v)" "UpdateNetworkPool E b nps' v = Some (err, w')"
    using assms(1)
    by (auto simp: CreateNetworkFromPool_def CheckVirtualNetworkConf_def new_events_def run_conv)
  then show ?thesis
  proof cases
    case 1
    with assms(2) show ?thesis by auto
  next
    case fails
    from emitsD [OF CreateNetwork_emits fails(2)] assms(2) show ?thesis
      by (auto simp: new_events_def)
  next
    case creates
    from emitsD [OF UpdateNetworkPool_emits creates(3)] obtain es where "trace w' = trace v @ es" by blast
    with CreateNetwork_ok [OF creates(2)] creates(1) show ?thesis by fastforce
  qed
qed

theorem CreateNetworkFromPool_update_after_created_witness:
  "\<exists>w' c conf es. CreateNetworkFromPool pool_env ''red'' init_world = Some (None, w') \<and>
     UpdateConfigMap c \<in> set (new_events init_world w') \<and>
     trace w' = [KubeGet KConfigMap networkpoolns networkpoolconfig,
       CreateNetworkCR (networkRequest conf), WatchNetwork (sn_Name conf)] @ es"
proof -
  obtain nps' conf where t: "takePool ''red'' two_pools = Inr (nps', conf)" using taken by blast
  have "\<exists>w' c. CreateNetworkFromPool pool_env ''red'' init_world = Some (None, w') \<and>
      UpdateConfigMap c \<in> set (new_events init_world w')"
    by (simp add: CreateNetworkFromPool_def CheckVirtualNetworkConf_def pool_env_def null_env_def two_pools_text t marshalPools_def
        Let_def CreateNetwork_def UpdateNetworkPool_def updatePoolOnce_def kube_write_def new_events_def init_world_def
        RetryOnConflict.simps [of _ "updatePoolOnce _ _"])
  then obtain w' c where w': "CreateNetworkFromPool pool_env ''red'' init_world = Some (None, w')"
    "UpdateConfigMap c \<in> set (new_events init_world w')" by blast
  with CreateNetworkFromPool_update_after_created [OF w'] show ?thesis by (fastforce simp: init_world_def)
qed

lemma subnetLoop_named:
  assumes "subnetLoop F cfg ip vn = Some vn'" and "\<forall>n \<in> set vn. sn_Name n = ''nil''"
  shows "\<forall>n \<in> set vn'. sn_Name n = ''nil''"
proof -
  have "(\<forall>n \<in> set vn. sn_Name n = ''nil'') \<longrightarrow> (\<forall>n \<in> set vn'. sn_Name n = ''nil'')"
  proof (rule subnetLoop.raw_induct [OF _ assms(1)])
    fix rec F cfg ip vn vn'
    assume IH: "\<And>F cfg ip vn vn'. rec F cfg ip vn = Some vn' \<Longrightarrow>
        (\<forall>n \<in> set vn. sn_Name n = ''nil'') \<longrightarrow> (\<forall>n \<in> set vn'. sn_Name n = ''nil'')"
      and body: "(if ip = net_IP (fl_Next F (cfg_Network cfg)) then Some vn
        else rec F cfg (ip + subnetSize cfg) (vn @ [subnetAt F cfg ip])) = Some vn'"
    have "sn_Name (subnetAt F cfg ip) = ''nil''" by (simp add: subnetAt_def Let_def)
    with body IH [of F cfg "ip + subnetSize cfg" "vn @ [subnetAt F cfg ip]" vn']
    show "(\<forall>n \<in> set vn. sn_Name n = ''nil'') \<longrightarrow> (\<forall>n \<in> set vn'. sn_Name n = ''nil'')"
      by (auto simp: run_conv)
  qed
  with assms(2) show ?thesis by blast
qed

lemma ParseConfig_named:
  "ParseConfig F s = Some (Inr vn) \<Longrightarrow> vn \<noteq> [] \<and> (\<forall>n \<in> set vn. sn_Name n = ''nil'')"
  using subnetLoop_named by (auto simp: ParseConfig_def run_conv)

lemma ascii_show_nat: "ascii (show_nat n)"
  unfolding ascii_def using show_nat_digits [of _ n] by (fastforce simp: is_digit_def)

lemma virtual_pools_storable:
  assumes "next_is_following F" and "\<forall>ip. ascii (fl_String F ip)" and "fl_Unmarshal F conf = Inr cfg"
    and "1 \<le> net_PrefixLen (cfg_Network cfg)" and "net_PrefixLen (cfg_Network cfg) \<le> 32" and "ParseConfig F conf = Some (Inr nets)"
  shows "list_all storable (numberPools 0 nets)"
proof -
  from ParseConfig_cases [OF assms(1,3-5)] assms(6) obtain c where c: "len_ok c"
    and nets: "nets = map (\<lambda>k. subnetAt F c (net_IP (cfg_Network cfg) + of_nat (k * block_size c))) [0..<block_count c]" by auto
  from c have "subnet_len c - prefix_len c \<le> 30" unfolding len_ok_def by arith
  then have "block_count c \<le> 2 ^ 30" unfolding block_count_def by (intro power_increasing) simp_all
  then have "int (length nets) \<le> 2 ^ 30" by (simp add: nets)
  moreover have "ascii_subnet (subnetAt F c ip)" for ip using assms(2) ascii_show_nat by (auto simp: subnetAt_def ascii_subnet_def ascii_def Let_def)
  then have "\<forall>n \<in> set nets. ascii_subnet n" by (auto simp: nets)
  moreover have "list_all storable (numberPools k ns)" if "0 \<le> k" "k + int (length ns) < 2 ^ 63" "\<forall>n \<in> set ns. ascii_subnet n" for k ns
    using that by (induction ns arbitrary: k) (auto simp: storable_def)
  ultimately show ?thesis by simp
qed

text \<open>
  C7.  At start-up the pool written to the config map holds exactly the virtual networks cut from
  the configured subnet, all free and in order, and the first namespace that takes one gets the
  first of them.
\<close>

theorem CheckandCreateNetworkPools_first_allocation:
  assumes "next_is_following F" and "\<forall>ip. ascii (fl_String F ip)"
    and "env_statFile E (trace w) netConfPath = None" and "env_readFile E (trace w) netConfPath = Inr conf"
    and "fl_Unmarshal F conf = Inr cfg" and "1 \<le> net_PrefixLen (cfg_Network cfg)" and "net_PrefixLen (cfg_Network cfg) \<le> 32"
    and "CheckandCreateNetworkPools E F w = Some (None, w')"
  shows "\<exists>nets json nps. ParseConfig F conf = Some (Inr nets) \<and>
     trace w' = trace w @ [ReadFile netConfPath, CreateConfigMap \<lparr>cm_Name = networkpoolconfig,
       cm_Namespace = networkpoolns, cm_Data = pool_data json\<rparr>] \<and>
     unmarshalPools json = Inr nps \<and> wf_pool nps \<and> free_nets nps = nets \<and>
     (\<forall>ns. \<exists>nps'. takePool ns nps = Inr (nps', claimed ns (hd nets)))"
proof -
  from assms obtain nets json where
    r: "ParseConfig F conf = Some (Inr nets)" "marshalPools (numberPools 0 nets = []) (numberPools 0 nets) = Inr json"
      "trace w' = trace w @ [ReadFile netConfPath, CreateConfigMap \<lparr>cm_Name = networkpoolconfig,
         cm_Namespace = networkpoolns, cm_Data = pool_data json\<rparr>]"
    by (auto simp: CheckandCreateNetworkPools_def CheckVirtualNetworkConf_def CalculateVirtualNetworkSubnet_def
        CreateNetworkPool_def kube_write_def run_conv)
  from ParseConfig_named [OF r(1)] have ne: "nets \<noteq> []" and nil: "\<forall>n \<in> set nets. sn_Name n = ''nil''" by auto
  from ne nil have take: "\<exists>nps'. takePool ns (numberPools 0 nets) = Inr (nps', claimed ns (hd nets))" for ns
    by (cases nets) (auto simp: claimed_def Let_def)
  have "numberPools 0 nets \<noteq> []" using ne by (cases nets) auto
  with pools_roundtrip [OF virtual_pools_storable [OF assms(1,2,5-7) r(1)], of False] r(2)
  have "unmarshalPools json = Inr (numberPools 0 nets)" by auto
  with r take wf_numberPools [OF ne nil] free_numberPools [OF nil] show ?thesis by blast
qed

lemma ascii_dotted: "ascii (dotted ip)"
  using ascii_show_nat by (auto simp: dotted_def ascii_def Let_def)

theorem CheckandCreateNetworkPools_first_allocation_witness:
  "\<exists>w' nps json. CheckandCreateNetworkPools null_env flannel_ex init_world = Some (None, w') \<and>
     wf_pool nps \<and> length (trace w') = 2 \<and> unmarshalPools json = Inr nps \<and> (\<exists>nets. ParseConfig flannel_ex [] = Some (Inr nets) \<and> free_nets nps = nets)"
proof -
  obtain nets where nets: "ParseConfig flannel_ex [] = Some (Inr nets)" using flannel_ex_loop by blast
  have stat: "env_statFile null_env (trace init_world) netConfPath = None" "env_readFile null_env (trace init_world) netConfPath = Inr []"
    by (simp_all add: null_env_def)
  have asc: "\<forall>ip. ascii (fl_String flannel_ex ip)" by (simp add: flannel_ex_def ascii_dotted)
  obtain cfg where cfg: "fl_Unmarshal flannel_ex [] = Inr cfg" "1 \<le> net_PrefixLen (cfg_Network cfg)" "net_PrefixLen (cfg_Network cfg) \<le> 32"
    by (simp add: flannel_ex_def)
  have "\<exists>w'. CheckandCreateNetworkPools null_env flannel_ex init_world = Some (None, w')"
    using nets by (simp add: CheckandCreateNetworkPools_def CheckVirtualNetworkConf_def
        CalculateVirtualNetworkSubnet_def CreateNetworkPool_def kube_write_def null_env_def marshalPools_def)
  then obtain w' where w': "CheckandCreateNetworkPools null_env flannel_ex init_world = Some (None, w')" ..
  from CheckandCreateNetworkPools_first_allocation [OF flannel_ex_next asc stat cfg w'] nets obtain nps json where
    "wf_pool nps" "free_nets nps = nets" "unmarshalPools json = Inr nps" "trace w' = trace init_world @ [ReadFile netConfPath,
       CreateConfigMap \<lparr>cm_Name = networkpoolconfig, cm_Namespace = networkpoolns, cm_Data = pool_data json\<rparr>]" by auto
  moreover from this have "length (trace w') = 2" by (simp add: init_world_def)
  ultimately show ?thesis using w' nets by blast
qed

text \<open>
  A pool without any entry is not refused: the loop does not run, and a Network with an empty
  name and no subnet is requested from the API server.
\<close>

theorem CreateNetworkFromPool_empty_pool:
  assumes "env_statFile E (trace w) netConfPath = None" "env_kubeConfig E (trace w) = None"
    and "env_getConfigMap E (trace w) networkpoolns networkpoolconfig = Inr cm"
    and "map_of (cm_Data cm) ''networkpools'' = Some val" "unmarshalPools val = Inr []"
    and "env_v1alpha1Config E (trace w @ [KubeGet KConfigMap networkpoolns networkpoolconfig]) = None"
    and "CreateNetworkFromPool E ns w = Some (r, w')"
  shows "CreateNetworkCR (networkRequest zero_IpSubnet) \<in> set (new_events w w')"
proof -
  let ?w = "w\<lparr>trace := trace w @ [KubeGet KConfigMap networkpoolns networkpoolconfig]\<rparr>"
  from assms obtain err v where c: "CreateNetwork E zero_IpSubnet ?w = Some (err, v)"
    and rest: "v = w' \<or> (\<exists>e. UpdateNetworkPool E (nilSlice val) [] v = Some (e, w'))"
    by (auto simp: CreateNetworkFromPool_def CheckVirtualNetworkConf_def marshalPools_def run_conv)
  from rest have "\<exists>es. trace w' = trace v @ es" using emitsD [OF UpdateNetworkPool_emits] by (metis append_Nil2)
  moreover from c assms(6) have "\<exists>es. trace v = trace ?w @ CreateNetworkCR (networkRequest zero_IpSubnet) # es"
    by (auto simp: CreateNetwork_def run_conv)
  ultimately show ?thesis by (auto simp: new_events_def)
qed

definition empty_pool_env :: env where
  "empty_pool_env = pool_env\<lparr>env_getConfigMap := (\<lambda>h ns nm. Inr \<lparr>cm_Name = nm, cm_Namespace = ns, cm_Data = pool_data (pool_text [])\<rparr>)\<rparr>"

lemma empty_text: "unmarshalPools (pool_text []) = Inr []"
  by (rule pool_text_reads) simp

theorem CreateNetworkFromPool_empty_pool_witness:
  "\<exists>r w'. CreateNetworkFromPool empty_pool_env ''red'' init_world = Some (r, w') \<and>
     CreateNetworkCR (networkRequest zero_IpSubnet) \<in> set (new_events init_world w')"
proof -
  let ?E = "empty_pool_env"
  have "\<exists>r w'. CreateNetworkFromPool ?E ''red'' init_world = Some (r, w')"
    by (simp add: CreateNetworkFromPool_def CheckVirtualNetworkConf_def empty_pool_env_def pool_env_def null_env_def empty_text marshalPools_def
        Let_def CreateNetwork_def UpdateNetworkPool_def updatePoolOnce_def kube_write_def
        RetryOnConflict.simps [of _ "updatePoolOnce _ _"])
  then obtain r w' where w': "CreateNetworkFromPool ?E ''red'' init_world = Some (r, w')" by blast
  have "CreateNetworkCR (networkRequest zero_IpSubnet) \<in> set (new_events init_world w')"
    by (rule CreateNetworkFromPool_empty_pool [OF _ _ _ _ _ _ w', where cm = "\<lparr>cm_Name = networkpoolconfig, cm_Namespace = networkpoolns, cm_Data = pool_data (pool_text [])\<rparr>" and val = "pool_text []"])
      (simp_all add: empty_pool_env_def pool_env_def null_env_def empty_text)
  with w' show ?thesis by blast
qed

end
