(* ===== verification/Kube_Client.thy ===== *)
theory Kube_Client
  imports Network_Pool
begin

text \<open>
  The operations of \<^verbatim>\<open>internal/pkg/kube/kube.go\<close> the other components call.  Building a
  client set and the requests themselves are client-go's; what this file adds is the patch text,
  the merging of annotations and the checks on the cluster configuration.
\<close>

section \<open>Annotations\<close>

definition quoted :: "string \<Rightarrow> string" where "quoted s = [CHR 0x22] @ s @ [CHR 0x22]"

definition annotationPatch :: "string \<Rightarrow> string \<Rightarrow> string" where
  "annotationPatch key val =
     ''{'' @ quoted ''metadata'' @ '':{'' @ quoted ''annotations'' @ '':{'' @ quoted key @ '':'' @ quoted val @ ''}}}''"

definition SetAnnotationOnPod :: "env \<Rightarrow> Pod \<Rightarrow> string \<Rightarrow> string \<Rightarrow> (world, error option) prog" where
  "SetAnnotationOnPod E pod key val = kube_write E (PatchPod (pod_Namespace pod) (pod_Name pod) (annotationPatch key val))"

definition SetAnnotationOnNode :: "env \<Rightarrow> Node \<Rightarrow> string \<Rightarrow> string \<Rightarrow> (world, error option) prog" where
  "SetAnnotationOnNode E node key val = kube_write E (PatchNode (node_Name node) (annotationPatch key val))"

definition SetAnnotationOnNamespace :: "env \<Rightarrow> ObjectMeta \<Rightarrow> string \<Rightarrow> string \<Rightarrow> (world, error option) prog" where
  "SetAnnotationOnNamespace E ns key val = kube_write E (PatchNamespace (om_Name ns) (annotationPatch key val))"

text \<open>
  The closure of \<^verbatim>\<open>AppendAnnotationOnPod\<close>: it also sets the captured \<^verbatim>\<open>pod\<close>, to the
  zero value when the pod cannot be read.  A pod that has no annotations has a nil map, and
  assigning to it panics.
\<close>

definition zero_Meta :: ObjectMeta where
  "zero_Meta = \<lparr>om_Name = [], om_Namespace = [], om_Labels = None, om_Annotations = [], om_Finalizers = [],
     om_Deleting = False, om_Generation = 0\<rparr>"

definition zero_Pod :: Pod where
  "zero_Pod = \<lparr>pod_Meta = zero_Meta, pod_NodeName = [], pod_HostNetwork = False, pod_Phase = [], pod_PodIP = [],
     pod_ContainerStatuses = []\<rparr>"

definition appendOnce :: "env \<Rightarrow> string \<Rightarrow> string \<Rightarrow> string \<Rightarrow> string \<Rightarrow> (world, error option \<times> Pod) prog" where
  "appendOnce E namespace name key val w = do {
     (r, w) \<leftarrow> request (KubeGet KPod namespace name) (\<lambda>h. env_getPod E h namespace name) w;
     (case r of
        Inl e \<Rightarrow> Some ((Some e, zero_Pod), w)
      | Inr pod \<Rightarrow>
          if pod_Annotations pod = [] then None
          else do {
            let pod = pod\<lparr>pod_Meta := (pod_Meta pod)\<lparr>om_Annotations := map_put key val (pod_Annotations pod)\<rparr>\<rparr>;
            (err, w) \<leftarrow> kube_write E (UpdatePodStatus pod) w;
            Some ((err, pod), w)
          })
   }"

definition AppendAnnotationOnPod :: "env \<Rightarrow> Pod \<Rightarrow> string \<Rightarrow> string \<Rightarrow> (world, error option) prog" where
  "AppendAnnotationOnPod E pod key val w =
     (let current = (case map_of (pod_Annotations pod) key of Some v \<Rightarrow> v | None \<Rightarrow> [])
      in case env_unmarshalObjects E current of
           Inl e \<Rightarrow> Some (Some (Errorf (''error in unmarshalling current pod annotation - '' @ error_msg e)), w)
         | Inr nfnannotationmaps \<Rightarrow>
      (case env_unmarshalObjects E (strings_ReplaceAll val [CHR 0x5C] []) of
           Inl e \<Rightarrow> Some (Some (Errorf (''error in unmarshalling new annotation value created - '' @ error_msg e)), w)
         | Inr newnfnannotationmaps \<Rightarrow>
      (case env_marshalObjects E (newnfnannotationmaps @ nfnannotationmaps) of
           Inl e \<Rightarrow> Some (Some (Errorf (''error in marshalling new append annotation - '' @ error_msg e)), w)
         | Inr newnfnannotation \<Rightarrow> do {
             ((r, pod), w) \<leftarrow> RetryOnConflict E (appendOnce E (pod_Namespace pod) (pod_Name pod) key newnfnannotation) w;
             (case r of
                Some e \<Rightarrow> Some (Some (Errorf (''status update failed for pod '' @ pod_Namespace pod @ ''/'' @ pod_Name pod @
                   '': '' @ error_msg e)), w)
              | None \<Rightarrow> do {
                  (g, w) \<leftarrow> request (KubeGet KPod (pod_Namespace pod) (pod_Name pod))
                     (\<lambda>h. env_getPod E h (pod_Namespace pod) (pod_Name pod)) w;
                  (case g of Inl e \<Rightarrow> Some (Some e, w) | Inr pod \<Rightarrow> Some (None, w))
                })
           })))"

definition GetAnnotationsOnPod :: "env \<Rightarrow> string \<Rightarrow> string \<Rightarrow> (world, error + (string, string) gomap) prog" where
  "GetAnnotationsOnPod E namespace name w = do {
     (r, w) \<leftarrow> request (KubeGet KPod namespace name) (\<lambda>h. env_getPod E h namespace name) w;
     (case r of Inl e \<Rightarrow> Some (Inl e, w) | Inr pod \<Rightarrow> Some (Inr (pod_Annotations pod), w))
   }"

section \<open>The cluster configuration\<close>

definition kubeconfigmap :: string where "kubeconfigmap = ''kubeadm-config''"
definition kubesystemNamespace :: string where "kubesystemNamespace = ''kube-system''"

definition GetControlPlaneServiceIPRange :: "env \<Rightarrow> (world, error + Networking) prog" where
  "GetControlPlaneServiceIPRange E w = do {
     (r, w) \<leftarrow> request (KubeGet KConfigMap kubesystemNamespace kubeconfigmap)
        (\<lambda>h. env_getConfigMap E h kubesystemNamespace kubeconfigmap) w;
     (case r of
        Inl e \<Rightarrow> Some (Inl (Errorf (''Error in gettin the config '' @ kubeconfigmap @ '' on the namespace '' @ kubesystemNamespace @
           '' - '' @ error_msg e)), w)
      | Inr configmap \<Rightarrow>
     (case env_yamlToJSON E (case map_of (cm_Data configmap) ''ClusterConfiguration'' of Some v \<Rightarrow> v | None \<Rightarrow> []) of
        Inl e \<Rightarrow> Some (Inl (Errorf (''YAMLToJSON err: '' @ error_msg e)), w)
      | Inr j1 \<Rightarrow>
     (case env_unmarshalCluster E j1 of
        Inl e \<Rightarrow> Some (Inl (Errorf (''Error in un marshalling the config '' @ kubeconfigmap @ '' on the namespace '' @
           kubesystemNamespace @ '' - '' @ error_msg e)), w)
      | Inr networking \<Rightarrow>
          if networking = \<lparr>kn_ServiceSubnet = [], kn_PodSubnet = [], kn_DNSDomain = []\<rparr>
          then Some (Inl (Errorf ('' '' @ kubeconfigmap @ '' in the namespace '' @ kubesystemNamespace @
             '' - kubeadm network value is empty'')), w)
          else Some (Inr networking, w))))
   }"

section \<open>Reading objects\<close>

definition GetKubeConfig :: "env \<Rightarrow> (world, error option) prog" where
  "GetKubeConfig E = ask (env_kubeConfig E)"

definition GetKubev1alpha1Config :: "env \<Rightarrow> (world, error option) prog" where
  "GetKubev1alpha1Config E = ask (env_v1alpha1Config E)"

definition GetKubeConfigfromFile :: "env \<Rightarrow> (world, error option) prog" where
  "GetKubeConfigfromFile E = ask (env_kubeConfigFile E)"

definition GetPod :: "env \<Rightarrow> string \<Rightarrow> string \<Rightarrow> (world, error + Pod) prog" where
  "GetPod E namespace name = request (KubeGet KPod namespace name) (\<lambda>h. env_getPod E h namespace name)"

definition GetPodsByLabels :: "env \<Rightarrow> string \<Rightarrow> string \<Rightarrow> (world, error + Pod list) prog" where
  "GetPodsByLabels E namespace selector = request (KubeList KPod namespace selector) (\<lambda>h. env_listPods E h namespace selector)"

definition GetPods :: "env \<Rightarrow> string \<Rightarrow> (world, error + Pod list) prog" where
  "GetPods E namespace = request (KubeList KPod namespace []) (\<lambda>h. env_listPods E h namespace [])"

definition GetNodes :: "env \<Rightarrow> (world, error + string list) prog" where
  "GetNodes E = request (KubeList KNode [] []) (\<lambda>h. env_listNodes E h [])"

definition GetNode :: "env \<Rightarrow> string \<Rightarrow> (world, error + Node) prog" where
  "GetNode E name = request (KubeGet KNode [] name) (\<lambda>h. env_getNode E h name)"

text \<open>Services, endpoints and lists of secrets are only passed on; their types are parameters.\<close>

definition GetService :: "(history \<Rightarrow> string \<Rightarrow> string \<Rightarrow> error + 'service) \<Rightarrow> string \<Rightarrow> string \<Rightarrow> (world, error + 'service) prog" where
  "GetService getService namespace name = request (KubeGet KService namespace name) (\<lambda>h. getService h namespace name)"

definition GetEndpoints :: "(history \<Rightarrow> string \<Rightarrow> error + 'endpoints list) \<Rightarrow> string \<Rightarrow> (world, error + 'endpoints list) prog" where
  "GetEndpoints listEndpoints namespace = request (KubeList KEndpoints namespace []) (\<lambda>h. listEndpoints h namespace)"

definition GetNetworkPolicies :: "(history \<Rightarrow> string \<Rightarrow> error + NetworkPolicy list) \<Rightarrow> string \<Rightarrow> (world, error + NetworkPolicy list) prog" where
  "GetNetworkPolicies listPolicies namespace = request (KubeList KNetworkPolicy namespace []) (\<lambda>h. listPolicies h namespace)"

definition GetSecrets :: "(history \<Rightarrow> string \<Rightarrow> error + Secret list) \<Rightarrow> string \<Rightarrow> (world, error + Secret list) prog" where
  "GetSecrets listSecrets namespace = request (KubeList KSecret namespace []) (\<lambda>h. listSecrets h namespace)"

definition GetCertificate :: "env \<Rightarrow> string \<Rightarrow> string \<Rightarrow> (world, error + Certificate) prog" where
  "GetCertificate E namespace name = request (KubeGet KCertificate namespace name) (\<lambda>h. env_getCertificate E h namespace name)"

definition GetNamespace :: "env \<Rightarrow> string \<Rightarrow> (world, error + ObjectMeta) prog" where
  "GetNamespace E name = request (KubeGet KNamespace [] name) (\<lambda>h. env_getNamespace E h name)"

definition GetNamespaces :: "env \<Rightarrow> (world, error + ObjectMeta list) prog" where
  "GetNamespaces E = request (KubeList KNamespace [] []) (\<lambda>h. env_listNamespaces E h [])"

end
