(* ===== verification/Ovn_Common.thy ===== *)
theory Ovn_Common
  imports Ovn_Exec Go_Net
begin

text \<open>
  \<^verbatim>\<open>internal/pkg/ovn/common.go\<close>: VLAN interfaces, provider network bridges and the
  \<^verbatim>\<open>ovn-bridge-mappings\<close> string, logical switches, gateway addresses.  Logging is left out.
\<close>

section \<open>VLAN interfaces\<close>

definition CreateVlan :: "env \<Rightarrow> string \<Rightarrow> string \<Rightarrow> string \<Rightarrow> (world, error option) prog" where
  "CreateVlan E vlanID interfaceName logicalInterfaceName w =
     (if interfaceName = [] \<or> vlanID = [] \<or> logicalInterfaceName = []
      then Some (Some (Errorf (''CreateVlan invalid parameters: '' @ interfaceName @ '' '' @ vlanID @ '' '' @ logicalInterfaceName)), w)
      else do {
        (err, w) \<leftarrow> request (LinkByName logicalInterfaceName) (\<lambda>h. env_linkByName E h logicalInterfaceName) w;
        (if err = None then Some (None, w)
         else do {
           ((stdout, stderr, err), w) \<leftarrow> RunIP E [''link'', ''add'', ''link'', interfaceName, ''name'', logicalInterfaceName,
              ''type'', ''vlan'', ''id'', vlanID] w;
           (if err \<noteq> None then Some (err, w)
            else do {
              ((stdout, stderr, err), w) \<leftarrow> RunIP E [''link'', ''set'', logicalInterfaceName, ''alias'',
                 ''nfn-'' @ logicalInterfaceName] w;
              (if err \<noteq> None then Some (err, w)
               else do {
                 ((stdout, stderr, err), w) \<leftarrow> RunIP E [''link'', ''set'', ''dev'', logicalInterfaceName, ''up''] w;
                 (if err \<noteq> None then Some (err, w) else Some (None, w))
               })
            })
         })
      })"

definition DeleteVlan :: "env \<Rightarrow> string \<Rightarrow> (world, error option) prog" where
  "DeleteVlan E logicalInterfaceName w =
     (if logicalInterfaceName = [] then Some (Some (Errorf ''DeleteVlan invalid parameters''), w)
      else do {
        ((stdout, stderr, err), w) \<leftarrow> RunIP E [''link'', ''del'', ''dev'', logicalInterfaceName] w;
        (if err \<noteq> None then Some (err, w) else Some (None, w))
      })"

definition GetVlan :: "env \<Rightarrow> (world, string list) prog" where
  "GetVlan E w = do {
     (links, w) \<leftarrow> request LinkList (env_linkList E) w;
     Some (map fst (filter (\<lambda>l. strings_Contains (snd l) ''nfn-'') links), w)
   }"

section \<open>Bridge mappings\<close>

text \<open>A label without a colon makes \<^verbatim>\<open>l[1]\<close> panic.\<close>

fun parseMapping :: "string list \<Rightarrow> (string, string) gomap \<Rightarrow> (string, string) gomap option" where
  "parseMapping [] mm = Some mm"
| "parseMapping (label # am) mm =
     (case strings_Split label (CHR '':'') of
        k # v # rest \<Rightarrow> parseMapping am (map_put (strings_TrimSpace k) (strings_TrimSpace v) mm)
      | _ \<Rightarrow> None)"

definition readMapping :: "string \<Rightarrow> (string, string) gomap option" where
  "readMapping stdout = (if stdout = [] then Some [] else parseMapping (strings_Split stdout (CHR '','')) [])"

text \<open>Every pair followed by a comma, and the last comma cut off again; nothing to cut is a panic.\<close>

definition printMapping :: "string list \<Rightarrow> (string, string) gomap \<Rightarrow> string option" where
  "printMapping keys mm =
     (let mapping = concat (map (\<lambda>key. key @ '':'' @ the (map_of mm key) @ '','') keys)
      in if mapping = [] then None else Some (butlast mapping))"

definition writeMapping :: "env \<Rightarrow> (string, string) gomap \<Rightarrow> (world, error option) prog" where
  "writeMapping E mm w = do {
     (order, w) \<leftarrow> ask (\<lambda>h. env_rangeOrder E h (map_keys mm)) w;
     mapping \<leftarrow> printMapping order mm;
     ((stdout, stderr, err), w) \<leftarrow> RunOVSVsctl E [''set'', ''open'', ''.'', ''external-ids:ovn-bridge-mappings='' @ mapping] w;
     (if err \<noteq> None then Some (err, w) else Some (None, w))
   }"

definition updateOvnBridgeMapping :: "env \<Rightarrow> string \<Rightarrow> string \<Rightarrow> string \<Rightarrow> (world, error option) prog" where
  "updateOvnBridgeMapping E brName nwName action w = do {
     ((stdout, stderr, err), w) \<leftarrow> RunOVSVsctl E [''get'', ''open'', ''.'', ''external-ids:ovn-bridge-mappings''] w;
     (if err \<noteq> None \<and> \<not> strings_Contains stderr ''no key'' then Some (err, w)
      else do {
        mm \<leftarrow> readMapping stdout;
        (if action = ''add'' then writeMapping E (map_put nwName brName mm) w
         else if action = ''delete'' then
           (if map_del nwName mm = [] then do {
              ((stdout, stderr, err), w) \<leftarrow> RunOVSVsctl E [''remove'', ''open'', ''.'', ''external-ids'', ''ovn-bridge-mappings''] w;
              (if err \<noteq> None then Some (err, w) else Some (None, w))
            }
            else writeMapping E (map_del nwName mm) w)
         else Some (Some (Errorf (''Invalid action '' @ action)), w))
      })
   }"

definition CreatePnBridge :: "env \<Rightarrow> string \<Rightarrow> string \<Rightarrow> string \<Rightarrow> (world, error option) prog" where
  "CreatePnBridge E nwName brName intfName w =
     (if nwName = [] \<or> brName = [] \<or> intfName = [] then Some (Some (Errorf ''CreatePnBridge invalid parameters''), w)
      else do {
        ((stdout, stderr, err), w) \<leftarrow> RunOVSVsctl E [''--may-exist'', ''add-br'', brName] w;
        (if err \<noteq> None then Some (err, w)
         else do {
           ((stdout, stderr, err), w) \<leftarrow> RunOVSVsctl E [''--may-exist'', ''add-port'', brName, intfName] w;
           (if err \<noteq> None then Some (err, w)
            else do {
              ((stdout, stderr, err), w) \<leftarrow> RunOVSVsctl E [''set'', ''bridge'', brName, ''external_ids:nfn='' @ nwName] w;
              (if err \<noteq> None then Some (err, w)
               else do {
                 (ignored, w) \<leftarrow> updateOvnBridgeMapping E brName nwName ''add'' w;
                 Some (None, w)
               })
            })
         })
      })"

definition DeletePnBridge :: "env \<Rightarrow> string \<Rightarrow> string \<Rightarrow> (world, error option) prog" where
  "DeletePnBridge E nwName brName w =
     (if nwName = [] \<or> brName = [] then Some (Some (Errorf ''DeletePnBridge invalid parameters''), w)
      else do {
        ((stdout, stderr, err), w) \<leftarrow> RunOVSVsctl E [''--if-exist'', ''del-br'', brName] w;
        (if err \<noteq> None then Some (err, w)
         else do {
           (ignored, w) \<leftarrow> updateOvnBridgeMapping E brName nwName ''delete'' w;
           Some (None, w)
         })
      })"

definition GetPnBridge :: "env \<Rightarrow> string \<Rightarrow> (world, string list) prog" where
  "GetPnBridge E externalID w = do {
     ((stdout, stderr, err), w) \<leftarrow> RunOVSVsctl E [''list-br''] w;
     (if err \<noteq> None then Some ([], w)
      else do {
        (r, w) \<leftarrow> rangeM (\<lambda>name brList w. do {
             ((stdout, stderr, err), w) \<leftarrow> RunOVSVsctl E [''get'', ''bridge'', name, ''external_ids:'' @ externalID] w;
             (if err \<noteq> None then Some (Inl brList, w)
              else if stdout = [] then Some (Inl brList, w)
              else Some (Inl (brList @ [name]), w))
           }) (strings_Split stdout (CHR 0x0A)) [] w;
        (case r of Inl brList \<Rightarrow> Some (brList, w) | Inr (u :: unit) \<Rightarrow> None)
      })
   }"

definition parseOvnNetworkObject :: "env \<Rightarrow> string \<Rightarrow> error + jobject list" where
  "parseOvnNetworkObject E ovnnetwork =
     (if ovnnetwork = [] then Inl (Errorf ''parseOvnNetworkObject:error'')
      else case env_unmarshalObjects E ovnnetwork of
        Inl e \<Rightarrow> Inl (Errorf (''parseOvnNetworkObject: failed to load ovn network err: '' @ error_msg e @
                 '' | ovn network: '' @ ovnnetwork))
      | Inr ovnNet \<Rightarrow> Inr ovnNet)"

section \<open>The distributed router\<close>

definition generateMac :: "env \<Rightarrow> (world, string) prog" where
  "generateMac E w = do {
     ((a, b, c), w) \<leftarrow> ask (env_rand E) w;
     Some (''00:00:00:'' @ hex2 (a mod 255) @ '':'' @ hex2 (b mod 255) @ '':'' @ hex2 (c mod 255), w)
   }"

definition setupDistributedRouter :: "env \<Rightarrow> string \<Rightarrow> (world, error option) prog" where
  "setupDistributedRouter E name w = do {
     ((stdout, stderr, err), w) \<leftarrow> RunOVNNbctl E [''--'', ''--may-exist'', ''lr-add'', name, ''--'', ''set'',
        ''logical_router'', name, ''external_ids:ovn4nfv-cluster-router=yes''] w;
     (if err \<noteq> None then Some (err, w)
      else do {
     ((stdout, stderr, err), w) \<leftarrow> RunOVNNbctl E [''--may-exist'', ''ls-add'', ''ovn4nfv-join''] w;
     (if err \<noteq> None then Some (err, w)
      else do {
     ((routerMac, stderr, err), w) \<leftarrow> RunOVNNbctl E [''--if-exist'', ''get'', ''logical_router_port'', ''rtoj-'' @ name, ''mac''] w;
     (if err \<noteq> None then Some (err, w)
      else do {
     ((routerMac, err), w) \<leftarrow>
        (if routerMac = [] then do {
           (mac, w) \<leftarrow> generateMac E w;
           ((stdout, stderr, err), w) \<leftarrow> RunOVNNbctl E [''--'', ''--may-exist'', ''lrp-add'', name, ''rtoj-'' @ name, mac,
              ''100.64.1.1/24'', ''--'', ''set'', ''logical_router_port'', ''rtoj-'' @ name,
              ''external_ids:connect_to_ovn4nfvjoin=yes''] w;
           Some ((mac, err), w)
         }
         else Some ((routerMac, None), w));
     (if err \<noteq> None then Some (err, w)
      else do {
     ((stdout, stderr, err), w) \<leftarrow> RunOVNNbctl E [''--'', ''--may-exist'', ''lsp-add'', ''ovn4nfv-join'', ''jtor-'' @ name, ''--'',
        ''set'', ''logical_switch_port'', ''jtor-'' @ name, ''type=router'', ''options:router-port=rtoj-'' @ name,
        ''addresses='' @ [CHR 0x22] @ routerMac @ [CHR 0x22]] w;
     (if err \<noteq> None then Some (err, w) else Some (None, w)) }) }) }) })
   }"

section \<open>Addresses\<close>

fun int_bytes :: "nat \<Rightarrow> 8 word list" where
  "int_bytes n = (if n = 0 then [] else int_bytes (n div 256) @ [of_nat (n mod 256)])"

declare int_bytes.simps [simp del]

definition bytes_int :: "8 word list \<Rightarrow> nat" where
  "bytes_int bs = foldl (\<lambda>n b. 256 * n + unat b) 0 bs"

definition ipToInt :: "IP \<Rightarrow> nat" where
  "ipToInt ip = (case IP_To4 ip of
     Some v \<Rightarrow> bytes_int v
   | None \<Rightarrow> (case IP_To16 ip of Some v \<Rightarrow> bytes_int v | None \<Rightarrow> 0))"

definition intToIP :: "nat \<Rightarrow> IP" where
  "intToIP i = int_bytes i"

definition NextIP :: "IP \<Rightarrow> IP" where
  "NextIP ip = intToIP (ipToInt ip + 1)"

definition getCidrAndGatewayIPMask :: "string \<Rightarrow> string \<Rightarrow> IPNet option \<times> string" where
  "getCidrAndGatewayIPMask subnet gatewayIP =
     (case net_ParseCIDR subnet of
        Inl e \<Rightarrow> (None, [])
      | Inr (ip, cidr) \<Rightarrow>
          (let firstIP = NextIP (ipn_IP cidr);
               n = IPMask_Size (ipn_Mask cidr);
               gwIP = (if gatewayIP \<noteq> [] then
                         (case net_ParseCIDR gatewayIP of
                            Inr (gwIP, gwNet) \<Rightarrow> Some gwIP
                          | Inl e \<Rightarrow> net_ParseIP gatewayIP)
                       else None)
           in case gwIP of
                None \<Rightarrow> (Some cidr, IP_String firstIP @ ''/'' @ show_nat n)
              | Some gwIP \<Rightarrow> (Some cidr, IP_String gwIP @ ''/'' @ show_nat n)))"

definition lsFamily :: "string \<Rightarrow> string \<Rightarrow> IPNet option \<times> string" where
  "lsFamily subnet gatewayIP =
     (if subnet \<noteq> [] \<and> gatewayIP \<noteq> [] then getCidrAndGatewayIPMask subnet gatewayIP else (None, []))"

definition getOvnLSOtherConfig :: "IPNet option \<Rightarrow> IPNet option \<Rightarrow> string list" where
  "getOvnLSOtherConfig ipNetv4 ipNetv6 =
     (case ipNetv6 of
        Some n \<Rightarrow> [''other-config:ipv6_prefix='' @ hd (strings_Split (IP_String (ipn_IP n)) (CHR ''/''))]
      | None \<Rightarrow> []) @
     (case ipNetv4 of
        Some n \<Rightarrow> [''other-config:subnet='' @ IPNet_String n]
      | None \<Rightarrow> [])"

definition getOvnLSExternalIds :: "string \<Rightarrow> string \<Rightarrow> string" where
  "getOvnLSExternalIds gatewayIPv4 gatewayIPv6 =
     (let gateways = gatewayIPv4;
          gateways = (if gatewayIPv6 \<noteq> []
                      then (if gateways \<noteq> [] then gateways @ '','' else gateways) @ gatewayIPv6 else gateways)
      in if gateways \<noteq> [] then ''external-ids:gateway_ip='' @ gateways else [])"

section \<open>Logical switches\<close>

text \<open>\<^verbatim>\<open>otherConfig[0]\<close> panics when neither subnet is usable.\<close>

definition createOvnLS ::
  "env \<Rightarrow> string \<Rightarrow> string \<Rightarrow> string \<Rightarrow> string \<Rightarrow> string \<Rightarrow> string \<Rightarrow> (world, string \<times> string \<times> error option) prog" where
  "createOvnLS E name subnetv4 gatewayIPv4 excludeIps subnetv6 gatewayIPv6 w = do {
     ((output, stderr, err), w) \<leftarrow> RunOVNNbctl E [''--data=bare'', ''--no-heading'', ''--columns=name'', ''find'',
        ''logical_switch'', ''name='' @ name] w;
     (if err \<noteq> None then Some (([], [], err), w)
      else if name = output then Some (([], [], Some (Errorf ''LS exists'')), w)
      else do {
        let (cidrv4, gatewayIPv4Mask) = lsFamily subnetv4 gatewayIPv4;
        let (cidrv6, gatewayIPv6Mask) = lsFamily subnetv6 gatewayIPv6;
        let otherConfig = getOvnLSOtherConfig cidrv4 cidrv6;
        let externalIds = getOvnLSExternalIds gatewayIPv4Mask gatewayIPv6Mask;
        let ls_add = [''--wait=hv'', ''--'', ''--may-exist'', ''ls-add'', name, ''--'', ''set'', ''logical_switch'', name];
        let exclude = (if excludeIps \<noteq> [] then [''other-config:exclude_ips='' @ excludeIps] else []);
        (case otherConfig of
           [] \<Rightarrow> None
         | c0 # cs \<Rightarrow> do {
             ((stdout, stderr, err), w) \<leftarrow> RunOVNNbctl E (ls_add @ c0 # take 1 cs @ [externalIds] @ exclude) w;
             Some ((gatewayIPv4Mask, gatewayIPv6Mask, err), w)
           })
      })
   }"

definition GetNetworkSubnet :: "env \<Rightarrow> string \<Rightarrow> (world, error + string) prog" where
  "GetNetworkSubnet E nw w = do {
     ((stdout, stderr, err), w) \<leftarrow> RunOVNNbctl E [''--if-exists'', ''get'', ''logical_switch'', nw, ''other_config:subnet''] w;
     (case err of Some e \<Rightarrow> Some (Inl e, w) | None \<Rightarrow> Some (Inr stdout, w))
   }"

definition GetIPAdressForPod :: "env \<Rightarrow> string \<Rightarrow> string \<Rightarrow> (world, error + string) prog" where
  "GetIPAdressForPod E nw name w = do {
     ((stdout, stderr, err), w) \<leftarrow> RunOVNNbctl E [''--data=bare'', ''--no-heading'', ''--columns=name'', ''find'',
        ''logical_switch'', ''name='' @ nw] w;
     (case err of Some e \<Rightarrow> Some (Inl e, w) | None \<Rightarrow> do {
     ((stdout, stderr, err), w) \<leftarrow> RunOVNNbctl E [''lsp-list'', nw] w;
     (case err of Some e \<Rightarrow> Some (Inl e, w) | None \<Rightarrow> do {
     (r, w) \<leftarrow> rangeM (\<lambda>l (_ :: unit) w.
        (case strings_Fields l of
           p0 # p1 # rest \<Rightarrow>
             if strings_Contains p1 name then do {
               let s = strings_ReplaceAll (strings_ReplaceAll p1 ''('' []) '')'' [];
               ((dna, stderr, err), w) \<leftarrow> RunOVNNbctl E [''get'', ''logical_switch_port'', s, ''dynamic_addresses''] w;
               (case err of
                  Some e \<Rightarrow> Some (Inr (Inl e), w)
                | None \<Rightarrow>
                    (case strings_Fields dna of
                       a0 # a1 # rest \<Rightarrow> Some (Inr (Inr a1), w)
                     | _ \<Rightarrow> Some (Inr (Inl (Errorf ''IPAdress Not Found'')), w)))
             }
             else Some (Inl (), w)
         | _ \<Rightarrow> Some (Inr (Inl (Errorf ''IPAdress Not Found'')), w)))
        (strings_Split stdout (CHR 0x0A)) () w;
     (case r of
        Inl _ \<Rightarrow> Some (Inl (Errorf (''IPAdress Not Found '' @ name)), w)
      | Inr res \<Rightarrow> Some (res, w)) }) })
   }"

section \<open>Bridge mappings: reading back what was written\<close>

definition wf_name :: "string \<Rightarrow> bool" where
  "wf_name s \<longleftrightarrow> (\<forall>c \<in> set s. c \<noteq> CHR '','' \<and> c \<noteq> CHR '':'' \<and> \<not> is_space c)"

definition wf_mapping :: "(string, string) gomap \<Rightarrow> bool" where
  "wf_mapping mm \<longleftrightarrow> map_ok mm \<and> (\<forall>p \<in> set mm. wf_name (fst p) \<and> wf_name (snd p))"

lemma wf_mapping_put: "wf_mapping mm \<Longrightarrow> wf_name k \<Longrightarrow> wf_name v \<Longrightarrow> wf_mapping (map_put k v mm)"
proof -
  have "(p \<in> set (map_put k v mm)) \<Longrightarrow> p = (k, v) \<or> p \<in> set mm" for p
    by (induction k v mm rule: map_put.induct) (auto split: if_splits)
  then show "wf_mapping mm \<Longrightarrow> wf_name k \<Longrightarrow> wf_name v \<Longrightarrow> wf_mapping (map_put k v mm)"
    unfolding wf_mapping_def by force
qed

lemma wf_mapping_del: "wf_mapping mm \<Longrightarrow> wf_mapping (map_del k mm)"
  by (auto simp: wf_mapping_def) (auto simp: map_del_def)

lemma print_is_Join:
  "keys \<noteq> [] \<Longrightarrow> printMapping keys mm = Some (strings_Join (map (\<lambda>k. k @ '':'' @ the (map_of mm k)) keys) '','')"
proof -
  have "keys \<noteq> [] \<Longrightarrow> concat (map (\<lambda>k. k @ '':'' @ f k @ '','') keys) = strings_Join (map (\<lambda>k. k @ '':'' @ f k) keys) '','' @ '',''" for f
  proof (induction keys)
    case (Cons k keys)
    then show ?case by (cases keys) auto
  qed simp
  then show "keys \<noteq> [] \<Longrightarrow> ?thesis" by (auto simp: printMapping_def Let_def)
qed

lemma split_label:
  "wf_name k \<Longrightarrow> wf_name v \<Longrightarrow> strings_Split (k @ '':'' @ v) (CHR '':'') = [k, v]"
  unfolding strings_Split_def wf_name_def
  by (simp add: split_pred_append split_pred_none)

lemma TrimSpace_name: "wf_name s \<Longrightarrow> strings_TrimSpace s = s"
  by (rule TrimSpace_id) (simp add: wf_name_def)

lemma parseMapping_labels:
  "distinct (map fst mm @ keys) \<Longrightarrow> \<forall>k \<in> set keys. wf_name k \<and> wf_name (f k) \<Longrightarrow>
     parseMapping (map (\<lambda>k. k @ '':'' @ f k) keys) mm = Some (mm @ map (\<lambda>k. (k, f k)) keys)"
proof (induction keys arbitrary: mm)
  case (Cons k keys)
  then have "map_put k (f k) mm = mm @ [(k, f k)]" by (intro map_put_new) auto
  moreover have "parseMapping (map (\<lambda>k. k @ '':'' @ f k) keys) (mm @ [(k, f k)]) = Some ((mm @ [(k, f k)]) @ map (\<lambda>k. (k, f k)) keys)"
    using Cons.prems by (intro Cons.IH) auto
  moreover have "strings_Split (k @ '':'' @ f k) (CHR '':'') = [k, f k]" using Cons.prems by (intro split_label) auto
  ultimately show ?case using Cons.prems by (simp add: TrimSpace_name)
qed simp

lemma read_printMapping:
  assumes wf: "wf_mapping mm" and keys: "mset keys = mset (map_keys mm)" and ne: "mm \<noteq> []"
  shows "\<exists>s. printMapping keys mm = Some s \<and> readMapping s = Some (map (\<lambda>k. (k, the (map_of mm k))) keys)"
proof -
  let ?f = "\<lambda>k. the (map_of mm k)"
  have set: "set keys = fst ` set mm" using keys by (metis image_set map_keys_def set_mset_mset)
  have "distinct keys" using wf keys by (metis map_keys_def map_ok_def mset_eq_imp_distinct_iff wf_mapping_def)
  have names: "\<forall>k \<in> set keys. wf_name k \<and> wf_name (?f k)"
    using wf set by (auto simp: wf_mapping_def map_ok_def)
  have "keys \<noteq> []" using ne set by auto
  let ?labels = "map (\<lambda>k. k @ '':'' @ ?f k) keys"
  have nc: "\<forall>s \<in> set ?labels. CHR '','' \<notin> set s" using names by (auto simp: wf_name_def)
  have split: "strings_Split (strings_Join ?labels '','') (CHR '','') = ?labels"
    using nc \<open>keys \<noteq> []\<close> by (intro split_Join) auto
  have "strings_Join ?labels '','' \<noteq> []"
    using \<open>keys \<noteq> []\<close> by (cases keys rule: remdups_adj.cases) auto
  then have "readMapping (strings_Join ?labels '','') = Some (map (\<lambda>k. (k, ?f k)) keys)"
    using parseMapping_labels [of "[]" keys ?f] \<open>distinct keys\<close> names split by (simp add: readMapping_def)
  with print_is_Join [OF \<open>keys \<noteq> []\<close>] show ?thesis by blast
qed

lemma map_of_keys: "mset keys = mset (map_keys mm) \<Longrightarrow> map_of (map (\<lambda>k. (k, the (map_of mm k))) keys) = map_of mm"
proof -
  assume "mset keys = mset (map_keys mm)"
  then have "set keys = dom (map_of mm)" by (metis dom_map_of_conv_image_fst image_set map_keys_def set_mset_mset)
  then show ?thesis by (auto simp: fun_eq_iff map_of_map_restrict restrict_map_def dom_def)
qed

interpretation bridge_mapping: codec "\<lambda>mm. the (printMapping (map_keys mm) mm)" readMapping "\<lambda>mm. wf_mapping mm \<and> mm \<noteq> []"
proof
  fix mm :: "(string, string) gomap"
  assume wf: "wf_mapping mm \<and> mm \<noteq> []"
  with read_printMapping [of mm "map_keys mm"] obtain s where
    s: "printMapping (map_keys mm) mm = Some s" "readMapping s = Some (map (\<lambda>k. (k, the (map_of mm k))) (map_keys mm))" by auto
  have "map (\<lambda>k. (k, the (map_of mm k))) (map_keys mm) = mm"
    using wf by (auto simp: map_keys_def wf_mapping_def map_ok_def intro!: map_idI)
  with s show "readMapping (the (printMapping (map_keys mm) mm)) = Some mm" by simp
qed

section \<open>Addresses\<close>

lemma int_bytes_int: "0 < n \<Longrightarrow> int_bytes n = int_bytes (n div 256) @ [of_nat (n mod 256)]"
  by (subst int_bytes.simps) simp

lemma bytes_int_bytes:
  fixes bs :: "8 word list"
  shows "bs = [] \<or> hd bs \<noteq> 0 \<Longrightarrow> int_bytes (bytes_int bs) = bs"
proof (induction bs rule: rev_induct)
  case Nil
  show ?case by (simp add: bytes_int_def int_bytes.simps [of 0])
next
  case (snoc b bs)
  have lt: "unat b < 256" using unsigned_less [of b, where 'a = nat] by simp
  have n: "bytes_int (bs @ [b]) = 256 * bytes_int bs + unat b" by (simp add: bytes_int_def)
  have IH: "int_bytes (bytes_int bs) = bs" using snoc by (cases bs) auto
  have pos: "0 < bytes_int (bs @ [b])"
  proof (cases bs)
    case Nil
    with snoc.prems have "unat b \<noteq> 0" by (simp add: unat_eq_0)
    with n show ?thesis by simp
  next
    case (Cons a as)
    moreover have "int_bytes 0 = []" by (simp add: int_bytes.simps [of 0])
    ultimately have "bytes_int bs \<noteq> 0" using IH by (metis list.distinct(1))
    with n show ?thesis by simp
  qed
  have "bytes_int (bs @ [b]) div 256 = bytes_int bs" "bytes_int (bs @ [b]) mod 256 = unat b" using n lt by auto
  with int_bytes_int [OF pos] IH show ?case by simp
qed

lemma bytes_int_lt: "bytes_int (bs :: 8 word list) < 256 ^ length bs"
proof (induction bs rule: rev_induct)
  case (snoc b bs)
  have "unat b < 256" using unsigned_less [of b, where 'a = nat] by simp
  with snoc show ?case by (simp add: bytes_int_def)
qed (simp add: bytes_int_def)

text \<open>Incrementing an address does not carry out of its last byte unless that byte is 255.\<close>

lemma NextIP_v4:
  assumes "a \<noteq> 0" and "d \<noteq> 255"
  shows "NextIP [a, b, c, d] = [a, b, c, d + 1]"
proof -
  have "unat d \<noteq> 255" using assms(2) by (simp add: word_unat_eq_iff)
  moreover have "unat d < 256" using unsigned_less [of d, where 'a = nat] by simp
  ultimately have "unat (d + 1) = unat d + 1" by (simp add: unat_word_ariths)
  then have "bytes_int [a, b, c, d] + 1 = bytes_int [a, b, c, d + 1]" by (simp add: bytes_int_def)
  then show ?thesis using bytes_int_bytes [of "[a, b, c, d + 1]"] assms(1)
    by (simp add: NextIP_def intToIP_def ipToInt_def IP_To4_def)
qed

section \<open>Properties\<close>

definition ranges_all :: "env \<Rightarrow> bool" where
  "ranges_all E \<longleftrightarrow> (\<forall>h ks. mset (env_rangeOrder E h ks) = mset ks)"

abbreviation vsctl_at :: "world \<Rightarrow> string list \<Rightarrow> event" where
  "vsctl_at w args \<equiv> ExecCmd (eh_vsctlPath (the (runner w))) (''--timeout=15'' # args)"

lemma timeout15: "''--timeout='' @ show_nat ovsCommandTimeout = ''--timeout=15''"
  by (simp add: ovsCommandTimeout_def) code_simp

lemma RunOVSVsctl_Some:
  assumes "runner w \<noteq> None"
  shows "\<exists>out err e. env_exec E (trace w) (eh_vsctlPath (the (runner w))) (''--timeout=15'' # args) = (out, err, e) \<and>
     RunOVSVsctl E args w = Some ((trimOutput out, err, e), w\<lparr>trace := trace w @ [vsctl_at w args]\<rparr>)"
proof -
  obtain r where "runner w = Some r" using assms by blast
  moreover obtain out err e where "env_exec E (trace w) (eh_vsctlPath r) (''--timeout=15'' # args) = (out, err, e)"
    by (metis prod_cases3)
  ultimately show ?thesis using timeout15 by (simp add: RunOVSVsctl_def run_def)
qed

definition get_mapping :: "string list" where
  "get_mapping = [''get'', ''open'', ''.'', ''external-ids:ovn-bridge-mappings'']"

definition set_mapping :: "string \<Rightarrow> string list" where
  "set_mapping s = [''set'', ''open'', ''.'', ''external-ids:ovn-bridge-mappings='' @ s]"

definition remove_mapping :: "string list" where
  "remove_mapping = [''remove'', ''open'', ''.'', ''external-ids'', ''ovn-bridge-mappings'']"

lemma writeMapping_ok:
  assumes "ranges_all E" and r: "runner w \<noteq> None" and "wf_mapping mm" "mm \<noteq> []"
  shows "\<exists>s m' e. writeMapping E mm w = Some (e, w\<lparr>trace := trace w @ [vsctl_at w (set_mapping s)]\<rparr>) \<and>
     readMapping s = Some m' \<and> map_of m' = map_of mm"
proof -
  let ?keys = "env_rangeOrder E (trace w) (map_keys mm)"
  have perm: "mset ?keys = mset (map_keys mm)" using assms(1) by (simp add: ranges_all_def)
  obtain s where s: "printMapping ?keys mm = Some s" "readMapping s = Some (map (\<lambda>k. (k, the (map_of mm k))) ?keys)"
    using read_printMapping [OF assms(3) perm assms(4)] by blast
  from RunOVSVsctl_Some [OF r, of E "set_mapping s"] obtain out err e where
    "RunOVSVsctl E (set_mapping s) w = Some ((out, err, e), w\<lparr>trace := trace w @ [vsctl_at w (set_mapping s)]\<rparr>)" by auto
  moreover have "writeMapping E mm w = Option.bind (RunOVSVsctl E (set_mapping s) w)
      (\<lambda>((stdout, stderr, err), w). if err \<noteq> None then Some (err, w) else Some (None, w))"
    unfolding writeMapping_def set_mapping_def by (simp add: s(1))
  ultimately have "writeMapping E mm w = Some (e, w\<lparr>trace := trace w @ [vsctl_at w (set_mapping s)]\<rparr>)"
    by (cases e) simp_all
  with s(2) map_of_keys [OF perm] show ?thesis by auto
qed

lemma get_mapping_ok:
  assumes "runner w \<noteq> None"
    and "env_exec E (trace w) (eh_vsctlPath (the (runner w))) (''--timeout=15'' # get_mapping) = (out, err, None)"
  shows "RunOVSVsctl E [''get'', ''open'', ''.'', ''external-ids:ovn-bridge-mappings''] w =
     Some ((trimOutput out, err, None), w\<lparr>trace := trace w @ [vsctl_at w get_mapping]\<rparr>)"
  using RunOVSVsctl_Some [OF assms(1), of E get_mapping] assms(2) by (auto simp: get_mapping_def)

text \<open>
  C9.  Adding a provider network to \<^verbatim>\<open>ovn-bridge-mappings\<close> writes back a string that
  reads as the old mapping with exactly that network mapped to its bridge, whatever order the map
  is iterated in, and it sends no other change.
\<close>

theorem updateOvnBridgeMapping_add:
  assumes E: "ranges_all E" and r: "runner w \<noteq> None" and "wf_name nwName" "wf_name brName"
    and get: "env_exec E (trace w) (eh_vsctlPath (the (runner w))) (''--timeout=15'' # get_mapping) = (out, err, None)"
    and read: "readMapping (trimOutput out) = Some mm" and wf: "wf_mapping mm"
  shows "\<exists>s m' e. updateOvnBridgeMapping E brName nwName ''add'' w =
       Some (e, w\<lparr>trace := trace w @ [vsctl_at w get_mapping, vsctl_at w (set_mapping s)]\<rparr>) \<and>
     readMapping s = Some m' \<and> map_of m' = (map_of mm)(nwName \<mapsto> brName)"
proof -
  let ?w = "w\<lparr>trace := trace w @ [vsctl_at w get_mapping]\<rparr>"
  have "map_put nwName brName mm \<noteq> []" by (cases mm) (auto split: if_splits)
  moreover have "runner ?w \<noteq> None" using r by simp
  ultimately show ?thesis
    using writeMapping_ok [OF E, of ?w "map_put nwName brName mm"] wf_mapping_put [OF wf assms(3,4)] read
    by (auto simp: updateOvnBridgeMapping_def get_mapping_ok [OF r get])
qed

text \<open>
  Deleting a provider network writes back the old mapping without it, or removes the whole
  entry when nothing is left.
\<close>

theorem updateOvnBridgeMapping_delete:
  assumes E: "ranges_all E" and r: "runner w \<noteq> None"
    and get: "env_exec E (trace w) (eh_vsctlPath (the (runner w))) (''--timeout=15'' # get_mapping) = (out, err, None)"
    and read: "readMapping (trimOutput out) = Some mm" and wf: "wf_mapping mm"
  shows "if dom (map_of mm) \<subseteq> {nwName}
    then \<exists>e. updateOvnBridgeMapping E brName nwName ''delete'' w =
           Some (e, w\<lparr>trace := trace w @ [vsctl_at w get_mapping, vsctl_at w remove_mapping]\<rparr>)
    else \<exists>s m' e. updateOvnBridgeMapping E brName nwName ''delete'' w =
           Some (e, w\<lparr>trace := trace w @ [vsctl_at w get_mapping, vsctl_at w (set_mapping s)]\<rparr>) \<and>
         readMapping s = Some m' \<and> map_of m' = (map_of mm)(nwName := None)"
proof -
  let ?w = "w\<lparr>trace := trace w @ [vsctl_at w get_mapping]\<rparr>"
  have rw: "runner ?w \<noteq> None" using r by simp
  have empty: "map_del nwName mm = [] \<longleftrightarrow> dom (map_of mm) \<subseteq> {nwName}"
    by (force simp: map_del_def filter_empty_conv dom_map_of_conv_image_fst)
  from RunOVSVsctl_Some [OF rw, of E remove_mapping] obtain o2 e2 x where
    "RunOVSVsctl E remove_mapping ?w = Some ((o2, e2, x), w\<lparr>trace := trace w @ [vsctl_at w get_mapping, vsctl_at w remove_mapping]\<rparr>)"
    by auto
  then have "map_del nwName mm = [] \<Longrightarrow> \<exists>e. updateOvnBridgeMapping E brName nwName ''delete'' w =
      Some (e, w\<lparr>trace := trace w @ [vsctl_at w get_mapping, vsctl_at w remove_mapping]\<rparr>)"
    using read by (cases x) (simp_all add: updateOvnBridgeMapping_def get_mapping_ok [OF r get] remove_mapping_def [symmetric])
  with writeMapping_ok [OF E rw wf_mapping_del [OF wf]] empty read show ?thesis
    by (auto simp: updateOvnBridgeMapping_def get_mapping_ok [OF r get])
qed

definition mapping_env :: env where
  "mapping_env = null_env\<lparr>env_exec := (\<lambda>h c args. (''net1:br1,net2:br2'', [], None))\<rparr>"

lemma mapping_env_facts:
  "ranges_all mapping_env" "runner exec_world \<noteq> None" "trace exec_world = []"
  "env_exec mapping_env h c args = (''net1:br1,net2:br2'', [], None)"
  "readMapping (trimOutput ''net1:br1,net2:br2'') = Some [(''net1'', ''br1''), (''net2'', ''br2'')]"
  "wf_mapping [(''net1'', ''br1''), (''net2'', ''br2'')]"
  "wf_name ''pnet''" "wf_name ''br-pnet''"
  by (simp_all add: ranges_all_def mapping_env_def null_env_def exec_world_def init_world_def) code_simp+

theorem updateOvnBridgeMapping_add_witness:
  "\<exists>s m' e. updateOvnBridgeMapping mapping_env ''br-pnet'' ''pnet'' ''add'' exec_world =
       Some (e, exec_world\<lparr>trace := [vsctl_at exec_world get_mapping, vsctl_at exec_world (set_mapping s)]\<rparr>) \<and>
     readMapping s = Some m' \<and> map_of m' ''net1'' = Some ''br1'' \<and> map_of m' ''pnet'' = Some ''br-pnet''"
  using updateOvnBridgeMapping_add [OF mapping_env_facts(1,2,7,8,4,5,6)] mapping_env_facts(3) by auto

theorem updateOvnBridgeMapping_delete_witness:
  "\<exists>s m' e. updateOvnBridgeMapping mapping_env ''br1'' ''net1'' ''delete'' exec_world =
       Some (e, exec_world\<lparr>trace := [vsctl_at exec_world get_mapping, vsctl_at exec_world (set_mapping s)]\<rparr>) \<and>
     readMapping s = Some m' \<and> map_of m' ''net1'' = None \<and> map_of m' ''net2'' = Some ''br2''"
proof -
  have "\<not> dom (map_of [(''net1'', ''br1''), (''net2'', ''br2'')]) \<subseteq> {''net1''}" by simp
  with updateOvnBridgeMapping_delete [OF mapping_env_facts(1,2,4,5,6), of "''net1''" "''br1''"] mapping_env_facts(3)
  show ?thesis by auto
qed

text \<open>
  A logical switch for an IPv4 network \<^verbatim>\<open>a.b.c.d/n\<close> gets its gateway with the
  network's own prefix length: the configured gateway when it is an address (with or without a
  mask), else the address after the network's, for every network not in \<^verbatim>\<open>0.0.0.0/8\<close>.
\<close>

theorem getCidrAndGatewayIPMask_v4:
  assumes n: "n \<le> 32" and net: "map2 (\<lambda>a m. a AND m) [a, b, c, d] (net_CIDRMask n 4) = [p, q, r, s]"
  shows "\<exists>cidr. getCidrAndGatewayIPMask (dotted4 [a, b, c, d] @ ''/'' @ show_nat n) gw =
     (Some cidr,
       (if gw \<noteq> [] \<and> (\<exists>g gn. net_ParseCIDR gw = Inr (g, gn)) then IP_String (fst (projr (net_ParseCIDR gw)))
        else if gw \<noteq> [] \<and> net_ParseIP gw \<noteq> None then IP_String (the (net_ParseIP gw))
        else IP_String (NextIP [p, q, r, s])) @ ''/'' @ show_nat n) \<and>
     IPNet_String cidr = dotted4 [p, q, r, s] @ ''/'' @ show_nat n \<and>
     (p \<noteq> 0 \<and> s \<noteq> 255 \<longrightarrow> IP_String (NextIP [p, q, r, s]) = dotted4 [p, q, r, s + 1])"
proof -
  let ?cidr = "\<lparr>ipn_IP = [p, q, r, s], ipn_Mask = net_CIDRMask n 4\<rparr>"
  have len: "length (net_CIDRMask n 4) = 4" by (simp add: net_CIDRMask_def)
  have "IPNet_String ?cidr = dotted4 [p, q, r, s] @ ''/'' @ show_nat n"
    using mask_size_4 [OF n] len by (simp add: IPNet_String_def IP_To4_def IP_String_def Let_def)
  moreover have "IPMask_Size (net_CIDRMask n 4) = n" using mask_size_4 [OF n] by (simp add: IPMask_Size_def)
  moreover have "p \<noteq> 0 \<and> s \<noteq> 255 \<longrightarrow> IP_String (NextIP [p, q, r, s]) = dotted4 [p, q, r, s + 1]"
    by (simp add: NextIP_v4 IP_String_def IP_To4_def)
  ultimately show ?thesis
    using ParseCIDR_dotted4 [OF n, of a b c d] net
    by (intro exI [of _ ?cidr]) (auto simp: getCidrAndGatewayIPMask_def Let_def split: sum.splits option.splits)
qed

theorem getCidrAndGatewayIPMask_v4_witness:
  "\<exists>cidr. getCidrAndGatewayIPMask (dotted4 [172, 30, 17, 9] @ ''/'' @ show_nat 22) ''none'' =
     (Some cidr, IP_String (NextIP [172, 30, 16, 0]) @ ''/'' @ show_nat 22) \<and>
     IP_String (NextIP [172, 30, 16, 0]) = dotted4 [172, 30, 16, 1]"
proof -
  have net: "map2 (\<lambda>a m. a AND m) [172, 30, 17, 9] (net_CIDRMask 22 4) = [172, 30, 16, 0 :: 8 word]" by code_simp
  have gw: "(\<exists>e. net_ParseCIDR ''none'' = Inl e) \<and> net_ParseIP ''none'' = None"
    by (simp add: net_ParseCIDR_def net_ParseIP_def)
  have s1: "(0 :: 8 word) + 1 = 1" by simp
  from getCidrAndGatewayIPMask_v4 [OF _ net, of "''none''"] gw show ?thesis by (auto simp: s1)
qed

text \<open>
  For a network inside \<^verbatim>\<open>0.0.0.0/8\<close> the default gateway is not an address:
  \<^verbatim>\<open>big.Int.Bytes\<close> drops the leading zero byte, and \<^verbatim>\<open>IP.String\<close> prints the
  three remaining bytes as \<^verbatim>\<open>?\<close> followed by hex digits.
\<close>

theorem NextIP_leading_zero:
  assumes "b \<noteq> 0" and "d \<noteq> 255"
  shows "NextIP [0, b, c, d] = [b, c, d + 1] \<and> hd (IP_String (NextIP [0, b, c, d])) = CHR ''?''"
proof -
  have "unat d \<noteq> 255" using assms(2) by (simp add: word_unat_eq_iff)
  moreover have "unat d < 256" using unsigned_less [of d, where 'a = nat] by simp
  ultimately have "unat (d + 1) = unat d + 1" by (simp add: unat_word_ariths)
  then have "bytes_int [0, b, c, d] + 1 = bytes_int [b, c, d + 1]" by (simp add: bytes_int_def)
  then have "NextIP [0, b, c, d] = [b, c, d + 1]" using bytes_int_bytes [of "[b, c, d + 1]"] assms(1)
    by (simp add: NextIP_def intToIP_def ipToInt_def IP_To4_def)
  then show ?thesis by (simp add: IP_String_def IP_To4_def)
qed

theorem NextIP_leading_zero_witness:
  "NextIP [0, 1, 2, 0] = [1, 2, 1] \<and> IP_String (NextIP [0, 1, 2, 0]) = ''?010201''"
proof -
  from NextIP_leading_zero [of 1 0 2] have n: "NextIP [0, 1, 2, 0] = [1, 2, 1]" by simp
  then show ?thesis unfolding n by (simp add: IP_String_def IP_To4_def) code_simp
qed

lemma createOvnLS_emits:
  "emits (\<lambda>e. nbctl [''--data=bare'', ''--no-heading'', ''--columns=name'', ''find'', ''logical_switch'', ''name='' @ name] e \<or>
       (\<exists>cfg. nbctl ([''--wait=hv'', ''--'', ''--may-exist'', ''ls-add'', name, ''--'', ''set'', ''logical_switch'', name] @ cfg) e))
     (createOvnLS E name s4 g4 ex s6 g6)"
  unfolding createOvnLS_def [abs_def] Let_def
  by (intro emits_intros) blast+

text \<open>
  C10.  \<^verbatim>\<open>createOvnLS\<close> refuses an existing switch before it sends any change; otherwise
  it either sends one \<^verbatim>\<open>ls-add\<close> and returns the gateways, or, when neither subnet can be
  used, panics on \<^verbatim>\<open>otherConfig[0]\<close>.
\<close>

theorem createOvnLS_cases:
  assumes find: "RunOVNNbctl E [''--data=bare'', ''--no-heading'', ''--columns=name'', ''find'', ''logical_switch'',
      ''name='' @ name] w = Some ((out, stderr, None), w1)" and r: "runner w1 \<noteq> None"
  shows "if out = name then createOvnLS E name s4 g4 ex s6 g6 w = Some (([], [], Some (Errorf ''LS exists'')), w1)
     else if fst (lsFamily s4 g4) = None \<and> fst (lsFamily s6 g6) = None then createOvnLS E name s4 g4 ex s6 g6 w = None
     else \<exists>err w'. createOvnLS E name s4 g4 ex s6 g6 w = Some ((snd (lsFamily s4 g4), snd (lsFamily s6 g6), err), w')"
proof -
  define c4 c6 where c: "c4 = lsFamily s4 g4" "c6 = lsFamily s6 g6"
  have cfg: "getOvnLSOtherConfig x y = [] \<longleftrightarrow> x = None \<and> y = None" for x y
    by (auto simp: getOvnLSOtherConfig_def split: option.splits)
  have run: "\<exists>out stderr err w'. RunOVNNbctl E args w1 = Some ((out, stderr, err), w')" for args
    using runsD [OF RunOVNNbctl_runs r] by (metis prod_cases3)
  show ?thesis
  proof (cases "out = name \<or> (fst c4 = None \<and> fst c6 = None)")
    case True
    then show ?thesis using find cfg [of "fst c4" "fst c6"]
      by (auto simp: createOvnLS_def Let_def split_def simp flip: c)
  next
    case False
    then obtain c0 cs where cs: "getOvnLSOtherConfig (fst c4) (fst c6) = c0 # cs"
      using cfg [of "fst c4" "fst c6"] by (cases "getOvnLSOtherConfig (fst c4) (fst c6)") auto
    let ?args = "[''--wait=hv'', ''--'', ''--may-exist'', ''ls-add'', name, ''--'', ''set'', ''logical_switch'', name] @
      c0 # take 1 cs @ [getOvnLSExternalIds (snd c4) (snd c6)] @ (if ex \<noteq> [] then [''other-config:exclude_ips='' @ ex] else [])"
    from run [of ?args] obtain o2 s2 err w' where "RunOVNNbctl E ?args w1 = Some ((o2, s2, err), w')" by blast
    with False find cs have "createOvnLS E name s4 g4 ex s6 g6 w = Some ((snd c4, snd c6, err), w')"
      by (auto simp: createOvnLS_def Let_def split_def simp flip: c)
    with False show ?thesis by (auto simp: c)
  qed
qed

theorem createOvnLS_cases_witness:
  "createOvnLS null_env ''net'' ''bad'' ''bad'' [] [] [] exec_world = None"
proof -
  let ?find = "[''--data=bare'', ''--no-heading'', ''--columns=name'', ''find'', ''logical_switch'', ''name='' @ ''net'']"
  have "\<exists>w1. RunOVNNbctl null_env ?find exec_world = Some (([], [], None), w1) \<and> runner w1 \<noteq> None"
    by (simp add: RunOVNNbctl_def RunOVNNbctlWithTimeout_def runOVNretry_def exec_world_def init_world_def
        retryLoop.simps [of _ 200] run_def null_env_def trimOutput_def strings_Trim_def strings_TrimSpace_def
        trim_left_def trim_right_def)
  then obtain w1 where w1: "RunOVNNbctl null_env ?find exec_world = Some (([], [], None), w1)" "runner w1 \<noteq> None" by blast
  have "fst (lsFamily ''bad'' ''bad'') = None" "fst (lsFamily [] []) = None"
    by (simp_all add: lsFamily_def getCidrAndGatewayIPMask_def net_ParseCIDR_def)
  with createOvnLS_cases [OF w1, of "''bad''" "''bad''" "[]" "[]" "[]"] show ?thesis by simp
qed

end
