(* ===== verification/Go_Sha1.thy ===== *)
theory Go_Sha1
  imports Go_Strings
begin

text \<open>
  Go's \<^verbatim>\<open>crypto/sha1\<close>, as far as \<^verbatim>\<open>internal/pkg/config\<close> uses it for the
  name of a node's interface: the digest of one message.
\<close>

unbundle bit_operations_syntax

fun word_of_bytes :: "8 word list \<Rightarrow> 32 word" where
  "word_of_bytes bs = foldl (\<lambda>w b. 256 * w + ucast b) 0 bs"

fun chunks :: "nat \<Rightarrow> nat \<Rightarrow> 'a list \<Rightarrow> 'a list list" where
  "chunks 0 k xs = []"
| "chunks (Suc n) k xs = take k xs # chunks n k (drop k xs)"

definition bytes_of_nat :: "nat \<Rightarrow> nat \<Rightarrow> 8 word list" where
  "bytes_of_nat k n = map (\<lambda>i. of_nat (n div 256 ^ i)) (rev [0..<k])"

definition sha1_pad :: "8 word list \<Rightarrow> 8 word list" where
  "sha1_pad m = m @ [0x80] @ replicate ((119 - length m mod 64) mod 64) 0 @ bytes_of_nat 8 (8 * length m)"

fun sha1_schedule :: "nat \<Rightarrow> 32 word list \<Rightarrow> 32 word list" where
  "sha1_schedule 0 w = w"
| "sha1_schedule (Suc n) w = sha1_schedule n (w @ [word_rotl 1
     (w ! (length w - 3) XOR w ! (length w - 8) XOR w ! (length w - 14) XOR w ! (length w - 16))])"

definition sha1_f :: "nat \<Rightarrow> 32 word \<Rightarrow> 32 word \<Rightarrow> 32 word \<Rightarrow> 32 word" where
  "sha1_f t b c d =
     (if t < 20 then (b AND c) OR (NOT b AND d)
      else if t < 40 then b XOR c XOR d
      else if t < 60 then (b AND c) OR (b AND d) OR (c AND d)
      else b XOR c XOR d)"

definition sha1_k :: "nat \<Rightarrow> 32 word" where
  "sha1_k t = (if t < 20 then 0x5A827999 else if t < 40 then 0x6ED9EBA1 else if t < 60 then 0x8F1BBCDC else 0xCA62C1D6)"

fun sha1_rounds :: "nat \<Rightarrow> 32 word list \<Rightarrow> 32 word \<times> 32 word \<times> 32 word \<times> 32 word \<times> 32 word \<Rightarrow>
    32 word \<times> 32 word \<times> 32 word \<times> 32 word \<times> 32 word" where
  "sha1_rounds t [] s = s"
| "sha1_rounds t (w # ws) (a, b, c, d, e) =
     sha1_rounds (t + 1) ws (word_rotl 5 a + sha1_f t b c d + e + w + sha1_k t, a, word_rotl 30 b, c, d)"

definition sha1_block :: "32 word \<times> 32 word \<times> 32 word \<times> 32 word \<times> 32 word \<Rightarrow> 8 word list \<Rightarrow>
    32 word \<times> 32 word \<times> 32 word \<times> 32 word \<times> 32 word" where
  "sha1_block s block =
     (let (h0, h1, h2, h3, h4) = s;
          (a, b, c, d, e) = sha1_rounds 0 (sha1_schedule 64 (map word_of_bytes (chunks 16 4 block))) s
      in (h0 + a, h1 + b, h2 + c, h3 + d, h4 + e))"

definition sha1_sum :: "8 word list \<Rightarrow> 8 word list" where
  "sha1_sum m =
     (let p = sha1_pad m;
          (h0, h1, h2, h3, h4) = foldl sha1_block (0x67452301, 0xEFCDAB89, 0x98BADCFE, 0x10325476, 0xC3D2E1F0)
            (chunks (length p div 64) 64 p)
      in concat (map (\<lambda>h. bytes_of_nat 4 (unat h)) [h0, h1, h2, h3, h4]))"

definition bytes_of_string :: "string \<Rightarrow> 8 word list" where
  "bytes_of_string s = map (\<lambda>c. of_nat (of_char c)) s"

lemma length_sha1_sum [simp]: "length (sha1_sum m) = 20"
  by (simp add: sha1_sum_def Let_def split_def bytes_of_nat_def)

end
