(* ===== verification/Ovn_Controller.thy ===== *)
theory Ovn_Controller
  imports Ovn_Common Network_Pool Go_Sha1
begin

text \<open>
  \<^verbatim>\<open>internal/pkg/ovn/ovn.go\<close>: the OVN controller.  Its only state is the gateway cache,
  \<open>gatewayCache\<close> of the world, \<open>None\<close> until \<^verbatim>\<open>NewOvnController\<close> has succeeded.
  The theory also has \<^verbatim>\<open>SetupOvnUtils\<close> of \<^verbatim>\<open>utils.go\<close> and
  \<^verbatim>\<open>GetNodeIntfName\<close> of \<^verbatim>\<open>internal/pkg/config\<close>.
\<close>

section \<open>Names\<close>

definition ovn4nfvRouterName :: string where "ovn4nfvRouterName = ''ovn4nfv-master''"
definition Ovn4nfvAnnotationTag :: string where "Ovn4nfvAnnotationTag = ''k8s.plugin.opnfv.org/ovnInterfaces''"
definition Ovn4nfvDefaultNw :: string where "Ovn4nfvDefaultNw = ''ovn4nfvk8s-default-nw''"

definition GetNodeIntfName :: "string \<Rightarrow> string" where
  "GetNodeIntfName node = ''ovn4nfv0-'' @ take 6 (hex_EncodeToString (sha1_sum (bytes_of_string node)))"

definition GeneratePodNameID :: "string \<Rightarrow> string" where
  "GeneratePodNameID podname = hex_EncodeToString (sha1_sum (bytes_of_string podname))"

definition getIPv4LogicalSwitchName :: "string \<Rightarrow> string" where
  "getIPv4LogicalSwitchName p = p"

definition getIPv6LogicalSwitchName :: "string \<Rightarrow> string" where
  "getIPv6LogicalSwitchName p = p @ ''v6''"

definition getIPv4LogicalRouterPortName :: "string \<Rightarrow> string" where
  "getIPv4LogicalRouterPortName s = ''rtos-'' @ s"

definition getIPv6LogicalRouterPortName :: "string \<Rightarrow> string" where
  "getIPv6LogicalRouterPortName s = ''rtosv6-'' @ s"

text \<open>The closure returned by \<^verbatim>\<open>GetSFCNetworkIfname\<close>: its captured index is passed along.\<close>

definition SFCNetworkIfname :: "nat \<Rightarrow> string \<times> nat" where
  "SFCNetworkIfname interfaceIndex = (''sn'' @ show_nat interfaceIndex, interfaceIndex + 1)"

section \<open>Initialisation\<close>

definition GetOvnNetConf :: "env \<Rightarrow> (world, error option) prog" where
  "GetOvnNetConf E w =
     (let v4 = env_Getenv E ''OVN_SUBNET''; v6 = env_Getenv E ''OVN_SUBNET_V6'';
          conf = \<lparr>oc_Subnetv4 = v4, oc_GatewayIPv4 = [], oc_ExcludeIPs = [], oc_Subnetv6 = v6, oc_GatewayIPv6 = []\<rparr>
      in if v4 = [] \<and> v6 = []
         then Some (Some (Errorf ''OVN subnet is not set in nfn-operator configmap env''), w\<lparr>ovnConf := Some conf\<rparr>)
         else Some (None, w\<lparr>ovnConf := Some (conf\<lparr>oc_GatewayIPv4 := env_Getenv E ''OVN_GATEWAYIP'',
                oc_ExcludeIPs := env_Getenv E ''OVN_EXCLUDEIPS'', oc_GatewayIPv6 := env_Getenv E ''OVN_GATEWAYIP_V6''\<rparr>)\<rparr>))"

definition SetupOvnUtils :: "env \<Rightarrow> (world, error option) prog" where
  "SetupOvnUtils E w = do {
     (err, w) \<leftarrow> setupDistributedRouter E ovn4nfvRouterName w;
     (if err \<noteq> None then Some (err, w)
      else (case ovnConf w of
              None \<Rightarrow> None
            | Some c \<Rightarrow> do {
                ((g4, g6, err), w) \<leftarrow> createOvnLS E Ovn4nfvDefaultNw (oc_Subnetv4 c) (oc_GatewayIPv4 c) (oc_ExcludeIPs c)
                   (oc_Subnetv6 c) (oc_GatewayIPv6 c) w;
                (if err \<noteq> None \<and> err \<noteq> Some (Errorf ''LS exists'') then Some (err, w) else Some (None, w))
              }))
   }"

definition NewOvnController :: "env \<Rightarrow> (world, error option) prog" where
  "NewOvnController E w = do {
     (err, w) \<leftarrow> SetExec E w;
     (if err \<noteq> None then Some (err, w)
      else do {
        (err, w) \<leftarrow> GetOvnNetConf E w;
        (if err \<noteq> None then Some (err, w)
         else do {
           (err, w) \<leftarrow> SetupOvnUtils E w;
           (if err \<noteq> None then Some (err, w) else Some (None, w\<lparr>gatewayCache := Some []\<rparr>))
         })
      })
   }"

definition GetOvnController :: "world \<Rightarrow> error option" where
  "GetOvnController w =
     (case gatewayCache w of Some _ \<Rightarrow> None | None \<Rightarrow> Some (Errorf ''OVN Controller not initialized''))"

section \<open>Switches\<close>

definition FindLogicalSwitch :: "env \<Rightarrow> string \<Rightarrow> (world, bool) prog" where
  "FindLogicalSwitch E name w = do {
     ((output, stderr, err), w) \<leftarrow> RunOVNNbctl E [''--data=bare'', ''--no-heading'', ''--columns=name'', ''find'',
        ''logical_switch'', ''name='' @ name] w;
     (if err \<noteq> None then Some (False, w) else Some (name = output, w))
   }"

definition deleteLogicalSwitch :: "env \<Rightarrow> string \<Rightarrow> (world, error option) prog" where
  "deleteLogicalSwitch E name w = do {
     ((stdout, stderr, err), w) \<leftarrow> RunOVNNbctl E [''--if-exist'', ''--wait=hv'', ''ls-del'', name] w;
     Some (err, w)
   }"

definition deleteLogicalRouterPort :: "env \<Rightarrow> string \<Rightarrow> (world, error option) prog" where
  "deleteLogicalRouterPort E name w = do {
     ((stdout, stderr, err), w) \<leftarrow> RunOVNNbctl E [''--if-exist'', ''--wait=hv'', ''lrp-del'', name] w;
     Some (err, w)
   }"

definition createNetwork :: "env \<Rightarrow> string \<Rightarrow> IpSubnet \<Rightarrow> string \<Rightarrow> (world, error option) prog" where
  "createNetwork E name sn logicalRouterPortName w = do {
     ((gatewayIPMask, g6, err), w) \<leftarrow> createOvnLS E name (sn_Subnet sn) (sn_Gateway sn) (sn_ExcludeIps sn) [] [] w;
     (if err \<noteq> None then Some (err, w)
      else do {
     ((routerMac, stderr, err), w) \<leftarrow> RunOVNNbctl E [''--if-exist'', ''get'', ''logical_router_port'', logicalRouterPortName, ''mac''] w;
     (if err \<noteq> None then Some (err, w)
      else do {
     (routerMac, w) \<leftarrow> (if routerMac = [] then generateMac E w else Some (routerMac, w));
     ((stdout, stderr, err), w) \<leftarrow> RunOVNNbctl E [''--wait=hv'', ''--may-exist'', ''lrp-add'', ovn4nfvRouterName,
        logicalRouterPortName, routerMac, gatewayIPMask] w;
     (if err \<noteq> None then Some (err, w)
      else do {
     ((stdout, stderr, err), w) \<leftarrow> RunOVNNbctl E [''--wait=hv'', ''--'', ''--may-exist'', ''lsp-add'', name, ''stor-'' @ name, ''--'',
        ''set'', ''logical_switch_port'', ''stor-'' @ name, ''type=router'', ''options:router-port='' @ logicalRouterPortName,
        ''addresses='' @ [CHR 0x22] @ routerMac @ [CHR 0x22]] w;
     Some (err, w) }) }) })
   }"

definition Controller_CreateNetwork :: "env \<Rightarrow> Network \<Rightarrow> (world, error option) prog" where
  "Controller_CreateNetwork E cr w = do {
     let name = om_Name (nw_Meta cr);
     (err, w) \<leftarrow> (case nw_Ipv4Subnets cr of
        [] \<Rightarrow> Some (None, w)
      | sn # _ \<Rightarrow> createNetwork E (getIPv4LogicalSwitchName name) sn (getIPv4LogicalRouterPortName name) w);
     (if err \<noteq> None then Some (err, w)
      else (case nw_Ipv6Subnets cr of
              [] \<Rightarrow> Some (None, w)
            | sn # _ \<Rightarrow> createNetwork E (getIPv6LogicalSwitchName name) sn (getIPv6LogicalRouterPortName name) w))
   }"

definition Controller_DeleteNetwork :: "env \<Rightarrow> Network \<Rightarrow> (world, error option) prog" where
  "Controller_DeleteNetwork E cr w = do {
     let name = om_Name (nw_Meta cr);
     (err, w) \<leftarrow> deleteLogicalRouterPort E (getIPv4LogicalRouterPortName name) w;
     (if err \<noteq> None then Some (err, w)
      else do {
     (err, w) \<leftarrow> deleteLogicalRouterPort E (getIPv6LogicalRouterPortName name) w;
     (if err \<noteq> None then Some (err, w)
      else do {
     (err, w) \<leftarrow> deleteLogicalSwitch E (getIPv4LogicalSwitchName name) w;
     (if err \<noteq> None then Some (err, w)
      else deleteLogicalSwitch E (getIPv6LogicalSwitchName name) w) }) })
   }"

definition createProviderNetwork :: "env \<Rightarrow> string \<Rightarrow> IpSubnet \<Rightarrow> (world, error option) prog" where
  "createProviderNetwork E name sn w = do {
     ((g4, g6, err), w) \<leftarrow> createOvnLS E name (sn_Subnet sn) (sn_Gateway sn) (sn_ExcludeIps sn) [] [] w;
     (if err \<noteq> None then Some (err, w)
      else do {
        let port = ''server-localnet_'' @ name;
        ((stdout, stderr, err), w) \<leftarrow> RunOVNNbctl E [''--wait=hv'', ''--'', ''--may-exist'', ''lsp-add'', name, port, ''--'',
           ''lsp-set-addresses'', port, ''unknown'', ''--'', ''lsp-set-type'', port, ''localnet'', ''--'',
           ''lsp-set-options'', port, ''network_name=nw_'' @ name] w;
        Some (err, w)
      })
   }"

definition Controller_CreateProviderNetwork :: "env \<Rightarrow> ProviderNetwork \<Rightarrow> (world, error option) prog" where
  "Controller_CreateProviderNetwork E cr w = do {
     let name = om_Name (pn_Meta cr);
     (err, w) \<leftarrow> (case pn_Ipv4Subnets cr of
        [] \<Rightarrow> Some (None, w)
      | sn # _ \<Rightarrow> createProviderNetwork E (getIPv4LogicalSwitchName name) sn w);
     (if err \<noteq> None then Some (err, w)
      else (case pn_Ipv6Subnets cr of
              [] \<Rightarrow> Some (None, w)
            | sn # _ \<Rightarrow> createProviderNetwork E (getIPv6LogicalSwitchName name) sn w))
   }"

definition Controller_DeleteProviderNetwork :: "env \<Rightarrow> ProviderNetwork \<Rightarrow> (world, error option) prog" where
  "Controller_DeleteProviderNetwork E cr w = do {
     let name = om_Name (pn_Meta cr);
     (err, w) \<leftarrow> deleteLogicalSwitch E (getIPv4LogicalSwitchName name) w;
     (if err \<noteq> None then Some (err, w)
      else deleteLogicalSwitch E (getIPv6LogicalSwitchName name) w)
   }"

section \<open>Ports\<close>

fun parseGateways :: "string list \<Rightarrow> error + (string list \<times> string list)" where
  "parseGateways [] = Inr ([], [])"
| "parseGateways (gateway # gateways) =
     (case strings_Split gateway (CHR ''/'') of
        [ip, m] \<Rightarrow>
          (case parseGateways gateways of
             Inl e \<Rightarrow> Inl e
           | Inr (gatewayIPs, masks) \<Rightarrow> Inr (ip # gatewayIPs, m # masks))
      | _ \<Rightarrow> Inl (Errorf (''Failed to get IP and Mask from gateway CIDR: '' @ gateway)))"

definition getGatewayFromSwitch :: "env \<Rightarrow> string \<Rightarrow> (world, error + (string list \<times> string list)) prog" where
  "getGatewayFromSwitch E logicalSwitch w =
     (case gatewayCache w of
        None \<Rightarrow> None
      | Some cache \<Rightarrow>
          (case map_of cache logicalSwitch of
             Some s \<Rightarrow> Some (parseGateways (strings_Split s (CHR '','')), w)
           | None \<Rightarrow> do {
               ((s, stderr, err), w) \<leftarrow> RunOVNNbctl E [''--if-exists'', ''get'', ''logical_switch'', logicalSwitch,
                  ''external_ids:gateway_ip''] w;
               (case err of
                  Some e \<Rightarrow> Some (Inl e, w)
                | None \<Rightarrow>
                    if s = [] then Some (Inl (Errorf (''Empty gateway IP in logical switch '' @ logicalSwitch)), w)
                    else Some (parseGateways (strings_Split s (CHR '','')),
                           w\<lparr>gatewayCache := Some (map_put logicalSwitch s cache)\<rparr>))
             }))"

datatype poll = Found string | PollErr error | TimedOut

text \<open>Up to \<open>n\<close> reads of a port's address column, one second apart.\<close>

fun pollAddresses :: "env \<Rightarrow> string \<Rightarrow> string \<Rightarrow> nat \<Rightarrow> (world, poll) prog" where
  "pollAddresses E column portName 0 w = Some (TimedOut, w)"
| "pollAddresses E column portName (Suc n) w = do {
     ((out, stderr, err), w) \<leftarrow> RunOVNNbctl E [''get'', ''logical_switch_port'', portName, column] w;
     (case err of
        None \<Rightarrow> if out \<noteq> ''[]'' then Some (Found out, w) else pollAddresses E column portName n w
      | Some e \<Rightarrow> Some (PollErr e, w))
   }"

definition splitAddresses :: "string \<Rightarrow> string list" where
  "splitAddresses out =
     strings_Split (strings_Trim (strings_TrimRight (strings_TrimLeft out ''['') '']'') [CHR 0x22]) (CHR '' '')"

fun findIndex :: "string list \<Rightarrow> string \<Rightarrow> nat option" where
  "findIndex [] separator = None"
| "findIndex (addr # addrs) separator =
     (if strings_Contains addr separator then Some 0 else map_option Suc (findIndex addrs separator))"

definition addressWithMask :: "string list \<Rightarrow> string list \<Rightarrow> string list \<Rightarrow> string \<Rightarrow> string" where
  "addressWithMask addrs gwAddresses gwMasks separator =
     (case (findIndex addrs separator, findIndex gwAddresses separator) of
        (Some i, Some j) \<Rightarrow> addrs ! i @ ''/'' @ gwMasks ! j
      | _ \<Rightarrow> [])"

text \<open>When the polling times out, or the answer has fewer than two parts, \<^verbatim>\<open>err\<close> is nil.\<close>

definition addNodeLogicalPortWithSwitch ::
  "env \<Rightarrow> string \<Rightarrow> string \<Rightarrow> (world, string \<times> string \<times> string \<times> error option) prog" where
  "addNodeLogicalPortWithSwitch E logicalSwitch portName w = do {
     ((out, stderr, err), w) \<leftarrow> RunOVNNbctl E [''--wait=sb'', ''--'', ''--may-exist'', ''lsp-add'', logicalSwitch, portName,
        ''--'', ''lsp-set-addresses'', portName, ''dynamic''] w;
     (if err \<noteq> None then Some (([], [], [], err), w)
      else do {
        (p, w) \<leftarrow> pollAddresses E ''dynamic_addresses'' portName 30 w;
        (case p of
           PollErr e \<Rightarrow> Some (([], [], [], Some e), w)
         | TimedOut \<Rightarrow> Some (([], [], [], None), w)
         | Found out \<Rightarrow>
             (case splitAddresses out of
                mac # a # as \<Rightarrow> do {
                  (g, w) \<leftarrow> getGatewayFromSwitch E logicalSwitch w;
                  (case g of
                     Inl e \<Rightarrow> Some (([], [], [], Some e), w)
                   | Inr (gwAddresses, gwMasks) \<Rightarrow>
                       Some ((addressWithMask (a # as) gwAddresses gwMasks ''.'',
                              addressWithMask (a # as) gwAddresses gwMasks '':'', mac, None), w))
                }
              | _ \<Rightarrow> Some (([], [], [], None), w)))
      })
   }"

definition AddNodeLogicalPorts :: "env \<Rightarrow> string \<Rightarrow> (world, string \<times> string \<times> string \<times> error option) prog" where
  "AddNodeLogicalPorts E node w = do {
     ((ipAddr, ipv6Addr, macAddr, err), w) \<leftarrow>
        addNodeLogicalPortWithSwitch E Ovn4nfvDefaultNw (GetNodeIntfName (strings_ToLower node)) w;
     (if err \<noteq> None then Some (([], [], [], err), w) else Some ((ipAddr, ipv6Addr, macAddr, None), w))
   }"

definition getNodeLogicalPortIPAddr :: "env \<Rightarrow> Pod \<Rightarrow> (world, string \<times> string \<times> error option) prog" where
  "getNodeLogicalPortIPAddr E pod w = do {
     let portName = GetNodeIntfName (strings_ToLower (pod_NodeName pod));
     (p, w) \<leftarrow> pollAddresses E ''dynamic_addresses'' portName 30 w;
     (case p of
        PollErr e \<Rightarrow> Some (([], [], Some e), w)
      | TimedOut \<Rightarrow> Some (([], [], None), w)
      | Found out \<Rightarrow>
          (case splitAddresses out of
             mac # a # as \<Rightarrow> Some ((a, (case as of [] \<Rightarrow> [] | b # _ \<Rightarrow> b), None), w)
           | _ \<Rightarrow> Some (([], [], None), w)))
   }"

text \<open>A quotation mark as the annotation escapes it.\<close>

definition esc :: string where "esc = [CHR 0x5C, CHR 0x22]"

definition composeAddresses :: "string \<Rightarrow> string \<Rightarrow> string" where
  "composeAddresses ipv4 ipv6 =
     (let addrStr = (if ipv4 \<noteq> [] then esc @ ipv4 @ esc else []);
          addrStr = (if addrStr \<noteq> [] \<and> ipv6 \<noteq> [] then addrStr @ '','' else addrStr)
      in if ipv6 \<noteq> [] then addrStr @ esc @ ipv6 @ esc else addrStr)"

definition lspAddArgs :: "Pod \<Rightarrow> string \<Rightarrow> string \<Rightarrow> (string \<times> string) option \<Rightarrow> string list" where
  "lspAddArgs pod logicalSwitch portName static =
     (let ids = [''--'', ''set'', ''logical_switch_port'', portName, ''external-ids:namespace='' @ pod_Namespace pod,
                 ''external-ids:logical_switch='' @ logicalSwitch, ''external-ids:pod=true'']
      in case static of
           Some (mac, ip) \<Rightarrow> [''--may-exist'', ''lsp-add'', logicalSwitch, portName, ''--'', ''lsp-set-addresses'', portName,
             mac @ '' '' @ ip, ''--'', ''--if-exists'', ''clear'', ''logical_switch_port'', portName, ''dynamic_addresses''] @ ids
         | None \<Rightarrow> [''--wait=sb'', ''--'', ''--may-exist'', ''lsp-add'', logicalSwitch, portName, ''--'', ''lsp-set-addresses'',
             portName, ''dynamic''] @ ids)"

definition annotationOf :: "string \<Rightarrow> string \<Rightarrow> string \<Rightarrow> string" where
  "annotationOf addrStr macAddr gatewayStr =
     ''{'' @ esc @ ''ip_address'' @ esc @ '':['' @ addrStr @ ''], '' @ esc @ ''mac_address'' @ esc @ '':'' @ esc @ macAddr @ esc @
     '', '' @ esc @ ''gateway_ip'' @ esc @ '': ['' @ gatewayStr @ '']}''"

definition addLogicalPortWithSwitch ::
  "env \<Rightarrow> Pod \<Rightarrow> string \<Rightarrow> string \<Rightarrow> string \<Rightarrow> string \<Rightarrow> string \<Rightarrow> (world, string) prog" where
  "addLogicalPortWithSwitch E pod logicalSwitch ipAddress macAddress gwipAddress portName w =
     (if pod_HostNetwork pod then Some ([], w)
      else do {
     (macAddress, w) \<leftarrow> (if ipAddress \<noteq> [] \<and> macAddress = [] then generateMac E w else Some (macAddress, w));
     let static = (if ipAddress \<noteq> [] then Some (macAddress, ipAddress) else None);
     ((out, stderr, err), w) \<leftarrow> RunOVNNbctl E (lspAddArgs pod logicalSwitch portName static) w;
     (if err \<noteq> None then Some ([], w)
      else do {
     (p, w) \<leftarrow> pollAddresses E (if static \<noteq> None then ''addresses'' else ''dynamic_addresses'') portName 30 w;
     (case p of
        PollErr e \<Rightarrow> Some ([], w)
      | TimedOut \<Rightarrow> Some ([], w)
      | Found out \<Rightarrow>
     (case splitAddresses out of
        macAddr # a # as \<Rightarrow> do {
     (g, w) \<leftarrow> getGatewayFromSwitch E logicalSwitch w;
     (case g of
        Inl e \<Rightarrow> Some ([], w)
      | Inr (gwAddresses, gwMasks) \<Rightarrow> do {
     ((gatewayIP, gatewayIPv6, err), w) \<leftarrow> (if gwipAddress \<noteq> [] then Some ((gwipAddress, [], None), w)
        else getNodeLogicalPortIPAddr E pod w);
     (if err \<noteq> None then Some ([], w)
      else Some (annotationOf (composeAddresses (addressWithMask (a # as) gwAddresses gwMasks ''.'')
                   (addressWithMask (a # as) gwAddresses gwMasks '':'')) macAddr (composeAddresses gatewayIP gatewayIPv6), w))
     }) }
      | _ \<Rightarrow> Some ([], w))) }) })"

text \<open>
  One turn of the loop of \<^verbatim>\<open>AddLogicalPorts\<close>.  The variable \<^verbatim>\<open>ns\<close> lives outside
  the loop, so a field the next network object does not set keeps its value; \<open>Inr\<close> is the bare
  \<^verbatim>\<open>return\<close>, with both results empty.
\<close>

definition portNameOf :: "Pod \<Rightarrow> string \<Rightarrow> string" where
  "portNameOf pod intf = (if intf \<noteq> [] then pod_Namespace pod @ ''_'' @ pod_Name pod @ ''_'' @ intf
     else pod_Namespace pod @ ''_'' @ pod_Name pod)"

definition addPortStep ::
  "env \<Rightarrow> Pod \<Rightarrow> bool \<Rightarrow> jobject \<Rightarrow> NetInterface \<times> string \<times> bool \<Rightarrow> (world, (NetInterface \<times> string \<times> bool) + unit) prog" where
  "addPortStep E pod extra net s w =
     (let (ns, ovnString, defaultInterface) = s
      in case env_mapstructure E net ns of
           Inl e \<Rightarrow> Some (Inr (), w)
         | Inr ns \<Rightarrow> do {
     (exists, w) \<leftarrow> FindLogicalSwitch E (ni_Name ns) w;
     (err, w) \<leftarrow> (if \<not> exists \<and> \<not> extra then CreateNetworkFromPool E (ni_Name ns) w else Some (None, w));
     (if err \<noteq> None then Some (Inr (), w)
      else do {
     (exists, w) \<leftarrow> FindLogicalSwitch E (ni_Name ns) w;
     (if \<not> exists then Some (Inr (), w)
      else if ni_Interface ns = [] \<and> ni_Name ns \<noteq> Ovn4nfvDefaultNw then Some (Inr (), w)
      else do {
     let ns = (if ni_DefaultGateway ns = [] then ns\<lparr>ni_DefaultGateway := ''false''\<rparr> else ns);
     let portName = portNameOf pod (ni_Interface ns);
     let ns' = (if ni_Interface ns = [] then ns\<lparr>ni_Interface := ''*''\<rparr> else ns);
     (outStr, w) \<leftarrow> addLogicalPortWithSwitch E pod (ni_Name ns) (ni_IPAddress ns) (ni_MacAddress ns) (ni_GWIPaddress ns) portName w;
     (if outStr = [] then Some (Inr (), w)
      else Some (Inl (ns', ovnString @ butlast outStr @ '','' @ esc @ ''defaultGateway'' @ esc @ '':'' @ esc @ ni_DefaultGateway ns' @ esc @
             '','' @ esc @ ''interface'' @ esc @ '':'' @ esc @ ni_Interface ns' @ esc @ ''}'' @ '','',
             defaultInterface \<or> ni_Name ns = Ovn4nfvDefaultNw), w)) }) }) })"

definition AddLogicalPorts :: "env \<Rightarrow> Pod \<Rightarrow> jobject list \<Rightarrow> bool \<Rightarrow> (world, string \<times> string) prog" where
  "AddLogicalPorts E pod ovnNetObjs extra w =
     (if pod_HostNetwork pod then Some (([], []), w)
      else if \<not> extra \<and> map_of (pod_Annotations pod) Ovn4nfvAnnotationTag \<noteq> None then Some (([], []), w)
      else do {
     (r, w) \<leftarrow> rangeM (addPortStep E pod extra) ovnNetObjs (empty_NetInterface, ''['', False) w;
     (case r of
        Inr _ \<Rightarrow> Some (([], []), w)
      | Inl (ns, ovnString, defaultInterface) \<Rightarrow>
          if \<not> defaultInterface \<and> \<not> extra then do {
            (outStr, w) \<leftarrow> addLogicalPortWithSwitch E pod Ovn4nfvDefaultNw [] [] [] (portNameOf pod []) w;
            (if outStr = [] then Some (([], []), w)
             else Some ((Ovn4nfvAnnotationTag, butlast (ovnString @ butlast outStr @ '','' @ esc @ ''interface'' @ esc @ '':'' @ esc @ ''*'' @
                    esc @ ''}'' @ '','') @ '']''), w))
          }
          else Some ((Ovn4nfvAnnotationTag, butlast ovnString @ '']''), w))
      })"

definition DeleteLogicalPorts :: "env \<Rightarrow> string \<Rightarrow> string \<Rightarrow> (world, unit) prog" where
  "DeleteLogicalPorts E name namespace w = do {
     let logicalPort = namespace @ ''_'' @ name;
     ((stdout, stderr, err), w) \<leftarrow> RunOVNNbctl E [''--data=bare'', ''--no-heading'', ''--columns=name'', ''find'',
        ''logical_switch_port'', ''external_ids:pod=true''] w;
     (if err \<noteq> None then Some ((), w)
      else forall (\<lambda>existingPort w.
             if strings_Contains existingPort logicalPort
             then do { (r, w) \<leftarrow> RunOVNNbctl E [''--if-exists'', ''lsp-del'', existingPort] w; Some ((), w) }
             else Some ((), w)) (strings_Fields stdout) w)
   }"

section \<open>Runs and frames\<close>

lemma generateMac_runs [runs_intros]: "runs (generateMac E)"
  unfolding generateMac_def [abs_def] by (intro runs_intros)

lemma generateMac_frame [frame_intros]: "frame (generateMac E)"
  unfolding generateMac_def [abs_def] by (intro frame_intros)

lemma generateMac_emits [emits_intros]: "emits P (generateMac E)"
  unfolding generateMac_def [abs_def] by (intro emits_intros)

lemma setupDistributedRouter_frame [frame_intros]: "frame (setupDistributedRouter E name)"
  unfolding setupDistributedRouter_def [abs_def] by (intro frame_intros)

lemma createOvnLS_frame [frame_intros]: "frame (createOvnLS E name s4 g4 ex s6 g6)"
  unfolding createOvnLS_def [abs_def] Let_def by (intro frame_intros)

lemma FindLogicalSwitch_frame [frame_intros]: "frame (FindLogicalSwitch E name)"
  unfolding FindLogicalSwitch_def [abs_def] by (intro frame_intros)

lemma pollAddresses_frame [frame_intros]: "frame (pollAddresses E c p n)"
proof (induction n)
  case 0
  show ?case by (simp add: frame_def)
next
  case (Suc n)
  have "frame (\<lambda>w. Option.bind (RunOVNNbctl E [''get'', ''logical_switch_port'', p, c] w) (\<lambda>((out, stderr, err), w).
      case err of None \<Rightarrow> if out \<noteq> ''[]'' then Some (Found out, w) else pollAddresses E c p n w
      | Some e \<Rightarrow> Some (PollErr e, w)))"
    by (intro frame_intros Suc)
  then show ?case by (simp add: frame_def)
qed

lemma pollAddresses_runs [runs_intros]: "runs (pollAddresses E c p n)"
proof (induction n)
  case 0
  show ?case by (simp add: runs_def)
next
  case (Suc n)
  have "runs (\<lambda>w. Option.bind (RunOVNNbctl E [''get'', ''logical_switch_port'', p, c] w) (\<lambda>((out, stderr, err), w).
      case err of None \<Rightarrow> if out \<noteq> ''[]'' then Some (Found out, w) else pollAddresses E c p n w
      | Some e \<Rightarrow> Some (PollErr e, w)))"
    by (intro runs_intros Suc)
  then show ?case by (simp add: runs_def)
qed

lemma parseGateways_length: "parseGateways gs = Inr (ips, ms) \<Longrightarrow> length ips = length gs \<and> length ms = length gs"
  by (induction gs arbitrary: ips ms) (auto split: list.splits sum.splits)

lemma findIndex_bound: "findIndex xs s = Some i \<Longrightarrow> i < length xs"
  by (induction xs arbitrary: i) (auto split: if_splits)

lemma SetupOvnUtils_frame: "frame (SetupOvnUtils E)"
  unfolding SetupOvnUtils_def [abs_def]
  by (intro frame_intros frame_read [where g = ovnConf and m = "\<lambda>x w. case x of None \<Rightarrow> None | Some c \<Rightarrow> f c w" for f])

lemma RunOVNNbctl_ok:
  assumes "runner w = Some r" and "env_exec E (trace w) (eh_nbctlPath r) (nbctlArgs r ovsCommandTimeout args) = (out, se, None)"
  shows "RunOVNNbctl E args w = Some ((trimOutput out, se, None),
     w\<lparr>trace := trace w @ [ExecCmd (eh_nbctlPath r) (nbctlArgs r ovsCommandTimeout args)]\<rparr>)"
  using assms by (simp add: RunOVNNbctl_def RunOVNNbctlWithTimeout_def runOVNretry_def retryLoop.simps [of E 200] run_def)

section \<open>Properties\<close>

text \<open>
  The interface of a node is named within the 15 characters Linux allows for an interface,
  whatever the node is called: nine fixed ones and six from the node's digest.
\<close>

theorem GetNodeIntfName_length:
  "length (GetNodeIntfName node) = 15 \<and> take 9 (GetNodeIntfName node) = ''ovn4nfv0-''"
  by (simp add: GetNodeIntfName_def length_hex_Encode)

text \<open>
  What OVN answered: the history holds the command with these arguments, and the environment
  answered it there without an error, with this output once it is trimmed.
\<close>

definition answered :: "env \<Rightarrow> world \<Rightarrow> string list \<Rightarrow> string \<Rightarrow> bool" where
  "answered E w args out \<longleftrightarrow> (\<exists>r h rest raw se. runner w = Some r \<and>
     trace w = h @ ExecCmd (eh_nbctlPath r) (nbctlArgs r ovsCommandTimeout args) # rest \<and>
     env_exec E h (eh_nbctlPath r) (nbctlArgs r ovsCommandTimeout args) = (raw, se, None) \<and> out = trimOutput raw)"

definition later :: "world \<Rightarrow> world \<Rightarrow> bool" where
  "later w w' \<longleftrightarrow> runner w' = runner w \<and> prefix (trace w) (trace w')"

lemma later_trans: "later u v \<Longrightarrow> later v w \<Longrightarrow> later u w"
  by (auto simp: later_def)

lemma answered_later: "answered E w args out \<Longrightarrow> later w w' \<Longrightarrow> answered E w' args out"
  by (fastforce simp: answered_def later_def prefix_def)

lemma RunOVNNbctl_answered:
  assumes "RunOVNNbctl E args w = Some ((out, se, err), w')"
  shows "later w w'" and "err = None \<Longrightarrow> answered E w' args out" and "\<exists>h cmd args'. err = snd (snd (env_exec E h cmd args'))"
proof -
  from assms obtain r where r: "runner w = Some r"
    by (auto simp: RunOVNNbctl_def RunOVNNbctlWithTimeout_def run_conv)
  let ?p = "eh_nbctlPath r" and ?args = "nbctlArgs r ovsCommandTimeout args"
  obtain k where k: "retryLoop E 200 ?p ?args w = Some (env_exec E (trace w @ replicate k (ExecCmd ?p ?args)) ?p ?args,
      w\<lparr>trace := trace w @ replicate (Suc k) (ExecCmd ?p ?args)\<rparr>)"
    using retryLoop_spec [of w 200 E ?p ?args] r by auto
  obtain raw e1 er where x: "env_exec E (trace w @ replicate k (ExecCmd ?p ?args)) ?p ?args = (raw, e1, er)" by (metis prod_cases3)
  have y: "out = trimOutput raw" "er = err" "w' = w\<lparr>trace := trace w @ replicate (Suc k) (ExecCmd ?p ?args)\<rparr>"
    using assms r k x by (auto simp: RunOVNNbctl_def RunOVNNbctlWithTimeout_def runOVNretry_def)
  show "later w w'" by (simp add: y(3) later_def)
  show "\<exists>h cmd args'. err = snd (snd (env_exec E h cmd args'))" using x y(2) by (metis snd_conv)
  show "answered E w' args out" if "err = None"
    unfolding answered_def using r x y that
    by (intro exI [of _ r] exI [of _ "trace w @ replicate k (ExecCmd ?p ?args)"] exI [of _ "[]"] exI [of _ raw] exI [of _ e1])
      (simp add: replicate_append_same)
qed

definition find_switch :: "string \<Rightarrow> string list" where
  "find_switch name = [''--data=bare'', ''--no-heading'', ''--columns=name'', ''find'', ''logical_switch'', ''name='' @ name]"

definition add_switch :: "string \<Rightarrow> OVNNetworkConf \<Rightarrow> string list" where
  "add_switch name c = [''--wait=hv'', ''--'', ''--may-exist'', ''ls-add'', name, ''--'', ''set'', ''logical_switch'', name] @
     take 2 (getOvnLSOtherConfig (fst (lsFamily (oc_Subnetv4 c) (oc_GatewayIPv4 c))) (fst (lsFamily (oc_Subnetv6 c) (oc_GatewayIPv6 c)))) @
     [getOvnLSExternalIds (snd (lsFamily (oc_Subnetv4 c) (oc_GatewayIPv4 c))) (snd (lsFamily (oc_Subnetv6 c) (oc_GatewayIPv6 c)))] @
     (if oc_ExcludeIPs c \<noteq> [] then [''other-config:exclude_ips='' @ oc_ExcludeIPs c] else [])"

text \<open>The commands that make the router, its join switch and the two ports that connect them under one address.\<close>

definition lr_add :: "string \<Rightarrow> string list" where
  "lr_add name = [''--'', ''--may-exist'', ''lr-add'', name, ''--'', ''set'', ''logical_router'', name, ''external_ids:ovn4nfv-cluster-router=yes'']"

definition join_add :: "string list" where
  "join_add = [''--may-exist'', ''ls-add'', ''ovn4nfv-join'']"

definition get_mac :: "string \<Rightarrow> string list" where
  "get_mac name = [''--if-exist'', ''get'', ''logical_router_port'', ''rtoj-'' @ name, ''mac'']"

definition rtoj_add :: "string \<Rightarrow> string \<Rightarrow> string list" where
  "rtoj_add name mac = [''--'', ''--may-exist'', ''lrp-add'', name, ''rtoj-'' @ name, mac, ''100.64.1.1/24'', ''--'', ''set'',
     ''logical_router_port'', ''rtoj-'' @ name, ''external_ids:connect_to_ovn4nfvjoin=yes'']"

definition lsp_join :: "string \<Rightarrow> string \<Rightarrow> string list" where
  "lsp_join name mac = [''--'', ''--may-exist'', ''lsp-add'', ''ovn4nfv-join'', ''jtor-'' @ name, ''--'', ''set'', ''logical_switch_port'',
     ''jtor-'' @ name, ''type=router'', ''options:router-port=rtoj-'' @ name, ''addresses='' @ [CHR 0x22] @ mac @ [CHR 0x22]]"

lemmas router_commands = lr_add_def join_add_def get_mac_def rtoj_add_def lsp_join_def

definition router_stands :: "env \<Rightarrow> world \<Rightarrow> string \<Rightarrow> bool" where
  "router_stands E w name \<longleftrightarrow> (\<exists>o1. answered E w (lr_add name) o1) \<and> (\<exists>o2. answered E w join_add o2) \<and>
     (\<exists>mac. (mac \<noteq> [] \<and> answered E w (get_mac name) mac \<or> (\<exists>o3. answered E w (rtoj_add name mac) o3)) \<and>
        (\<exists>o4. answered E w (lsp_join name mac) o4))"

lemma router_stands_later: "router_stands E w name \<Longrightarrow> later w w' \<Longrightarrow> router_stands E w' name"
  unfolding router_stands_def by (blast intro: answered_later)

lemma setupDistributedRouter_run:
  assumes "setupDistributedRouter E name w = Some (None, w')"
  obtains o1 s1 w1 o2 s2 w2 old s3 w3 mac w4 o5 s5 where "RunOVNNbctl E (lr_add name) w = Some ((o1, s1, None), w1)"
    "RunOVNNbctl E join_add w1 = Some ((o2, s2, None), w2)" "RunOVNNbctl E (get_mac name) w2 = Some ((old, s3, None), w3)"
    "old \<noteq> [] \<and> mac = old \<and> w4 = w3 \<or> (\<exists>o4 s4. RunOVNNbctl E (rtoj_add name mac) w3 = Some ((o4, s4, None), w4))"
    "RunOVNNbctl E (lsp_join name mac) w4 = Some ((o5, s5, None), w')"
proof -
  from assms obtain o1 s1 w1 o2 s2 w2 old s3 w3 where a: "RunOVNNbctl E (lr_add name) w = Some ((o1, s1, None), w1)"
    "RunOVNNbctl E join_add w1 = Some ((o2, s2, None), w2)" "RunOVNNbctl E (get_mac name) w2 = Some ((old, s3, None), w3)"
    unfolding setupDistributedRouter_def router_commands [symmetric] by (auto simp: run_conv split: if_splits)
  show ?thesis
  proof (cases "old = []")
    case True
    have "v = u" if "generateMac E u = Some (m, v)" for m u v using that by (auto simp: generateMac_def run_conv split: prod.splits)
    with True assms a that [OF a] show ?thesis
      unfolding setupDistributedRouter_def router_commands [symmetric] by (fastforce simp: run_conv split: if_splits)
  next
    case False
    with assms a that [OF a, where mac = old] show ?thesis
      unfolding setupDistributedRouter_def router_commands [symmetric] by (auto simp: run_conv split: if_splits)
  qed
qed

lemma setupDistributedRouter_stands:
  assumes "setupDistributedRouter E name w = Some (None, w')"
  shows "router_stands E w' name" and "later w w'"
proof -
  from assms obtain o1 s1 w1 o2 s2 w2 old s3 w3 mac w4 o5 s5 where a: "RunOVNNbctl E (lr_add name) w = Some ((o1, s1, None), w1)"
    "RunOVNNbctl E join_add w1 = Some ((o2, s2, None), w2)" "RunOVNNbctl E (get_mac name) w2 = Some ((old, s3, None), w3)"
    and m: "old \<noteq> [] \<and> mac = old \<and> w4 = w3 \<or> (\<exists>o4 s4. RunOVNNbctl E (rtoj_add name mac) w3 = Some ((o4, s4, None), w4))"
    and z: "RunOVNNbctl E (lsp_join name mac) w4 = Some ((o5, s5, None), w')"
    by (rule setupDistributedRouter_run)
  note l = a [THEN RunOVNNbctl_answered(1)] z [THEN RunOVNNbctl_answered(1)]
    and ok = a [THEN RunOVNNbctl_answered(2), OF refl] z [THEN RunOVNNbctl_answered(2), OF refl]
  have l4: "later w3 w4" and m4: "mac \<noteq> [] \<and> answered E w4 (get_mac name) mac \<or> (\<exists>o4. answered E w4 (rtoj_add name mac) o4)"
    using m ok(3) by (auto dest: RunOVNNbctl_answered simp: later_def)
  have l': "later w1 w'" "later w2 w'" "later w w'" using l l4 by (meson later_trans)+
  from ok(1,2,4) m4 l' l(4) show "router_stands E w' name" unfolding router_stands_def by (blast intro: answered_later)
  show "later w w'" by (rule l')
qed

text \<open>A command does not fail with an error value the program itself makes.\<close>

definition exec_errors :: "env \<Rightarrow> bool" where
  "exec_errors E \<longleftrightarrow> (\<forall>h cmd args. snd (snd (env_exec E h cmd args)) \<noteq> Some (Errorf ''LS exists''))"

lemma createOvnLS_stands:
  assumes "createOvnLS E name (oc_Subnetv4 c) (oc_GatewayIPv4 c) (oc_ExcludeIPs c) (oc_Subnetv6 c) (oc_GatewayIPv6 c) w = Some ((g4, g6, err), w')"
    and "err = None \<or> err = Some (Errorf ''LS exists'')" and "exec_errors E"
  shows "answered E w' (find_switch name) name \<or> (\<exists>o1. answered E w' (add_switch name c) o1)" and "later w w'"
proof -
  let ?f4 = "lsFamily (oc_Subnetv4 c) (oc_GatewayIPv4 c)" and ?f6 = "lsFamily (oc_Subnetv6 c) (oc_GatewayIPv6 c)"
  from assms(1) obtain out se e1 w1 where f: "RunOVNNbctl E (find_switch name) w = Some ((out, se, e1), w1)"
    by (auto simp: createOvnLS_def find_switch_def run_conv)
  have "e1 \<noteq> Some (Errorf ''LS exists'')" using RunOVNNbctl_answered(3) [OF f] assms(3) by (auto simp: exec_errors_def)
  with assms(1,2) f consider (found) "e1 = None" "out = name" "w' = w1"
    | (made) o2 s2 where "RunOVNNbctl E (add_switch name c) w1 = Some ((o2, s2, err), w')"
    by (cases "getOvnLSOtherConfig (fst ?f4) (fst ?f6)")
      (auto simp: createOvnLS_def find_switch_def add_switch_def Let_def split_def run_conv numeral_2_eq_2 split: if_splits)
  then have "(answered E w' (find_switch name) name \<or> (\<exists>o1. answered E w' (add_switch name c) o1)) \<and> later w w'"
  proof cases
    case found
    with RunOVNNbctl_answered(1,2) [OF f] show ?thesis by simp
  next
    case (made o2 s2)
    have "err \<noteq> Some (Errorf ''LS exists'')" using RunOVNNbctl_answered(3) [OF made] assms(3) by (auto simp: exec_errors_def)
    with assms(2) have "err = None" by simp
    with RunOVNNbctl_answered(1,2) [OF made] RunOVNNbctl_answered(1) [OF f] later_trans show ?thesis by blast
  qed
  then show "answered E w' (find_switch name) name \<or> (\<exists>o1. answered E w' (add_switch name c) o1)" "later w w'" by simp_all
qed

text \<open>The network configuration in the variables of the operator.\<close>

definition netConf :: "env \<Rightarrow> OVNNetworkConf" where
  "netConf E = \<lparr>oc_Subnetv4 = env_Getenv E ''OVN_SUBNET'', oc_GatewayIPv4 = env_Getenv E ''OVN_GATEWAYIP'',
     oc_ExcludeIPs = env_Getenv E ''OVN_EXCLUDEIPS'', oc_Subnetv6 = env_Getenv E ''OVN_SUBNET_V6'', oc_GatewayIPv6 = env_Getenv E ''OVN_GATEWAYIP_V6''\<rparr>"

lemma NewOvnController_run:
  assumes "NewOvnController E w = Some (None, w')"
  obtains r u v where "env_LookPath E ''ovn-nbctl'' = Inr (eh_nbctlPath r)" and "u = w\<lparr>runner := Some r, ovnConf := Some (netConf E)\<rparr>"
    and "SetupOvnUtils E u = Some (None, v)" and "w' = v\<lparr>gatewayCache := Some []\<rparr>"
    and "\<not> (env_Getenv E ''OVN_SUBNET'' = [] \<and> env_Getenv E ''OVN_SUBNET_V6'' = [])"
proof -
  from assms obtain u1 u2 u3 where s: "SetExec E w = Some (None, u1)" and g: "GetOvnNetConf E u1 = Some (None, u2)"
    and u: "SetupOvnUtils E u2 = Some (None, u3)" and w': "w' = u3\<lparr>gatewayCache := Some []\<rparr>"
    unfolding NewOvnController_def by (auto simp: run_conv)
  from SetExec_runner [OF s] obtain r where r: "u1 = w\<lparr>runner := Some r\<rparr>" "env_LookPath E ''ovn-nbctl'' = Inr (eh_nbctlPath r)" by blast
  from g have c: "u2 = u1\<lparr>ovnConf := Some (netConf E)\<rparr>" "\<not> (env_Getenv E ''OVN_SUBNET'' = [] \<and> env_Getenv E ''OVN_SUBNET_V6'' = [])"
    by (auto simp: GetOvnNetConf_def netConf_def Let_def split: if_splits)
  from that [OF r(2) _ u w' c(2)] c(1) r(1) show ?thesis by simp
qed

lemma NewOvnController_fails:
  assumes "NewOvnController E w = Some (Some e, w')"
  shows "gatewayCache w' = gatewayCache w"
proof -
  have setexec: "gatewayCache v = gatewayCache u" if "SetExec E u = Some (e, v)" for u e v
    using that by (auto simp: SetExec_def Let_def split: sum.splits)
  have conf: "gatewayCache v = gatewayCache u" if "GetOvnNetConf E u = Some (e, v)" for u e v
    using that by (auto simp: GetOvnNetConf_def Let_def split: if_splits)
  from assms show ?thesis unfolding NewOvnController_def
    by (auto simp: run_conv dest!: setexec conf frame_fields(3) [OF SetupOvnUtils_frame])
qed

text \<open>
  C14.  A failed start leaves the controller as it was.  After a successful one the configuration is
  the one in the operator's variables and has a subnet, OVN has accepted the commands that make the
  router, its join switch and the ports between them, and the default switch is there: OVN either
  listed it or accepted the command that makes it with the configured subnets; the cache is empty and
  the controller can be fetched.
\<close>

theorem NewOvnController_initialises:
  assumes "NewOvnController E w = Some (err, w')" and "exec_errors E"
  shows "if err = None
    then (\<exists>r. runner w' = Some r \<and> env_LookPath E ''ovn-nbctl'' = Inr (eh_nbctlPath r)) \<and> ovnConf w' = Some (netConf E) \<and>
      \<not> (oc_Subnetv4 (netConf E) = [] \<and> oc_Subnetv6 (netConf E) = []) \<and> router_stands E w' ovn4nfvRouterName \<and>
      (answered E w' (find_switch Ovn4nfvDefaultNw) Ovn4nfvDefaultNw \<or> (\<exists>o1. answered E w' (add_switch Ovn4nfvDefaultNw (netConf E)) o1)) \<and>
      gatewayCache w' = Some [] \<and> GetOvnController w' = None
    else gatewayCache w' = gatewayCache w"
proof (cases err)
  case None
  with assms(1) obtain r u v where r: "env_LookPath E ''ovn-nbctl'' = Inr (eh_nbctlPath r)" "u = w\<lparr>runner := Some r, ovnConf := Some (netConf E)\<rparr>"
    and s: "SetupOvnUtils E u = Some (None, v)" and w': "w' = v\<lparr>gatewayCache := Some []\<rparr>"
    and c: "\<not> (env_Getenv E ''OVN_SUBNET'' = [] \<and> env_Getenv E ''OVN_SUBNET_V6'' = [])"
    using NewOvnController_run by metis
  have fields: "runner v = Some r" "ovnConf v = Some (netConf E)" using frame_fields [OF SetupOvnUtils_frame s] r(2) by simp_all
  from s obtain u1 where d: "setupDistributedRouter E ovn4nfvRouterName u = Some (None, u1)" by (auto simp: SetupOvnUtils_def run_conv)
  have "ovnConf u1 = Some (netConf E)" using frame_fields(2) [OF setupDistributedRouter_frame d] r(2) by simp
  with s d obtain g4 g6 e where ls: "createOvnLS E Ovn4nfvDefaultNw (oc_Subnetv4 (netConf E)) (oc_GatewayIPv4 (netConf E)) (oc_ExcludeIPs (netConf E))
      (oc_Subnetv6 (netConf E)) (oc_GatewayIPv6 (netConf E)) u1 = Some ((g4, g6, e), v)" "e = None \<or> e = Some (Errorf ''LS exists'')"
    by (auto simp: SetupOvnUtils_def run_conv split: if_splits)
  have l: "later v w'" by (simp add: w' later_def)
  have "router_stands E w' ovn4nfvRouterName"
    using setupDistributedRouter_stands(1) [OF d] createOvnLS_stands(2) [OF ls assms(2)] l by (blast intro: router_stands_later later_trans)
  moreover have "answered E w' (find_switch Ovn4nfvDefaultNw) Ovn4nfvDefaultNw \<or> (\<exists>o1. answered E w' (add_switch Ovn4nfvDefaultNw (netConf E)) o1)"
    using createOvnLS_stands(1) [OF ls assms(2)] l by (blast intro: answered_later)
  ultimately show ?thesis using None r(1) c fields by (simp add: w' GetOvnController_def netConf_def)
qed (use assms(1) NewOvnController_fails in auto)

definition ovn_env :: env where
  "ovn_env = null_env\<lparr>env_Getenv := (\<lambda>v. if v = ''OVN_SUBNET'' then ''10.154.142.0/18'' else []),
     env_exec := (\<lambda>h c args. if length h < 3 then ([], [], None) else (Ovn4nfvDefaultNw, [], None))\<rparr>"

text \<open>A database without router whose default switch has been made before.\<close>

theorem NewOvnController_initialises_witness:
  "\<exists>w'. NewOvnController ovn_env init_world = Some (None, w') \<and> router_stands ovn_env w' ovn4nfvRouterName \<and>
     (answered ovn_env w' (find_switch Ovn4nfvDefaultNw) Ovn4nfvDefaultNw \<or> (\<exists>o1. answered ovn_env w' (add_switch Ovn4nfvDefaultNw (netConf ovn_env)) o1)) \<and>
     GetOvnController w' = None"
proof -
  have "case NewOvnController ovn_env init_world of Some (err, w') \<Rightarrow> err = None | None \<Rightarrow> False" by code_simp
  then obtain w' where w': "NewOvnController ovn_env init_world = Some (None, w')" by (auto split: option.splits)
  have "exec_errors ovn_env" by (simp add: exec_errors_def ovn_env_def)
  from NewOvnController_initialises [OF w' this] w' show ?thesis by auto
qed

definition read_gateway :: "string \<Rightarrow> string list" where
  "read_gateway sw = [''--if-exists'', ''get'', ''logical_switch'', sw, ''external_ids:gateway_ip'']"

text \<open>Every entry of the gateway cache is what OVN answered for that switch.\<close>

definition cache_ok :: "env \<Rightarrow> world \<Rightarrow> bool" where
  "cache_ok E w \<longleftrightarrow> (\<forall>c. gatewayCache w = Some c \<longrightarrow> map_ok c \<and> (\<forall>k v. map_of c k = Some v \<longrightarrow> v \<noteq> [] \<and> answered E w (read_gateway k) v))"

text \<open>
  C15.  The gateway cache answers for the switch.  It only ever holds what OVN answered, without an
  error and not empty, to the command that reads the gateways of that switch, and a read leaves the
  entries of the other switches alone.  The gateways returned are those of the switch's entry, and
  every later read returns the same ones without asking OVN again, with as many masks as addresses,
  so that indexing the masks by a gateway's position is in range.
\<close>

theorem getGatewayFromSwitch_cached:
  assumes "cache_ok E w" and "getGatewayFromSwitch E sw w = Some (r, w')"
  shows "cache_ok E w' \<and> (\<exists>c c'. gatewayCache w = Some c \<and> gatewayCache w' = Some c' \<and> (\<forall>k. k \<noteq> sw \<longrightarrow> map_of c' k = map_of c k) \<and>
     (\<forall>v. map_of c sw = Some v \<longrightarrow> w' = w) \<and>
     (\<forall>ips ms. r = Inr (ips, ms) \<longrightarrow> length ms = length ips \<and>
        (\<exists>v. map_of c' sw = Some v \<and> parseGateways (strings_Split v (CHR '','')) = Inr (ips, ms)) \<and>
        (\<forall>E' v. gatewayCache v = gatewayCache w' \<longrightarrow> getGatewayFromSwitch E' sw v = Some (r, v))))"
proof -
  obtain cache where c: "gatewayCache w = Some cache" using assms(2)
    by (cases "gatewayCache w") (simp_all add: getGatewayFromSwitch_def)
  show ?thesis
  proof (cases "map_of cache sw")
    case (Some s)
    with c assms(2) have r: "r = parseGateways (strings_Split s (CHR '',''))" "w' = w" by (auto simp: getGatewayFromSwitch_def)
    with assms(1) c Some show ?thesis by (auto simp: getGatewayFromSwitch_def dest: parseGateways_length)
  next
    case None
    with c assms(2) obtain s se err v where run: "RunOVNNbctl E (read_gateway sw) w = Some ((s, se, err), v)"
      and rest: "(\<exists>e. r = Inl e \<and> w' = v) \<or> err = None \<and> s \<noteq> [] \<and> r = parseGateways (strings_Split s (CHR '','')) \<and>
        w' = v\<lparr>gatewayCache := Some (map_put sw s cache)\<rparr>"
      by (auto simp: getGatewayFromSwitch_def read_gateway_def run_conv)
    from frame_fields(3) [OF RunOVNNbctl_frame run] have v: "gatewayCache v = gatewayCache w" .
    note l = RunOVNNbctl_answered(1) [OF run]
    from rest show ?thesis
    proof (elim disjE exE conjE)
      fix e assume "r = Inl e" "w' = v"
      with assms(1) c v l None show ?thesis by (auto simp: cache_ok_def intro: answered_later)
    next
      assume e: "err = None" and s: "s \<noteq> []" "r = parseGateways (strings_Split s (CHR '',''))" "w' = v\<lparr>gatewayCache := Some (map_put sw s cache)\<rparr>"
      have l': "later v w'" by (simp add: s(3) later_def)
      have "answered E w' (read_gateway sw) s" by (rule answered_later [OF RunOVNNbctl_answered(2) [OF run e] l'])
      moreover have "answered E w' (read_gateway k) x" if "map_of cache k = Some x" for k x
        using assms(1) c that later_trans [OF l l'] by (auto simp: cache_ok_def intro: answered_later)
      ultimately have "cache_ok E w'" using assms(1) c s(1,3) by (auto simp: cache_ok_def split: if_splits)
      with c s None show ?thesis by (auto simp: getGatewayFromSwitch_def dest: parseGateways_length)
    qed
  qed
qed

text \<open>A switch that is not in the cache yet, next to one that is.\<close>

definition gw_world :: world where
  "gw_world = exec_world\<lparr>trace := [ExecCmd ''nbctl'' (nbctlArgs (the (runner exec_world)) ovsCommandTimeout (read_gateway ''net''))],
     gatewayCache := Some [(''net'', ''10.0.0.1/24,fd00::1/64'')]\<rparr>"

definition gw_env :: env where
  "gw_env = null_env\<lparr>env_exec := (\<lambda>h c args. (if h = [] then ''10.0.0.1/24,fd00::1/64'' else ''10.1.0.1/16'', [], None))\<rparr>"

theorem getGatewayFromSwitch_cached_witness:
  "\<exists>w'. cache_ok gw_env gw_world \<and> getGatewayFromSwitch gw_env ''new'' gw_world = Some (Inr ([''10.1.0.1''], [''16'']), w') \<and>
     cache_ok gw_env w' \<and>
     (\<forall>E' v. gatewayCache v = gatewayCache w' \<longrightarrow> getGatewayFromSwitch E' ''new'' v = Some (Inr ([''10.1.0.1''], [''16'']), v))"
proof -
  have t: "trimOutput ''10.0.0.1/24,fd00::1/64'' = ''10.0.0.1/24,fd00::1/64''" "trimOutput ''10.1.0.1/16'' = ''10.1.0.1/16''" by code_simp+
  have "answered gw_env gw_world (read_gateway ''net'') ''10.0.0.1/24,fd00::1/64''"
    unfolding answered_def
    by (rule exI [of _ "the (runner exec_world)"], rule exI [of _ "[]"]) (simp add: t gw_world_def gw_env_def exec_world_def)
  then have ok: "cache_ok gw_env gw_world" by (auto simp: cache_ok_def map_ok_def gw_world_def split: if_splits)
  have p: "parseGateways (strings_Split ''10.1.0.1/16'' (CHR '','')) = Inr ([''10.1.0.1''], [''16''])" by code_simp
  have "runner gw_world = runner exec_world" "trace gw_world \<noteq> []" by (simp_all add: gw_world_def)
  then have "\<exists>v. RunOVNNbctl gw_env args gw_world = Some ((''10.1.0.1/16'', [], None), v)" for args
    using RunOVNNbctl_ok [of gw_world "the (runner exec_world)" gw_env args "''10.1.0.1/16''" "[]"] by (simp add: exec_world_def gw_env_def t)
  then obtain v where "RunOVNNbctl gw_env (read_gateway ''new'') gw_world = Some ((''10.1.0.1/16'', [], None), v)" by blast
  then have "\<exists>w'. getGatewayFromSwitch gw_env ''new'' gw_world = Some (Inr ([''10.1.0.1''], [''16'']), w')"
    using p by (simp add: getGatewayFromSwitch_def read_gateway_def gw_world_def)
  then obtain w' where w': "getGatewayFromSwitch gw_env ''new'' gw_world = Some (Inr ([''10.1.0.1''], [''16'']), w')" by blast
  note g = getGatewayFromSwitch_cached [OF ok w']
  from g have "cache_ok gw_env w'" by (rule conjunct1)
  moreover from g have "\<forall>E' v. gatewayCache v = gatewayCache w' \<longrightarrow> getGatewayFromSwitch E' ''new'' v = Some (Inr ([''10.1.0.1''], [''16'']), v)"
    by (elim conjE exE) simp
  ultimately show ?thesis using ok w' by (intro exI [of _ w'] conjI)
qed

definition find_ports :: "string list" where
  "find_ports = [''--data=bare'', ''--no-heading'', ''--columns=name'', ''find'', ''logical_switch_port'', ''external_ids:pod=true'']"

definition deletePort :: "env \<Rightarrow> string \<Rightarrow> string \<Rightarrow> (world, unit) prog" where
  "deletePort E logicalPort existingPort w =
     (if strings_Contains existingPort logicalPort
      then do { (r, w) \<leftarrow> RunOVNNbctl E [''--if-exists'', ''lsp-del'', existingPort] w; Some ((), w) }
      else Some ((), w))"

definition lsp_del :: "string \<Rightarrow> event \<Rightarrow> bool" where
  "lsp_del p e \<longleftrightarrow> nbctl [''--if-exists'', ''lsp-del'', p] e"

lemma lsp_del_unique: "lsp_del p e \<Longrightarrow> lsp_del q e \<Longrightarrow> p = q"
  using nbctl_last [of "[''--if-exists'', ''lsp-del'']" p e "[''--if-exists'', ''lsp-del'']" q] by (simp add: lsp_del_def)

lemma deletePort_emits: "emits (\<lambda>e. strings_Contains p lp \<and> lsp_del p e) (deletePort E lp p)"
  unfolding deletePort_def [abs_def] by (intro emits_intros) (auto simp: lsp_del_def)

lemma forall_deletePort:
  assumes "forall (deletePort E lp) ps w = Some ((), w')"
  shows "(\<exists>e \<in> set (new_events w w'). lsp_del p e) \<longleftrightarrow> p \<in> set ps \<and> strings_Contains p lp"
  using assms
proof (induction ps arbitrary: w)
  case (Cons q ps)
  from Cons.prems obtain u v where v: "deletePort E lp q w = Some (u, v)" and rest: "forall (deletePort E lp) ps v = Some ((), w')"
    by (auto simp: run_conv)
  from emitsD [OF deletePort_emits v] obtain es where es: "trace v = trace w @ es" "\<forall>e \<in> set es. strings_Contains q lp \<and> lsp_del q e"
    by blast
  from emitsD [OF emits_forall [OF emits_mono [OF deletePort_emits]] rest, of "\<lambda>_. True"] obtain fs where
    fs: "trace w' = trace v @ fs" by auto
  have new: "new_events w w' = es @ new_events v w'" using es fs by (simp add: new_events_def)
  have "(\<exists>e \<in> set es. lsp_del p e) \<longleftrightarrow> p = q \<and> strings_Contains q lp"
  proof
    assume "p = q \<and> strings_Contains q lp"
    then obtain r where "RunOVNNbctl E [''--if-exists'', ''lsp-del'', p] w = Some (r, v)" using v by (auto simp: deletePort_def run_conv)
    from nbctl_sent [OF this] es(1) show "\<exists>e \<in> set es. lsp_del p e" by (simp add: new_events_def lsp_del_def)
  qed (use es(2) lsp_del_unique in blast)
  with Cons.IH [OF rest] show ?case by (auto simp: new)
qed (simp add: new_events_def)

text \<open>
  C17.  Deleting a pod's ports sends a deletion for exactly the listed ports whose name contains
  \<^verbatim>\<open>namespace_name\<close> anywhere, so also for the ports of every pod whose name continues the
  deleted one's.
\<close>

theorem DeleteLogicalPorts_exact:
  assumes find: "RunOVNNbctl E find_ports w = Some ((out, se, None), w1)" and del: "DeleteLogicalPorts E name ns w = Some ((), w')"
  shows "(\<exists>e \<in> set (new_events w1 w'). nbctl [''--if-exists'', ''lsp-del'', p] e) \<longleftrightarrow>
     p \<in> set (strings_Fields out) \<and> strings_Contains p (ns @ ''_'' @ name)"
proof -
  have "deletePort E (ns @ ''_'' @ name) = (\<lambda>existingPort w. if strings_Contains existingPort (ns @ ''_'' @ name)
      then Option.bind (RunOVNNbctl E [''--if-exists'', ''lsp-del'', existingPort] w) (\<lambda>(r, w). Some ((), w)) else Some ((), w))"
    by (simp add: deletePort_def fun_eq_iff)
  then have "forall (deletePort E (ns @ ''_'' @ name)) (strings_Fields out) w1 = Some ((), w')"
    using find del unfolding DeleteLogicalPorts_def Let_def find_ports_def by simp
  from forall_deletePort [OF this, of p] show ?thesis by (simp add: lsp_del_def)
qed

lemma DeleteLogicalPorts_runs: "runs (DeleteLogicalPorts E name ns)"
  unfolding DeleteLogicalPorts_def [abs_def] Let_def by (intro runs_intros)

theorem DeleteLogicalPorts_exact_witness:
  "\<exists>w1 w'. DeleteLogicalPorts (null_env\<lparr>env_exec := (\<lambda>h c args. (''default_web2 default_db'', [], None))\<rparr>) ''web'' ''default'' exec_world =
       Some ((), w') \<and> (\<exists>e \<in> set (new_events w1 w'). nbctl [''--if-exists'', ''lsp-del'', ''default_web2''] e)"
proof -
  let ?E = "null_env\<lparr>env_exec := (\<lambda>h c args. (''default_web2 default_db'', [], None))\<rparr>"
  obtain r where r: "runner exec_world = Some r" by (simp add: exec_world_def)
  have "env_exec ?E h c args = (''default_web2 default_db'', [], None)" for h c args by simp
  from RunOVNNbctl_ok [OF r this] obtain w1 where
    w1: "RunOVNNbctl ?E find_ports exec_world = Some ((trimOutput ''default_web2 default_db'', [], None), w1)" by blast
  have "runner exec_world \<noteq> None" using r by simp
  from runsD [OF DeleteLogicalPorts_runs [of ?E "''web''" "''default''"] this] obtain u w' where
    "DeleteLogicalPorts ?E ''web'' ''default'' exec_world = Some (u, w')" by blast
  then have w': "DeleteLogicalPorts ?E ''web'' ''default'' exec_world = Some ((), w')" by simp
  have "''default_web2'' \<in> set (strings_Fields (trimOutput ''default_web2 default_db'')) \<and>
      strings_Contains ''default_web2'' (''default'' @ ''_'' @ ''web'')" by code_simp
  with DeleteLogicalPorts_exact [OF w1 w'] have "\<exists>e \<in> set (new_events w1 w'). nbctl [''--if-exists'', ''lsp-del'', ''default_web2''] e" by blast
  with w' show ?thesis by blast
qed

lemma poll_times_out:
  assumes "runner w = Some r" and "\<And>h args. \<exists>out se. env_exec E h (eh_nbctlPath r) args = (out, se, None) \<and> trimOutput out = ''[]''"
  shows "pollAddresses E c p n w = Some (TimedOut, w\<lparr>trace := trace w @ replicate n (ExecCmd (eh_nbctlPath r)
     (nbctlArgs r ovsCommandTimeout [''get'', ''logical_switch_port'', p, c]))\<rparr>)"
  using assms(1)
proof (induction n arbitrary: w)
  case (Suc n)
  let ?args = "[''get'', ''logical_switch_port'', p, c]"
  obtain out se where o: "env_exec E (trace w) (eh_nbctlPath r) (nbctlArgs r ovsCommandTimeout ?args) = (out, se, None)"
    "trimOutput out = ''[]''" using assms(2) by blast
  have "runner (w\<lparr>trace := trace w @ [ExecCmd (eh_nbctlPath r) (nbctlArgs r ovsCommandTimeout ?args)]\<rparr>) = Some r"
    using Suc.prems by simp
  from Suc.IH [OF this] RunOVNNbctl_ok [OF Suc.prems o(1)] o(2) show ?case by simp
qed simp

lemma AddNodeLogicalPorts_unanswered:
  assumes "runner w = Some r"
    and "\<And>h args. \<exists>out se. env_exec E h (eh_nbctlPath r) args = (out, se, None) \<and> trimOutput out = ''[]''"
  shows "\<exists>es. AddNodeLogicalPorts E node w = Some (([], [], [], None), w\<lparr>trace := trace w @ es\<rparr>) \<and> length es = 31"
proof -
  let ?p = "GetNodeIntfName (strings_ToLower node)"
  let ?add = "[''--wait=sb'', ''--'', ''--may-exist'', ''lsp-add'', Ovn4nfvDefaultNw, ?p, ''--'', ''lsp-set-addresses'', ?p, ''dynamic'']"
  obtain out se where "env_exec E (trace w) (eh_nbctlPath r) (nbctlArgs r ovsCommandTimeout ?add) = (out, se, None)"
    using assms(2) by blast
  note add = RunOVNNbctl_ok [OF assms(1) this]
  let ?w = "w\<lparr>trace := trace w @ [ExecCmd (eh_nbctlPath r) (nbctlArgs r ovsCommandTimeout ?add)]\<rparr>"
  have "runner ?w = Some r" using assms(1) by simp
  note poll = poll_times_out [OF this assms(2), where c = "''dynamic_addresses''" and p = ?p and n = 30]
  show ?thesis
    using add poll by (auto simp: AddNodeLogicalPorts_def addNodeLogicalPortWithSwitch_def intro!: exI [of _ "_ # _"])
qed

text \<open>
  A node port that never gets an address is reported as a success: after the port is created
  and its addresses have been read 30 times in vain, the call returns three empty strings and no
  error.
\<close>

theorem AddNodeLogicalPorts_timeout:
  assumes "runner w = Some r"
    and "\<And>h args. \<exists>out se. env_exec E h (eh_nbctlPath r) args = (out, se, None) \<and> trimOutput out = ''[]''"
  shows "\<exists>w'. AddNodeLogicalPorts E node w = Some (([], [], [], None), w') \<and> length (new_events w w') = 31"
  using AddNodeLogicalPorts_unanswered [OF assms, of node] by (auto simp: new_events_def)

theorem AddNodeLogicalPorts_timeout_witness:
  "\<exists>w'. AddNodeLogicalPorts (null_env\<lparr>env_exec := (\<lambda>h c args. (''[]'', [], None))\<rparr>) ''node1'' exec_world =
     Some (([], [], [], None), w')"
proof -
  obtain r where r: "runner exec_world = Some r" by (simp add: exec_world_def)
  have "trimOutput ''[]'' = ''[]''" by code_simp
  with AddNodeLogicalPorts_timeout [OF r, of "null_env\<lparr>env_exec := (\<lambda>h c args. (''[]'', [], None))\<rparr>" "''node1''"]
  show ?thesis by auto
qed

section \<open>Creating and deleting a network\<close>

lemma createNetwork_emits:
  "emits (\<lambda>e. (\<exists>n. nbctl [''--data=bare'', ''--no-heading'', ''--columns=name'', ''find'', ''logical_switch'', ''name='' @ n] e) \<or>
       (\<exists>cfg. nbctl ([''--wait=hv'', ''--'', ''--may-exist'', ''ls-add'', name, ''--'', ''set'', ''logical_switch'', name] @ cfg) e) \<or>
       nbctl [''--if-exist'', ''get'', ''logical_router_port'', rp, ''mac''] e \<or>
       (\<exists>mac gw. nbctl [''--wait=hv'', ''--may-exist'', ''lrp-add'', ovn4nfvRouterName, rp, mac, gw] e) \<or>
       (\<exists>args. nbctl ([''--wait=hv'', ''--'', ''--may-exist'', ''lsp-add'', name, ''stor-'' @ name] @ args) e))
     (createNetwork E name sn rp)"
  unfolding createNetwork_def [abs_def]
  by (intro emits_intros emits_mono [OF createOvnLS_emits]) (auto simp: append_eq_Cons_conv)

lemma nbctl_inj: "nbctl a e \<Longrightarrow> nbctl b e \<Longrightarrow> a = b"
  by (auto simp: nbctl_def nbctlArgs_def split: if_splits)

lemma new_events_trans:
  assumes "prefix (trace u) (trace v)" and "prefix (trace v) (trace w)"
  shows "new_events u w = new_events u v @ new_events v w"
  using assms by (auto simp: new_events_def prefix_def)

lemma nbctl_grows: "RunOVNNbctl E args w = Some (r, w') \<Longrightarrow> prefix (trace w) (trace w')"
  by (rule nbctl_cmd.history_grows)

definition ls_add :: "string \<Rightarrow> string list \<Rightarrow> event \<Rightarrow> bool" where
  "ls_add name cfg = nbctl ([''--wait=hv'', ''--'', ''--may-exist'', ''ls-add'', name, ''--'', ''set'', ''logical_switch'', name] @ cfg)"

definition lrp_add :: "string \<Rightarrow> string \<Rightarrow> string \<Rightarrow> event \<Rightarrow> bool" where
  "lrp_add port mac gw = nbctl [''--wait=hv'', ''--may-exist'', ''lrp-add'', ovn4nfvRouterName, port, mac, gw]"

definition ls_del :: "string \<Rightarrow> event \<Rightarrow> bool" where
  "ls_del name = nbctl [''--if-exist'', ''--wait=hv'', ''ls-del'', name]"

definition lrp_del :: "string \<Rightarrow> event \<Rightarrow> bool" where
  "lrp_del port = nbctl [''--if-exist'', ''--wait=hv'', ''lrp-del'', port]"

text \<open>The switch and the router port an event creates, if any, are those of the given names.\<close>

definition creates_only :: "string \<Rightarrow> string \<Rightarrow> event \<Rightarrow> bool" where
  "creates_only name rp e \<longleftrightarrow> (\<forall>n cfg. ls_add n cfg e \<longrightarrow> n = name) \<and> (\<forall>p mac gw. lrp_add p mac gw e \<longrightarrow> p = rp)"

lemma createNetwork_creates: "emits (creates_only name rp) (createNetwork E name sn rp)"
  by (rule emits_mono [OF createNetwork_emits])
    (auto simp: creates_only_def ls_add_def lrp_add_def dest: nbctl_inj)

lemma Controller_CreateNetwork_creates:
  "emits (\<lambda>e. creates_only (om_Name (nw_Meta cr)) (''rtos-'' @ om_Name (nw_Meta cr)) e \<or>
      creates_only (om_Name (nw_Meta cr) @ ''v6'') (''rtosv6-'' @ om_Name (nw_Meta cr)) e) (Controller_CreateNetwork E cr)"
  unfolding Controller_CreateNetwork_def [abs_def] Let_def getIPv4LogicalSwitchName_def getIPv6LogicalSwitchName_def
    getIPv4LogicalRouterPortName_def getIPv6LogicalRouterPortName_def
  by (intro emits_intros emits_mono [OF createNetwork_creates]) simp_all

lemma deleteLogicalSwitch_sent:
  assumes "deleteLogicalSwitch E n w = Some (r, w')"
  shows "prefix (trace w) (trace w')" and "\<exists>e \<in> set (new_events w w'). ls_del n e"
proof -
  from assms obtain s where "RunOVNNbctl E [''--if-exist'', ''--wait=hv'', ''ls-del'', n] w = Some (s, w')"
    by (auto simp: deleteLogicalSwitch_def run_conv)
  from nbctl_grows [OF this] nbctl_sent [OF this]
  show "prefix (trace w) (trace w')" and "\<exists>e \<in> set (new_events w w'). ls_del n e" by (auto simp: ls_del_def)
qed

lemma deleteLogicalRouterPort_sent:
  assumes "deleteLogicalRouterPort E n w = Some (r, w')"
  shows "prefix (trace w) (trace w')" and "\<exists>e \<in> set (new_events w w'). lrp_del n e"
proof -
  from assms obtain s where "RunOVNNbctl E [''--if-exist'', ''--wait=hv'', ''lrp-del'', n] w = Some (s, w')"
    by (auto simp: deleteLogicalRouterPort_def run_conv)
  from nbctl_grows [OF this] nbctl_sent [OF this]
  show "prefix (trace w) (trace w')" and "\<exists>e \<in> set (new_events w w'). lrp_del n e" by (auto simp: lrp_del_def)
qed

lemma Controller_DeleteNetwork_deletes:
  assumes "Controller_DeleteNetwork E cr w = Some (None, w')"
  shows "\<forall>n \<in> {om_Name (nw_Meta cr), om_Name (nw_Meta cr) @ ''v6''}. \<exists>e \<in> set (new_events w w'). ls_del n e"
    and "\<forall>p \<in> {''rtos-'' @ om_Name (nw_Meta cr), ''rtosv6-'' @ om_Name (nw_Meta cr)}. \<exists>e \<in> set (new_events w w'). lrp_del p e"
proof -
  let ?n = "om_Name (nw_Meta cr)"
  from assms obtain w1 w2 w3 where
    s: "deleteLogicalRouterPort E (''rtos-'' @ ?n) w = Some (None, w1)" "deleteLogicalRouterPort E (''rtosv6-'' @ ?n) w1 = Some (None, w2)"
      "deleteLogicalSwitch E ?n w2 = Some (None, w3)" "deleteLogicalSwitch E (?n @ ''v6'') w3 = Some (None, w')"
    unfolding Controller_DeleteNetwork_def Let_def getIPv4LogicalSwitchName_def getIPv6LogicalSwitchName_def
      getIPv4LogicalRouterPortName_def getIPv6LogicalRouterPortName_def by (auto simp: run_conv)
  note p = s(1,2) [THEN deleteLogicalRouterPort_sent(1)] s(3,4) [THEN deleteLogicalSwitch_sent(1)]
  note d = s(1,2) [THEN deleteLogicalRouterPort_sent(2)] s(3,4) [THEN deleteLogicalSwitch_sent(2)]
  have "prefix (trace w1) (trace w')" "prefix (trace w2) (trace w')" using p by (meson prefix_order.trans)+
  with p have "new_events w w' = new_events w w1 @ new_events w1 w2 @ new_events w2 w3 @ new_events w3 w'"
    by (metis new_events_trans)
  with d show "\<forall>n \<in> {?n, ?n @ ''v6''}. \<exists>e \<in> set (new_events w w'). ls_del n e"
    and "\<forall>p \<in> {''rtos-'' @ ?n, ''rtosv6-'' @ ?n}. \<exists>e \<in> set (new_events w w'). lrp_del p e" by auto
qed

text \<open>
  C18.  Deleting a network that returns no error undoes its creation: for every logical switch and
  every router port that creating the same network asked for, at any time and whatever the outcome
  was, deletion has sent the command that removes it.
\<close>

theorem Controller_DeleteNetwork_undoes:
  assumes "Controller_CreateNetwork E cr v = Some (r, v')" and "e \<in> set (new_events v v')"
    and "Controller_DeleteNetwork E' cr w = Some (None, w')"
  shows "(ls_add n cfg e \<longrightarrow> (\<exists>d \<in> set (new_events w w'). ls_del n d)) \<and>
    (lrp_add p mac gw e \<longrightarrow> (\<exists>d \<in> set (new_events w w'). lrp_del p d))"
proof -
  from new_events_emits [OF Controller_CreateNetwork_creates assms(1,2)]
  consider "creates_only (om_Name (nw_Meta cr)) (''rtos-'' @ om_Name (nw_Meta cr)) e"
    | "creates_only (om_Name (nw_Meta cr) @ ''v6'') (''rtosv6-'' @ om_Name (nw_Meta cr)) e" by blast
  then show ?thesis
  proof cases
    case 1
    with Controller_DeleteNetwork_deletes [OF assms(3)] show ?thesis unfolding creates_only_def by blast
  next
    case 2
    with Controller_DeleteNetwork_deletes [OF assms(3)] show ?thesis unfolding creates_only_def by blast
  qed
qed

definition demo_network :: Network where
  "demo_network = \<lparr>nw_Meta = \<lparr>om_Name = ''net1'', om_Namespace = ''default'', om_Labels = None, om_Annotations = [],
       om_Finalizers = [], om_Deleting = False, om_Generation = 1\<rparr>, nw_CniType = ''ovn4nfv'',
     nw_Ipv4Subnets = [\<lparr>sn_Name = ''s1'', sn_Subnet = ''10.1.0.0/24'', sn_Gateway = ''10.1.0.1'', sn_ExcludeIps = []\<rparr>],
     nw_Ipv6Subnets = [], nw_State = []\<rparr>"

lemma nbctl_null:
  assumes "runner w = Some r"
  shows "RunOVNNbctl null_env args w =
    Some (([], [], None), w\<lparr>trace := trace w @ [ExecCmd (eh_nbctlPath r) (nbctlArgs r ovsCommandTimeout args)]\<rparr>)"
proof -
  have "env_exec null_env (trace w) (eh_nbctlPath r) (nbctlArgs r ovsCommandTimeout args) = ([], [], None)"
    by (simp add: null_env_def)
  moreover have "trimOutput [] = []" by code_simp
  ultimately show ?thesis using RunOVNNbctl_ok [OF assms] by simp
qed

lemma demo_family: "\<exists>cidr g. lsFamily ''10.1.0.0/24'' ''10.1.0.1'' = (Some cidr, g)"
proof -
  have s: "''10.1.0.0/24'' = dotted4 [10, 1, 0, 0] @ ''/'' @ show_nat 24" by code_simp
  show ?thesis
    unfolding lsFamily_def s using ParseCIDR_dotted4 [of 24 10 1 0 0]
    by (auto simp: getCidrAndGatewayIPMask_def Let_def split: option.splits sum.splits)
qed

lemma demo_create:
  "\<exists>v' e mac g. Controller_CreateNetwork null_env demo_network exec_world = Some (None, v') \<and>
     e \<in> set (new_events exec_world v') \<and> lrp_add ''rtos-net1'' mac g e"
proof -
  from demo_family obtain cidr g where f: "lsFamily ''10.1.0.0/24'' ''10.1.0.1'' = (Some cidr, g)" by blast
  have f0: "lsFamily [] [] = (None, [])" by (simp add: lsFamily_def)
  obtain r where r: "runner exec_world = Some r" by (simp add: exec_world_def)
  define e where "e = ExecCmd (eh_nbctlPath r) (nbctlArgs r ovsCommandTimeout
     [''--wait=hv'', ''--may-exist'', ''lrp-add'', ovn4nfvRouterName, ''rtos-net1'', ''00:00:00:'' @ hex2 0 @ '':'' @ hex2 0 @ '':'' @ hex2 0, g])"
  have rand: "env_rand null_env h = (0, 0, 0)" for h by (simp add: null_env_def)
  have "\<exists>v'. Controller_CreateNetwork null_env demo_network exec_world = Some (None, v') \<and> e \<in> set (new_events exec_world v')"
    using r by (simp add: Controller_CreateNetwork_def createNetwork_def createOvnLS_def demo_network_def f f0 nbctl_null
        getIPv4LogicalSwitchName_def getIPv4LogicalRouterPortName_def getOvnLSOtherConfig_def Let_def generateMac_def rand
        new_events_def e_def)
  moreover have "lrp_add ''rtos-net1'' (''00:00:00:'' @ hex2 0 @ '':'' @ hex2 0 @ '':'' @ hex2 0) g e"
    by (auto simp: lrp_add_def nbctl_def e_def)
  ultimately show ?thesis by blast
qed

theorem Controller_DeleteNetwork_undoes_witness:
  "\<exists>w'. Controller_DeleteNetwork null_env demo_network exec_world = Some (None, w') \<and>
     (\<exists>d \<in> set (new_events exec_world w'). lrp_del ''rtos-net1'' d)"
proof -
  from demo_create obtain v' e mac g where v': "Controller_CreateNetwork null_env demo_network exec_world = Some (None, v')"
    and e: "e \<in> set (new_events exec_world v')" "lrp_add ''rtos-net1'' mac g e" by blast
  obtain r where "runner exec_world = Some r" by (simp add: exec_world_def)
  then obtain w' where w': "Controller_DeleteNetwork null_env demo_network exec_world = Some (None, w')"
    by (simp add: Controller_DeleteNetwork_def deleteLogicalSwitch_def deleteLogicalRouterPort_def Let_def nbctl_null)
  with Controller_DeleteNetwork_undoes [OF v' e(1) w'] e(2) show ?thesis by blast
qed

end
