(* ===== verification/Pod_Interface.thy ===== *)
theory Pod_Interface
  imports Host_Network Kube_Client Ovn_Controller
begin

text \<open>
  \<^verbatim>\<open>cmd/ovn4nfvk8s-cni/app/helper_linux.go\<close>: the interfaces of a pod and the internal port of
  a node.  Links, namespaces and the CNI \<^verbatim>\<open>ip\<close> package are the environment; a link is
  denoted by the name it was looked up with.  A closure run inside a network namespace returns its
  error together with the variables of the enclosing function it has assigned.
\<close>

section \<open>Links and namespaces\<close>

definition netlink_LinkByName :: "env \<Rightarrow> string \<Rightarrow> (world, error option) prog" where
  "netlink_LinkByName E name = request (LinkByName name) (\<lambda>h. env_linkByName E h name)"

definition netlink_do :: "env \<Rightarrow> nlop \<Rightarrow> (world, error option) prog" where
  "netlink_do E c = request (Netlink c) (\<lambda>h. env_netlink E h c)"

definition ns_Do :: "env \<Rightarrow> string \<Rightarrow> 's \<Rightarrow> (world, error option \<times> 's) prog \<Rightarrow> (world, error option \<times> 's) prog" where
  "ns_Do E path s body w = do {
     (err, w) \<leftarrow> request (NsEnter path) (\<lambda>h. env_nsEnter E h path) w;
     (case err of
        Some e \<Rightarrow> Some ((Some e, s), w)
      | None \<Rightarrow> do {
          (r, w) \<leftarrow> body w;
          (u, w) \<leftarrow> request NsLeave (\<lambda>_. ()) w;
          Some (r, w) })
   }"

definition CombinedOutput :: "env \<Rightarrow> string \<Rightarrow> string list \<Rightarrow> (world, string \<times> error option) prog" where
  "CombinedOutput E cmd args = request (ExecCmd cmd args) (\<lambda>h. env_combined E h cmd args)"

definition primaryiface :: string where "primaryiface = ''eth0''"

definition renameLink :: "env \<Rightarrow> string \<Rightarrow> string \<Rightarrow> (world, error option) prog" where
  "renameLink E curName newName w = do {
     (err, w) \<leftarrow> netlink_LinkByName E curName w;
     (if err \<noteq> None then Some (err, w) else do {
     (err, w) \<leftarrow> netlink_do E (LinkSetDown curName) w;
     (if err \<noteq> None then Some (err, w) else do {
     (err, w) \<leftarrow> netlink_do E (LinkSetName curName newName) w;
     (if err \<noteq> None then Some (err, w) else netlink_do E (LinkSetUp curName) w) }) })
   }"

section \<open>The internal port of a node\<close>

text \<open>An address of the node's port, with the masquerading rules of its family.\<close>

definition addNodeAddress :: "env \<Rightarrow> string \<Rightarrow> string \<Rightarrow> IPTablesRule list \<Rightarrow> Protocol \<Rightarrow> (world, error option) prog" where
  "addNodeAddress E intf ipaddr rules proto w =
     (if ipaddr = [] then Some (None, w)
      else (case env_parseAddr E ipaddr of
         Inl e \<Rightarrow> Some (Some (Errorf (''failed to parse IP addr '' @ ipaddr @ '': '' @ error_msg e)), w)
       | Inr addr \<Rightarrow> do {
           (err, w) \<leftarrow> netlink_do E (AddrAdd intf ipaddr) w;
           (case err of
              Some e \<Rightarrow> Some (Some (Errorf (''failed to add IP addr '' @ ipaddr @ '' to '' @ intf @ '': '' @ error_msg e)), w)
            | None \<Rightarrow>
                if rules = [] then Some (None, w)
                else do {
                  (err, w) \<leftarrow> SetupAndEnsureIPTables E rules proto w;
                  Some (map_option (\<lambda>e. Errorf (''failed to apply snat rule for '' @ intf @ '': '' @ error_msg e)) err, w) }) }))"

definition nodePortArgs :: "string \<Rightarrow> 8 word list \<Rightarrow> string list" where
  "nodePortArgs intf hwAddr =
     (let mac = strings_ReplaceAll (HardwareAddr_String hwAddr) '':'' [CHR 0x5C, CHR '':'']
      in [''--'', ''--may-exist'', ''add-port'', ''br-int'', intf, ''--'', ''set'', ''interface'', intf, ''type=internal'',
          ''mac_in_use='' @ mac, ''mac='' @ mac, ''external_ids:iface-id='' @ intf])"

definition CreateNodeOVSInternalPort :: "env \<Rightarrow> string \<Rightarrow> string \<Rightarrow> string \<Rightarrow> string \<Rightarrow> (world, error option) prog" where
  "CreateNodeOVSInternalPort E nodeintfipaddr nodeintfipv6addr nodeintfmacaddr node w =
     (let intf = GetNodeIntfName (strings_ToLower node)
      in case net_ParseMAC nodeintfmacaddr of
        Inl e \<Rightarrow> Some (Some (Errorf (''Error is converting '' @ fmt_q intf @ '' to net hwaddr: '' @ error_msg e)), w)
      | Inr hwAddr \<Rightarrow> do {
          ((out, err), w) \<leftarrow> CombinedOutput E ''ovs-vsctl'' (nodePortArgs intf hwAddr) w;
          (case err of
             Some e \<Rightarrow> Some (Some (Errorf (''failure in creating Node OVS internal port - '' @ intf @ '': '' @ error_msg e @ '' - '' @ fmt_q out)), w)
           | None \<Rightarrow> do {
          (err, w) \<leftarrow> netlink_LinkByName E intf w;
          (case err of
             Some e \<Rightarrow> Some (Some (Errorf (''failed to get netlink for Node OVS internal port '' @ intf @ '': '' @ error_msg e)), w)
           | None \<Rightarrow> do {
          (err, w) \<leftarrow> netlink_do E (LinkSetUp intf) w;
          (case err of
             Some e \<Rightarrow> Some (Some (Errorf (''failed to set up netlink for Node OVS internal port '' @ intf @ '': '' @ error_msg e)), w)
           | None \<Rightarrow> do {
          (err, w) \<leftarrow> addNodeAddress E intf nodeintfipaddr (fst (MasqRules E intf)) ProtocolIPv4 w;
          (if err \<noteq> None then Some (err, w)
           else addNodeAddress E intf nodeintfipv6addr (snd (MasqRules E intf)) ProtocolIPv6 w) }) }) }) })"

section \<open>Routes of a pod\<close>

definition GetPrimaryInterface :: "env \<Rightarrow> (world, error option) prog" where
  "GetPrimaryInterface E = netlink_LinkByName E primaryiface"

definition setGateway :: "env \<Rightarrow> string \<Rightarrow> string \<Rightarrow> (world, error option) prog" where
  "setGateway E link gatewayIP w =
     (case net_ParseIP gatewayIP of
        None \<Rightarrow> Some (Some (Errorf ''parse ip of gateway failed''), w)
      | Some gw \<Rightarrow> netlink_do E (AddRoute None (Some gw) link) w)"

text \<open>\<^verbatim>\<open>ip route add\<close> and \<^verbatim>\<open>ip route del\<close>: a complaint that the route exists is not an error.\<close>

definition RTNETLINK_exists :: string where "RTNETLINK_exists = ''RTNETLINK answers: File exists''"

definition ipRoute :: "env \<Rightarrow> string \<Rightarrow> string \<Rightarrow> string \<Rightarrow> (world, error option) prog" where
  "ipRoute E verb dst via w = do {
     ((stdout, stderr, err), w) \<leftarrow> RunIP E [''route'', verb, dst, ''via'', via] w;
     Some (if err \<noteq> None \<and> \<not> strings_Contains stderr RTNETLINK_exists then err else None, w)
   }"

text \<open>\<^verbatim>\<open>ip route replace\<close>: every error is one.\<close>

definition replaceDefault :: "env \<Rightarrow> string \<Rightarrow> (world, error option) prog" where
  "replaceDefault E via w = do {
     ((stdout, stderr, err), w) \<leftarrow> RunIP E [''route'', ''replace'', ''default'', ''via'', via] w;
     Some (err, w)
   }"

definition threeRoutes :: "env \<Rightarrow> string \<Rightarrow> string \<Rightarrow> string \<Rightarrow> string \<Rightarrow> string \<Rightarrow> (world, error option) prog" where
  "threeRoutes E verb hostNet serviceSubnet podSubnet via =
     foreach (\<lambda>dst. ipRoute E verb dst via) [hostNet, serviceSubnet, podSubnet]"

definition setpodGWRoutes :: "env \<Rightarrow> string \<Rightarrow> string \<Rightarrow> string \<Rightarrow> string \<Rightarrow> (world, error option) prog" where
  "setpodGWRoutes E hostNet serviceSubnet podSubnet gatewayIP w = do {
     (r, w) \<leftarrow> GetDefaultGateway E w;
     (case r of
        Inl e \<Rightarrow> Some (Some e, w)
      | Inr podGW \<Rightarrow> do {
          (err, w) \<leftarrow> threeRoutes E ''add'' hostNet serviceSubnet podSubnet podGW w;
          (if err \<noteq> None then Some (err, w) else replaceDefault E gatewayIP w) })
   }"

definition setExtraRoutes :: "env \<Rightarrow> string \<Rightarrow> string \<Rightarrow> string \<Rightarrow> string \<Rightarrow> (world, error option) prog" where
  "setExtraRoutes E hostNet serviceSubnet podSubnet gatewayIP = threeRoutes E ''add'' hostNet serviceSubnet podSubnet gatewayIP"

section \<open>The interface of a pod\<close>

definition addIpAddressToLinkDevice :: "env \<Rightarrow> string \<Rightarrow> string \<Rightarrow> string \<Rightarrow> (world, error option) prog" where
  "addIpAddressToLinkDevice E ipAddress link contIfaceName w =
     (case env_parseAddr E ipAddress of
        Inl e \<Rightarrow> Some (Some e, w)
      | Inr addr \<Rightarrow> do {
          (failed, w) \<leftarrow> (if IP_To4 addr = None then do {
               ((o1, o2, err), w) \<leftarrow> RunSysctl E [''net.ipv6.conf.'' @ link @ ''.disable_ipv6=0''] w;
               Some (err \<noteq> None, w) }
             else Some (False, w));
          (if failed then Some (Some (Errorf ''failed to enable IPv6''), w)
           else do {
             (err, w) \<leftarrow> netlink_do E (AddrAdd link ipAddress) w;
             Some (map_option (\<lambda>e. Errorf (''failed to add IP addr '' @ ipAddress @ '' to '' @ contIfaceName @ '': '' @ error_msg e)) err, w) }) })"

text \<open>The routes of the new interface.\<close>

definition setupGateways ::
  "env \<Rightarrow> string \<Rightarrow> string \<Rightarrow> string \<Rightarrow> string \<Rightarrow> string \<Rightarrow> string list \<Rightarrow> string \<Rightarrow> bool \<Rightarrow> (world, error option) prog" where
  "setupGateways E link hostNet serviceSubnet podSubnet ifName gatewayIP defaultGateway isDefaultGW w = do {
     (err, w) \<leftarrow> (if defaultGateway = ''true'' \<and> ifName = ''eth0'' then foreach (setGateway E link) gatewayIP w else Some (None, w));
     (if err \<noteq> None then Some (err, w) else do {
     (err, w) \<leftarrow> (if defaultGateway = ''true'' \<and> ifName \<noteq> ''eth0'' then do {
          (err, w) \<leftarrow> GetPrimaryInterface E w;
          (case err of
             Some e \<Rightarrow> if strings_Contains (error_msg e) ''Link not found'' then foreach (setGateway E link) gatewayIP w else Some (Some e, w)
           | None \<Rightarrow> foreach (setpodGWRoutes E hostNet serviceSubnet podSubnet) gatewayIP w) }
        else Some (None, w));
     (if err \<noteq> None then Some (err, w)
      else if defaultGateway = ''false'' \<and> isDefaultGW \<and> ifName = ''eth0''
           then foreach (setExtraRoutes E hostNet serviceSubnet podSubnet) gatewayIP w
      else Some (None, w)) })
   }"

text \<open>
  The closure of \<^verbatim>\<open>setupInterface\<close>.  Its variables are the two interfaces and the name of the
  host end; an address that cannot be added ends it without an error, before the name is assigned.
\<close>

record veth =
  ve_host :: CniInterface
  ve_cont :: CniInterface
  ve_old :: string

definition zero_Interface :: CniInterface where
  "zero_Interface = \<lparr>ci_Name = [], ci_Mac = [], ci_Sandbox = []\<rparr>"

definition zero_veth :: veth where
  "zero_veth = \<lparr>ve_host = zero_Interface, ve_cont = zero_Interface, ve_old = []\<rparr>"

definition setupInNs ::
  "env \<Rightarrow> string \<Rightarrow> string \<Rightarrow> string \<Rightarrow> string \<Rightarrow> string \<Rightarrow> string \<Rightarrow> string list \<Rightarrow> string list \<Rightarrow> string \<Rightarrow> int \<Rightarrow> bool \<Rightarrow>
     (world, error option \<times> veth) prog" where
  "setupInNs E netns hostNet serviceSubnet podSubnet ifName macAddress ipAddress gatewayIP defaultGateway mtu isDefaultGW w = do {
     (r, w) \<leftarrow> request (SetupVeth ifName mtu) (\<lambda>h. env_setupVeth E h ifName mtu) w;
     (case r of
        Inl e \<Rightarrow> Some ((Some (Errorf (''failed to setup veth '' @ ifName @ '': '' @ error_msg e)), zero_veth), w)
      | Inr (hostName, hostMac, contName) \<Rightarrow> do {
          let v = zero_veth\<lparr>ve_host := zero_Interface\<lparr>ci_Mac := hostMac\<rparr>, ve_cont := zero_Interface\<lparr>ci_Name := contName\<rparr>\<rparr>;
          (err, w) \<leftarrow> netlink_LinkByName E contName w;
          (case err of
             Some e \<Rightarrow> Some ((Some (Errorf (''failed to lookup '' @ contName @ '': '' @ error_msg e)), v), w)
           | None \<Rightarrow>
          (case net_ParseMAC macAddress of
             Inl e \<Rightarrow> Some ((Some (Errorf (''failed to parse mac address for '' @ contName @ '': '' @ error_msg e)), v), w)
           | Inr hwAddr \<Rightarrow> do {
          (err, w) \<leftarrow> netlink_do E (LinkSetHardwareAddr contName hwAddr) w;
          (case err of
             Some e \<Rightarrow> Some ((Some (Errorf (''failed to add mac address '' @ macAddress @ '' to '' @ contName @ '': '' @ error_msg e)), v), w)
           | None \<Rightarrow> do {
          let v = v\<lparr>ve_cont := (ve_cont v)\<lparr>ci_Mac := macAddress, ci_Sandbox := netns\<rparr>\<rparr>;
          (err, w) \<leftarrow> foreach (\<lambda>address. addIpAddressToLinkDevice E address contName contName) ipAddress w;
          (if err \<noteq> None then Some ((None, v), w)
           else do {
          (err, w) \<leftarrow> setupGateways E contName hostNet serviceSubnet podSubnet ifName gatewayIP defaultGateway isDefaultGW w;
          (if err \<noteq> None then Some ((err, v), w) else Some ((None, v\<lparr>ve_old := hostName\<rparr>), w)) }) }) })) })
   }"

definition setupInterface ::
  "env \<Rightarrow> string \<Rightarrow> string \<Rightarrow> string \<Rightarrow> string \<Rightarrow> string list \<Rightarrow> string list \<Rightarrow> string \<Rightarrow> int \<Rightarrow> int \<Rightarrow> bool \<Rightarrow>
     (world, error + (CniInterface \<times> CniInterface)) prog" where
  "setupInterface E netns containerID ifName macAddress ipAddress gatewayIP defaultGateway idx mtu isDefaultGW w = do {
     (r, w) \<leftarrow> GetHostNetwork E w;
     (case r of
        Inl e \<Rightarrow> Some (Inl (Errorf (''failed to get host network: '' @ error_msg e)), w)
      | Inr hostNet \<Rightarrow> do {
     (err, w) \<leftarrow> ask (env_kubeConfig E) w;
     (case err of
        Some e \<Rightarrow> Some (Inl (Errorf (''Error in kubeclientset:'' @ error_msg e)), w)
      | None \<Rightarrow> do {
     (r, w) \<leftarrow> GetControlPlaneServiceIPRange E w;
     (case r of
        Inl e \<Rightarrow> Some (Inl (Errorf ''Error in getting svc cidr range''), w)
      | Inr kn \<Rightarrow> do {
     ((err, v), w) \<leftarrow> ns_Do E netns zero_veth
        (setupInNs E netns hostNet (kn_ServiceSubnet kn) (kn_PodSubnet kn) ifName macAddress ipAddress gatewayIP defaultGateway mtu isDefaultGW) w;
     (case err of
        Some e \<Rightarrow> Some (Inl e, w)
      | None \<Rightarrow>
          if length containerID < 14 then None
          else do {
            let host = (ve_host v)\<lparr>ci_Name := take 14 containerID @ strconv_Itoa idx\<rparr>;
            (err, w) \<leftarrow> renameLink E (ve_old v) (ci_Name host) w;
            (case err of
               Some e \<Rightarrow> Some (Inl (Errorf (''failed to rename '' @ ve_old v @ '' to '' @ ci_Name host @ '': '' @ error_msg e)), w)
             | None \<Rightarrow> Some (Inr (host, ve_cont v), w)) }) }) }) })
   }"

definition DeleteInterface :: "env \<Rightarrow> string \<Rightarrow> string \<Rightarrow> (world, error option) prog" where
  "DeleteInterface E netns ifName w = do {
     ((err, u), w) \<leftarrow> ns_Do E netns () (\<lambda>w. do {
        (err, w) \<leftarrow> netlink_LinkByName E ifName w;
        (case err of
           Some e \<Rightarrow> Some ((Some (Errorf (''failed to lookup '' @ ifName @ '': '' @ error_msg e)), ()), w)
         | None \<Rightarrow> do {
             (err, w) \<leftarrow> netlink_do E (LinkDel ifName) w;
             Some ((map_option (\<lambda>e. Errorf (''failed to delete '' @ ifName @ '': '' @ error_msg e)) err, ()), w) }) }) w;
     Some (err, w)
   }"

definition openNS :: "env \<Rightarrow> string \<Rightarrow> (world, error option) prog" where
  "openNS E containerNetns w = do {
     (err, w) \<leftarrow> ask (\<lambda>h. env_getNS E h containerNetns) w;
     Some (map_option (\<lambda>e. Errorf (''failed to open netns '' @ fmt_q containerNetns @ '': '' @ error_msg e)) err, w)
   }"

definition ConfigureDeleteInterface :: "env \<Rightarrow> string \<Rightarrow> string \<Rightarrow> (world, error option) prog" where
  "ConfigureDeleteInterface E containerNetns ifName w = do {
     (err, w) \<leftarrow> openNS E containerNetns w;
     (if err \<noteq> None then Some (err, w) else DeleteInterface E containerNetns ifName w)
   }"

definition ifaceIDOf :: "string \<Rightarrow> string \<Rightarrow> string \<Rightarrow> string" where
  "ifaceIDOf namespace podName interfaceName =
     (if interfaceName \<noteq> ''*'' then namespace @ ''_'' @ podName @ ''_'' @ interfaceName else namespace @ ''_'' @ podName)"

definition plugArgs :: "string \<Rightarrow> string \<Rightarrow> string \<Rightarrow> string list \<Rightarrow> string \<Rightarrow> string list" where
  "plugArgs hostName macAddress ifaceID ipAddress containerID =
     [''add-port'', ''br-int'', hostName, ''--'', ''set'', ''interface'', hostName,
      ''external_ids:attached_mac='' @ macAddress, ''external_ids:iface-id='' @ ifaceID,
      ''external_ids:ip_address='' @ fmt_slice ipAddress, ''external_ids:sandbox='' @ containerID]"

definition ConfigureInterface ::
  "env \<Rightarrow> string \<Rightarrow> string \<Rightarrow> string \<Rightarrow> string \<Rightarrow> string \<Rightarrow> string \<Rightarrow> string list \<Rightarrow> string list \<Rightarrow> string \<Rightarrow> string \<Rightarrow> int \<Rightarrow> int \<Rightarrow> bool \<Rightarrow>
     (world, error + CniInterface list) prog" where
  "ConfigureInterface E containerNetns containerID ifName namespace podName macAddress ipAddress gatewayIP interfaceName defaultGateway idx mtu isDefaultGW w = do {
     (err, w) \<leftarrow> openNS E containerNetns w;
     (case err of
        Some e \<Rightarrow> Some (Inl e, w)
      | None \<Rightarrow> do {
     let ifaceID = ifaceIDOf namespace podName interfaceName;
     (r, w) \<leftarrow> setupInterface E containerNetns containerID (if interfaceName \<noteq> ''*'' then interfaceName else ifName) macAddress ipAddress gatewayIP
        defaultGateway idx mtu isDefaultGW w;
     (case r of
        Inl e \<Rightarrow> Some (Inl e, w)
      | Inr (hostIface, contIface) \<Rightarrow> do {
     ((out, err), w) \<leftarrow> CombinedOutput E ''ovs-vsctl'' (plugArgs (ci_Name hostIface) macAddress ifaceID ipAddress containerID) w;
     (case err of
        Some e \<Rightarrow> Some (Inl (Errorf (''failure in plugging pod interface: '' @ error_msg e @ [CHR 0x0A] @ ''  '' @ fmt_q out)), w)
      | None \<Rightarrow> Some (Inr [hostIface, contIface], w)) }) })
   }"

text \<open>A destination that does not parse leaves a nil network behind: reading its mask panics.\<close>

definition setupRoute :: "env \<Rightarrow> string \<Rightarrow> string \<Rightarrow> string \<Rightarrow> string \<Rightarrow> (world, error option) prog" where
  "setupRoute E netns dst gw dev w = do {
     ((err, u), w) \<leftarrow> ns_Do E netns () (\<lambda>w.
        (case net_ParseCIDR dst of
           Inl e \<Rightarrow> None
         | Inr (dstAddr, dstAddrNet) \<Rightarrow> do {
             (err, w) \<leftarrow> netlink_LinkByName E dev w;
             (err, w) \<leftarrow> netlink_do E (AddRoute (Some \<lparr>ipn_IP = dstAddr, ipn_Mask = ipn_Mask dstAddrNet\<rparr>) (net_ParseIP gw)
                (if err = None then dev else [])) w;
             Some ((err, ()), w) })) w;
     Some (err, w)
   }"

definition ConfigureRoute :: "env \<Rightarrow> string \<Rightarrow> string \<Rightarrow> string \<Rightarrow> string \<Rightarrow> (world, error option) prog" where
  "ConfigureRoute E containerNetns dst gw dev w = do {
     (err, w) \<leftarrow> openNS E containerNetns w;
     (if err \<noteq> None then Some (err, w) else setupRoute E containerNetns dst gw dev w)
   }"

definition PlatformSpecificCleanup :: "env \<Rightarrow> string \<Rightarrow> (world, bool) prog" where
  "PlatformSpecificCleanup E ifaceName w = do {
     ((out, err), w) \<leftarrow> CombinedOutput E ''ovs-vsctl'' [''del-port'', ''br-int'', ifaceName] w;
     Some (err \<noteq> None \<and> \<not> strings_Contains out ''no port named'', w)
   }"

end
