(* ===== verification/Shim_Json.thy ===== *)
theory Shim_Json
  imports Nodus_Json "HOL-Library.List_Lexorder" "HOL-Library.Char_ord"
begin

text \<open>
  The request the CNI shim sends to the server, \<^verbatim>\<open>CNIEndpointRequest\<close> of
  \<^verbatim>\<open>internal/pkg/cniserver/cniserver.go\<close>, as \<^verbatim>\<open>encoding/json\<close> writes and reads it: a
  map is written with sorted keys, bytes in the standard encoding of \<^verbatim>\<open>encoding/base64\<close>.
\<close>

section \<open>Base 64\<close>

definition b64_char :: "nat \<Rightarrow> char" where
  "b64_char n =
     (if n < 26 then char_of (65 + n)
      else if n < 52 then char_of (71 + n)
      else if n < 62 then char_of (n - 4)
      else if n = 62 then CHR ''+'' else CHR ''/'')"

definition b64_val :: "char \<Rightarrow> nat option" where
  "b64_val c =
     (let n = of_char c
      in if 65 \<le> n \<and> n \<le> 90 then Some (n - 65)
         else if 97 \<le> n \<and> n \<le> 122 then Some (n - 71)
         else if 48 \<le> n \<and> n \<le> 57 then Some (n + 4)
         else if c = CHR ''+'' then Some 62
         else if c = CHR ''/'' then Some 63
         else None)"

fun base64_Encode :: "string \<Rightarrow> string" where
  "base64_Encode [] = []"
| "base64_Encode [a] = [b64_char (of_char a div 4), b64_char (of_char a mod 4 * 16), CHR ''='', CHR ''='']"
| "base64_Encode [a, b] = [b64_char (of_char a div 4), b64_char (of_char a mod 4 * 16 + of_char b div 16), b64_char (of_char b mod 16 * 4), CHR ''='']"
| "base64_Encode (a # b # c # cs) = b64_char (of_char a div 4) # b64_char (of_char a mod 4 * 16 + of_char b div 16) #
     b64_char (of_char b mod 16 * 4 + of_char c div 64) # b64_char (of_char c mod 64) # base64_Encode cs"

text \<open>Groups of four characters; padding ends the text, the bits it leaves over are ignored.\<close>

fun b64_groups :: "string \<Rightarrow> string option" where
  "b64_groups [] = Some []"
| "b64_groups (c1 # c2 # c3 # c4 # cs) = do {
     v1 \<leftarrow> b64_val c1;
     v2 \<leftarrow> b64_val c2;
     let a = char_of (v1 * 4 + v2 div 16);
     (if c3 = CHR ''='' then (if c4 = CHR ''='' \<and> cs = [] then Some [a] else None)
      else do {
        v3 \<leftarrow> b64_val c3;
        let b = char_of (v2 mod 16 * 16 + v3 div 4);
        (if c4 = CHR ''='' then (if cs = [] then Some [a, b] else None)
         else do {
           v4 \<leftarrow> b64_val c4;
           r \<leftarrow> b64_groups cs;
           Some (a # b # char_of (v3 mod 4 * 64 + v4) # r) }) }) }"
| "b64_groups cs = None"

text \<open>Line breaks are skipped wherever they stand.\<close>

definition base64_Decode :: "string \<Rightarrow> string option" where
  "base64_Decode s = b64_groups (filter (\<lambda>c. c \<noteq> CHR 0x0A \<and> c \<noteq> CHR 0x0D) s)"

lemma b64_char_ok:
  assumes "n < 64"
  shows "b64_val (b64_char n) = Some n" "b64_char n \<noteq> CHR ''=''" "b64_char n \<noteq> CHR 0x0A" "b64_char n \<noteq> CHR 0x0D"
    "of_char (b64_char n) < (128 :: nat)"
proof -
  have c: "of_char (b64_char n) = (if n < 26 then 65 + n else if n < 52 then 71 + n else if n < 62 then n - 4 else if n = 62 then 43 else 47 :: nat)"
    by (simp add: b64_char_def)
  from assms have "n = 62 \<or> n = 63 \<or> n < 62" by arith
  then show "b64_val (b64_char n) = Some n" by (auto simp: b64_val_def Let_def c) (simp_all add: b64_char_def)
  have ne: "of_char d \<noteq> (of_char (b64_char n) :: nat) \<Longrightarrow> b64_char n \<noteq> d" for d by auto
  show "b64_char n \<noteq> CHR ''=''" "b64_char n \<noteq> CHR 0x0A" "b64_char n \<noteq> CHR 0x0D" by (rule ne; auto simp: c)+
  show "of_char (b64_char n) < (128 :: nat)" using assms by (auto simp: c)
qed

lemma of_char_less: "of_char c < (256 :: nat)"
  by (metis of_char_mod_256 mod_less_divisor zero_less_numeral)

lemma b64_bounds:
  "x < 256 \<Longrightarrow> x div 4 < (64 :: nat)" "y < 256 \<Longrightarrow> x mod 4 * 16 + y div 16 < (64 :: nat)"
  "y < 256 \<Longrightarrow> x mod 16 * 4 + y div 64 < (64 :: nat)" "x mod 64 < (64 :: nat)"
  "x mod 4 * 16 < (64 :: nat)" "x mod 16 * 4 < (64 :: nat)"
  for x y :: nat by auto

lemma b64_splits:
  "y < 256 \<Longrightarrow> y div 16 div 16 = (0 :: nat)" "y < 256 \<Longrightarrow> y div 16 mod 16 = y div (16 :: nat)"
  "y < 256 \<Longrightarrow> y div 64 div 4 = (0 :: nat)" "y < 256 \<Longrightarrow> y div 64 mod 4 = y div (64 :: nat)"
  for y :: nat by auto

lemma b64_groups_Encode: "b64_groups (base64_Encode s) = Some s"
  by (induction s rule: base64_Encode.induct)
    (simp_all add: b64_char_ok b64_bounds b64_splits of_char_less)

lemma base64_Encode_chars: "c \<in> set (base64_Encode s) \<Longrightarrow> c \<noteq> CHR 0x0A \<and> c \<noteq> CHR 0x0D \<and> of_char c < (128 :: nat)"
  by (induction s rule: base64_Encode.induct) (auto simp: b64_char_ok b64_bounds of_char_less)

interpretation base64: codec base64_Encode base64_Decode "\<lambda>_. True"
proof
  fix s
  have "filter (\<lambda>c. c \<noteq> CHR 0x0A \<and> c \<noteq> CHR 0x0D) (base64_Encode s) = base64_Encode s" by (simp add: filter_id_conv base64_Encode_chars)
  then show "base64_Decode (base64_Encode s) = Some s" by (simp add: base64_Decode_def b64_groups_Encode)
qed

section \<open>The request\<close>

text \<open>Bytes are read from a string in base 64, or from a list of numbers.\<close>

definition decode_uint8 :: "json \<Rightarrow> error + char" where
  "decode_uint8 v =
     (case v of
        JNull \<Rightarrow> Inr (char_of (0 :: nat))
      | JNum n \<Rightarrow>
          (let k = foldl (\<lambda>k c. 10 * k + digit_val c) 0 n
           in if list_all is_digit n \<and> k < 256 then Inr (char_of k) else Inl jsonTypeError)
      | _ \<Rightarrow> Inl jsonTypeError)"

definition base64CorruptInput :: error where "base64CorruptInput = ExtErr ''illegal base64 data at input byte''"

definition decode_bytes :: "json \<Rightarrow> error + string" where
  "decode_bytes v =
     (case v of
        JStr s \<Rightarrow> (case base64_Decode s of None \<Rightarrow> Inl base64CorruptInput | Some b \<Rightarrow> Inr b)
      | _ \<Rightarrow> decode_slice decode_uint8 v)"

definition requestFields :: "(string \<times> (json \<Rightarrow> CNIEndpointRequest \<Rightarrow> error + CNIEndpointRequest)) list" where
  "requestFields =
     [(''env'', json_field (\<lambda>r. decode_mapInto (cer_ArgEnv r)) cer_ArgEnv_update),
      (''config'', json_field (\<lambda>_. decode_bytes) cer_NetConfig_update)]"

definition zero_request :: CNIEndpointRequest where
  "zero_request = \<lparr>cer_ArgEnv = [], cer_NetConfig = []\<rparr>"

definition unmarshalRequest :: "string \<Rightarrow> error + CNIEndpointRequest" where
  "unmarshalRequest = json_Unmarshal (decode_struct requestFields zero_request)"

definition jsonOfMap :: "(string, string) gomap \<Rightarrow> json" where
  "jsonOfMap m = JObj (map (\<lambda>p. (fst p, JStr (snd p))) (sort_key fst m))"

definition jsonOfRequest :: "CNIEndpointRequest \<Rightarrow> (string \<times> json) list" where
  "jsonOfRequest r =
     (if cer_ArgEnv r = [] then [] else [(''env'', jsonOfMap (cer_ArgEnv r))]) @
     (if cer_NetConfig r = [] then [] else [(''config'', JStr (base64_Encode (cer_NetConfig r)))])"

definition marshalRequest :: "CNIEndpointRequest \<Rightarrow> error + string" where
  "marshalRequest r = Inr (json_print (JObj (jsonOfRequest r)))"

text \<open>What the shim writes, the server reads: the variables, in any order, and the bytes of the configuration.\<close>

lemma decode_mapInto_members:
  "distinct (map fst (m @ ms)) \<Longrightarrow> decode_mapInto m (JObj (map (\<lambda>p. (fst p, JStr (snd p))) ms)) = Inr (m @ ms)"
  by (induction ms arbitrary: m) (auto simp: decode_mapInto_def decode_string_def map_put_new)

lemma decode_jsonOfMap: "map_ok m \<Longrightarrow> decode_mapInto [] (jsonOfMap m) = Inr (sort_key fst m)"
  unfolding jsonOfMap_def using decode_mapInto_members [of "[]" "sort_key fst m"]
  by (simp add: map_ok_def distinct_map)

lemma request_members:
  "decode_member requestFields (''env'', v) r = json_field (\<lambda>r. decode_mapInto (cer_ArgEnv r)) cer_ArgEnv_update v r"
  "decode_member requestFields (''config'', v) r = json_field (\<lambda>_. decode_bytes) cer_NetConfig_update v r"
  by (simp_all add: decode_member_def requestFields_def strings_EqualFold_def fold_plain strings_ToLower_def to_lower_char_def)

definition ascii_vars :: "(string, string) gomap \<Rightarrow> bool" where
  "ascii_vars m \<longleftrightarrow> (\<forall>p \<in> set m. ascii (fst p) \<and> ascii (snd p))"

lemma request_roundtrip:
  assumes "ascii_vars (cer_ArgEnv r)" and "map_ok (cer_ArgEnv r)"
  shows "\<exists>body. marshalRequest r = Inr body \<and> unmarshalRequest body = Inr (r\<lparr>cer_ArgEnv := sort_key fst (cer_ArgEnv r)\<rparr>)"
proof -
  let ?v = "JObj (jsonOfRequest r)"
  have "printable ?v"
    using assms(1) base64_Encode_chars by (auto simp: jsonOfRequest_def jsonOfMap_def ascii_vars_def ascii_def)
  moreover have "jdepth ?v \<le> 2" by (auto simp: jsonOfRequest_def jsonOfMap_def)
  then have "jdepth ?v \<le> maxNestingDepth" by (simp add: maxNestingDepth_def del: jdepth.simps)
  ultimately have "json_parse (json_print ?v) = Some ?v" by (rule json_parse_print(2))
  moreover have "decode_struct requestFields zero_request ?v = Inr (r\<lparr>cer_ArgEnv := sort_key fst (cer_ArgEnv r)\<rparr>)"
    using decode_jsonOfMap [OF assms(2)]
    by (simp add: decode_struct_def jsonOfRequest_def request_members json_field_def zero_request_def decode_bytes_def base64.dec_enc)
  ultimately show ?thesis by (simp add: marshalRequest_def unmarshalRequest_def json_Unmarshal_def del: json_print.simps)
qed

lemma map_of_sort_key: "map_ok m \<Longrightarrow> map_of (sort_key fst m) = map_of m"
  by (simp add: map_ok_def map_of_inject_set distinct_map)

end
