(* ===== verification/Cni_Server.thy ===== *)
theory Cni_Server
  imports Pod_Interface Shim_Json
begin

text \<open>
  The CNI side of the agent: \<^verbatim>\<open>internal/pkg/cniserver/cni.go\<close>, the request handling of
  \<^verbatim>\<open>cniserver.go\<close>, the request the shim builds in \<^verbatim>\<open>internal/pkg/cnishim/cnishim.go\<close>,
  and \<^verbatim>\<open>ConfigureNetConf\<close> of \<^verbatim>\<open>internal/pkg/config\<close>.  The results
  of the CNI library with their versions and JSON text, the JSON text of a network configuration and
  the back-off of \<^verbatim>\<open>wait\<close> are the environment.
\<close>

section \<open>Requests\<close>

definition CNIAdd :: string where "CNIAdd = ''ADD''"
definition CNIDel :: string where "CNIDel = ''DEL''"
definition nfnNetworkAnnotationTag :: string where "nfnNetworkAnnotationTag = ''k8s.plugin.opnfv.org/nfn-network''"
definition ovn4nfvAnnotationTag :: string where "ovn4nfvAnnotationTag = ''k8s.plugin.opnfv.org/ovnInterfaces''"

record CNIServerRequest =
  req_Command :: string
  req_PodNamespace :: string
  req_PodName :: string
  req_SandboxID :: string
  req_Netns :: string
  req_IfName :: string
  req_CNIConf :: "NetConf option"

definition ConfigureNetConf :: "env \<Rightarrow> string \<Rightarrow> error + NetConf" where
  "ConfigureNetConf E bytes =
     (case env_unmarshalNetConf E bytes of
        Inl e \<Rightarrow> Inl (Errorf (''failed to load netconf: '' @ error_msg e))
      | Inr conf \<Rightarrow>
          (case ncf_RawPrevResult conf of
             None \<Rightarrow> Inr conf
           | Some raw \<Rightarrow> (case env_parsePrevResult E raw of Some e \<Rightarrow> Inl e | None \<Rightarrow> Inr conf)))"

text \<open>A map printed with \<^verbatim>\<open>%s\<close>: its entries in the order of the keys.\<close>

definition fmt_map :: "(string, string) gomap \<Rightarrow> string" where
  "fmt_map m = ''map['' @ strings_Join (map (\<lambda>(k, v). k @ '':'' @ v) (sort_key fst m)) '' '' @ '']''"

fun shimArgs :: "string list \<Rightarrow> (string, string) gomap \<Rightarrow> error + (string, string) gomap" where
  "shimArgs [] m = Inr m"
| "shimArgs (arg # args) m =
     (case strings_Split arg (CHR ''='') of
        [k, v] \<Rightarrow> shimArgs args (map_put (strings_TrimSpace k) (strings_TrimSpace v) m)
      | _ \<Rightarrow> Inl (Errorf (''invalid CNI_ARG from cnishim '' @ [CHR 0x27] @ arg @ [CHR 0x27])))"

definition loadCNIShimArgs :: "(string, string) gomap \<Rightarrow> error + (string, string) gomap" where
  "loadCNIShimArgs env =
     (case map_of env ''CNI_ARGS'' of
        None \<Rightarrow> Inl (Errorf (''cnishim req missing CNI_ARGS: '' @ [CHR 0x27] @ fmt_map env @ [CHR 0x27]))
      | Some cnishimArgs \<Rightarrow> shimArgs (strings_Split cnishimArgs (CHR '';'')) [])"

text \<open>\<^verbatim>\<open>v, ok := m[key]\<close>, with the error returned when the key is missing.\<close>

definition required :: "(string, string) gomap \<Rightarrow> string \<Rightarrow> error + string" where
  "required m key = (case map_of m key of Some v \<Rightarrow> Inr v | None \<Rightarrow> Inl (Errorf (''cnishim req missing '' @ key)))"

definition loadCNIRequestToCNIServer :: "env \<Rightarrow> CNIEndpointRequest \<Rightarrow> error + CNIServerRequest" where
  "loadCNIRequestToCNIServer E r =
     (case required (cer_ArgEnv r) ''CNI_COMMAND'' of Inl e \<Rightarrow> Inl e | Inr cmd \<Rightarrow>
     (case required (cer_ArgEnv r) ''CNI_CONTAINERID'' of Inl e \<Rightarrow> Inl e | Inr sandbox \<Rightarrow>
     (case required (cer_ArgEnv r) ''CNI_NETNS'' of Inl e \<Rightarrow> Inl e | Inr netns \<Rightarrow>
     (case required (cer_ArgEnv r) ''CNI_IFNAME'' of Inl e \<Rightarrow> Inl e | Inr ifname \<Rightarrow>
     (case loadCNIShimArgs (cer_ArgEnv r) of Inl e \<Rightarrow> Inl e | Inr args \<Rightarrow>
     (case required args ''K8S_POD_NAMESPACE'' of Inl e \<Rightarrow> Inl e | Inr ns \<Rightarrow>
     (case required args ''K8S_POD_NAME'' of Inl e \<Rightarrow> Inl e | Inr name \<Rightarrow>
     (case ConfigureNetConf E (cer_NetConfig r) of
        Inl e \<Rightarrow> Inl (Errorf (''cnishim req CNI arg configuration failed:'' @ error_msg e))
      | Inr netconf \<Rightarrow> Inr \<lparr>req_Command = cmd, req_PodNamespace = ns, req_PodName = name, req_SandboxID = sandbox, req_Netns = netns,
          req_IfName = ifname, req_CNIConf = Some netconf\<rparr>))))))))"

text \<open>The request of the shim: the environment of its process, and its standard input.\<close>

definition envEntry :: "string \<Rightarrow> (string \<times> string) option" where
  "envEntry item =
     (if CHR ''='' \<in> set item \<and> item ! 0 \<noteq> CHR ''=''
      then Some (strings_TrimSpace (takeWhile (\<lambda>c. c \<noteq> CHR ''='') item), tl (dropWhile (\<lambda>c. c \<noteq> CHR ''='') item)) else None)"

fun osEnvMap :: "string list \<Rightarrow> (string, string) gomap \<Rightarrow> (string, string) gomap" where
  "osEnvMap [] m = m"
| "osEnvMap (item # items) m = osEnvMap items (case envEntry item of Some (k, v) \<Rightarrow> map_put k v m | None \<Rightarrow> m)"

definition cniEndpointRequest :: "string list \<Rightarrow> string \<Rightarrow> CNIEndpointRequest" where
  "cniEndpointRequest environ stdin = \<lparr>cer_ArgEnv = osEnvMap environ [], cer_NetConfig = stdin\<rparr>"

section \<open>Results\<close>

definition zero_DNS :: DNS where
  "zero_DNS = \<lparr>dns_Nameservers = [], dns_Domain = [], dns_Search = [], dns_Options = []\<rparr>"

definition shiftInterface :: "nat \<Rightarrow> IPConfig \<Rightarrow> IPConfig" where
  "shiftInterface n ip =
     (case ic_Interface ip of
        Some i \<Rightarrow> if i \<noteq> -1 then ip\<lparr>ic_Interface := Some (i + int n)\<rparr> else ip
      | None \<Rightarrow> ip)"

definition appendDNS :: "DNS \<Rightarrow> DNS \<Rightarrow> DNS" where
  "appendDNS dst src = dst\<lparr>dns_Nameservers := dns_Nameservers dst @ dns_Nameservers src,
     dns_Search := dns_Search dst @ dns_Search src, dns_Options := dns_Options dst @ dns_Options src\<rparr>"

definition mergeWithResult :: "env \<Rightarrow> CniResult \<Rightarrow> CniResult option \<Rightarrow> error + CniResult" where
  "mergeWithResult E srcObj dstObj =
     (case dstObj of
        None \<Rightarrow> Inr srcObj
      | Some dstObj \<Rightarrow>
     (case env_newResult E srcObj of
        Inl e \<Rightarrow> Inl (Errorf (''Couldn'' @ [CHR 0x27] @ ''t convert old result to current version: '' @ error_msg e))
      | Inr src \<Rightarrow>
     (case env_newResult E dstObj of
        Inl e \<Rightarrow> Inl (Errorf (''Couldn'' @ [CHR 0x27] @ ''t convert old result to current version: '' @ error_msg e))
      | Inr dst \<Rightarrow> Inr (dst\<lparr>res_Interfaces := res_Interfaces dst @ res_Interfaces src,
           res_IPs := res_IPs dst @ map (shiftInterface (length (res_Interfaces dst))) (res_IPs src),
           res_Routes := res_Routes dst @ res_Routes src,
           res_DNS := appendDNS (res_DNS dst) (res_DNS src)\<rparr>))))"

text \<open>\<^verbatim>\<open>net.ParseIP\<close> with nil as \<open>[]\<close>.\<close>

definition ParseIP_nil :: "string \<Rightarrow> IP" where
  "ParseIP_nil s = (case net_ParseIP s of Some ip \<Rightarrow> ip | None \<Rightarrow> [])"

text \<open>The addresses with their gateways; a missing gateway is an index out of range.\<close>

fun generateIpConfigs :: "string list \<Rightarrow> string list \<Rightarrow> (error + IPConfig list) option" where
  "generateIpConfigs [] gws = Some (Inr [])"
| "generateIpConfigs (ipAddress # ips) gws =
     (case net_ParseCIDR ipAddress of
        Inl e \<Rightarrow> Some (Inl e)
      | Inr (addr, addrNet) \<Rightarrow>
          (case gws of
             [] \<Rightarrow> None
           | gw # gws \<Rightarrow> do {
               r \<leftarrow> generateIpConfigs ips gws;
               Some (case r of
                  Inl e \<Rightarrow> Inl e
                | Inr cs \<Rightarrow> Inr (\<lparr>ic_Version = (if IP_To4 addr \<noteq> None then ''4'' else ''6''), ic_Interface = Some 1,
                    ic_Address = \<lparr>ipn_IP = addr, ipn_Mask = ipn_Mask addrNet\<rparr>, ic_Gateway = ParseIP_nil gw\<rparr> # cs)) }))"

section \<open>Interfaces of a pod\<close>

definition parseNfnNetworkObject :: "string \<Rightarrow> error + cniNfnNetwork" where
  "parseNfnNetworkObject nfnnetwork =
     (if nfnnetwork = [] then Inl (Errorf ''parseNfnNetworkObject:error'')
      else case unmarshalCniNfn nfnnetwork of
        Inl e \<Rightarrow> Inl (Errorf (''parseNfnNetworkObject: failed to load nfn network err: '' @ error_msg e @ '' | nfn network: '' @ nfnnetwork))
      | Inr n \<Rightarrow> Inr n)"

text \<open>The two readers of the annotation that differ in the type they fill.\<close>

definition parseOvnNetwork :: "(string \<Rightarrow> error + 'a) \<Rightarrow> string \<Rightarrow> error + 'a" where
  "parseOvnNetwork unmarshal ovnnetwork =
     (if ovnnetwork = [] then Inl (Errorf ''parseOvnNetworkObject:error'')
      else case unmarshal ovnnetwork of
        Inl e \<Rightarrow> Inl (Errorf (''parseOvnNetworkObject: failed to load ovn network err: '' @ error_msg e @ '' | ovn network: '' @ ovnnetwork))
      | Inr n \<Rightarrow> Inr n)"

definition parseOvnNetworkMap :: "string \<Rightarrow> error + (string, string) gomap list" where
  "parseOvnNetworkMap = parseOvnNetwork unmarshalStringMaps"

definition cni_parseOvnNetworkObject :: "string \<Rightarrow> error + OvnNetwork list" where
  "cni_parseOvnNetworkObject = parseOvnNetwork unmarshalOvnNets"

definition Default_MTU :: int where "Default_MTU = 1400"

text \<open>
  Whether the interface gets the default route: the first named interface that asks for it takes
  it, the default interface takes it otherwise, and only when it is the pod's \<^verbatim>\<open>eth0\<close>.
\<close>

definition chooseGateway :: "string \<Rightarrow> bool \<Rightarrow> string \<Rightarrow> string \<Rightarrow> bool \<times> string" where
  "chooseGateway ifName isDefaultGW interfaceName defaultGateway =
     (let (isDefaultGW, defaultGateway) =
            (if interfaceName \<noteq> ''*'' \<and> defaultGateway = ''true'' \<and> \<not> isDefaultGW then (True, defaultGateway)
             else if interfaceName \<noteq> ''*'' \<and> defaultGateway = ''true'' then (isDefaultGW, ''false'')
             else (isDefaultGW, defaultGateway));
          defaultGateway = (if interfaceName = ''*'' \<and> isDefaultGW then ''false'' else defaultGateway);
          defaultGateway = (if interfaceName = ''*'' \<and> \<not> isDefaultGW then ''true'' else defaultGateway);
          defaultGateway = (if interfaceName = ''*'' \<and> ifName \<noteq> ''eth0'' then ''false'' else defaultGateway)
      in (isDefaultGW, defaultGateway))"

text \<open>The name of the interface of the requested network; \<^verbatim>\<open>nfnNetworks\<close> may be a nil pointer.\<close>

definition requestedInterface :: "cniNfnNetwork option \<Rightarrow> string \<Rightarrow> string option" where
  "requestedInterface nfnNetworks networkname =
     (case nfnNetworks of
        None \<Rightarrow> None
      | Some n \<Rightarrow> Some (case find (\<lambda>i. networkname = nfi_Name i) (cnn_Interface n) of Some i \<Rightarrow> nfi_Interface i | None \<Rightarrow> []))"

definition defaultDst :: "IPNet option" where
  "defaultDst = (case net_ParseCIDR ''0.0.0.0/0'' of Inr (a, n) \<Rightarrow> Some \<lparr>ipn_IP = a, ipn_Mask = ipn_Mask n\<rparr> | Inl _ \<Rightarrow> None)"

definition interfaceResult :: "string list \<Rightarrow> string list \<Rightarrow> string \<Rightarrow> CniInterface list \<Rightarrow> (error + CniResult) option" where
  "interfaceResult ipAddress gatewayIP defaultGateway interfaces = do {
     dst \<leftarrow> defaultDst;
     r \<leftarrow> generateIpConfigs ipAddress gatewayIP;
     Some (case r of
        Inl e \<Rightarrow> Inl e
      | Inr ipConfigs \<Rightarrow> Inr \<lparr>res_Interfaces = interfaces, res_IPs = ipConfigs,
          res_Routes = (if defaultGateway = ''true'' then map (\<lambda>gw. \<lparr>cro_Dst = dst, cro_GW = ParseIP_nil gw\<rparr>) gatewayIP else []),
          res_DNS = zero_DNS\<rparr>) }"

text \<open>
  One pass of the loop of \<^verbatim>\<open>AddMultipleInterfaces\<close>.  Its state is the number of interfaces seen,
  whether a default route was claimed, and the result so far; \<open>Inr ()\<close> is \<^verbatim>\<open>return nil\<close>.
\<close>

type_synonym add_state = "int \<times> bool \<times> CniResult option"

definition addInterface ::
  "env \<Rightarrow> CNIServerRequest \<Rightarrow> string \<Rightarrow> cniNfnNetwork option \<Rightarrow> string \<Rightarrow> string \<Rightarrow> OvnNetwork \<Rightarrow> add_state \<Rightarrow>
     (world, add_state + unit) prog" where
  "addInterface E cr networkname nfnNetworks namespace podName ovnNet s w =
     (let (idx, isDefaultGW, dstResult) = s; ipAddress = on_IpAddress ovnNet; macAddress = on_MacAddress ovnNet;
          gatewayIP = on_GatewayIP ovnNet; interfaceName = on_Interface ovnNet
      in if ipAddress = [] \<or> macAddress = [] then Some (Inr (), w)
         else if interfaceName = [] then Some (Inr (), w)
         else if length ipAddress \<noteq> length gatewayIP then Some (Inr (), w)
         else let idx = idx + 1; (isDefaultGW, defaultGateway) = chooseGateway (req_IfName cr) isDefaultGW interfaceName (on_DefaultGateway ovnNet)
         in do {
           wanted \<leftarrow> (if networkname \<noteq> [] then requestedInterface nfnNetworks networkname else Some interfaceName);
           (if wanted = [] then Some (Inr (), w)
            else if interfaceName \<noteq> wanted then Some (Inl (idx, isDefaultGW, dstResult), w)
            else do {
              (r, w) \<leftarrow> ConfigureInterface E (req_Netns cr) (req_SandboxID cr) (req_IfName cr) namespace podName macAddress ipAddress gatewayIP
                 interfaceName defaultGateway idx Default_MTU isDefaultGW w;
              (case r of
                 Inl e \<Rightarrow> Some (Inr (), w)
               | Inr interfacesArray \<Rightarrow> do {
                   r \<leftarrow> interfaceResult ipAddress gatewayIP defaultGateway interfacesArray;
                   (case r of
                      Inl e \<Rightarrow> Some (Inr (), w)
                    | Inr result \<Rightarrow>
                        (case mergeWithResult E result dstResult of
                           Inl e \<Rightarrow> Some (Inr (), w)
                         | Inr dst \<Rightarrow> Some (Inl (idx, isDefaultGW, Some dst), w))) }) })
         })"

definition AddMultipleInterfaces ::
  "env \<Rightarrow> CNIServerRequest \<Rightarrow> string \<Rightarrow> string \<Rightarrow> string \<Rightarrow> string \<Rightarrow> (world, CniResult option) prog" where
  "AddMultipleInterfaces E cr nfnAnnotation ovnAnnotation namespace podName w =
     (let networkname = (case req_CNIConf cr of Some c \<Rightarrow> ncf_NFNNetwork c | None \<Rightarrow> []);
          nfnNetworks = (if networkname \<noteq> [] \<and> nfnAnnotation \<noteq> [] then map_sum id Some (parseNfnNetworkObject nfnAnnotation) else Inr None)
      in case nfnNetworks of
           Inl e \<Rightarrow> Some (None, w)
         | Inr nfnNetworks \<Rightarrow>
        (case cni_parseOvnNetworkObject ovnAnnotation of
           Inl e \<Rightarrow> Some (None, w)
         | Inr nets \<Rightarrow>
             if namespace = [] \<or> podName = [] then Some (None, w)
             else do {
               (r, w) \<leftarrow> rangeM (addInterface E cr networkname nfnNetworks namespace podName) nets (0, False, None) w;
               (case r of Inr u \<Rightarrow> Some (None, w) | Inl (idx, gw, dstResult) \<Rightarrow> Some (dstResult, w)) }))"

section \<open>Routes of a pod\<close>

definition addRoute :: "env \<Rightarrow> CNIServerRequest \<Rightarrow> (string, string) gomap \<Rightarrow> CniRoute list \<Rightarrow> (world, CniRoute list + unit) prog" where
  "addRoute E cr ovnNet routes w =
     (let field = (\<lambda>k. case map_of ovnNet k of Some v \<Rightarrow> v | None \<Rightarrow> []); dst = field ''dst''; gw = field ''gw''; dev = field ''dev''
      in if dst = [] \<or> gw = [] \<or> dev = [] then Some (Inr (), w)
         else do {
           (err, w) \<leftarrow> ConfigureRoute E (req_Netns cr) dst gw dev w;
           (if err \<noteq> None then Some (Inr (), w)
            else (case net_ParseCIDR dst of
               Inl e \<Rightarrow> None
             | Inr (a, n) \<Rightarrow> Some (Inl (routes @ [\<lparr>cro_Dst = \<lparr>ipn_IP = a, ipn_Mask = ipn_Mask n\<rparr>, cro_GW = ParseIP_nil gw\<rparr>]), w)))
         })"

definition addRoutes :: "env \<Rightarrow> CNIServerRequest \<Rightarrow> string \<Rightarrow> CniResult option \<Rightarrow> (world, CniResult option) prog" where
  "addRoutes E cr ovnAnnotation dstResult w =
     (case parseOvnNetworkMap ovnAnnotation of
        Inl e \<Rightarrow> Some (None, w)
      | Inr maps \<Rightarrow> do {
          (r, w) \<leftarrow> rangeM (addRoute E cr) maps [] w;
          (case r of
             Inr u \<Rightarrow> Some (None, w)
           | Inl routes \<Rightarrow>
               (case mergeWithResult E \<lparr>res_Interfaces = [], res_IPs = [], res_Routes = routes, res_DNS = zero_DNS\<rparr> dstResult of
                  Inl e \<Rightarrow> Some (None, w)
                | Inr r \<Rightarrow> Some (Some r, w))) })"

section \<open>The commands\<close>

text \<open>The condition that is retried until the annotation is there.\<close>

definition ErrWaitTimeout :: error where "ErrWaitTimeout = ExtErr ''timed out waiting for the condition''"

fun waitAnnotation :: "env \<Rightarrow> string \<Rightarrow> string \<Rightarrow> nat \<Rightarrow> (world, error + (string, string) gomap) prog" where
  "waitAnnotation E namespace podname 0 w = Some (Inl ErrWaitTimeout, w)"
| "waitAnnotation E namespace podname (Suc n) w = do {
     (r, w) \<leftarrow> GetAnnotationsOnPod E namespace podname w;
     (case r of
        Inl e \<Rightarrow> if IsNotFound e then Some (Inl (Errorf (''Error - pod not found - '' @ error_msg e)), w) else waitAnnotation E namespace podname n w
      | Inr annotation \<Rightarrow>
          if map_of annotation ovn4nfvAnnotationTag \<noteq> None then Some (Inr annotation, w) else waitAnnotation E namespace podname n w)
   }"

definition cmdAdd :: "env \<Rightarrow> CNIServerRequest \<Rightarrow> (world, error + string) prog" where
  "cmdAdd E cr w =
     (let namespace = req_PodNamespace cr; podname = req_PodName cr
      in if namespace = [] \<or> podname = [] then Some (Inl (Errorf ''required CNI variable missing''), w)
         else do {
           (r, w) \<leftarrow> waitAnnotation E namespace podname (env_backoffTries E (trace w)) w;
           (case r of
              Inl e \<Rightarrow> Some (Inl (Errorf (''failed to get pod annotation - '' @ error_msg e)), w)
            | Inr annotation \<Rightarrow>
           (let nfnAnnotation = (case map_of annotation nfnNetworkAnnotationTag of Some v \<Rightarrow> v | None \<Rightarrow> [])
            in case map_of annotation ovn4nfvAnnotationTag of
              None \<Rightarrow> Some (Inl (Errorf (''Error while obtaining '' @ ovn4nfvAnnotationTag @ '' pod annotation'')), w)
            | Some ovnAnnotation \<Rightarrow> do {
           (result, w) \<leftarrow> AddMultipleInterfaces E cr nfnAnnotation ovnAnnotation namespace podname w;
           (result, w) \<leftarrow> (case map_of annotation ''ovnNetworkRoutes'' of
                Some ovnRouteAnnotation \<Rightarrow> addRoutes E cr ovnRouteAnnotation result w
              | None \<Rightarrow> Some (result, w));
           (case result of
              None \<Rightarrow> Some (Inl (Errorf ''result is nil from cni server response''), w)
            | Some result \<Rightarrow>
                (case env_marshalResult E result of
                   Inl e \<Rightarrow> Some (Inl (Errorf (''failed to marshal pod request response: '' @ error_msg e)), w)
                 | Inr bytes \<Rightarrow> Some (Inr bytes, w))) })) })"

text \<open>The loop of \<^verbatim>\<open>cmdDel\<close>, over the indices that are left.\<close>

fun cleanupPorts :: "env \<Rightarrow> string \<Rightarrow> nat list \<Rightarrow> (world, unit) prog" where
  "cleanupPorts E sandbox [] w = Some ((), w)"
| "cleanupPorts E sandbox (i # is) w =
     (if length sandbox < 14 then None
      else do {
        (finished, w) \<leftarrow> PlatformSpecificCleanup E (take 14 sandbox @ strconv_Itoa (int i)) w;
        (if finished then Some ((), w) else cleanupPorts E sandbox is w) })"

definition cmdDel :: "env \<Rightarrow> CNIServerRequest \<Rightarrow> (world, error + string) prog" where
  "cmdDel E cr w = do { (u, w) \<leftarrow> cleanupPorts E (req_SandboxID cr) [0..<10] w; Some (Inr [], w) }"

text \<open>Every way out of \<^verbatim>\<open>DeleteMultipleInterfaces\<close> returns nil; \<open>Inr ()\<close> leaves the loop.\<close>

definition deleteInterface :: "env \<Rightarrow> CNIServerRequest \<Rightarrow> nat \<times> OvnNetwork \<Rightarrow> unit \<Rightarrow> (world, unit + unit) prog" where
  "deleteInterface E cr p s w =
     (let (i, ovnNet) = p
      in if on_IpAddress ovnNet = [] \<or> on_MacAddress ovnNet = [] then Some (Inr (), w)
         else if on_Interface ovnNet = [] then Some (Inr (), w)
         else do {
           (err, w) \<leftarrow> ConfigureDeleteInterface E (req_Netns cr) (req_IfName cr) w;
           (if err \<noteq> None then Some (Inr (), w)
            else if length (req_SandboxID cr) < 14 then None
            else do {
              (finished, w) \<leftarrow> PlatformSpecificCleanup E (take 14 (req_SandboxID cr) @ strconv_Itoa (int i)) w;
              Some (Inl (), w) }) })"

definition DeleteMultipleInterfaces :: "env \<Rightarrow> CNIServerRequest \<Rightarrow> string \<Rightarrow> string \<Rightarrow> string \<Rightarrow> (world, error option) prog" where
  "DeleteMultipleInterfaces E cr ovnAnnotation namespace podName w =
     (case cni_parseOvnNetworkObject ovnAnnotation of
        Inl e \<Rightarrow> Some (None, w)
      | Inr nets \<Rightarrow>
          if namespace = [] \<or> podName = [] then Some (None, w)
          else do { (r, w) \<leftarrow> rangeM (deleteInterface E cr) (enumerate 0 nets) () w; Some (None, w) })"

definition fmt_request :: "env \<Rightarrow> CNIServerRequest \<Rightarrow> string" where
  "fmt_request E r = ''&{'' @ strings_Join [req_Command r, req_PodNamespace r, req_PodName r, req_SandboxID r, req_Netns r, req_IfName r,
     env_fmtPointer E (req_CNIConf r)] '' '' @ ''}''"

definition HandleCNIcommandRequest :: "env \<Rightarrow> CNIServerRequest \<Rightarrow> (world, error + string) prog" where
  "HandleCNIcommandRequest E r w = do {
     (x, w) \<leftarrow> (if req_Command r = CNIAdd then cmdAdd E r w
               else if req_Command r = CNIDel then cmdDel E r w
               else Some (Inr [], w));
     Some (case x of
        Inl e \<Rightarrow> Inl (Errorf (''[PodNamespace:'' @ req_PodNamespace r @ ''/PodName:'' @ req_PodName r @ ''] CNI request '' @ fmt_request E r @ '' '' @ error_msg e))
      | Inr result \<Rightarrow> Inr result, w)
   }"

text \<open>The reply to the shim: its HTTP status and its body.\<close>

definition http_Error :: "error \<Rightarrow> nat \<times> string" where
  "http_Error e = (400, error_msg e @ [CHR 0x0A])"

definition handleCNIShimRequest :: "env \<Rightarrow> string \<Rightarrow> (world, nat \<times> string) prog" where
  "handleCNIShimRequest E body w =
     (case unmarshalRequest body of
        Inl e \<Rightarrow> Some (http_Error e, w)
      | Inr cr \<Rightarrow>
     (case loadCNIRequestToCNIServer E cr of
        Inl e \<Rightarrow> Some (http_Error e, w)
      | Inr req \<Rightarrow> do {
          (r, w) \<leftarrow> HandleCNIcommandRequest E req w;
          Some (case r of Inl e \<Rightarrow> http_Error e | Inr result \<Rightarrow> (200, result), w) }))"

section \<open>The result refers to the pod's own interfaces\<close>

lemma setupInNs_sandbox:
  assumes "setupInNs E netns hostNet sn ps ifName mac ips gws dg mtu b w = Some ((None, v), w')"
  shows "ci_Sandbox (ve_cont v) = netns"
  using assms by (auto simp: setupInNs_def Let_def run_conv)

lemma setupInterface_sandbox:
  assumes "setupInterface E netns cid ifName mac ips gws dg idx mtu b w = Some (Inr (h, c), w')"
  shows "ci_Sandbox c = netns"
  using assms by (auto simp: setupInterface_def ns_Do_def Let_def run_conv dest!: setupInNs_sandbox split: if_splits)

lemma ConfigureInterface_result:
  assumes "ConfigureInterface E netns cid ifName ns p mac ips gws i dg idx mtu b w = Some (Inr ifs, w')"
  shows "\<exists>h c. ifs = [h, c] \<and> ci_Sandbox c = netns"
  using assms by (auto simp: ConfigureInterface_def Let_def run_conv dest!: setupInterface_sandbox)

text \<open>Every address of a result belongs to an interface inside the namespace \<open>netns\<close>.\<close>

definition wf_result :: "string \<Rightarrow> CniResult \<Rightarrow> bool" where
  "wf_result netns r \<longleftrightarrow> (\<forall>ip \<in> set (res_IPs r). \<exists>i. ic_Interface ip = Some (int i) \<and> i < length (res_Interfaces r) \<and>
     ci_Sandbox (res_Interfaces r ! i) = netns)"

lemma case_sum_Inr [run_conv]: "(case r of Inl e \<Rightarrow> Inl e | Inr x \<Rightarrow> Inr (f x)) = Inr y \<longleftrightarrow> (\<exists>x. r = Inr x \<and> y = f x)"
  by (cases r) auto

lemma generateIpConfigs_interface: "generateIpConfigs ips gws = Some (Inr cs) \<Longrightarrow> ip \<in> set cs \<Longrightarrow> ic_Interface ip = Some 1"
  by (induction ips gws arbitrary: cs rule: generateIpConfigs.induct) (auto simp: run_conv)

lemma interfaceResult_wf:
  assumes "interfaceResult ips gws dg [h, c] = Some (Inr r)" and "ci_Sandbox c = netns"
  shows "wf_result netns r"
proof -
  from assms obtain cs where cs: "generateIpConfigs ips gws = Some (Inr cs)" and r: "res_Interfaces r = [h, c]" "res_IPs r = cs"
    by (auto simp: interfaceResult_def run_conv)
  from generateIpConfigs_interface [OF cs] assms(2) show ?thesis by (auto simp: wf_result_def r intro!: exI [of _ 1])
qed

lemma mergeWithResult_wf:
  assumes "mergeWithResult E src dst = Inr r" and "\<And>x. env_newResult E x = Inr x"
    and "wf_result netns src" and "\<And>d. dst = Some d \<Longrightarrow> wf_result netns d"
  shows "wf_result netns r"
proof (cases dst)
  case None
  with assms show ?thesis by (simp add: mergeWithResult_def)
next
  case (Some d)
  let ?n = "length (res_Interfaces d)"
  from assms Some have r: "res_Interfaces r = res_Interfaces d @ res_Interfaces src"
    "res_IPs r = res_IPs d @ map (shiftInterface ?n) (res_IPs src)" by (auto simp: mergeWithResult_def)
  show ?thesis unfolding wf_result_def
  proof
    fix ip
    assume "ip \<in> set (res_IPs r)"
    then consider "ip \<in> set (res_IPs d)" | ip' where "ip' \<in> set (res_IPs src)" "ip = shiftInterface ?n ip'" by (auto simp: r)
    then show "\<exists>i. ic_Interface ip = Some (int i) \<and> i < length (res_Interfaces r) \<and> ci_Sandbox (res_Interfaces r ! i) = netns"
    proof cases
      case 1
      with assms(4) [OF Some] obtain i where "ic_Interface ip = Some (int i)" "i < ?n" "ci_Sandbox (res_Interfaces d ! i) = netns"
        by (auto simp: wf_result_def)
      then show ?thesis by (intro exI [of _ i]) (simp add: r nth_append)
    next
      case 2
      with assms(3) obtain i where "ic_Interface ip' = Some (int i)" "i < length (res_Interfaces src)" "ci_Sandbox (res_Interfaces src ! i) = netns"
        by (auto simp: wf_result_def)
      with 2 show ?thesis by (intro exI [of _ "?n + i"]) (simp add: r nth_append shiftInterface_def add.commute)
    qed
  qed
qed

lemma addInterface_wf:
  assumes "addInterface E cr nw nfn ns p net s w = Some (Inl s', w')" and "\<And>x. env_newResult E x = Inr x"
    and "\<And>d. snd (snd s) = Some d \<Longrightarrow> wf_result (req_Netns cr) d" and "snd (snd s') = Some r"
  shows "wf_result (req_Netns cr) r"
proof -
  obtain i g dst where s: "s = (i, g, dst)" by (cases s)
  from assms(1) consider "dst = Some r"
    | ifs src ips gws dg a b c ns' p' mac iface v v' where
      "ConfigureInterface E (req_Netns cr) a b ns' p' mac ips gws iface dg (i + 1) Default_MTU c v = Some (Inr ifs, v')"
      "interfaceResult ips gws dg ifs = Some (Inr src)" "mergeWithResult E src dst = Inr r"
    using assms(4) by (auto simp: addInterface_def s Let_def run_conv split: if_splits prod.splits)
  then show ?thesis
  proof cases
    case 1
    with assms(3) s show ?thesis by simp
  next
    case 2
    from ConfigureInterface_result [OF 2(1)] 2(2) have "wf_result (req_Netns cr) src" by (auto dest: interfaceResult_wf)
    from mergeWithResult_wf [OF 2(3) assms(2) this] assms(3) s show ?thesis by simp
  qed
qed

text \<open>
  Whatever interfaces a pod is given, each address of the CNI result carries the index of an
  interface of the same result that lies in the pod's namespace: merging the results of the
  interfaces one by one keeps the indices right.
\<close>

theorem AddMultipleInterfaces_indices:
  assumes "AddMultipleInterfaces E cr nfnA ovnA ns p w = Some (Some r, w')" and "\<And>x. env_newResult E x = Inr x"
  shows "\<forall>ip \<in> set (res_IPs r). \<exists>i. ic_Interface ip = Some (int i) \<and> i < length (res_Interfaces r) \<and>
     ci_Sandbox (res_Interfaces r ! i) = req_Netns cr"
proof -
  from assms obtain nw nfn nets i g v where "rangeM (addInterface E cr nw nfn ns p) nets (0, False, None) v = Some (Inl (i, g, Some r), w')"
    by (auto simp: AddMultipleInterfaces_def Let_def run_conv split: sum.splits)
  from rangeM_inv [OF this, of "\<lambda>s. \<forall>d. snd (snd s) = Some d \<longrightarrow> wf_result (req_Netns cr) d"]
  have "wf_result (req_Netns cr) r" using addInterface_wf [OF _ assms(2)] by (auto simp del: split_paired_All)
  then show ?thesis by (simp add: wf_result_def)
qed

section \<open>What is plugged is unplugged\<close>

text \<open>The port a command plugs into the integration bridge.\<close>

fun plugged :: "event \<Rightarrow> string option" where
  "plugged (ExecCmd cmd (a # b # n # args)) = (if a = ''add-port'' \<and> b = ''br-int'' then Some n else None)"
| "plugged _ = None"

abbreviation quiet :: "event \<Rightarrow> bool" where
  "quiet e \<equiv> plugged e = None"

lemma host_quiet: "emits quiet (GetHostNetwork E)" "emits quiet (GetDefaultGateway E)" "emits quiet (GetControlPlaneServiceIPRange E)"
  unfolding GetHostNetwork_def [abs_def] GetDefaultGatewayInterface_def [abs_def] GetInterfaceIP4Addr_def [abs_def] getIfaceAddrs_def
    netlink_RouteList_def GetDefaultGateway_def [abs_def] GetControlPlaneServiceIPRange_def [abs_def]
  by (intro emits_intros; auto simp: ipcmd_def)+

lemma link_quiet: "emits quiet (netlink_LinkByName E n)" "emits quiet (netlink_do E c)"
  unfolding netlink_LinkByName_def netlink_do_def by (intro emits_intros; simp)+

lemma ipRoute_quiet: "emits quiet (ipRoute E v d g)" "emits quiet (replaceDefault E g)" "emits quiet (setGateway E l g)"
  unfolding ipRoute_def [abs_def] replaceDefault_def [abs_def] setGateway_def [abs_def]
  by (intro emits_intros link_quiet; auto simp: ipcmd_def)+

lemma gateways_quiet: "emits quiet (setupGateways E l h s p i g d b)"
  unfolding setupGateways_def [abs_def] GetPrimaryInterface_def setpodGWRoutes_def [abs_def] setExtraRoutes_def threeRoutes_def
  by (intro emits_intros link_quiet ipRoute_quiet host_quiet)

lemma address_quiet: "emits quiet (addIpAddressToLinkDevice E a l c)"
  unfolding addIpAddressToLinkDevice_def [abs_def] RunSysctl_def by (intro emits_intros link_quiet run_emits) simp

lemma setupInterface_quiet: "emits quiet (setupInterface E n c i m ips gws d x mtu b)"
  unfolding setupInterface_def [abs_def] ns_Do_def [abs_def] setupInNs_def [abs_def] renameLink_def [abs_def] Let_def
  by (intro emits_intros link_quiet host_quiet gateways_quiet address_quiet) simp_all

lemma setupInterface_name:
  assumes "setupInterface E netns cid i m ips gws d k mtu b w = Some (Inr (h, c), w')"
  shows "ci_Name h = take 14 cid @ strconv_Itoa k"
  using assms by (auto simp: setupInterface_def ns_Do_def Let_def run_conv split: if_splits)

text \<open>The ports a request may plug: the sandbox's prefix with a number from 1 to \<open>n\<close>.\<close>

definition pod_port :: "string \<Rightarrow> int \<Rightarrow> event \<Rightarrow> bool" where
  "pod_port sandbox n e \<longleftrightarrow> (\<forall>port. plugged e = Some port \<longrightarrow> (\<exists>k. 1 \<le> k \<and> k \<le> n \<and> port = take 14 sandbox @ strconv_Itoa k))"

lemma ConfigureInterface_plugs:
  assumes "1 \<le> k" and "k \<le> n"
  shows "emits (pod_port cid n) (ConfigureInterface E netns cid ifn ns p mac ips gws i dg k mtu b)"
proof -
  have q: "emits (pod_port cid n) m" if "emits quiet m" for m :: "(world, 'a) prog"
    using that by (rule emits_mono) (simp add: pod_port_def)
  show ?thesis
    unfolding ConfigureInterface_def [abs_def] openNS_def [abs_def] Let_def CombinedOutput_def
    by (intro emits_bind emits_ask emits_return emits_case_option emits_bind_result [OF q [OF setupInterface_quiet]] emits_case_sum emits_case_prod
        emits_bind_unsplit emits_request)
      (use assms in \<open>auto simp: pod_port_def plugArgs_def dest: setupInterface_name\<close>)
qed

lemma addInterface_plugs:
  assumes "0 \<le> i" and "i < n"
  shows "emits (pod_port (req_SandboxID cr) n) (addInterface E cr nw nfn ns p net (i, g, d))"
  unfolding addInterface_def [abs_def] Let_def prod.case
  by (intro emits_intros ConfigureInterface_plugs) (use assms in auto)

lemma addInterface_counts: "addInterface E cr nw nfn ns p net (i, g, d) w = Some (Inl (i', g', d'), w') \<Longrightarrow> i' = i + 1"
  by (auto simp: addInterface_def Let_def run_conv split: if_splits prod.splits)

lemma addInterfaces_plug:
  "0 \<le> i \<Longrightarrow> i + int (length nets) \<le> n \<Longrightarrow>
     emits (pod_port (req_SandboxID cr) n) (rangeM (addInterface E cr nw nfn ns p) nets (i, g, d))"
proof (induction nets arbitrary: i g d)
  case Nil
  show ?case by (auto simp: emits_def)
next
  case (Cons net nets)
  have step: "emits (pod_port (req_SandboxID cr) n) (addInterface E cr nw nfn ns p net (i, g, d))"
    using Cons.prems by (intro addInterface_plugs) auto
  have "emits (pod_port (req_SandboxID cr) n) (\<lambda>w. Option.bind (addInterface E cr nw nfn ns p net (i, g, d) w) (\<lambda>(r, w).
      case r of Inl s' \<Rightarrow> rangeM (addInterface E cr nw nfn ns p) nets s' w | Inr r' \<Rightarrow> Some (Inr r', w)))"
  proof (rule emits_bind_result [OF step], rule emits_case_sum)
    fix r w w' s
    assume "addInterface E cr nw nfn ns p net (i, g, d) w = Some (r, w')" "r = Inl s"
    then obtain g' d' where "s = (i + 1, g', d')" by (cases s) (auto dest: addInterface_counts)
    then show "emits (pod_port (req_SandboxID cr) n) (rangeM (addInterface E cr nw nfn ns p) nets s)" using Cons by auto
  qed (rule emits_return)
  then show ?case by (simp add: emits_def)
qed

lemma cleanupPorts_deletes:
  assumes "cleanupPorts E sandbox ks w = Some (u, w')"
    and "\<And>h port. snd (env_combined E h ''ovs-vsctl'' [''del-port'', ''br-int'', port]) \<noteq> None \<Longrightarrow>
       strings_Contains (fst (env_combined E h ''ovs-vsctl'' [''del-port'', ''br-int'', port])) ''no port named''"
    and "k \<in> set ks"
  shows "ExecCmd ''ovs-vsctl'' [''del-port'', ''br-int'', take 14 sandbox @ strconv_Itoa (int k)] \<in> set (new_events w w')"
proof -
  have "trace w' = trace w @ map (\<lambda>k. ExecCmd ''ovs-vsctl'' [''del-port'', ''br-int'', take 14 sandbox @ strconv_Itoa (int k)]) ks"
    using assms(1)
  proof (induction ks arbitrary: w)
    case (Cons k ks)
    let ?d = "[''del-port'', ''br-int'', take 14 sandbox @ strconv_Itoa (int k)]"
    from assms(2) [of "trace w"] Cons.prems have "cleanupPorts E sandbox ks (w\<lparr>trace := trace w @ [ExecCmd ''ovs-vsctl'' ?d]\<rparr>) = Some (u, w')"
      by (auto simp: PlatformSpecificCleanup_def CombinedOutput_def split_def split: if_splits)
    from Cons.IH [OF this] show ?case by simp
  qed simp
  with assms(3) show ?thesis by (auto simp: new_events_def)
qed

text \<open>
  C29.  A pod with at most nine interfaces leaves no port behind: every port that adding its
  interfaces may have plugged into the integration bridge, also when adding them failed half way,
  is deleted by the \<^verbatim>\<open>DEL\<close> command of the same sandbox, unless Open vSwitch refuses a
  deletion for another reason than that there is no such port.
\<close>

theorem cmdDel_unplugs:
  assumes "AddMultipleInterfaces E cr nfnA ovnA ns p w = Some (r, w')" and "cni_parseOvnNetworkObject ovnA = Inr nets" and "length nets \<le> 9"
    and "cmdDel E cr v = Some (x, v')"
    and "\<And>h port. snd (env_combined E h ''ovs-vsctl'' [''del-port'', ''br-int'', port]) \<noteq> None \<Longrightarrow>
       strings_Contains (fst (env_combined E h ''ovs-vsctl'' [''del-port'', ''br-int'', port])) ''no port named''"
    and "e \<in> set (new_events w w')" and "plugged e = Some port"
  shows "ExecCmd ''ovs-vsctl'' [''del-port'', ''br-int'', port] \<in> set (new_events v v')"
proof -
  have "emits (pod_port (req_SandboxID cr) 9) (AddMultipleInterfaces E cr nfnA ovnA ns p)"
    unfolding AddMultipleInterfaces_def [abs_def] Let_def
    by (intro emits_intros addInterfaces_plug) (use assms(2,3) in auto)
  from new_events_emits [OF this assms(1,6)] assms(7) obtain k where
    k: "1 \<le> k" "k \<le> 9" and port: "port = take 14 (req_SandboxID cr) @ strconv_Itoa k" by (auto simp: pod_port_def)
  from assms(4) obtain u where "cleanupPorts E (req_SandboxID cr) [0..<10] v = Some (u, v')" by (auto simp: cmdDel_def run_conv)
  from cleanupPorts_deletes [OF this assms(5), of "nat k"] k show ?thesis by (simp add: port)
qed

definition pod_env :: env where
  "pod_env = null_env\<lparr>
     env_routeList := (\<lambda>h. Inr [\<lparr>nl_Dst = None, nl_Gw = [10, 0, 0, 1], nl_LinkIndex = 2\<rparr>]),
     env_addrList := (\<lambda>h i. Inr [\<lparr>ipn_IP = [10, 0, 0, 5], ipn_Mask = [255, 255, 255, 0]\<rparr>]),
     env_parseAddr := (\<lambda>s. Inr [10, 0, 0, 9]),
     env_getConfigMap := (\<lambda>h ns n. Inr \<lparr>cm_Name = n, cm_Namespace = ns, cm_Data = []\<rparr>),
     env_unmarshalCluster := (\<lambda>s. Inr \<lparr>kn_ServiceSubnet = ''10.96.0.0/12'', kn_PodSubnet = ''10.244.0.0/16'', kn_DNSDomain = ''cluster.local''\<rparr>)\<rparr>"

definition pod_nets :: "OvnNetwork list" where
  "pod_nets = [\<lparr>on_IpAddress = [''10.154.142.7/18''], on_MacAddress = ''0a:00:00:00:00:07'', on_GatewayIP = [''10.154.142.1''],
        on_DefaultGateway = ''false'', on_Interface = ''net0''\<rparr>,
       \<lparr>on_IpAddress = [''172.16.33.3/24''], on_MacAddress = ''0a:00:00:00:00:08'', on_GatewayIP = [''172.16.33.1''],
        on_DefaultGateway = ''false'', on_Interface = ''net1''\<rparr>]"

definition pod_annotation :: string where
  "pod_annotation = ''['' @ netsText quote pod_nets @ '']''"

lemma pod_annotation_parses: "cni_parseOvnNetworkObject pod_annotation = Inr pod_nets"
proof -
  have "list_all plain_net pod_nets" by (simp add: pod_nets_def plain_net_def clean_char_def)
  from unmarshalOvnNets_text [OF this] show ?thesis
    by (simp add: cni_parseOvnNetworkObject_def parseOvnNetwork_def pod_annotation_def)
qed

definition pod_request :: CNIServerRequest where
  "pod_request = \<lparr>req_Command = ''ADD'', req_PodNamespace = ''default'', req_PodName = ''p'', req_SandboxID = ''0123456789abcdef'',
     req_Netns = ''/proc/1/ns/net'', req_IfName = ''net1'', req_CNIConf = None\<rparr>"

lemma ParseCIDR_ok: "n \<le> 32 \<Longrightarrow> s = dotted4 [a, b, c, d] @ ''/'' @ show_nat n \<Longrightarrow> \<exists>ip net. net_ParseCIDR s = Inr (ip, net)"
  using ParseCIDR_dotted4 by blast

lemma cidr_literals:
  "\<exists>ip net. net_ParseCIDR ''0.0.0.0/0'' = Inr (ip, net)"
  "\<exists>ip net. net_ParseCIDR ''10.154.142.7/18'' = Inr (ip, net)"
  "\<exists>ip net. net_ParseCIDR ''172.16.33.3/24'' = Inr (ip, net)"
  "\<exists>ip net. net_ParseCIDR (IPNet_String \<lparr>ipn_IP = [10, 0, 0, 5], ipn_Mask = [255, 255, 255, 0]\<rparr>) = Inr (ip, net)"
  by (rule ParseCIDR_ok [of 0 _ 0 0 0 0], simp, code_simp, rule ParseCIDR_ok [of 18 _ 10 154 142 7], simp, code_simp,
      rule ParseCIDR_ok [of 24 _ 172 16 33 3], simp, code_simp, rule ParseCIDR_ok [of 24 _ 10 0 0 5], simp, code_simp)

lemma mac_literals: "net_ParseMAC ''0a:00:00:00:00:07'' = Inr [10, 0, 0, 0, 0, 7]" "net_ParseMAC ''0a:00:00:00:00:08'' = Inr [10, 0, 0, 0, 0, 8]"
  by code_simp+

lemma pod_host: "\<exists>n v. GetHostNetwork pod_env w = Some (Inr n, v)"
proof -
  have g: "IP_IsGlobalUnicast [10, 0, 0, 5]" "IP_To4 [10, 0, 0, 5] = Some [10, 0, 0, 5]" by code_simp+
  from cidr_literals(4) show ?thesis
    by (auto simp: GetHostNetwork_def GetDefaultGatewayInterface_def GetInterfaceIP4Addr_def getIfaceAddrs_def netlink_RouteList_def pod_env_def
        is_default_def null_env_def g)
qed

lemma pod_configures:
  assumes "net_ParseMAC mac = Inr hw" and "i \<noteq> ''*''" and "i \<noteq> ''eth0''"
  shows "\<exists>h c v. ConfigureInterface pod_env netns ''0123456789abcdef'' ifn ns p mac [ip] gws i ''false'' k mtu b w = Some (Inr [h, c], v) \<and>
     trace v \<noteq> [] \<and> plugged (last (trace v)) = Some (''0123456789abcd'' @ strconv_Itoa k)"
proof -
  obtain n v where h: "GetHostNetwork pod_env w = Some (Inr n, v)" using pod_host by blast
  have "IP_To4 [10, 0, 0, 9] = Some [10, 0, 0, 9]" by (simp add: IP_To4_def)
  with assms h show ?thesis
    by (simp add: ConfigureInterface_def openNS_def setupInterface_def ns_Do_def setupInNs_def renameLink_def netlink_LinkByName_def
        netlink_do_def CombinedOutput_def addIpAddressToLinkDevice_def setupGateways_def GetControlPlaneServiceIPRange_def pod_env_def null_env_def
        Let_def plugArgs_def)
qed

lemma pod_adds: "\<exists>r w'. AddMultipleInterfaces pod_env pod_request [] pod_annotation ''default'' ''p'' exec_world = Some (Some r, w') \<and>
     trace w' \<noteq> [] \<and> plugged (last (trace w')) = Some ''0123456789abcd2''"
proof -
  let ?n1 = "\<lparr>on_IpAddress = [''10.154.142.7/18''], on_MacAddress = ''0a:00:00:00:00:07'', on_GatewayIP = [''10.154.142.1''],
        on_DefaultGateway = ''false'', on_Interface = ''net0''\<rparr>"
  let ?n2 = "\<lparr>on_IpAddress = [''172.16.33.3/24''], on_MacAddress = ''0a:00:00:00:00:08'', on_GatewayIP = [''172.16.33.1''],
        on_DefaultGateway = ''false'', on_Interface = ''net1''\<rparr>"
  have parse: "cni_parseOvnNetworkObject pod_annotation = Inr [?n1, ?n2]" using pod_annotation_parses by (simp add: pod_nets_def)
  have id: "env_newResult pod_env x = Inr x" for x by (simp add: pod_env_def null_env_def)
  have step: "\<exists>r v. addInterface pod_env pod_request [] None ''default'' ''p'' net (i, g, d) w = Some (Inl (i + 1, g, Some r), v) \<and>
      trace v \<noteq> [] \<and> plugged (last (trace v)) = Some (''0123456789abcd'' @ strconv_Itoa (i + 1))"
    if net: "net = ?n1 \<or> net = ?n2" for net i g d w
  proof -
    obtain a0 b0 a1 b1 a2 b2 where c: "net_ParseCIDR ''0.0.0.0/0'' = Inr (a0, b0)" "net_ParseCIDR ''10.154.142.7/18'' = Inr (a1, b1)"
      "net_ParseCIDR ''172.16.33.3/24'' = Inr (a2, b2)" using cidr_literals by blast
    have "\<exists>h c v. ConfigureInterface pod_env (req_Netns pod_request) (req_SandboxID pod_request) (req_IfName pod_request) ''default'' ''p'' (on_MacAddress net)
        (on_IpAddress net) (on_GatewayIP net) (on_Interface net) ''false'' (i + 1) Default_MTU g w = Some (Inr [h, c], v) \<and>
        trace v \<noteq> [] \<and> plugged (last (trace v)) = Some (''0123456789abcd'' @ strconv_Itoa (i + 1))"
      using net pod_configures [OF mac_literals(1)] pod_configures [OF mac_literals(2)] by (auto simp: pod_request_def)
    then obtain h c v where conf: "ConfigureInterface pod_env (req_Netns pod_request) (req_SandboxID pod_request) (req_IfName pod_request) ''default'' ''p''
        (on_MacAddress net) (on_IpAddress net) (on_GatewayIP net) (on_Interface net) ''false'' (i + 1) Default_MTU g w = Some (Inr [h, c], v)"
      and last: "trace v \<noteq> [] \<and> plugged (last (trace v)) = Some (''0123456789abcd'' @ strconv_Itoa (i + 1))" by blast
    have gw: "chooseGateway (req_IfName pod_request) g (on_Interface net) (on_DefaultGateway net) = (g, ''false'')"
      using net by (auto simp: chooseGateway_def)
    obtain r where r: "interfaceResult (on_IpAddress net) (on_GatewayIP net) ''false'' [h, c] = Some (Inr r)"
      using net c by (auto simp: interfaceResult_def defaultDst_def)
    obtain m where m: "mergeWithResult pod_env r d = Inr m" by (cases d) (auto simp: mergeWithResult_def id)
    from net conf last gw r m show ?thesis by (auto simp: addInterface_def)
  qed
  from step [of ?n1 0 False None exec_world] obtain r1 v1 where
    s1: "addInterface pod_env pod_request [] None ''default'' ''p'' ?n1 (0, False, None) exec_world = Some (Inl (1, False, Some r1), v1)" by auto
  have "strconv_Itoa 2 = ''2''" by code_simp
  with step [of ?n2 1 False "Some r1" v1] obtain r2 v2 where
    s2: "addInterface pod_env pod_request [] None ''default'' ''p'' ?n2 (1, False, Some r1) v1 = Some (Inl (2, False, Some r2), v2)"
    and last: "trace v2 \<noteq> []" "plugged (last (trace v2)) = Some ''0123456789abcd2''" by auto
  from s1 s2 last show ?thesis by (simp add: AddMultipleInterfaces_def parse pod_request_def)
qed

theorem AddMultipleInterfaces_indices_witness:
  "\<exists>r w'. AddMultipleInterfaces pod_env pod_request [] pod_annotation ''default'' ''p'' exec_world = Some (Some r, w') \<and>
     (\<forall>ip \<in> set (res_IPs r). \<exists>i. ic_Interface ip = Some (int i) \<and> i < length (res_Interfaces r) \<and>
        ci_Sandbox (res_Interfaces r ! i) = ''/proc/1/ns/net'')"
proof -
  obtain r w' where r: "AddMultipleInterfaces pod_env pod_request [] pod_annotation ''default'' ''p'' exec_world = Some (Some r, w')" using pod_adds by blast
  have "env_newResult pod_env x = Inr x" for x by (simp add: pod_env_def null_env_def)
  from AddMultipleInterfaces_indices [OF r this] r show ?thesis by (auto simp: pod_request_def)
qed

theorem cmdDel_unplugs_witness:
  "\<exists>r w' v'. AddMultipleInterfaces pod_env pod_request [] pod_annotation ''default'' ''p'' exec_world = Some (r, w') \<and>
     (\<exists>e \<in> set (new_events exec_world w'). plugged e = Some ''0123456789abcd2'') \<and>
     cmdDel pod_env pod_request w' = Some (Inr [], v') \<and>
     ExecCmd ''ovs-vsctl'' [''del-port'', ''br-int'', ''0123456789abcd2''] \<in> set (new_events w' v')"
proof -
  obtain r w' where r: "AddMultipleInterfaces pod_env pod_request [] pod_annotation ''default'' ''p'' exec_world = Some (Some r, w')"
    and last: "trace w' \<noteq> []" "plugged (last (trace w')) = Some ''0123456789abcd2''" using pod_adds by blast
  from last have e: "last (trace w') \<in> set (new_events exec_world w')" by (simp add: new_events_def exec_world_def init_world_def)
  have parse: "\<exists>nets. cni_parseOvnNetworkObject pod_annotation = Inr nets \<and> length nets \<le> 9"
    using pod_annotation_parses by (simp add: pod_nets_def)
  have comb: "env_combined pod_env h c args = ([], None)" for h c args by (simp add: pod_env_def null_env_def)
  have "\<exists>v'. cleanupPorts pod_env ''0123456789abcdef'' ks w = Some ((), v')" for ks w
    by (induction ks arbitrary: w) (auto simp: PlatformSpecificCleanup_def CombinedOutput_def comb)
  from this [of "[0..<10]" w'] obtain v' where d: "cmdDel pod_env pod_request w' = Some (Inr [], v')"
    by (auto simp: cmdDel_def pod_request_def simp del: upt_rec_numeral cleanupPorts.simps)
  from parse cmdDel_unplugs [OF r _ _ d _ e last(2)] comb r e last d show ?thesis by auto
qed

end
