(* ===== verification/Container_Chain.thy ===== *)
theory Container_Chain
  imports Cni_Server
begin

text \<open>
  The half of \<^verbatim>\<open>internal/pkg/utils/chain.go\<close> the agent runs: adding and deleting the interface
  and the routes of a running container.  The container is given by the process that holds its
  network namespace.
\<close>

section \<open>Interfaces\<close>

definition netnsPath :: "int \<Rightarrow> string" where
  "netnsPath pid = ''/proc/'' @ strconv_Itoa pid @ ''/ns/net''"

definition shimRequest :: "string \<Rightarrow> int \<Rightarrow> PodNetwork \<Rightarrow> OvnNetwork \<Rightarrow> CNIServerRequest" where
  "shimRequest command containerPid payload net =
     \<lparr>req_Command = command, req_PodNamespace = pnw_PodNamespace payload, req_PodName = pnw_PodName payload,
      req_SandboxID = GeneratePodNameID (pnw_PodName payload), req_Netns = netnsPath containerPid, req_IfName = on_Interface net, req_CNIConf = None\<rparr>"

text \<open>The one interface of the payload, or the error.\<close>

definition oneNetwork :: "PodNetwork \<Rightarrow> error + OvnNetwork" where
  "oneNetwork payload =
     (case unmarshalOvnNets (pnw_NetData payload) of
        Inl e \<Rightarrow> Inl (Errorf (''Error in unmarshal podnet conf='' @ error_msg e))
      | Inr nets \<Rightarrow> (case nets of [net] \<Rightarrow> Inr net | _ \<Rightarrow> Inl (Errorf ''Only support one interface addition'')))"

definition ContainerAddInteface :: "env \<Rightarrow> int \<Rightarrow> PodNetwork \<Rightarrow> (world, error option) prog" where
  "ContainerAddInteface E containerPid payload w =
     (case oneNetwork payload of
        Inl e \<Rightarrow> Some (Some e, w)
      | Inr net \<Rightarrow> do {
          (result, w) \<leftarrow> AddMultipleInterfaces E (shimRequest CNIAdd containerPid payload net) [] (pnw_NetData payload)
             (pnw_PodNamespace payload) (pnw_PodName payload) w;
          Some (if result = None then Some (Errorf ''result is nil from cni server for adding interface in the existing pod'') else None, w) })"

definition ContainerDelInteface :: "env \<Rightarrow> int \<Rightarrow> PodNetwork \<Rightarrow> (world, error option) prog" where
  "ContainerDelInteface E containerPid payload w =
     (case oneNetwork payload of
        Inl e \<Rightarrow> Some (Some e, w)
      | Inr net \<Rightarrow> do {
          (err, w) \<leftarrow> DeleteMultipleInterfaces E (shimRequest CNIDel containerPid payload net) (pnw_NetData payload)
             (pnw_PodNamespace payload) (pnw_PodName payload) w;
          Some (map_option (\<lambda>e. Errorf (''cni server for deleting interface in the existing pod='' @ error_msg e)) err, w) })"

section \<open>Routes\<close>

text \<open>What both operations read before they enter the container: the host network and the cluster's subnets.\<close>

definition withContainer ::
  "env \<Rightarrow> int \<Rightarrow> (string \<Rightarrow> Networking \<Rightarrow> (world, error option) prog) \<Rightarrow> (world, error option) prog" where
  "withContainer E containerPid body w = do {
     (r, w) \<leftarrow> GetHostNetwork E w;
     (case r of Inl e \<Rightarrow> Some (Some e, w) | Inr hostNet \<Rightarrow> do {
     (err, w) \<leftarrow> ask (env_kubeConfig E) w;
     (case err of Some e \<Rightarrow> Some (Some e, w) | None \<Rightarrow> do {
     (r, w) \<leftarrow> GetControlPlaneServiceIPRange E w;
     (case r of Inl e \<Rightarrow> Some (Some e, w) | Inr kn \<Rightarrow> do {
     (err, w) \<leftarrow> ask (\<lambda>h. env_getNS E h (netnsPath containerPid)) w;
     (case err of Some e \<Rightarrow> Some (Some e, w) | None \<Rightarrow> do {
     ((err, u), w) \<leftarrow> ns_Do E (netnsPath containerPid) () (\<lambda>w. do { (err, w) \<leftarrow> body hostNet kn w; Some ((err, ()), w) }) w;
     Some (err, w) }) }) }) })
   }"

definition delRoute :: "env \<Rightarrow> string \<Rightarrow> RouteData \<Rightarrow> (world, error option) prog" where
  "delRoute E podGW r w =
     (if rd_Dst r = ''0.0.0.0'' then replaceDefault E podGW w
      else do {
        (x, w) \<leftarrow> IsRouteExist E (rd_Dst r) (rd_Gw r) w;
        (case x of
           Inl e \<Rightarrow> Some (Some e, w)
         | Inr isExist \<Rightarrow> if isExist then ipRoute E ''del'' (rd_Dst r) (rd_Gw r) w else Some (None, w)) })"

definition ContainerDelRoute :: "env \<Rightarrow> int \<Rightarrow> RouteData list \<Rightarrow> (world, error option) prog" where
  "ContainerDelRoute E containerPid route = withContainer E containerPid (\<lambda>hostNet kn w. do {
     (r, w) \<leftarrow> GetGatewayInterface E (kn_ServiceSubnet kn) w;
     (case r of
        Inl e \<Rightarrow> Some (Some e, w)
      | Inr podGW \<Rightarrow> do {
          (err, w) \<leftarrow> threeRoutes E ''del'' hostNet (kn_ServiceSubnet kn) (kn_PodSubnet kn) podGW w;
          (if err \<noteq> None then Some (err, w) else foreach (delRoute E podGW) route w) }) })"

definition addRouteData :: "env \<Rightarrow> RouteData \<Rightarrow> (world, error option) prog" where
  "addRouteData E r w =
     (if rd_Dst r = ''0.0.0.0'' then replaceDefault E (rd_Gw r) w else ipRoute E ''add'' (rd_Dst r) (rd_Gw r) w)"

definition ContainerAddRoute :: "env \<Rightarrow> int \<Rightarrow> RouteData list \<Rightarrow> (world, error option) prog" where
  "ContainerAddRoute E containerPid route = withContainer E containerPid (\<lambda>hostNet kn w. do {
     (r, w) \<leftarrow> GetDefaultGateway E w;
     (case r of
        Inl e \<Rightarrow> Some (Some e, w)
      | Inr podGW \<Rightarrow> do {
          (err, w) \<leftarrow> threeRoutes E ''add'' hostNet (kn_ServiceSubnet kn) (kn_PodSubnet kn) podGW w;
          (if err \<noteq> None then Some (err, w) else foreach (addRouteData E) route w) }) })"

end
