(* ===== verification/Notify_Server.thy ===== *)
theory Notify_Server
  imports Ovn_Controller
begin

text \<open>
  \<^verbatim>\<open>internal/pkg/nfnNotify/server.go\<close> and \<^verbatim>\<open>internal/pkg/node/node.go\<close>: the
  operator's notification server.  Its state is \<open>clientList\<close> of the world, the subscribed
  node agents (\<open>None\<close> until the server is set up; using it then is a nil dereference).  A gRPC
  stream is a number; sending on it is the request \<open>StreamSend\<close>.  Ranging over the client map
  visits the keys in the order \<open>env_rangeOrder\<close> gives.
\<close>

section \<open>Node ports\<close>

definition node_AddNodeLogicalPorts :: "env \<Rightarrow> string \<Rightarrow> (world, string \<times> string \<times> string \<times> error option) prog" where
  "node_AddNodeLogicalPorts E node w =
     (case GetOvnController w of
        Some err \<Rightarrow> Some (([], [], [], Some err), w)
      | None \<Rightarrow> do {
          ((ip, ip6, mac, err), w) \<leftarrow> AddNodeLogicalPorts E node w;
          (if err \<noteq> None then Some (([], [], [], err), w) else Some ((mac, ip, ip6, None), w))
        })"

definition DeleteNodeLogicalPorts :: "string \<Rightarrow> string \<Rightarrow> error option" where
  "DeleteNodeLogicalPorts name namespace = None"

section \<open>The clients\<close>

definition newServer :: "(string, client) gomap" where
  "newServer = []"

text \<open>The stream of the client \<^verbatim>\<open>GetClient\<close> returns: nil when the node has not subscribed.\<close>

definition GetClient :: "(string, client) gomap \<Rightarrow> string \<Rightarrow> client" where
  "GetClient cl nodeName =
     (case map_of cl nodeName of Some val \<Rightarrow> val | None \<Rightarrow> \<lparr>cl_node = [], cl_stream = None\<rparr>)"

definition stream_Send :: "env \<Rightarrow> nat \<Rightarrow> Notification \<Rightarrow> (world, error option) prog" where
  "stream_Send E st msg = kube_write E (StreamSend st msg)"

text \<open>Send to the client when its stream is open, the error of the send being the result.\<close>

definition sendTo :: "env \<Rightarrow> Notification \<Rightarrow> client \<Rightarrow> (world, error option) prog" where
  "sendTo E msg c w = (case cl_stream c of None \<Rightarrow> Some (None, w) | Some st \<Rightarrow> stream_Send E st msg w)"

section \<open>Messages\<close>

definition ovn4nfv :: string where "ovn4nfv = ''ovn4nfv''"

definition createVlanMsg :: "ProviderNetwork \<Rightarrow> Notification" where
  "createVlanMsg pn = \<lparr>nt_CniType = ovn4nfv, nt_Payload = Some (Notification_ProviderNwCreate
     \<lparr>pc_ProviderNwName = om_Name (pn_Meta pn),
      pc_Vlan = Some \<lparr>vi_VlanId = vs_VlanId (pn_Vlan pn), vi_ProviderIntf = vs_ProviderInterfaceName (pn_Vlan pn),
                       vi_LogicalIntf = vs_LogicalInterfaceName (pn_Vlan pn)\<rparr>,
      pc_Direct = None\<rparr>)\<rparr>"

definition deleteVlanMsg :: "ProviderNetwork \<Rightarrow> Notification" where
  "deleteVlanMsg pn = \<lparr>nt_CniType = ovn4nfv, nt_Payload = Some (Notification_ProviderNwRemove
     \<lparr>pr_ProviderNwName = om_Name (pn_Meta pn), pr_VlanLogicalIntf = vs_LogicalInterfaceName (pn_Vlan pn),
      pr_DirectProviderIntf = []\<rparr>)\<rparr>"

definition createDirectMsg :: "ProviderNetwork \<Rightarrow> Notification" where
  "createDirectMsg pn = \<lparr>nt_CniType = ovn4nfv, nt_Payload = Some (Notification_ProviderNwCreate
     \<lparr>pc_ProviderNwName = om_Name (pn_Meta pn), pc_Vlan = None,
      pc_Direct = Some \<lparr>di_ProviderIntf = ds_ProviderInterfaceName (pn_Direct pn)\<rparr>\<rparr>)\<rparr>"

definition deleteDirectMsg :: "ProviderNetwork \<Rightarrow> Notification" where
  "deleteDirectMsg pn = \<lparr>nt_CniType = ovn4nfv, nt_Payload = Some (Notification_ProviderNwRemove
     \<lparr>pr_ProviderNwName = om_Name (pn_Meta pn), pr_VlanLogicalIntf = [],
      pr_DirectProviderIntf = ds_ProviderInterfaceName (pn_Direct pn)\<rparr>)\<rparr>"

definition updatePnStatus :: "env \<Rightarrow> ProviderNetwork \<Rightarrow> string \<Rightarrow> (world, error option) prog" where
  "updatePnStatus E pn status = kube_write E (UpdateProviderCR (pn\<lparr>pn_State := status\<rparr>))"

section \<open>Sending\<close>

text \<open>
  \<^verbatim>\<open>nodeListIterator\<close>: when the nodes cannot be listed it returns a nil channel, and ranging
  over a nil channel blocks forever.
\<close>

definition nodeListIterator :: "env \<Rightarrow> string \<Rightarrow> (world, string list) prog" where
  "nodeListIterator E labels w = do {
     (r, w) \<leftarrow> request (KubeList KNode [] labels) (\<lambda>h. env_listNodes E h labels) w;
     (case r of Inl err \<Rightarrow> None | Inr nodes \<Rightarrow> Some (nodes, w))
   }"

fun sendAny :: "env \<Rightarrow> Notification \<Rightarrow> (string, client) gomap \<Rightarrow> string list \<Rightarrow> (world, error option) prog" where
  "sendAny E msg cl [] w = Some (None, w)"
| "sendAny E msg cl (name # names) w =
     (case cl_stream (GetClient cl name) of
        None \<Rightarrow> sendAny E msg cl names w
      | Some st \<Rightarrow> stream_Send E st msg w)"

definition sendToNode :: "env \<Rightarrow> Notification \<Rightarrow> string \<Rightarrow> string \<Rightarrow> (world, error option) prog" where
  "sendToNode E msg nodeReq name w =
     (if nodeReq \<noteq> [] \<and> nodeReq \<noteq> name then Some (None, w)
      else (case clientList w of None \<Rightarrow> None | Some cl \<Rightarrow> sendTo E msg (GetClient cl name) w))"

definition sendMsg :: "env \<Rightarrow> Notification \<Rightarrow> string \<Rightarrow> string \<Rightarrow> string \<Rightarrow> (world, error option) prog" where
  "sendMsg E msg labels opt nodeReq w =
     (if opt = ''all'' then
        (case clientList w of
           None \<Rightarrow> None
         | Some cl \<Rightarrow> do {
             (order, w) \<leftarrow> ask (\<lambda>h. env_rangeOrder E h (map_keys cl)) w;
             (u, w) \<leftarrow> forall (sendToNode E msg nodeReq) order w;
             Some (None, w) })
      else if opt = ''any'' then
        (case clientList w of
           None \<Rightarrow> None
         | Some cl \<Rightarrow> do {
             (order, w) \<leftarrow> ask (\<lambda>h. env_rangeOrder E h (map_keys cl)) w;
             sendAny E msg cl order w })
      else do {
        (nodes, w) \<leftarrow> nodeListIterator E labels w;
        foreach (sendToNode E msg nodeReq) nodes w })"

text \<open>One \<^verbatim>\<open>case\<close> of \<^verbatim>\<open>SendNotif\<close>: the node selector decides the addressees.\<close>

definition sendSelected ::
  "env \<Rightarrow> ProviderNetwork \<Rightarrow> Notification \<Rightarrow> string \<Rightarrow> string list \<Rightarrow> string \<Rightarrow> (world, error option) prog" where
  "sendSelected E pn msg selector labelList nodeReq w =
     (if strings_EqualFold selector ''SPECIFIC'' then
        (if list_ex (\<lambda>label. length (strings_Split label (CHR ''='')) = 0) labelList then Some (None, w)
         else sendMsg E msg (strings_Join labelList '','') ''specific'' nodeReq w)
      else if strings_EqualFold selector ''ALL'' then sendMsg E msg [] ''all'' nodeReq w
      else if strings_EqualFold selector ''ANY'' then
        (if pn_State pn \<noteq> Created then do {
           (err, w) \<leftarrow> sendMsg E msg [] ''any'' nodeReq w;
           (if err = None then do { (u, w) \<leftarrow> updatePnStatus E pn Created w; Some (None, w) } else Some (err, w)) }
         else Some (None, w))
      else Some (None, w))"

definition SendNotif :: "env \<Rightarrow> ProviderNetwork \<Rightarrow> string \<Rightarrow> string \<Rightarrow> (world, error option) prog" where
  "SendNotif E pn msgType nodeReq w =
     (if pn_CniType pn = ovn4nfv then
        (if pn_ProviderNetType pn = ''VLAN'' then
           sendSelected E pn (if msgType = ''create'' then createVlanMsg pn
                              else if msgType = ''delete'' then deleteVlanMsg pn else empty_Notification)
             (vs_VlanNodeSelector (pn_Vlan pn)) (vs_NodeLabelList (pn_Vlan pn)) nodeReq w
         else if pn_ProviderNetType pn = ''DIRECT'' then
           sendSelected E pn (if msgType = ''create'' then createDirectMsg pn
                              else if msgType = ''delete'' then deleteDirectMsg pn else empty_Notification)
             (ds_DirectNodeSelector (pn_Direct pn)) (ds_NodeLabelList (pn_Direct pn)) nodeReq w
         else Some (Some (Errorf ''Unsupported Provider Network type''), w))
      else Some (Some (Errorf ''Unsupported CNI type''), w))"

definition inSyncMsg :: "string \<Rightarrow> string \<Rightarrow> string \<Rightarrow> Notification" where
  "inSyncMsg ip mac ip6 = \<lparr>nt_CniType = ovn4nfv, nt_Payload = Some (Notification_InSync
     \<lparr>is_NodeIntfIpAddress = ip, is_NodeIntfMacAddress = mac, is_NodeIntfIpv6Address = ip6\<rparr>)\<rparr>"

text \<open>
  \<^verbatim>\<open>Subscribe\<close>: \<open>Inl\<close> is the error it returns; \<open>Inr\<close> is the point where the
  subscription is complete and the call waits forever to keep the stream open.
\<close>

definition Subscribe :: "env \<Rightarrow> string \<Rightarrow> nat \<Rightarrow> (world, error + unit) prog" where
  "Subscribe E nodeName ss w =
     (if nodeName = [] then Some (Inl (Errorf ''Node name can't be empty''), w)
      else do {
        ((mac, ip, ip6, err), w) \<leftarrow> node_AddNodeLogicalPorts E nodeName w;
        (case err of
           Some e \<Rightarrow> Some (Inl (Errorf (''Error in creating node logical port for node- '' @ nodeName @ '': '' @ error_msg e)), w)
         | None \<Rightarrow>
             (case clientList w of
                None \<Rightarrow> None
              | Some cl \<Rightarrow> do {
                  let w = w\<lparr>clientList := Some (map_put nodeName \<lparr>cl_node = nodeName, cl_stream = Some ss\<rparr> cl)\<rparr>;
                  (r, w) \<leftarrow> request (KubeList KProviderNetwork ''default'' []) (env_listProviders E) w;
                  (u, w) \<leftarrow> (case r of
                     Inl e \<Rightarrow> Some ((), w)
                   | Inr items \<Rightarrow> forall (\<lambda>pn. SendNotif E pn ''create'' nodeName) items w);
                  (e, w) \<leftarrow> stream_Send E ss (inSyncMsg ip mac ip6) w;
                  Some (Inr (), w)
                }))
      })"

section \<open>Routes and pod networks\<close>

definition routeData :: "Route \<Rightarrow> RouteData" where
  "routeData r = \<lparr>rd_Dst = rt_Dst r, rd_Gw = rt_GW r\<rparr>"

text \<open>
  \<^verbatim>\<open>SendRouteNotif\<close>: for each element the message is built by appending the left, the right
  and the dynamic routes that are not empty, and is sent to the element's node if that has a stream.
  With another message type than the expected one the zero message is sent.
\<close>

definition containerRouteInsert :: "RoutingInfo \<Rightarrow> ContainerRoute" where
  "containerRouteInsert r =
     (let ins = foldl (\<lambda>route ln. route @ [routeData ln]) [] (ri_LeftNetworkRoute r);
          ins = foldl (\<lambda>route rn. route @ [routeData rn]) ins (ri_RightNetworkRoute r);
          ins = foldl (\<lambda>route d. if \<not> Route_IsEmpty d then route @ [routeData d] else route) ins (ri_DynamicNetworkRoutes r)
      in \<lparr>cr_ContainerId = ri_Id r, cr_Route = ins\<rparr>)"

definition SendRouteNotif :: "env \<Rightarrow> RoutingInfo list \<Rightarrow> string \<Rightarrow> (world, error option) prog" where
  "SendRouteNotif E chainRoutingInfo msgType = foreach (\<lambda>r w. do {
     let msg = (if msgType = ''create''
                then \<lparr>nt_CniType = ''ovn4nfv'', nt_Payload = Some (Notification_ContainterRtInsert (containerRouteInsert r))\<rparr>
                else empty_Notification);
     (case clientList w of None \<Rightarrow> None | Some cl \<Rightarrow> sendTo E msg (GetClient cl (ri_Node r)) w) }) chainRoutingInfo"

text \<open>\<^verbatim>\<open>SendDeleteRouteNotif\<close> has the same loops once more.\<close>

definition containerRouteRemove :: "RoutingInfo \<Rightarrow> ContainerRoute" where
  "containerRouteRemove r =
     (let rve = foldl (\<lambda>route ln. route @ [routeData ln]) [] (ri_LeftNetworkRoute r);
          rve = foldl (\<lambda>route rn. route @ [routeData rn]) rve (ri_RightNetworkRoute r);
          rve = foldl (\<lambda>route d. if \<not> Route_IsEmpty d then route @ [routeData d] else route) rve (ri_DynamicNetworkRoutes r)
      in \<lparr>cr_ContainerId = ri_Id r, cr_Route = rve\<rparr>)"

definition SendDeleteRouteNotif :: "env \<Rightarrow> RoutingInfo list \<Rightarrow> string \<Rightarrow> (world, error option) prog" where
  "SendDeleteRouteNotif E chainRoutingInfo msgType = foreach (\<lambda>r w. do {
     let msg = (if msgType = ''delete''
                then \<lparr>nt_CniType = ''ovn4nfv'', nt_Payload = Some (Notification_ContainterRtRemove (containerRouteRemove r))\<rparr>
                else empty_Notification);
     (case clientList w of None \<Rightarrow> None | Some cl \<Rightarrow> sendTo E msg (GetClient cl (ri_Node r)) w) }) chainRoutingInfo"

definition podAddNetwork :: "PodNetworkInfo \<Rightarrow> PodNetwork" where
  "podAddNetwork p = \<lparr>pnw_ContainerId = pi_Id p, pnw_PodNamespace = pi_Namespace p, pnw_PodName = pi_Name p, pnw_NetData = pi_NetworkInfo p,
     pnw_Route = foldl (\<lambda>route d. if \<not> Route_IsEmpty d then route @ [routeData d] else route) [] (pi_Route p)\<rparr>"

definition SendPodNetworkNotif :: "env \<Rightarrow> PodNetworkInfo list \<Rightarrow> string \<Rightarrow> (world, error option) prog" where
  "SendPodNetworkNotif E pni msgType = foreach (\<lambda>p w. do {
     let msg = (if msgType = ''create''
                then \<lparr>nt_CniType = ''ovn4nfv'', nt_Payload = Some (Notification_PodAddNetwork (podAddNetwork p))\<rparr>
                else empty_Notification);
     (case clientList w of None \<Rightarrow> None | Some cl \<Rightarrow> sendTo E msg (GetClient cl (pi_Node p)) w) }) pni"

definition podDelNetwork :: "PodNetworkInfo \<Rightarrow> PodNetwork" where
  "podDelNetwork p = \<lparr>pnw_ContainerId = pi_Id p, pnw_PodNamespace = pi_Namespace p, pnw_PodName = pi_Name p, pnw_NetData = pi_NetworkInfo p,
     pnw_Route = foldl (\<lambda>route d. if \<not> Route_IsEmpty d then route @ [routeData d] else route) [] (pi_Route p)\<rparr>"

definition SendDeletePodNetworkNotif :: "env \<Rightarrow> PodNetworkInfo list \<Rightarrow> string \<Rightarrow> (world, error option) prog" where
  "SendDeletePodNetworkNotif E pni msgType = foreach (\<lambda>p w. do {
     let msg = (if msgType = ''delete''
                then \<lparr>nt_CniType = ''ovn4nfv'', nt_Payload = Some (Notification_PodDelNetwork (podDelNetwork p))\<rparr>
                else empty_Notification);
     (case clientList w of None \<Rightarrow> None | Some cl \<Rightarrow> sendTo E msg (GetClient cl (pi_Node p)) w) }) pni"

text \<open>
  The routes and pod networks in closed form, and the shape of a sender: what the four operations
  have in common.
\<close>

definition chainRoutes :: "RoutingInfo \<Rightarrow> ContainerRoute" where
  "chainRoutes r = \<lparr>cr_ContainerId = ri_Id r, cr_Route = map routeData (ri_LeftNetworkRoute r) @
     map routeData (ri_RightNetworkRoute r) @ map routeData (filter (\<lambda>d. \<not> Route_IsEmpty d) (ri_DynamicNetworkRoutes r))\<rparr>"

definition podNetwork :: "PodNetworkInfo \<Rightarrow> PodNetwork" where
  "podNetwork p = \<lparr>pnw_ContainerId = pi_Id p, pnw_PodNamespace = pi_Namespace p, pnw_PodName = pi_Name p,
     pnw_NetData = pi_NetworkInfo p, pnw_Route = map routeData (filter (\<lambda>d. \<not> Route_IsEmpty d) (pi_Route p))\<rparr>"

definition notifyEach ::
  "env \<Rightarrow> ('x \<Rightarrow> payload) \<Rightarrow> ('x \<Rightarrow> string) \<Rightarrow> bool \<Rightarrow> 'x list \<Rightarrow> (world, error option) prog" where
  "notifyEach E mk node ok xs = foreach (\<lambda>x w.
     (case clientList w of
        None \<Rightarrow> None
      | Some cl \<Rightarrow> sendTo E (if ok then \<lparr>nt_CniType = ovn4nfv, nt_Payload = Some (mk x)\<rparr> else empty_Notification)
                      (GetClient cl (node x)) w)) xs"

lemma foldl_append_map: "foldl (\<lambda>ys x. ys @ [f x]) ys xs = ys @ map f xs"
  by (induction xs arbitrary: ys) simp_all

lemma foldl_append_filter: "foldl (\<lambda>ys x. if P x then ys @ [f x] else ys) ys xs = ys @ map f (filter P xs)"
  by (induction xs arbitrary: ys) simp_all

lemma messages_closed:
  "containerRouteInsert = chainRoutes" "containerRouteRemove = chainRoutes" "podAddNetwork = podNetwork" "podDelNetwork = podNetwork"
  by (simp_all add: fun_eq_iff containerRouteInsert_def containerRouteRemove_def podAddNetwork_def podDelNetwork_def chainRoutes_def
      podNetwork_def foldl_append_map foldl_append_filter Let_def)

lemma senders_each:
  "SendRouteNotif E ris t = notifyEach E (\<lambda>r. Notification_ContainterRtInsert (chainRoutes r)) ri_Node (t = ''create'') ris"
  "SendDeleteRouteNotif E ris t = notifyEach E (\<lambda>r. Notification_ContainterRtRemove (chainRoutes r)) ri_Node (t = ''delete'') ris"
  "SendPodNetworkNotif E pni t = notifyEach E (\<lambda>p. Notification_PodAddNetwork (podNetwork p)) pi_Node (t = ''create'') pni"
  "SendDeletePodNetworkNotif E pni t = notifyEach E (\<lambda>p. Notification_PodDelNetwork (podNetwork p)) pi_Node (t = ''delete'') pni"
  unfolding SendRouteNotif_def SendDeleteRouteNotif_def SendPodNetworkNotif_def SendDeletePodNetworkNotif_def notifyEach_def
    messages_closed ovn4nfv_def Let_def by (rule refl)+

section \<open>Framing\<close>

lemma sendTo_frame [frame_intros]: "frame (sendTo E msg c)"
  unfolding sendTo_def [abs_def] stream_Send_def by (intro frame_intros)

lemma sendAny_frame [frame_intros]: "frame (sendAny E msg cl names)"
proof (induction names)
  case (Cons n ns)
  have "frame (\<lambda>w. case cl_stream (GetClient cl n) of None \<Rightarrow> sendAny E msg cl ns w | Some st \<Rightarrow> stream_Send E st msg w)"
    unfolding stream_Send_def by (intro frame_intros Cons)
  then show ?case by (simp add: frame_def)
qed (simp add: frame_def)

lemma nodeListIterator_frame [frame_intros]: "frame (nodeListIterator E labels)"
  unfolding nodeListIterator_def [abs_def] by (intro frame_intros)

lemma sendToNode_frame [frame_intros]: "frame (sendToNode E msg n name)"
  unfolding sendToNode_def [abs_def] by (rule frame_read [where g = clientList]) (intro frame_intros)

lemma sendMsg_frame [frame_intros]: "frame (sendMsg E msg labels opt n)"
  unfolding sendMsg_def [abs_def] by (rule frame_read [where g = clientList]) (intro frame_intros)

lemma SendNotif_frame [frame_intros]: "frame (SendNotif E pn t n)"
  unfolding SendNotif_def [abs_def] sendSelected_def updatePnStatus_def by (intro frame_intros)

section \<open>What is sent\<close>

definition sends_only :: "nat option \<Rightarrow> Notification \<Rightarrow> event \<Rightarrow> bool" where
  "sends_only s msg e \<longleftrightarrow> (\<forall>st m. e = StreamSend st m \<longrightarrow> s = Some st \<and> m = msg)"

lemma sends_only_simps [simp]:
  "sends_only s msg (StreamSend st m) \<longleftrightarrow> s = Some st \<and> m = msg"
  "sends_only s msg (KubeList k ns l)" "sends_only s msg (UpdateProviderCR pn)"
  by (auto simp: sends_only_def)

lemma sendTo_emits: "emits (sends_only (cl_stream c) msg) (sendTo E msg c)"
  unfolding sendTo_def [abs_def] stream_Send_def by (intro emits_intros) simp

lemma sendToNode_Some:
  assumes "clientList w = Some cl"
  shows "sendToNode E msg n m w = (if n \<noteq> [] \<and> n \<noteq> m then Some (None, w) else sendTo E msg (GetClient cl m) w)"
    and "sendToNode E msg n m w = Some (r, v) \<Longrightarrow> clientList v = Some cl"
  using assms by (simp add: sendToNode_def, metis assms frame_fields(4) sendToNode_frame)

lemma forall_sendToNode:
  "clientList w = Some cl \<Longrightarrow> forall (sendToNode E msg n) names w =
     forall (\<lambda>name w. if n \<noteq> [] \<and> n \<noteq> name then Some (None, w) else sendTo E msg (GetClient cl name) w) names w"
proof (induction names arbitrary: w)
  case (Cons m ms)
  show ?case unfolding forall.simps sendToNode_Some(1) [OF Cons.prems, symmetric]
    by (rule Option.bind_cong [OF refl]) (use Cons.IH sendToNode_Some(2) [OF Cons.prems] in \<open>simp only: split_paired_all prod.case\<close>)
qed simp

lemma foreach_sendToNode:
  "clientList w = Some cl \<Longrightarrow> foreach (sendToNode E msg n) names w =
     foreach (\<lambda>name w. if n \<noteq> [] \<and> n \<noteq> name then Some (None, w) else sendTo E msg (GetClient cl name) w) names w"
proof (induction names arbitrary: w)
  case (Cons m ms)
  show ?case unfolding foreach.simps sendToNode_Some(1) [OF Cons.prems, symmetric]
    by (rule Option.bind_cong [OF refl]) (use Cons.IH sendToNode_Some(2) [OF Cons.prems] in \<open>simp only: split_paired_all prod.case\<close>)
qed simp

lemmas loop_sendToNode = forall_sendToNode foreach_sendToNode

lemma sendMsg_addressee:
  assumes "opt \<noteq> ''any''" and "n \<noteq> []" and "clientList w = Some cl" and "sendMsg E msg labels opt n w = Some (r, w')"
    and "e \<in> set (new_events w w')"
  shows "sends_only (cl_stream (GetClient cl n)) msg e"
proof -
  let ?P = "sends_only (cl_stream (GetClient cl n)) msg"
  let ?step = "\<lambda>name w. if n \<noteq> [] \<and> n \<noteq> name then Some (None, w) else sendTo E msg (GetClient cl name) w"
  have step: "emits ?P (?step name)" for name
  proof (cases "n = name")
    case True
    then show ?thesis using sendTo_emits [of "GetClient cl name"] by simp
  qed (use assms(2) in \<open>simp add: emits_def\<close>)
  have em: "emits ?P (\<lambda>w. if opt = ''all'' then do {
         (order, w) \<leftarrow> ask (\<lambda>h. env_rangeOrder E h (map_keys cl)) w;
         (u, w) \<leftarrow> forall ?step order w; Some (None, w) }
       else do { (nodes, w) \<leftarrow> nodeListIterator E labels w; foreach ?step nodes w })"
    unfolding nodeListIterator_def by (intro emits_intros step) simp
  have "clientList v = Some cl" if "nodeListIterator E labels w = Some (nodes, v)" for nodes v
    using frame_fields(4) [OF nodeListIterator_frame that] assms(3) by simp
  then have "sendMsg E msg labels opt n w = (if opt = ''all'' then do {
         (order, w) \<leftarrow> ask (\<lambda>h. env_rangeOrder E h (map_keys cl)) w;
         (u, w) \<leftarrow> forall ?step order w; Some (None, w) }
       else do { (nodes, w) \<leftarrow> nodeListIterator E labels w; foreach ?step nodes w })"
    using assms(1,3) by (auto simp: sendMsg_def loop_sendToNode intro!: Option.bind_cong)
  with assms(4) have "(\<lambda>w. if opt = ''all'' then do {
         (order, w) \<leftarrow> ask (\<lambda>h. env_rangeOrder E h (map_keys cl)) w;
         (u, w) \<leftarrow> forall ?step order w; Some (None, w) }
       else do { (nodes, w) \<leftarrow> nodeListIterator E labels w; foreach ?step nodes w }) w = Some (r, w')" by simp
  from new_events_emits [OF em this assms(5)] show ?thesis .
qed

definition notif_of :: "ProviderNetwork \<Rightarrow> string \<Rightarrow> Notification" where
  "notif_of pn t = (if t = ''create'' then (if pn_ProviderNetType pn = ''VLAN'' then createVlanMsg pn else createDirectMsg pn)
     else if t = ''delete'' then (if pn_ProviderNetType pn = ''VLAN'' then deleteVlanMsg pn else deleteDirectMsg pn)
     else empty_Notification)"

definition selector_of :: "ProviderNetwork \<Rightarrow> string" where
  "selector_of pn = (if pn_ProviderNetType pn = ''VLAN'' then vs_VlanNodeSelector (pn_Vlan pn) else ds_DirectNodeSelector (pn_Direct pn))"

lemma fold_ALL: "strings_EqualFold s ''ALL'' \<Longrightarrow> \<not> strings_EqualFold s ''SPECIFIC''"
proof -
  assume "strings_EqualFold s ''ALL''"
  then have "strings_ToLower (fold_runes s) = ''all''" by (simp add: strings_EqualFold_def) code_simp
  moreover have "strings_ToLower ''SPECIFIC'' = ''specific''" by code_simp
  ultimately show ?thesis by (simp add: strings_EqualFold_def)
qed

lemma fold_ANY: "strings_EqualFold s ''ANY'' \<Longrightarrow> \<not> strings_EqualFold s ''ALL'' \<and> \<not> strings_EqualFold s ''SPECIFIC''"
proof -
  assume "strings_EqualFold s ''ANY''"
  then have "strings_ToLower (fold_runes s) = ''any''" by (simp add: strings_EqualFold_def) code_simp
  moreover have "strings_ToLower ''ALL'' = ''all''" "strings_ToLower ''SPECIFIC'' = ''specific''" by code_simp+
  ultimately show ?thesis by (simp add: strings_EqualFold_def)
qed

text \<open>
  C19.  A provider network announced for one node reaches only that node: unless the network is to
  be placed on any node, everything sent goes out on the stream of the node named, and is the
  message for that network.
\<close>

theorem SendNotif_addressee:
  assumes "n \<noteq> []" and "\<not> strings_EqualFold (selector_of pn) ''ANY''" and "clientList w = Some cl"
    and "SendNotif E pn t n w = Some (r, w')" and "StreamSend st m \<in> set (new_events w w')"
  shows "\<exists>c. map_of cl n = Some c \<and> cl_stream c = Some st \<and> m = notif_of pn t"
proof -
  let ?e = "StreamSend st m"
  have sel: "sends_only (cl_stream (GetClient cl n)) msg ?e"
    if "sendSelected E pn msg s ls n w = Some (r, w')" and "\<not> strings_EqualFold s ''ANY''" for msg s ls
    using that assms(1,3,5) by (auto simp: sendSelected_def new_events_def split: if_splits
        dest: sendMsg_addressee [where e = ?e, rotated 3])
  have "sends_only (cl_stream (GetClient cl n)) (notif_of pn t) ?e"
    using assms(2,4,5) sel unfolding SendNotif_def notif_of_def selector_of_def
    by (auto simp: new_events_def split: if_splits)
  then show ?thesis by (auto simp: GetClient_def split: option.splits)
qed

definition two_clients :: "(string, client) gomap" where
  "two_clients = [(''n1'', \<lparr>cl_node = ''n1'', cl_stream = Some 1\<rparr>), (''n2'', \<lparr>cl_node = ''n2'', cl_stream = Some 2\<rparr>)]"

definition server_world :: world where
  "server_world = exec_world\<lparr>clientList := Some two_clients\<rparr>"

definition demo_provider :: "string \<Rightarrow> ProviderNetwork" where
  "demo_provider selector = \<lparr>pn_Meta = \<lparr>om_Name = ''pnet'', om_Namespace = ''default'', om_Labels = None, om_Annotations = [],
       om_Finalizers = [], om_Deleting = False, om_Generation = 1\<rparr>, pn_CniType = ''ovn4nfv'', pn_Ipv4Subnets = [], pn_Ipv6Subnets = [],
     pn_ProviderNetType = ''VLAN'',
     pn_Vlan = \<lparr>vs_VlanId = ''100'', vs_VlanNodeSelector = selector, vs_NodeLabelList = [''a=b''], vs_ProviderInterfaceName = ''eth0'',
       vs_LogicalInterfaceName = ''eth0.100''\<rparr>,
     pn_Direct = \<lparr>ds_DirectNodeSelector = [], ds_NodeLabelList = [], ds_ProviderInterfaceName = []\<rparr>, pn_State = []\<rparr>"

theorem SendNotif_addressee_witness:
  "\<exists>w'. SendNotif null_env (demo_provider ''all'') ''create'' ''n2'' server_world = Some (None, w') \<and>
     new_events server_world w' = [StreamSend 2 (notif_of (demo_provider ''all'') ''create'')]"
proof -
  let ?pn = "demo_provider ''all''"
  have f: "\<not> strings_EqualFold (selector_of ?pn) ''ANY''" by code_simp
  have "(case SendNotif null_env ?pn ''create'' ''n2'' server_world of
      Some (None, w') \<Rightarrow> new_events server_world w' = [StreamSend 2 (createVlanMsg ?pn)] | _ \<Rightarrow> False)" by code_simp
  then obtain w' where w': "SendNotif null_env ?pn ''create'' ''n2'' server_world = Some (None, w')"
    and e: "new_events server_world w' = [StreamSend 2 (createVlanMsg ?pn)]" by (auto split: option.splits prod.splits)
  have cl: "clientList server_world = Some two_clients" by (simp add: server_world_def)
  have "StreamSend 2 (createVlanMsg ?pn) \<in> set (new_events server_world w')" by (simp add: e)
  from SendNotif_addressee [OF _ f cl w' this] e w' show ?thesis by auto
qed

text \<open>The streams a message to all clients goes out on, in the order the map is visited.\<close>

definition open_streams :: "(string, client) gomap \<Rightarrow> string list \<Rightarrow> nat list" where
  "open_streams cl names = List.map_filter (\<lambda>n. cl_stream (GetClient cl n)) names"

lemma sendTo_run:
  "\<exists>r. sendTo E msg c w = Some (r, w\<lparr>trace := trace w @ map (\<lambda>st. StreamSend st msg) (case cl_stream c of None \<Rightarrow> [] | Some st \<Rightarrow> [st])\<rparr>)"
  by (auto simp: sendTo_def stream_Send_def kube_write_def request_def split: option.splits)

lemma forall_sendTo:
  "forall (\<lambda>name. sendTo E msg (GetClient cl name)) names w =
     Some ((), w\<lparr>trace := trace w @ map (\<lambda>st. StreamSend st msg) (open_streams cl names)\<rparr>)"
proof (induction names arbitrary: w)
  case Nil
  then show ?case by (simp add: open_streams_def List.map_filter_def)
next
  case (Cons n ns)
  obtain r where "sendTo E msg (GetClient cl n) w = Some (r, w\<lparr>trace := trace w @
      map (\<lambda>st. StreamSend st msg) (case cl_stream (GetClient cl n) of None \<Rightarrow> [] | Some st \<Rightarrow> [st])\<rparr>)"
    using sendTo_run by blast
  with Cons show ?case by (simp add: open_streams_def map_filter_simps split: option.splits)
qed

text \<open>
  A message to all nodes is sent exactly once on every open stream, whatever the order in
  which the clients are visited and whichever sends fail, and is reported as a success.
\<close>

theorem sendMsg_all_broadcasts:
  assumes "clientList w = Some cl" and "ranges_all E" and "map_ok cl"
  shows "\<exists>sts. sendMsg E msg labels ''all'' [] w = Some (None, w\<lparr>trace := trace w @ map (\<lambda>st. StreamSend st msg) sts\<rparr>) \<and>
     mset sts = mset (List.map_filter (\<lambda>(n, c). cl_stream c) cl)"
proof -
  let ?names = "env_rangeOrder E (trace w) (map_keys cl)"
  have "mset (open_streams cl ?names) = mset (open_streams cl (map_keys cl))"
    using assms(2) unfolding open_streams_def ranges_all_def List.map_filter_def by (simp add: mset_filter)
  also have "open_streams cl (map_keys cl) = List.map_filter (\<lambda>(n, c). cl_stream c) cl"
  proof -
    have "GetClient cl n = c" if "(n, c) \<in> set cl" for n c
      using that assms(3) by (simp add: GetClient_def map_ok_def)
    then have "GetClient cl (fst p) = snd p" if "p \<in> set cl" for p
      using that by (metis prod.collapse)
    then show ?thesis unfolding open_streams_def map_keys_def List.map_filter_def
      by (auto simp: filter_map comp_def split_def intro!: map_cong filter_cong)
  qed
  finally show ?thesis using assms(1) forall_sendTo [of E msg cl ?names w]
    by (intro exI [of _ "open_streams cl ?names"]) (simp add: sendMsg_def forall_sendToNode)
qed

theorem sendMsg_all_broadcasts_witness:
  "\<exists>sts. sendMsg null_env empty_Notification [] ''all'' [] server_world = Some (None, server_world\<lparr>trace := trace server_world @ map (\<lambda>st. StreamSend st empty_Notification) sts\<rparr>) \<and>
     mset sts = {#1, 2#}"
proof -
  have "clientList server_world = Some two_clients" by (simp add: server_world_def)
  moreover have "ranges_all null_env" by (simp add: ranges_all_def null_env_def)
  moreover have "map_ok two_clients" by (simp add: map_ok_def two_clients_def)
  ultimately show ?thesis using sendMsg_all_broadcasts [of server_world two_clients null_env empty_Notification "[]"]
    by (simp add: two_clients_def map_filter_simps)
qed

text \<open>
  When the nodes with the labels of a provider network cannot be listed, announcing the
  network never returns: the iterator hands out a nil channel and the loop over it blocks.
\<close>

theorem SendNotif_unlistable_blocks:
  assumes "pn_CniType pn = ovn4nfv" and "pn_ProviderNetType pn = ''VLAN''"
    and "strings_EqualFold (vs_VlanNodeSelector (pn_Vlan pn)) ''SPECIFIC''"
    and "env_listNodes E (trace w) (strings_Join (vs_NodeLabelList (pn_Vlan pn)) '','') = Inl err"
  shows "SendNotif E pn t n w = None"
proof -
  have "\<not> list_ex (\<lambda>label. length (strings_Split label (CHR ''='')) = 0) (vs_NodeLabelList (pn_Vlan pn))"
    by (simp add: list_ex_iff)
  moreover have "sendMsg E msg (strings_Join (vs_NodeLabelList (pn_Vlan pn)) '','') ''specific'' n w = None" for msg
    using assms(4) by (cases "clientList w") (simp_all add: sendMsg_def nodeListIterator_def)
  ultimately show ?thesis using assms(1-3) by (simp add: SendNotif_def sendSelected_def)
qed

theorem SendNotif_unlistable_blocks_witness:
  "SendNotif (null_env\<lparr>env_listNodes := (\<lambda>h l. Inl (ExtErr ''timeout''))\<rparr>) (demo_provider ''specific'') ''create'' [] server_world = None"
  by (rule SendNotif_unlistable_blocks [where err = "ExtErr ''timeout''"]) (simp_all add: demo_provider_def ovn4nfv_def, code_simp)

text \<open>
  The choice of any node ignores the node asked for: the message goes to the first open
  stream in the order the client map happens to be visited, also when it was meant for a node that
  has just subscribed.
\<close>

theorem sendMsg_any_first:
  assumes "clientList w = Some cl" and "open_streams cl (env_rangeOrder E (trace w) (map_keys cl)) = st # sts"
  shows "sendMsg E msg labels ''any'' n w = Some (env_write E (trace w) (StreamSend st msg), w\<lparr>trace := trace w @ [StreamSend st msg]\<rparr>)"
proof -
  have "sendAny E msg cl names w = Some (env_write E (trace w) (StreamSend st msg), w\<lparr>trace := trace w @ [StreamSend st msg]\<rparr>)"
    if "open_streams cl names = st # sts" for names
    using that by (induction names)
      (auto simp: open_streams_def map_filter_simps stream_Send_def kube_write_def request_def split: option.splits)
  with assms show ?thesis by (simp add: sendMsg_def)
qed

theorem sendMsg_any_first_witness:
  "\<exists>w'. sendMsg null_env empty_Notification [] ''any'' ''n2'' server_world = Some (None, w') \<and> new_events server_world w' = [StreamSend 1 empty_Notification]"
proof -
  have "clientList server_world = Some two_clients" by (simp add: server_world_def)
  moreover have "open_streams two_clients (env_rangeOrder null_env (trace server_world) (map_keys two_clients)) = [1, 2]"
    by (simp add: null_env_def two_clients_def map_keys_def open_streams_def map_filter_simps GetClient_def)
  ultimately show ?thesis using sendMsg_any_first [of server_world two_clients null_env 1 "[2]" empty_Notification "[]" "''n2''"]
    by (simp add: null_env_def new_events_def)
qed

section \<open>Subscription\<close>

fun is_insync :: "event \<Rightarrow> bool" where
  "is_insync (StreamSend st \<lparr>nt_CniType = c, nt_Payload = Some (Notification_InSync i)\<rparr>) = True"
| "is_insync e = False"

lemma not_insync [simp]:
  "\<not> is_insync (StreamSend st (createVlanMsg pn))" "\<not> is_insync (StreamSend st (deleteVlanMsg pn))"
  "\<not> is_insync (StreamSend st (createDirectMsg pn))" "\<not> is_insync (StreamSend st (deleteDirectMsg pn))"
  "\<not> is_insync (StreamSend st empty_Notification)" "is_insync (StreamSend st (inSyncMsg ip mac ip6))"
  "nbctl args e \<Longrightarrow> \<not> is_insync e"
  by (auto simp: createVlanMsg_def deleteVlanMsg_def createDirectMsg_def deleteDirectMsg_def empty_Notification_def inSyncMsg_def nbctl_def)

lemma sendMsg_sends:
  assumes "\<And>st. P (StreamSend st msg)" and "\<And>l. P (KubeList KNode [] l)"
  shows "emits P (sendMsg E msg labels opt n)"
proof -
  have any: "emits P (sendAny E msg cl names)" for cl names
  proof (induction names)
    case (Cons m ns)
    have "emits P (\<lambda>w. case cl_stream (GetClient cl m) of None \<Rightarrow> sendAny E msg cl ns w | Some st \<Rightarrow> stream_Send E st msg w)"
      unfolding stream_Send_def by (intro emits_intros Cons assms)
    then show ?case by (simp add: emits_def)
  qed (simp add: emits_def)
  have node: "emits P (sendToNode E msg n name)" for name
    unfolding sendToNode_def [abs_def] sendTo_def stream_Send_def
    by (rule emits_read [where g = clientList]) (intro emits_intros assms)
  show ?thesis unfolding sendMsg_def [abs_def] nodeListIterator_def
    by (rule emits_read [where g = clientList]) (intro emits_intros any node assms)
qed

lemma SendNotif_no_insync: "emits (\<lambda>e. \<not> is_insync e) (SendNotif E pn t n)"
  unfolding SendNotif_def [abs_def] sendSelected_def updatePnStatus_def
  by (intro emits_intros sendMsg_sends) simp_all

lemma emits_update: "(\<And>w. trace (f w) = trace w) \<Longrightarrow> emits P (\<lambda>w. Some (g, f w))"
  by (simp add: emits_def)

lemma getGatewayFromSwitch_emits: "emits any_nbctl (getGatewayFromSwitch E ls)"
  unfolding getGatewayFromSwitch_def [abs_def]
  by (rule emits_read [where g = gatewayCache]) (intro emits_intros emits_update; auto simp: any_nbctl_def)

lemma pollAddresses_emits: "emits any_nbctl (pollAddresses E c p n)"
proof (induction n)
  case (Suc n)
  have "emits any_nbctl (\<lambda>w. do {
     ((out, stderr, err), w) \<leftarrow> RunOVNNbctl E [''get'', ''logical_switch_port'', p, c] w;
     (case err of
        None \<Rightarrow> if out \<noteq> ''[]'' then Some (Found out, w) else pollAddresses E c p n w
      | Some e \<Rightarrow> Some (PollErr e, w)) })"
    by (intro emits_intros Suc) (auto simp: any_nbctl_def)
  then show ?case by (simp add: emits_def)
qed (simp add: emits_def)

lemma emits_case_poll [emits_intros]:
  "(\<And>x. p = Found x \<Longrightarrow> emits P (a x)) \<Longrightarrow> (\<And>e. p = PollErr e \<Longrightarrow> emits P (b e)) \<Longrightarrow> (p = TimedOut \<Longrightarrow> emits P c) \<Longrightarrow>
    emits P (\<lambda>w. case p of Found x \<Rightarrow> a x w | PollErr e \<Rightarrow> b e w | TimedOut \<Rightarrow> c w)"
  by (cases p) simp_all

lemma emits_bind4 [emits_intros]:
  assumes "emits P m" and "\<And>a b c d. emits P (f a b c d)"
  shows "emits P (\<lambda>w. Option.bind (m w) (\<lambda>((a, b, c, d), w). f a b c d w))"
  using emits_bind [OF assms(1), of "\<lambda>p. f (fst p) (fst (snd p)) (fst (snd (snd p))) (snd (snd (snd p)))"] assms(2)
  by (simp add: split_def)

lemma emits_case_two [emits_intros]:
  "(\<And>a b xs. x = a # b # xs \<Longrightarrow> emits P (f a b xs)) \<Longrightarrow> emits P g \<Longrightarrow>
    emits P (\<lambda>w. case x of [] \<Rightarrow> g w | [a] \<Rightarrow> g w | a # b # xs \<Rightarrow> f a b xs w)"
  by (auto simp: emits_def split: list.splits)

lemma AddNodeLogicalPorts_emits: "emits any_nbctl (AddNodeLogicalPorts E node)"
  unfolding AddNodeLogicalPorts_def [abs_def] addNodeLogicalPortWithSwitch_def
  by (intro emits_intros pollAddresses_emits getGatewayFromSwitch_emits; auto simp: any_nbctl_def)

lemma getGatewayFromSwitch_clients: "getGatewayFromSwitch E ls w = Some (r, w') \<Longrightarrow> clientList w' = clientList w"
  by (auto simp: getGatewayFromSwitch_def run_conv dest!: frame_fields(4) [OF RunOVNNbctl_frame])

lemma case_poll_run [run_conv]: "(case p of Found x \<Rightarrow> A x | PollErr e \<Rightarrow> B e | TimedOut \<Rightarrow> C) = Some y \<longleftrightarrow>
    (\<exists>x. p = Found x \<and> A x = Some y) \<or> (\<exists>e. p = PollErr e \<and> B e = Some y) \<or> (p = TimedOut \<and> C = Some y)"
  by (cases p) simp_all

lemma AddNodeLogicalPorts_clients:
  "AddNodeLogicalPorts E node w = Some (r, w') \<Longrightarrow> clientList w' = clientList w"
  by (auto simp: AddNodeLogicalPorts_def addNodeLogicalPortWithSwitch_def run_conv
      dest!: frame_fields(4) [OF RunOVNNbctl_frame] frame_fields(4) [OF pollAddresses_frame] getGatewayFromSwitch_clients)

lemma Subscribe_run:
  assumes "Subscribe E node ss w = Some (Inr (), w')" and "\<And>pn. emits P (SendNotif E pn ''create'' node)"
    and "\<And>e. any_nbctl e \<Longrightarrow> P e" and "P (KubeList KProviderNetwork ''default'' [])"
  shows "\<exists>es ip mac ip6 cl. trace w' = trace w @ es @ [StreamSend ss (inSyncMsg ip mac ip6)] \<and> (\<forall>e \<in> set es. P e) \<and>
     clientList w = Some cl \<and> clientList w' = Some (map_put node \<lparr>cl_node = node, cl_stream = Some ss\<rparr> cl)"
proof -
  from assms(1) obtain mac ip ip6 w1 where n: "node_AddNodeLogicalPorts E node w = Some ((mac, ip, ip6, None), w1)"
    by (auto simp: Subscribe_def run_conv)
  then obtain cl where cl: "clientList w1 = Some cl" using assms(1) by (auto simp: Subscribe_def run_conv)
  let ?w2 = "w1\<lparr>clientList := Some (map_put node \<lparr>cl_node = node, cl_stream = Some ss\<rparr> cl),
    trace := trace w1 @ [KubeList KProviderNetwork ''default'' []]\<rparr>"
  obtain pns w3 where l: "forall (\<lambda>pn. SendNotif E pn ''create'' node) pns ?w2 = Some ((), w3)"
    and w': "w' = w3\<lparr>trace := trace w3 @ [StreamSend ss (inSyncMsg ip mac ip6)]\<rparr>"
    using assms(1) n cl by (auto simp: Subscribe_def stream_Send_def kube_write_def run_conv Let_def intro: that [of "[]"])
  from n have a: "AddNodeLogicalPorts E node w = Some ((ip, ip6, mac, None), w1)"
    by (auto simp: node_AddNodeLogicalPorts_def run_conv)
  from emitsD [OF AddNodeLogicalPorts_emits a] obtain es1 where
    es1: "trace w1 = trace w @ es1" "\<forall>e \<in> set es1. any_nbctl e" by blast
  from emitsD [OF emits_forall [OF assms(2)] l] obtain es2 where es2: "trace w3 = trace ?w2 @ es2" "\<forall>e \<in> set es2. P e" by blast
  have "frame (forall (\<lambda>pn. SendNotif E pn ''create'' node) pns)" by (intro frame_intros)
  from frame_fields(4) [OF this l] have c: "clientList w3 = clientList ?w2" .
  have "trace w' = trace w @ (es1 @ [KubeList KProviderNetwork ''default'' []] @ es2) @ [StreamSend ss (inSyncMsg ip mac ip6)]"
    using es1(1) es2(1) w' by simp
  moreover have "\<forall>e \<in> set (es1 @ [KubeList KProviderNetwork ''default'' []] @ es2). P e" using es1(2) es2(2) assms(3,4) by auto
  moreover have "clientList w' = Some (map_put node \<lparr>cl_node = node, cl_stream = Some ss\<rparr> cl)" using c w' by simp
  moreover have "clientList w = Some cl" using AddNodeLogicalPorts_clients [OF a] cl by simp
  ultimately show ?thesis by blast
qed

text \<open>
  C20.  A subscription that completes has registered the node's stream, keeping every other
  client, and its last message, on that stream, is the only synchronisation message: everything
  about the existing provider networks is sent before it.
\<close>

theorem Subscribe_insync_last:
  assumes "Subscribe E node ss w = Some (Inr (), w')"
  shows "\<exists>es ip mac ip6 cl. trace w' = trace w @ es @ [StreamSend ss (inSyncMsg ip mac ip6)] \<and> (\<forall>e \<in> set es. \<not> is_insync e) \<and>
     clientList w = Some cl \<and> clientList w' = Some (map_put node \<lparr>cl_node = node, cl_stream = Some ss\<rparr> cl)"
  by (rule Subscribe_run [OF assms]) (auto intro: SendNotif_no_insync simp: any_nbctl_def)

definition ready_world :: world where
  "ready_world = server_world\<lparr>gatewayCache := Some []\<rparr>"

definition ready_env :: env where
  "ready_env = null_env\<lparr>env_exec := (\<lambda>h c args. (''[]'', [], None)), env_listProviders := (\<lambda>h. Inr [demo_provider ''all''])\<rparr>"

lemma sendMsg_all_returns:
  assumes "clientList w = Some cl"
  shows "sendMsg E msg labels ''all'' n w \<noteq> None"
proof -
  have "(if b then Some (None, w) else sendTo E m c w) \<noteq> None" for b m c w
    by (auto simp: sendTo_def stream_Send_def kube_write_def request_def split: option.splits)
  then have "forall (\<lambda>name w. if n \<noteq> [] \<and> n \<noteq> name then Some (None, w) else sendTo E msg (GetClient cl name) w)
      (env_rangeOrder E (trace w) (map_keys cl)) w \<noteq> None" by (intro forall_total)
  with assms show ?thesis by (auto simp: sendMsg_def forall_sendToNode simp del: not_None_eq dest!: not_None_eq [THEN iffD1])
qed

lemma ready_subscribes: "\<exists>w'. Subscribe ready_env ''n3'' 3 ready_world = Some (Inr (), w')"
proof -
  obtain r where r: "runner ready_world = Some r" by (simp add: ready_world_def server_world_def exec_world_def)
  have "trimOutput ''[]'' = ''[]''" by code_simp
  then have "\<exists>out se. env_exec ready_env h (eh_nbctlPath r) args = (out, se, None) \<and> trimOutput out = ''[]''" for h args
    by (simp add: ready_env_def)
  from AddNodeLogicalPorts_unanswered [OF r this] obtain es where
    n: "AddNodeLogicalPorts ready_env ''n3'' ready_world = Some (([], [], [], None), ready_world\<lparr>trace := trace ready_world @ es\<rparr>)" by blast
  have "SendNotif ready_env (demo_provider ''all'') ''create'' ''n3'' w \<noteq> None" if "clientList w = Some cl" for w cl
  proof -
    have sel: "vs_VlanNodeSelector (pn_Vlan (demo_provider ''all'')) = ''all''" "pn_CniType (demo_provider ''all'') = ovn4nfv"
      "pn_ProviderNetType (demo_provider ''all'') = ''VLAN''" by (simp_all add: demo_provider_def ovn4nfv_def)
    have "\<not> strings_EqualFold ''all'' ''SPECIFIC''" "strings_EqualFold ''all'' ''ALL''" by code_simp+
    with sendMsg_all_returns [OF that] show ?thesis by (simp add: SendNotif_def sendSelected_def sel)
  qed
  then obtain a w2 where "SendNotif ready_env (demo_provider ''all'') ''create'' ''n3'' (ready_world
       \<lparr>clientList := Some (map_put ''n3'' \<lparr>cl_node = ''n3'', cl_stream = Some 3\<rparr> two_clients),
        trace := trace ready_world @ es @ [KubeList KProviderNetwork ''default'' []]\<rparr>) = Some (a, w2)"
    by fastforce
  moreover have "gatewayCache ready_world = Some []" "clientList ready_world = Some two_clients"
    by (simp_all add: ready_world_def server_world_def)
  moreover have "env_listProviders ready_env h = Inr [demo_provider ''all'']" for h by (simp add: ready_env_def)
  ultimately show ?thesis using n
    by (simp add: Subscribe_def node_AddNodeLogicalPorts_def GetOvnController_def stream_Send_def kube_write_def Let_def)
qed

theorem Subscribe_insync_last_witness:
  "\<exists>w' es ip mac ip6. Subscribe ready_env ''n3'' 3 ready_world = Some (Inr (), w') \<and>
     trace w' = trace ready_world @ es @ [StreamSend 3 (inSyncMsg ip mac ip6)]"
  using ready_subscribes Subscribe_insync_last by blast

section \<open>The four senders of routes and pod networks\<close>

text \<open>
  What the four operations share: each element gives a message for one node, sent in order until a
  send fails.  The locale proves once that what has been sent is a prefix of the messages the list
  asks for, and all of them when no error is returned.
\<close>

definition deliveries :: "('x \<Rightarrow> payload) \<Rightarrow> ('x \<Rightarrow> string) \<Rightarrow> (string, client) gomap \<Rightarrow> 'x list \<Rightarrow> event list" where
  "deliveries pay node cl xs = concat (map (\<lambda>x. case cl_stream (GetClient cl (node x)) of
     None \<Rightarrow> [] | Some st \<Rightarrow> [StreamSend st \<lparr>nt_CniType = ovn4nfv, nt_Payload = Some (pay x)\<rparr>]) xs)"

lemma deliveries_simps [simp]:
  "deliveries pay node cl [] = []"
  "deliveries pay node cl (x # xs) = (case cl_stream (GetClient cl (node x)) of
     None \<Rightarrow> [] | Some st \<Rightarrow> [StreamSend st \<lparr>nt_CniType = ovn4nfv, nt_Payload = Some (pay x)\<rparr>]) @ deliveries pay node cl xs"
  by (simp_all add: deliveries_def)

locale notifier =
  fixes send :: "env \<Rightarrow> 'x list \<Rightarrow> (world, error option) prog" and pay :: "'x \<Rightarrow> payload" and node :: "'x \<Rightarrow> string"
  assumes send_each: "send E xs = notifyEach E pay node True xs"
begin

lemma send_simps [simp]:
  "send E [] w = Some (None, w)"
  "clientList w = Some cl \<Longrightarrow> send E (x # xs) w =
     (case cl_stream (GetClient cl (node x)) of
        None \<Rightarrow> send E xs w
      | Some st \<Rightarrow> let e = StreamSend st \<lparr>nt_CniType = ovn4nfv, nt_Payload = Some (pay x)\<rparr>; w' = w\<lparr>trace := trace w @ [e]\<rparr> in
          case env_write E (trace w) e of None \<Rightarrow> send E xs w' | Some err \<Rightarrow> Some (Some err, w'))"
  by (auto simp: send_each notifyEach_def sendTo_def stream_Send_def kube_write_def request_def split: option.splits)

lemma send_prefix:
  assumes "clientList w = Some cl" and "send E xs w = Some (r, w')"
  shows "\<exists>es. w' = w\<lparr>trace := trace w @ es\<rparr> \<and> prefix es (deliveries pay node cl xs) \<and> (r = None \<longrightarrow> es = deliveries pay node cl xs)"
  using assms
proof (induction xs arbitrary: w)
  case (Cons x xs)
  show ?case
  proof (cases "cl_stream (GetClient cl (node x))")
    case None
    with Cons show ?thesis by simp
  next
    case (Some st)
    let ?e = "StreamSend st \<lparr>nt_CniType = ovn4nfv, nt_Payload = Some (pay x)\<rparr>"
    let ?w = "w\<lparr>trace := trace w @ [?e]\<rparr>"
    show ?thesis
    proof (cases "env_write E (trace w) ?e")
      case None
      with Some Cons.prems have "send E xs ?w = Some (r, w')" "clientList ?w = Some cl" by (simp_all add: Let_def)
      from Cons.IH [OF this(2,1)] obtain es where "w' = ?w\<lparr>trace := trace ?w @ es\<rparr>" "prefix es (deliveries pay node cl xs)"
        "r = None \<longrightarrow> es = deliveries pay node cl xs" by blast
      with Some show ?thesis by (intro exI [of _ "?e # es"]) simp
    next
      case (Some err)
      with \<open>cl_stream (GetClient cl (node x)) = Some st\<close> Cons.prems show ?thesis
        by (intro exI [of _ "[?e]"]) (auto simp: Let_def)
    qed
  qed
qed (simp add: exI [of _ "[]"])

lemma send_total: "clientList w = Some cl \<Longrightarrow> send E xs w \<noteq> None"
proof (induction xs arbitrary: w)
  case (Cons x xs)
  then show ?case by (auto simp: Let_def split: option.splits)
qed simp

end

interpretation routeInsert: notifier "\<lambda>E xs. SendRouteNotif E xs ''create''" "\<lambda>r. Notification_ContainterRtInsert (chainRoutes r)" ri_Node
  by unfold_locales (simp add: senders_each)

interpretation routeRemove: notifier "\<lambda>E xs. SendDeleteRouteNotif E xs ''delete''" "\<lambda>r. Notification_ContainterRtRemove (chainRoutes r)" ri_Node
  by unfold_locales (simp add: senders_each)

interpretation podAdd: notifier "\<lambda>E xs. SendPodNetworkNotif E xs ''create''" "\<lambda>p. Notification_PodAddNetwork (podNetwork p)" pi_Node
  by unfold_locales (simp add: senders_each)

interpretation podDel: notifier "\<lambda>E xs. SendDeletePodNetworkNotif E xs ''delete''" "\<lambda>p. Notification_PodDelNetwork (podNetwork p)" pi_Node
  by unfold_locales (simp add: senders_each)

text \<open>Turning an insertion into the removal of the same routes.\<close>

fun removal :: "event \<Rightarrow> event" where
  "removal (StreamSend st \<lparr>nt_CniType = c, nt_Payload = Some (Notification_ContainterRtInsert r)\<rparr>) =
     StreamSend st \<lparr>nt_CniType = c, nt_Payload = Some (Notification_ContainterRtRemove r)\<rparr>"
| "removal e = e"

lemma deliveries_removal:
  "deliveries (\<lambda>r. Notification_ContainterRtRemove (chainRoutes r)) ri_Node cl ris =
     map removal (deliveries (\<lambda>r. Notification_ContainterRtInsert (chainRoutes r)) ri_Node cl ris)"
  by (induction ris) (auto split: option.splits)

text \<open>
  C21.  Announcing routes and withdrawing them are equivalent up to the kind of message: when both
  calls report success for the same routing information and the same clients, the withdrawal sent
  exactly the removal of every route message of the announcement, to the same streams, in the same
  order.
\<close>

theorem SendDeleteRouteNotif_mirrors_create:
  assumes "clientList v = Some cl" and "SendRouteNotif E ris ''create'' v = Some (None, v')"
    and "clientList w = Some cl" and "SendDeleteRouteNotif E' ris ''delete'' w = Some (None, w')"
  shows "new_events w w' = map removal (new_events v v')"
  using routeInsert.send_prefix [OF assms(1,2)] routeRemove.send_prefix [OF assms(3,4)]
  by (auto simp: new_events_def deliveries_removal)

definition demo_routing :: RoutingInfo where
  "demo_routing = \<lparr>ri_Name = ''ngfw'', ri_Namespace = ''default'', ri_Id = ''c1'', ri_Node = ''n2'',
     ri_LeftNetworkRoute = [\<lparr>rt_Dst = ''172.30.10.0/24'', rt_GW = ''172.30.16.3''\<rparr>], ri_RightNetworkRoute = [],
     ri_DynamicNetworkRoutes = [\<lparr>rt_Dst = ''0.0.0.0'', rt_GW = ''172.30.17.3''\<rparr>]\<rparr>"

theorem SendDeleteRouteNotif_mirrors_create_witness:
  "\<exists>v' w'. SendRouteNotif null_env [demo_routing] ''create'' server_world = Some (None, v') \<and>
     SendDeleteRouteNotif null_env [demo_routing] ''delete'' server_world = Some (None, w') \<and>
     new_events server_world w' = map removal (new_events server_world v')"
proof -
  have cl: "clientList server_world = Some two_clients" by (simp add: server_world_def)
  have ok: "env_write null_env h e = None" for h e by (simp add: null_env_def)
  have st: "cl_stream (GetClient two_clients (ri_Node demo_routing)) = Some 2"
    by (simp add: GetClient_def two_clients_def demo_routing_def)
  obtain v' where v': "SendRouteNotif null_env [demo_routing] ''create'' server_world = Some (None, v')"
    by (simp add: routeInsert.send_simps(2) [OF cl] ok st Let_def)
  obtain w' where w': "SendDeleteRouteNotif null_env [demo_routing] ''delete'' server_world = Some (None, w')"
    by (simp add: routeRemove.send_simps(2) [OF cl] ok st Let_def)
  from SendDeleteRouteNotif_mirrors_create [OF cl v' cl w'] v' w' show ?thesis by blast
qed

text \<open>The withdrawal of a network for any node is not sent once the network has been announced.\<close>

lemma SendNotif_any_delete_silent:
  assumes "pn_CniType pn = ''ovn4nfv''" and "pn_ProviderNetType pn = ''VLAN'' \<or> pn_ProviderNetType pn = ''DIRECT''"
    and "strings_EqualFold (selector_of pn) ''ANY''" and "pn_State pn = Created"
  shows "SendNotif E pn ''delete'' nodeReq w = Some (None, w)"
  using assms fold_ANY [OF assms(3)] by (auto simp: SendNotif_def sendSelected_def selector_of_def ovn4nfv_def)

end
