(* ===== verification/Nfn_Agent.thy ===== *)
theory Nfn_Agent
  imports Container_Chain Notify_Server
begin

text \<open>
  \<^verbatim>\<open>cmd/nfn-agent/nfn-agent.go\<close>: the agent of a node, which handles the notifications of
  the operator.  Its state is \<open>inSync\<close> and \<open>pnCreateStore\<close> of the world: until the first
  synchronisation message the provider networks it is told of are only stored.
\<close>

section \<open>Provider networks\<close>

text \<open>The getters of the generated messages: a nil pointer has empty fields.\<close>

definition vlanOf :: "ProviderNetworkCreate \<Rightarrow> VlanInfo" where
  "vlanOf p = (case pc_Vlan p of Some v \<Rightarrow> v | None \<Rightarrow> \<lparr>vi_VlanId = [], vi_ProviderIntf = [], vi_LogicalIntf = []\<rparr>)"

definition directOf :: "ProviderNetworkCreate \<Rightarrow> DirectInfo" where
  "directOf p = (case pc_Direct p of Some d \<Rightarrow> d | None \<Rightarrow> \<lparr>di_ProviderIntf = []\<rparr>)"

definition createVlanProvidernetwork :: "env \<Rightarrow> ProviderNetworkCreate \<Rightarrow> (world, error option) prog" where
  "createVlanProvidernetwork E payload w =
     (let vlanID = vi_VlanId (vlanOf payload); pn = vi_ProviderIntf (vlanOf payload); name = pc_ProviderNwName payload;
          ln = (if vi_LogicalIntf (vlanOf payload) = [] then name @ ''.'' @ vlanID else vi_LogicalIntf (vlanOf payload))
      in do {
        (err, w) \<leftarrow> CreateVlan E vlanID pn ln w;
        (if err \<noteq> None then Some (err, w) else CreatePnBridge E (''nw_'' @ name) (''br-'' @ name) ln w) })"

definition createDirectProvidernetwork :: "env \<Rightarrow> ProviderNetworkCreate \<Rightarrow> (world, error option) prog" where
  "createDirectProvidernetwork E payload =
     (let name = pc_ProviderNwName payload in CreatePnBridge E (''nw_'' @ name) (''br-'' @ name) (di_ProviderIntf (directOf payload)))"

text \<open>Both deletions have the same text.\<close>

definition deleteVlanProvidernetwork :: "env \<Rightarrow> ProviderNetworkRemove \<Rightarrow> (world, unit) prog" where
  "deleteVlanProvidernetwork E payload w = do {
     (u, w) \<leftarrow> DeleteVlan E (pr_VlanLogicalIntf payload) w;
     (u, w) \<leftarrow> DeletePnBridge E (''nw_'' @ pr_ProviderNwName payload) (''br-'' @ pr_ProviderNwName payload) w;
     Some ((), w)
   }"

definition deleteDirectProvidernetwork :: "env \<Rightarrow> ProviderNetworkRemove \<Rightarrow> (world, unit) prog" where
  "deleteDirectProvidernetwork E payload w = do {
     (u, w) \<leftarrow> DeleteVlan E (pr_VlanLogicalIntf payload) w;
     (u, w) \<leftarrow> DeletePnBridge E (''nw_'' @ pr_ProviderNwName payload) (''br-'' @ pr_ProviderNwName payload) w;
     Some ((), w)
   }"

section \<open>Synchronisation\<close>

text \<open>
  The first loop, over the stored networks; its state is the set of links found, \<^verbatim>\<open>diffVlan\<close>.
  The networks that have a VLAN are the ones passed over.
\<close>

definition syncVlan :: "env \<Rightarrow> string list \<Rightarrow> ProviderNetworkCreate \<Rightarrow> string list \<Rightarrow> (world, string list + unit) prog" where
  "syncVlan E vlanList p diffVlan w =
     (if pc_Vlan p \<noteq> None then Some (Inl diffVlan, w)
      else let v = vlanOf p; ln = (if vi_LogicalIntf v = [] then vi_ProviderIntf v @ ''.'' @ vi_VlanId v else vi_LogicalIntf v)
        in if ln \<in> set vlanList then Some (Inl (ln # diffVlan), w)
           else do {
             (err, w) \<leftarrow> CreateVlan E (vi_VlanId v) (vi_ProviderIntf v) ln w;
             (if err \<noteq> None then Some (Inr (), w) else Some (Inl diffVlan, w)) })"

text \<open>The loop over the stored networks that looks for their bridges.\<close>

definition bridgeFor :: "string list \<Rightarrow> string \<Rightarrow> string option" where
  "bridgeFor pnBridgeList name = find (\<lambda>br. name = strings_ReplaceAll br ''br-'' []) pnBridgeList"

definition syncBridge ::
  "env \<Rightarrow> string list \<Rightarrow> (ProviderNetworkCreate \<Rightarrow> bool) \<Rightarrow> (ProviderNetworkCreate \<Rightarrow> string) \<Rightarrow> ProviderNetworkCreate \<Rightarrow> string list \<Rightarrow>
     (world, string list + unit) prog" where
  "syncBridge E pnBridgeList skip intf p diffPnBridge w =
     (if skip p then Some (Inl diffPnBridge, w)
      else let name = pc_ProviderNwName p
        in case bridgeFor pnBridgeList name of
             Some br \<Rightarrow> Some (Inl (br # diffPnBridge), w)
           | None \<Rightarrow> do {
               (u, w) \<leftarrow> CreatePnBridge E (''nw_'' @ name) (''br-'' @ name) (intf p) w;
               Some (Inl diffPnBridge, w) })"

definition deleteStaleVlans :: "env \<Rightarrow> string list \<Rightarrow> string list \<Rightarrow> (world, unit) prog" where
  "deleteStaleVlans E vlanList diffVlan = forall (DeleteVlan E) (filter (\<lambda>v. v \<notin> set diffVlan) vlanList)"

definition deleteStaleBridges :: "env \<Rightarrow> string list \<Rightarrow> string list \<Rightarrow> (world, unit) prog" where
  "deleteStaleBridges E pnBridgeList diffPnBridge = forall (\<lambda>br.
     DeletePnBridge E (''nw_'' @ strings_ReplaceAll br ''br-'' []) (''br-'' @ strings_ReplaceAll br ''br-'' []))
     (filter (\<lambda>br. br \<notin> set diffPnBridge) pnBridgeList)"

definition inSyncVlanProvidernetwork :: "env \<Rightarrow> (world, unit) prog" where
  "inSyncVlanProvidernetwork E w = do {
     (vlanList, w) \<leftarrow> GetVlan E w;
     (pnBridgeList, w) \<leftarrow> GetPnBridge E ''nfn'' w;
     (r, w) \<leftarrow> rangeM (syncVlan E vlanList) (pnCreateStore w) [] w;
     (case r of
        Inr u \<Rightarrow> Some ((), w)
      | Inl diffVlan \<Rightarrow> do {
     (r, w) \<leftarrow> rangeM (syncBridge E pnBridgeList (\<lambda>p. pc_Vlan p \<noteq> None) (\<lambda>p. vi_LogicalIntf (vlanOf p))) (pnCreateStore w) [] w;
     (case r of
        Inr u \<Rightarrow> Some ((), w)
      | Inl diffPnBridge \<Rightarrow> do {
     (u, w) \<leftarrow> deleteStaleVlans E vlanList diffVlan w;
     deleteStaleBridges E pnBridgeList diffPnBridge w }) })
   }"

definition inSyncDirectProvidernetwork :: "env \<Rightarrow> (world, unit) prog" where
  "inSyncDirectProvidernetwork E w = do {
     (pnBridgeList, w) \<leftarrow> GetPnBridge E ''nfn'' w;
     (r, w) \<leftarrow> rangeM (syncBridge E pnBridgeList (\<lambda>p. pc_Direct p \<noteq> None) (\<lambda>p. di_ProviderIntf (directOf p))) (pnCreateStore w) [] w;
     (case r of Inr u \<Rightarrow> Some ((), w) | Inl diffPnBridge \<Rightarrow> deleteStaleBridges E pnBridgeList diffPnBridge w)
   }"

definition unquoteField :: "string \<Rightarrow> string" where
  "unquoteField s = strings_Trim (strings_TrimSpace s) [CHR 0x22]"

definition createNodeOVSInternalPort :: "env \<Rightarrow> InSync \<Rightarrow> (world, error option) prog" where
  "createNodeOVSInternalPort E payload =
     CreateNodeOVSInternalPort E (unquoteField (is_NodeIntfIpAddress payload)) (unquoteField (is_NodeIntfIpv6Address payload))
       (unquoteField (is_NodeIntfMacAddress payload)) (env_Getenv E ''NFN_NODE_NAME'')"

section \<open>Notifications\<close>

definition GetPidForContainer :: "env \<Rightarrow> string \<Rightarrow> (world, error + int) prog" where
  "GetPidForContainer E i = request (ContainerPid i) (\<lambda>h. env_pid E h i)"

text \<open>Each operation on the container, stopping at the first error.\<close>

definition onContainer :: "env \<Rightarrow> string \<Rightarrow> (int \<Rightarrow> (world, error option) prog) list \<Rightarrow> (world, unit) prog" where
  "onContainer E i ops w = do {
     (r, w) \<leftarrow> GetPidForContainer E i w;
     (case r of
        Inl e \<Rightarrow> Some ((), w)
      | Inr pid \<Rightarrow> do { (err, w) \<leftarrow> foreach (\<lambda>f. f pid) ops w; Some ((), w) })
   }"

definition handleProviderNwCreate :: "env \<Rightarrow> ProviderNetworkCreate \<Rightarrow> (world, unit) prog" where
  "handleProviderNwCreate E p w =
     (if \<not> inSync w then Some ((), w\<lparr>pnCreateStore := pnCreateStore w @ [p]\<rparr>)
      else do {
        (err, w) \<leftarrow> (if pc_Vlan p \<noteq> None then createVlanProvidernetwork E p w else Some (None, w));
        (if err \<noteq> None then Some ((), w)
         else if pc_Direct p \<noteq> None then do { (err, w) \<leftarrow> createDirectProvidernetwork E p w; Some ((), w) }
         else Some ((), w)) })"

definition handleProviderNwRemove :: "env \<Rightarrow> ProviderNetworkRemove \<Rightarrow> (world, unit) prog" where
  "handleProviderNwRemove E p w =
     (if \<not> inSync w then Some ((), w)
      else do {
        (u, w) \<leftarrow> (if pr_VlanLogicalIntf p \<noteq> [] then deleteVlanProvidernetwork E p w else Some ((), w));
        (if pr_DirectProviderIntf p \<noteq> [] then deleteDirectProvidernetwork E p w else Some ((), w)) })"

definition handleInSync :: "env \<Rightarrow> InSync \<Rightarrow> (world, unit) prog" where
  "handleInSync E p w = do {
     (u, w) \<leftarrow> inSyncVlanProvidernetwork E w;
     (u, w) \<leftarrow> inSyncDirectProvidernetwork E w;
     let w = w\<lparr>pnCreateStore := [], inSync := True\<rparr>;
     (if (is_NodeIntfIpAddress p \<noteq> [] \<or> is_NodeIntfIpv6Address p \<noteq> []) \<and> is_NodeIntfMacAddress p \<noteq> []
      then do { (err, w) \<leftarrow> createNodeOVSInternalPort E p w; Some ((), w) }
      else Some ((), w))
   }"

definition handleNotif :: "env \<Rightarrow> Notification \<Rightarrow> (world, unit) prog" where
  "handleNotif E msg w =
     (if nt_CniType msg = ''ovn4nfv'' then
        (case nt_Payload msg of
           None \<Rightarrow> Some ((), w)
         | Some payload \<Rightarrow>
             (case payload of
                Notification_ProviderNwCreate p \<Rightarrow> handleProviderNwCreate E p w
              | Notification_ProviderNwRemove p \<Rightarrow> handleProviderNwRemove E p w
              | Notification_ContainterRtInsert c \<Rightarrow> onContainer E (cr_ContainerId c) [\<lambda>pid. ContainerAddRoute E pid (cr_Route c)] w
              | Notification_PodAddNetwork p \<Rightarrow>
                  onContainer E (pnw_ContainerId p) [\<lambda>pid. ContainerAddInteface E pid p, \<lambda>pid. ContainerAddRoute E pid (pnw_Route p)] w
              | Notification_ContainterRtRemove c \<Rightarrow> onContainer E (cr_ContainerId c) [\<lambda>pid. ContainerDelRoute E pid (cr_Route c)] w
              | Notification_PodDelNetwork p \<Rightarrow>
                  onContainer E (pnw_ContainerId p) [\<lambda>pid. ContainerDelRoute E pid (pnw_Route p), \<lambda>pid. ContainerDelInteface E pid p] w
              | Notification_InSync p \<Rightarrow> handleInSync E p w))
      else Some ((), w))"

text \<open>
  \<^verbatim>\<open>subscribeNotif\<close>: it subscribes until that succeeds, then handles message after message until
  the stream ends, and gives \<^verbatim>\<open>shutDownAgent\<close> the reason.  The stream is a parameter: what
  \<^verbatim>\<open>Subscribe\<close> and each \<^verbatim>\<open>Recv\<close> return.
\<close>

datatype recv = Msg Notification | StreamEOF | RecvErr error

record notify_client =
  nf_Subscribe :: "history \<Rightarrow> string \<Rightarrow> error option"
  nf_Recv :: "history \<Rightarrow> recv"

partial_function (option) receiveLoop :: "env \<Rightarrow> notify_client \<Rightarrow> world \<Rightarrow> (string \<times> world) option" where
  "receiveLoop E C w = do {
     (r, w) \<leftarrow> request RecvNotif (nf_Recv C) w;
     (case r of
        StreamEOF \<Rightarrow> Some (''Stream closed'', w)
      | RecvErr e \<Rightarrow> Some (''Stream closed from server'', w)
      | Msg m \<Rightarrow> do { (u, w) \<leftarrow> handleNotif E m w; receiveLoop E C w })
   }"

partial_function (option) subscribeNotif :: "env \<Rightarrow> notify_client \<Rightarrow> world \<Rightarrow> (string \<times> world) option" where
  "subscribeNotif E C w = do {
     let n = env_Getenv E ''NFN_NODE_NAME'';
     (err, w) \<leftarrow> request (SubscribeCall n) (\<lambda>h. nf_Subscribe C h n) w;
     (if err \<noteq> None then subscribeNotif E C w else receiveLoop E C w)
   }"

declare receiveLoop.simps [code] subscribeNotif.simps [code]

definition configureFirewall :: "env \<Rightarrow> (world, error option) prog" where
  "configureFirewall E w =
     (let (ipv4Rules, ipv6Rules) = FilterRules; wrap = (\<lambda>e. Errorf (''failed to apply filter rules: '' @ error_msg e))
      in do {
        (err, w) \<leftarrow> SetupAndEnsureIPTables E ipv4Rules ProtocolIPv4 w;
        (case err of
           Some e \<Rightarrow> Some (Some (wrap e), w)
         | None \<Rightarrow>
             if ipv6Rules \<noteq> [] then do {
               (err, w) \<leftarrow> SetupAndEnsureIPTables E ipv6Rules ProtocolIPv6 w;
               Some (map_option wrap err, w) }
             else Some (None, w)) })"

section \<open>What the handlers leave alone\<close>

lemma writeMapping_frame [frame_intros]: "frame (writeMapping E mm)"
  unfolding writeMapping_def [abs_def] by (intro frame_intros)

lemma updateOvnBridgeMapping_frame [frame_intros]: "frame (updateOvnBridgeMapping E b n a)"
  unfolding updateOvnBridgeMapping_def [abs_def] by (intro frame_intros)

lemma bridge_frames [frame_intros]:
  "frame (CreateVlan E v i l)" "frame (DeleteVlan E l)" "frame (GetVlan E)"
  "frame (CreatePnBridge E n b i)" "frame (DeletePnBridge E n b)" "frame (GetPnBridge E x)"
  unfolding CreateVlan_def [abs_def] DeleteVlan_def [abs_def] GetVlan_def [abs_def] CreatePnBridge_def [abs_def] DeletePnBridge_def [abs_def]
    GetPnBridge_def [abs_def]
  by (intro frame_intros)+

lemma route_frames [frame_intros]:
  "frame (GetGatewayInterface E d)" "frame (IsRouteExist E d g)" "frame (GetDefaultGateway E)" "frame (GetHostNetwork E)"
  "frame (GetControlPlaneServiceIPRange E)"
  unfolding GetGatewayInterface_def [abs_def] IsRouteExist_def [abs_def] GetDefaultGateway_def [abs_def] GetHostNetwork_def [abs_def]
    GetDefaultGatewayInterface_def [abs_def] GetInterfaceIP4Addr_def [abs_def] getIfaceAddrs_def netlink_RouteList_def
    GetControlPlaneServiceIPRange_def [abs_def]
  by (intro frame_intros)+

lemma iptables_frame [frame_intros]: "frame (SetupAndEnsureIPTables E rules p)"
proof -
  have "frame (ipTablesRulesExist E p rs)" for rs
  proof (induction rs)
    case (Cons r rs)
    have "frame (\<lambda>w. do {
       (x, w) \<leftarrow> ipt_Exists E p r w;
       (case x of
          Inl e \<Rightarrow> Some (Inl (Errorf (''failed to check rule existence: '' @ error_msg e)), w)
        | Inr exists \<Rightarrow> if \<not> exists then Some (Inr False, w) else ipTablesRulesExist E p rs w) })"
      unfolding ipt_Exists_def by (intro frame_intros Cons)
    then show ?case by (simp add: frame_def)
  qed (simp add: frame_def)
  then show ?thesis
    unfolding SetupAndEnsureIPTables_def [abs_def] ensureIPTables_def [abs_def] setupIPTables_def teardownIPTables_def ipt_change_def
    by (intro frame_intros)
qed

lemma ns_Do_frame [frame_intros]: "frame body \<Longrightarrow> frame (ns_Do E p s body)"
  unfolding ns_Do_def [abs_def] by (intro frame_intros)

lemma link_frames [frame_intros]:
  "frame (netlink_LinkByName E n)" "frame (netlink_do E c)" "frame (CombinedOutput E cmd args)" "frame (RunSysctl E args)"
  unfolding netlink_LinkByName_def netlink_do_def CombinedOutput_def RunSysctl_def by (intro frame_intros)+

lemma setGateway_frame [frame_intros]: "frame (setGateway E l g)"
  unfolding setGateway_def [abs_def] by (intro frame_intros)

lemma ipRoute_frames [frame_intros]: "frame (ipRoute E v d g)" "frame (replaceDefault E g)"
  unfolding ipRoute_def [abs_def] replaceDefault_def [abs_def] by (intro frame_intros)+

lemma routes_frames [frame_intros]:
  "frame (threeRoutes E v h s p g)" "frame (setpodGWRoutes E h s p g)" "frame (setExtraRoutes E h s p g)"
  unfolding threeRoutes_def setpodGWRoutes_def [abs_def] setExtraRoutes_def by (intro frame_intros)+

lemma addIpAddress_frame [frame_intros]: "frame (addIpAddressToLinkDevice E a l c)"
  unfolding addIpAddressToLinkDevice_def [abs_def] by (intro frame_intros)

lemma setupGateways_frame [frame_intros]: "frame (setupGateways E l h s p i g d b)"
  unfolding setupGateways_def [abs_def] GetPrimaryInterface_def by (intro frame_intros)

lemma setupInNs_frame [frame_intros]: "frame (setupInNs E n h s p i m ips gws d mtu b)"
  unfolding setupInNs_def [abs_def] Let_def by (intro frame_intros)

lemma renameLink_frame [frame_intros]: "frame (renameLink E a b)"
  unfolding renameLink_def [abs_def] by (intro frame_intros)

lemma setupInterface_frame [frame_intros]: "frame (setupInterface E n c i m ips gws d x mtu b)"
  unfolding setupInterface_def [abs_def] Let_def by (intro frame_intros)

lemma ConfigureInterface_frame [frame_intros]: "frame (ConfigureInterface E n c i ns p m ips gws x d k mtu b)"
  unfolding ConfigureInterface_def [abs_def] openNS_def [abs_def] Let_def by (intro frame_intros)

lemma addInterface_frame [frame_intros]: "frame (addInterface E cr nw nfn ns p net s)"
  unfolding addInterface_def [abs_def] Let_def by (intro frame_intros)

lemma AddMultipleInterfaces_frame [frame_intros]: "frame (AddMultipleInterfaces E cr a b n p)"
  unfolding AddMultipleInterfaces_def [abs_def] Let_def by (intro frame_intros)

lemma delete_frames [frame_intros]: "frame (PlatformSpecificCleanup E n)" "frame (ConfigureDeleteInterface E n i)"
  unfolding PlatformSpecificCleanup_def [abs_def] ConfigureDeleteInterface_def [abs_def] DeleteInterface_def [abs_def] openNS_def [abs_def]
  by (intro frame_intros)+

lemma DeleteMultipleInterfaces_frame [frame_intros]: "frame (DeleteMultipleInterfaces E cr b n p)"
  unfolding DeleteMultipleInterfaces_def [abs_def] deleteInterface_def [abs_def] Let_def by (intro frame_intros)

lemma withContainer_frame [frame_intros]: "(\<And>h k. frame (body h k)) \<Longrightarrow> frame (withContainer E pid body)"
  unfolding withContainer_def [abs_def] by (intro frame_intros)

lemma container_frames [frame_intros]:
  "frame (ContainerAddInteface E pid p)" "frame (ContainerDelInteface E pid p)"
  "frame (ContainerAddRoute E pid rs)" "frame (ContainerDelRoute E pid rs)"
  unfolding ContainerAddInteface_def [abs_def] ContainerDelInteface_def [abs_def] ContainerAddRoute_def ContainerDelRoute_def
    addRouteData_def [abs_def] delRoute_def [abs_def]
  by (intro frame_intros)+

lemma frame_foreach_set: "(\<And>x. x \<in> set xs \<Longrightarrow> frame (f x)) \<Longrightarrow> frame (foreach f xs)"
proof (induction xs)
  case (Cons x xs)
  from Cons have "frame (f x)" "frame (foreach f xs)" by simp_all
  then have "frame (\<lambda>w. Option.bind (f x w) (\<lambda>(r, w). case r of None \<Rightarrow> foreach f xs w | Some e \<Rightarrow> Some (Some e, w)))"
    by (intro frame_bind frame_case_option frame_return)
  then show ?case by (simp add: frame_def)
qed (simp add: frame_def)

lemma onContainer_frame: "(\<And>f pid. f \<in> set ops \<Longrightarrow> frame (f pid)) \<Longrightarrow> frame (onContainer E i ops)"
  unfolding onContainer_def [abs_def] GetPidForContainer_def by (intro frame_bind frame_request frame_case_sum frame_return frame_foreach_set)

lemma provider_frames [frame_intros]:
  "frame (createVlanProvidernetwork E p)" "frame (createDirectProvidernetwork E p)"
  "frame (deleteVlanProvidernetwork E q)" "frame (deleteDirectProvidernetwork E q)"
  unfolding createVlanProvidernetwork_def [abs_def] createDirectProvidernetwork_def deleteVlanProvidernetwork_def [abs_def]
    deleteDirectProvidernetwork_def [abs_def] Let_def
  by (intro frame_intros)+

lemma sync_frames [frame_intros]:
  "frame (syncVlan E l p d)" "frame (syncBridge E l sk f p d)" "frame (deleteStaleVlans E l d)" "frame (deleteStaleBridges E l d)"
  unfolding syncVlan_def [abs_def] syncBridge_def [abs_def] deleteStaleVlans_def deleteStaleBridges_def Let_def
  by (intro frame_intros)+

lemma frame_store: "(\<And>x. frame (\<lambda>w. Option.bind (rangeM f x s w) g)) \<Longrightarrow> frame (\<lambda>w. Option.bind (rangeM f (pnCreateStore w) s w) g)"
  by (simp add: frame_def)

lemma inSync_frames [frame_intros]: "frame (inSyncVlanProvidernetwork E)" "frame (inSyncDirectProvidernetwork E)"
  unfolding inSyncVlanProvidernetwork_def [abs_def] inSyncDirectProvidernetwork_def [abs_def]
  by (intro frame_intros frame_store)+

lemma nodePort_frame [frame_intros]: "frame (createNodeOVSInternalPort E p)"
  unfolding createNodeOVSInternalPort_def CreateNodeOVSInternalPort_def [abs_def] addNodeAddress_def [abs_def] Let_def
  by (intro frame_intros)

text \<open>
  One step of the agent for each message, and the messages a world was reached by.
\<close>

inductive agent_reaches :: "env \<Rightarrow> world \<Rightarrow> Notification list \<Rightarrow> world \<Rightarrow> bool" for E w0 where
  start: "agent_reaches E w0 [] w0"
| handle: "agent_reaches E w0 ms w \<Longrightarrow> handleNotif E m w = Some ((), w') \<Longrightarrow> agent_reaches E w0 (ms @ [m]) w'"

definition is_sync :: "Notification \<Rightarrow> bool" where
  "is_sync m \<longleftrightarrow> nt_CniType m = ''ovn4nfv'' \<and> (\<exists>p. nt_Payload m = Some (Notification_InSync p))"

fun created_by :: "Notification \<Rightarrow> ProviderNetworkCreate list" where
  "created_by m = (if nt_CniType m = ''ovn4nfv'' then (case nt_Payload m of Some (Notification_ProviderNwCreate p) \<Rightarrow> [p] | _ \<Rightarrow> []) else [])"

lemma handleProviderNwRemove_frame: "frame (handleProviderNwRemove E p)"
  unfolding handleProviderNwRemove_def [abs_def] by (rule frame_read [where g = inSync]) (intro frame_intros)

lemma handleProviderNwCreate_state:
  assumes "handleProviderNwCreate E p w = Some ((), w')"
  shows "inSync w' = inSync w \<and> pnCreateStore w' = (if inSync w then pnCreateStore w else pnCreateStore w @ [p])"
proof (cases "inSync w")
  case True
  have "frame (\<lambda>w. do {
        (err, w) \<leftarrow> (if pc_Vlan p \<noteq> None then createVlanProvidernetwork E p w else Some (None, w));
        (if err \<noteq> None then Some ((), w)
         else if pc_Direct p \<noteq> None then do { (err, w) \<leftarrow> createDirectProvidernetwork E p w; Some ((), w) }
         else Some ((), w)) })" (is "frame ?m")
    by (intro frame_intros)
  moreover from True assms have "?m w = Some ((), w')" by (simp add: handleProviderNwCreate_def)
  ultimately show ?thesis using True frame_fields(5,6) [of ?m w "()" w'] by simp
next
  case False
  with assms show ?thesis by (auto simp: handleProviderNwCreate_def)
qed

lemma handleInSync_state:
  assumes "handleInSync E p w = Some ((), w')"
  shows "inSync w' \<and> pnCreateStore w' = []"
proof -
  from assms obtain v where "(if (is_NodeIntfIpAddress p \<noteq> [] \<or> is_NodeIntfIpv6Address p \<noteq> []) \<and> is_NodeIntfMacAddress p \<noteq> []
      then do { (err, w) \<leftarrow> createNodeOVSInternalPort E p (v\<lparr>pnCreateStore := [], inSync := True\<rparr>); Some ((), w) }
      else Some ((), v\<lparr>pnCreateStore := [], inSync := True\<rparr>)) = Some ((), w')"
    by (auto simp: handleInSync_def Let_def bind_eq_Some_conv)
  then show ?thesis using frame_fields(5,6) [OF nodePort_frame] by (fastforce simp: bind_eq_Some_conv split: if_splits)
qed

lemma handleNotif_state:
  assumes "handleNotif E m w = Some ((), w')"
  shows "inSync w' = (inSync w \<or> is_sync m) \<and>
     pnCreateStore w' = (if is_sync m then [] else if inSync w then pnCreateStore w else pnCreateStore w @ created_by m)"
proof (cases "nt_CniType m = ''ovn4nfv''")
  case False
  with assms show ?thesis by (auto simp: handleNotif_def is_sync_def)
next
  case ovn: True
  have keep: "inSync w' = inSync w \<and> pnCreateStore w' = pnCreateStore w" if "frame f" "f w = Some ((), w')" for f
    using frame_fields [OF that] by simp
  show ?thesis
  proof (cases "nt_Payload m")
    case None
    with ovn assms show ?thesis by (auto simp: handleNotif_def is_sync_def)
  next
    case (Some p)
    show ?thesis
    proof (cases p)
      case (Notification_InSync q)
      with Some ovn assms handleInSync_state [of E q w w'] show ?thesis by (simp add: handleNotif_def is_sync_def)
    next
      case (Notification_ProviderNwCreate q)
      with Some ovn assms handleProviderNwCreate_state [of E q w w'] show ?thesis by (simp add: handleNotif_def is_sync_def)
    next
      case (Notification_ProviderNwRemove q)
      with Some ovn assms keep [OF handleProviderNwRemove_frame] show ?thesis by (simp add: handleNotif_def is_sync_def)
    next
      case (Notification_ContainterRtInsert c)
      with Some ovn assms have run: "onContainer E (cr_ContainerId c) [\<lambda>pid. ContainerAddRoute E pid (cr_Route c)] w = Some ((), w')"
        by (simp add: handleNotif_def)
      have "inSync w' = inSync w \<and> pnCreateStore w' = pnCreateStore w"
        by (rule keep [OF onContainer_frame run]) (auto intro: container_frames)
      with Notification_ContainterRtInsert Some ovn show ?thesis by (simp add: is_sync_def)
    next
      case (Notification_ContainterRtRemove c)
      with Some ovn assms have run: "onContainer E (cr_ContainerId c) [\<lambda>pid. ContainerDelRoute E pid (cr_Route c)] w = Some ((), w')"
        by (simp add: handleNotif_def)
      have "inSync w' = inSync w \<and> pnCreateStore w' = pnCreateStore w"
        by (rule keep [OF onContainer_frame run]) (auto intro: container_frames)
      with Notification_ContainterRtRemove Some ovn show ?thesis by (simp add: is_sync_def)
    next
      case (Notification_PodAddNetwork c)
      with Some ovn assms have run: "onContainer E (pnw_ContainerId c)
          [\<lambda>pid. ContainerAddInteface E pid c, \<lambda>pid. ContainerAddRoute E pid (pnw_Route c)] w = Some ((), w')" by (simp add: handleNotif_def)
      have "inSync w' = inSync w \<and> pnCreateStore w' = pnCreateStore w"
        by (rule keep [OF onContainer_frame run]) (auto intro: container_frames)
      with Notification_PodAddNetwork Some ovn show ?thesis by (simp add: is_sync_def)
    next
      case (Notification_PodDelNetwork c)
      with Some ovn assms have run: "onContainer E (pnw_ContainerId c)
          [\<lambda>pid. ContainerDelRoute E pid (pnw_Route c), \<lambda>pid. ContainerDelInteface E pid c] w = Some ((), w')" by (simp add: handleNotif_def)
      have "inSync w' = inSync w \<and> pnCreateStore w' = pnCreateStore w"
        by (rule keep [OF onContainer_frame run]) (auto intro: container_frames)
      with Notification_PodDelNetwork Some ovn show ?thesis by (simp add: is_sync_def)
    qed
  qed
qed

text \<open>
  C30.  The state of an agent is determined by the messages it has handled: it is in sync exactly
  when one of them was a synchronisation message, and the store holds, in order, the provider
  networks announced since the start as long as there was none, and nothing afterwards.
\<close>

theorem agent_state_invariant:
  assumes "agent_reaches E w0 ms w" and "\<not> inSync w0" and "pnCreateStore w0 = []"
  shows "inSync w = (\<exists>m \<in> set ms. is_sync m) \<and> pnCreateStore w = (if inSync w then [] else concat (map created_by ms))"
  using assms
proof induction
  case start
  then show ?case by simp
next
  case (handle ms w m w')
  with handleNotif_state [OF handle.hyps(2)] show ?case by (auto simp: is_sync_def simp del: created_by.simps) 
qed

text \<open>The loop of \<^verbatim>\<open>subscribeNotif\<close> has the same effect on the state as the messages it was sent.\<close>

definition state_after :: "world \<Rightarrow> Notification list \<Rightarrow> world \<Rightarrow> bool" where
  "state_after w ms w' \<longleftrightarrow> inSync w' = (inSync w \<or> (\<exists>m \<in> set ms. is_sync m)) \<and>
     pnCreateStore w' = (if \<exists>m \<in> set ms. is_sync m then [] else if inSync w then pnCreateStore w else pnCreateStore w @ concat (map created_by ms))"

lemma receiveLoop_state:
  assumes "receiveLoop E C w = Some (reason, w')"
  shows "\<exists>ms. state_after w ms w'"
proof -
  have "\<exists>ms. state_after w ms (snd y)" if "receiveLoop E C w = Some y" for y
  proof (rule receiveLoop.raw_induct [of "\<lambda>E C w y. \<exists>ms. state_after w ms (snd y)", OF _ that])
    fix rec E C w y
    assume IH: "\<And>E C w y. rec E C w = Some y \<Longrightarrow> \<exists>ms. state_after w ms (snd y)"
      and body: "Option.bind (request RecvNotif (nf_Recv C) w) (\<lambda>(r, w). case r of
         Msg m \<Rightarrow> do { (u, w) \<leftarrow> handleNotif E m w; rec E C w }
       | StreamEOF \<Rightarrow> Some (''Stream closed'', w) | RecvErr e \<Rightarrow> Some (''Stream closed from server'', w)) = Some y"
    let ?v = "w\<lparr>trace := trace w @ [RecvNotif]\<rparr>"
    show "\<exists>ms. state_after w ms (snd y)"
    proof (cases "nf_Recv C (trace w)")
      case (Msg m)
      with body obtain u where h: "handleNotif E m ?v = Some ((), u)" "rec E C u = Some y" by (auto simp: run_conv)
      from IH [OF h(2)] obtain ms where "state_after u ms (snd y)" ..
      with handleNotif_state [OF h(1)] have "state_after w (m # ms) (snd y)"
        by (auto simp: state_after_def is_sync_def simp del: created_by.simps)
      then show ?thesis ..
    qed (use body in \<open>auto simp: state_after_def intro: exI [of _ "[]"]\<close>)
  qed
  from this [OF assms] show ?thesis by simp
qed

section \<open>What a synchronisation does\<close>

definition creates_network :: "event \<Rightarrow> bool" where
  "creates_network e \<longleftrightarrow> (\<exists>br. vsctl [''--may-exist'', ''add-br'', br] e) \<or>
     (\<exists>i l v. ipcmd [''link'', ''add'', ''link'', i, ''name'', l, ''type'', ''vlan'', ''id'', v] e)"

lemma not_creating [simp]:
  "\<not> creates_network LinkList" "\<not> creates_network (LinkByName n)" "\<not> creates_network (Netlink c)" "\<not> creates_network (Iptables t)"
  "\<not> creates_network (ExecCmd ''ovs-vsctl'' (nodePortArgs i hw))"
  by (auto simp: creates_network_def vsctl_def ipcmd_def nodePortArgs_def Let_def)

lemma vsctl_creating: "vsctl args e \<Longrightarrow> creates_network e \<Longrightarrow> \<exists>br. args = [''--may-exist'', ''add-br'', br]"
  by (auto simp: creates_network_def vsctl_def ipcmd_def)

lemma ip_del_creating: "ipcmd [''link'', ''del'', ''dev'', l] e \<Longrightarrow> \<not> creates_network e"
  by (auto simp: creates_network_def vsctl_def ipcmd_def)

abbreviation builds_nothing :: "(world, 'a) prog \<Rightarrow> bool" where
  "builds_nothing m \<equiv> emits (\<lambda>e. \<not> creates_network e) m"

lemma updateOvnBridgeMapping_builds_nothing: "builds_nothing (updateOvnBridgeMapping E b n a)"
  unfolding updateOvnBridgeMapping_def [abs_def] writeMapping_def [abs_def]
  by (intro emits_intros) (auto dest: vsctl_creating)

lemma DeleteVlan_builds_nothing: "builds_nothing (DeleteVlan E l)"
  unfolding DeleteVlan_def [abs_def] by (intro emits_intros) (auto dest: ip_del_creating)

lemma GetVlan_builds_nothing: "builds_nothing (GetVlan E)"
  unfolding GetVlan_def [abs_def] by (intro emits_intros) simp

lemma DeletePnBridge_builds_nothing: "builds_nothing (DeletePnBridge E n b)"
  unfolding DeletePnBridge_def [abs_def]
  by (intro emits_intros updateOvnBridgeMapping_builds_nothing) (auto dest: vsctl_creating)

lemma GetPnBridge_builds_nothing: "builds_nothing (GetPnBridge E x)"
  unfolding GetPnBridge_def [abs_def] by (intro emits_intros) (auto dest: vsctl_creating)

lemmas removal_builds_nothing = DeleteVlan_builds_nothing GetVlan_builds_nothing DeletePnBridge_builds_nothing GetPnBridge_builds_nothing

text \<open>A network that is not passed over has no VLAN, hence no identifier and no interface to create.\<close>

lemma syncVlan_builds_nothing: "builds_nothing (syncVlan E l p d)"
proof (cases "pc_Vlan p")
  case None
  then have "syncVlan E l p d w = (if ''.'' \<in> set l then Some (Inl (''.'' # d), w) else Some (Inr (), w))" for w
    by (simp add: syncVlan_def vlanOf_def CreateVlan_def)
  then have "syncVlan E l p d = (\<lambda>w. if ''.'' \<in> set l then Some (Inl (''.'' # d), w) else Some (Inr (), w))" by blast
  then show ?thesis by (simp only:) (intro emits_intros)
next
  case (Some v)
  then have "syncVlan E l p d = (\<lambda>w. Some (Inl d, w))" by (auto simp: syncVlan_def)
  then show ?thesis by (simp only:) (intro emits_intros)
qed

lemma syncBridge_builds_nothing: "(\<not> skip p \<Longrightarrow> intf p = []) \<Longrightarrow> builds_nothing (syncBridge E l skip intf p d)"
  by (cases "skip p"; cases "bridgeFor l (pc_ProviderNwName p)") (auto simp: syncBridge_def [abs_def] CreatePnBridge_def emits_def)

lemma sync_builds_nothing: "builds_nothing (inSyncVlanProvidernetwork E)" "builds_nothing (inSyncDirectProvidernetwork E)"
proof -
  have st: "(\<And>x. emits P (\<lambda>w. Option.bind (rangeM f x s w) g)) \<Longrightarrow> emits P (\<lambda>w. Option.bind (rangeM f (pnCreateStore w) s w) g)"
    for P and f :: "ProviderNetworkCreate \<Rightarrow> string list \<Rightarrow> (world, string list + unit) prog" and s and g :: "_ \<Rightarrow> (unit \<times> world) option"
    by (simp add: emits_def)
  show "builds_nothing (inSyncVlanProvidernetwork E)"
    unfolding inSyncVlanProvidernetwork_def [abs_def] deleteStaleVlans_def deleteStaleBridges_def
    by (intro emits_intros removal_builds_nothing st syncVlan_builds_nothing syncBridge_builds_nothing) (auto simp: vlanOf_def)
  show "builds_nothing (inSyncDirectProvidernetwork E)"
    unfolding inSyncDirectProvidernetwork_def [abs_def] deleteStaleBridges_def
    by (intro emits_intros removal_builds_nothing st syncBridge_builds_nothing) (auto simp: directOf_def)
qed

lemma SetupAndEnsureIPTables_builds_nothing: "builds_nothing (SetupAndEnsureIPTables E rules p)"
proof -
  have "builds_nothing (ipTablesRulesExist E p rs)" for rs
  proof (induction rs)
    case (Cons r rs)
    have "builds_nothing (\<lambda>w. do {
       (x, w) \<leftarrow> ipt_Exists E p r w;
       (case x of
          Inl e \<Rightarrow> Some (Inl (Errorf (''failed to check rule existence: '' @ error_msg e)), w)
        | Inr exists \<Rightarrow> if \<not> exists then Some (Inr False, w) else ipTablesRulesExist E p rs w) })"
      unfolding ipt_Exists_def by (intro emits_intros Cons) simp
    then show ?case by (simp add: emits_def)
  qed (simp add: emits_def)
  then show ?thesis
    unfolding SetupAndEnsureIPTables_def [abs_def] ensureIPTables_def [abs_def] setupIPTables_def teardownIPTables_def ipt_change_def
    by (intro emits_intros) simp_all
qed

lemma nodePort_builds_nothing: "builds_nothing (createNodeOVSInternalPort E p)"
  unfolding createNodeOVSInternalPort_def CreateNodeOVSInternalPort_def [abs_def] addNodeAddress_def [abs_def] Let_def
    CombinedOutput_def netlink_LinkByName_def netlink_do_def
  by (intro emits_intros SetupAndEnsureIPTables_builds_nothing) simp_all

lemma emits_then_update:
  assumes "emits P m" and "\<And>w. trace (f w) = trace w" and "emits P n"
  shows "emits P (\<lambda>w. Option.bind (m w) (\<lambda>(a, w). n (f w)))"
  unfolding emits_def
proof (intro allI impI)
  fix w b w'
  assume "Option.bind (m w) (\<lambda>(a, w). n (f w)) = Some (b, w')"
  then obtain a v where m: "m w = Some (a, v)" and n: "n (f v) = Some (b, w')" by (auto simp: bind_eq_Some_conv)
  from emitsD [OF assms(1) m] emitsD [OF assms(3) n] assms(2) [of v]
  obtain es es' where "trace v = trace w @ es" "\<forall>e \<in> set es. P e" "trace w' = trace v @ es'" "\<forall>e \<in> set es'. P e" by auto
  then show "\<exists>es. trace w' = trace w @ es \<and> (\<forall>e \<in> set es. P e)" by (intro exI [of _ "es @ es'"]) auto
qed

lemma handleInSync_builds_nothing: "builds_nothing (handleInSync E p)"
  unfolding handleInSync_def [abs_def] Let_def
  by (intro emits_bind sync_builds_nothing emits_then_update emits_if nodePort_builds_nothing emits_return) simp

text \<open>
  Handling a synchronisation message never creates anything: no bridge is added and no
  VLAN link is made, for whatever networks are in the store, and the store is emptied.  The
  networks announced before the synchronisation are lost.
\<close>

theorem InSync_drops_stored:
  assumes "is_sync m" and "handleNotif E m w = Some ((), w')"
  shows "(\<forall>e \<in> set (new_events w w'). \<not> creates_network e) \<and> pnCreateStore w' = [] \<and> inSync w'"
proof -
  from assms obtain p where "handleInSync E p w = Some ((), w')" by (auto simp: handleNotif_def is_sync_def)
  with new_events_emits [OF handleInSync_builds_nothing this] handleNotif_state [OF assms(2)] assms(1) show ?thesis by auto
qed

definition stored_world :: world where
  "stored_world = exec_world\<lparr>pnCreateStore := [\<lparr>pc_ProviderNwName = ''pnet'', pc_Vlan = Some \<lparr>vi_VlanId = ''100'', vi_ProviderIntf = ''eth1'',
     vi_LogicalIntf = ''eth1.100''\<rparr>, pc_Direct = None\<rparr>]\<rparr>"

lemma stored_world_sync: "handleNotif null_env (inSyncMsg [] [] []) stored_world \<noteq> None"
  by code_simp

theorem InSync_drops_stored_witness:
  "\<exists>w'. handleNotif null_env (inSyncMsg [] [] []) stored_world = Some ((), w') \<and> pnCreateStore stored_world \<noteq> [] \<and>
     (\<forall>e \<in> set (trace w'). \<not> creates_network e) \<and> pnCreateStore w' = []"
proof -
  from stored_world_sync obtain w' where r: "handleNotif null_env (inSyncMsg [] [] []) stored_world = Some ((), w')" by auto
  have "is_sync (inSyncMsg [] [] [])" by (simp add: is_sync_def inSyncMsg_def ovn4nfv_def)
  from InSync_drops_stored [OF this r] r show ?thesis by (simp add: new_events_def stored_world_def exec_world_def init_world_def)
qed

theorem agent_state_invariant_witness:
  "\<exists>w. agent_reaches null_env init_world [createVlanMsg (demo_provider ''ANY''), deleteVlanMsg (demo_provider ''ANY'')] w \<and> \<not> inSync w \<and>
     pnCreateStore w = created_by (createVlanMsg (demo_provider ''ANY''))"
proof -
  let ?c = "createVlanMsg (demo_provider ''ANY'')" and ?d = "deleteVlanMsg (demo_provider ''ANY'')"
  let ?w = "init_world\<lparr>pnCreateStore := created_by ?c\<rparr>"
  have i: "\<not> inSync init_world" "pnCreateStore init_world = []" by (simp_all add: init_world_def)
  obtain p where p: "nt_CniType ?c = ''ovn4nfv''" "nt_Payload ?c = Some (Notification_ProviderNwCreate p)"
    by (simp add: createVlanMsg_def ovn4nfv_def)
  have c: "created_by ?c = [p]" using p by simp
  obtain q where q: "nt_CniType ?d = ''ovn4nfv''" "nt_Payload ?d = Some (Notification_ProviderNwRemove q)"
    by (simp add: deleteVlanMsg_def ovn4nfv_def)
  have "handleNotif null_env ?c init_world = Some ((), ?w)" "handleNotif null_env ?d ?w = Some ((), ?w)"
    unfolding handleNotif_def p q handleProviderNwCreate_def handleProviderNwRemove_def c using i by simp_all
  from handle [OF handle [OF start this(1)] this(2)] have r: "agent_reaches null_env init_world [?c, ?d] ?w" by simp
  have n: "\<not> is_sync ?c" "\<not> is_sync ?d" by (simp_all add: is_sync_def p q)
  have "\<not> inSync ?w" using agent_state_invariant [OF r i, THEN conjunct1] n by auto
  moreover have "pnCreateStore ?w = created_by ?c" by simp
  ultimately show ?thesis using r by blast
qed

section \<open>Withdrawing a provider network\<close>

text \<open>A run that makes a request satisfying \<open>P\<close>.\<close>

definition sends :: "(event \<Rightarrow> bool) \<Rightarrow> world \<Rightarrow> world \<Rightarrow> bool" where
  "sends P w w' \<longleftrightarrow> (\<exists>es. trace w' = trace w @ es \<and> (\<exists>e \<in> set es. P e))"

lemma sends_new_events: "sends P w w' \<Longrightarrow> \<exists>e \<in> set (new_events w w'). P e"
  by (auto simp: sends_def new_events_def)

lemma sends_then: "sends P u v \<Longrightarrow> emits Q m \<Longrightarrow> m v = Some (a, w) \<Longrightarrow> sends P u w"
  unfolding sends_def by (auto dest!: emitsD)

lemma then_sends: "emits Q m \<Longrightarrow> m u = Some (a, v) \<Longrightarrow> sends P v w \<Longrightarrow> sends P u w"
  unfolding sends_def by (auto dest!: emitsD)

lemma vsctl_sends: "RunOVSVsctl E args w = Some (x, w') \<Longrightarrow> sends (vsctl args) w w'"
  by (auto simp: RunOVSVsctl_def run_def run_conv sends_def vsctl_def)

lemma DeletePnBridge_sends:
  assumes "DeletePnBridge E n b w = Some (x, w')" and "n \<noteq> []" and "b \<noteq> []"
  shows "sends (vsctl [''--if-exist'', ''del-br'', b]) w w'"
proof -
  from assms obtain o1 o2 err v where v: "RunOVSVsctl E [''--if-exist'', ''del-br'', b] w = Some ((o1, o2, err), v)"
    and rest: "w' = v \<or> (\<exists>y. updateOvnBridgeMapping E b n ''delete'' v = Some (y, w'))"
    by (auto simp: DeletePnBridge_def run_conv)
  from vsctl_sends [OF v] rest show ?thesis by (auto intro: sends_then [OF _ updateOvnBridgeMapping_builds_nothing])
qed

text \<open>What the withdrawal of a provider network is recognised by.\<close>

definition withdrawal_key :: "ProviderNetworkRemove \<Rightarrow> bool" where
  "withdrawal_key p \<longleftrightarrow> pr_VlanLogicalIntf p \<noteq> [] \<or> pr_DirectProviderIntf p \<noteq> []"

lemma deletion_sends:
  assumes "deleteVlanProvidernetwork E p w = Some ((), w')"
  shows "sends (vsctl [''--if-exist'', ''del-br'', ''br-'' @ pr_ProviderNwName p]) w w'"
proof -
  from assms obtain a b v where "DeleteVlan E (pr_VlanLogicalIntf p) w = Some (a, v)"
    "DeletePnBridge E (''nw_'' @ pr_ProviderNwName p) (''br-'' @ pr_ProviderNwName p) v = Some (b, w')"
    by (auto simp: deleteVlanProvidernetwork_def run_conv)
  from then_sends [OF DeleteVlan_builds_nothing this(1) DeletePnBridge_sends [OF this(2)]] show ?thesis by simp
qed

lemma deleteDirect_same: "deleteDirectProvidernetwork = deleteVlanProvidernetwork"
  by (simp add: fun_eq_iff deleteDirectProvidernetwork_def deleteVlanProvidernetwork_def)

lemma handleProviderNwRemove_sends:
  assumes "handleProviderNwRemove E p w = Some ((), w')" and "inSync w"
  shows "if withdrawal_key p then sends (vsctl [''--if-exist'', ''del-br'', ''br-'' @ pr_ProviderNwName p]) w w' else w' = w"
proof -
  have del: "builds_nothing (deleteVlanProvidernetwork E p)"
    unfolding deleteVlanProvidernetwork_def [abs_def] by (intro emits_intros removal_builds_nothing)
  from assms show ?thesis
    by (auto simp: handleProviderNwRemove_def withdrawal_key_def deleteDirect_same run_conv split: if_splits
        intro: deletion_sends [simplified] sends_then [OF deletion_sends [simplified] del])
qed

end
