(* ===== verification/Chaining.thy ===== *)
theory Chaining
  imports Ovn_Controller Kube_Client
begin

text \<open>
  The operator's half of \<^verbatim>\<open>internal/pkg/utils/chain.go\<close>: service function chains.  A chain
  is a comma list of alternating labels; the theory has the checks on it, the waiting for pods, the
  routes of the functions in the chain and of the pods attached to its two ends, and the annotation
  of those pods.  The loops that wait for a pod have no bound: they are partial functions, and
  waiting forever is \<open>None\<close>, as a panic is.
\<close>

section \<open>Constants\<close>

definition SFCannotationTag :: string where "SFCannotationTag = ''k8s.plugin.opnfv.org/sfc''"
definition SFCcreated :: string where "SFCcreated = ''created''"
definition SFCNotrequired :: string where "SFCNotrequired = ''notrequired''"
definition nfnNetAnnotation :: string where "nfnNetAnnotation = ''k8s.plugin.opnfv.org/nfn-network''"
definition PodRunning :: string where "PodRunning = ''Running''"

definition zero_RoutingInfo :: RoutingInfo where
  "zero_RoutingInfo = \<lparr>ri_Name = [], ri_Namespace = [], ri_Id = [], ri_Node = [], ri_LeftNetworkRoute = [],
     ri_RightNetworkRoute = [], ri_DynamicNetworkRoutes = []\<rparr>"

definition RoutingInfo_IsEmpty :: "RoutingInfo \<Rightarrow> bool" where
  "RoutingInfo_IsEmpty r \<longleftrightarrow> r = zero_RoutingInfo"

text \<open>Indexing a slice: out of range is a panic.\<close>

definition slice_nth :: "'a list \<Rightarrow> nat \<Rightarrow> 'a option" where
  "slice_nth xs i = (if i < length xs then Some (xs ! i) else None)"

definition ContainerIDOf :: "Pod \<Rightarrow> string option" where
  "ContainerIDOf pod = map_option (\<lambda>c. strings_TrimPrefix (cs_ContainerID c) ''docker://'') (slice_nth (pod_ContainerStatuses pod) 0)"

section \<open>Waiting for pods\<close>

definition checkPodstatus :: "env \<Rightarrow> string \<Rightarrow> (world, error + Pod option) prog" where
  "checkPodstatus E podname w = do {
     (err, w) \<leftarrow> ask (env_kubeConfig E) w;
     (case err of
        Some e \<Rightarrow> Some (Inl e, w)
      | None \<Rightarrow> do {
          (r, w) \<leftarrow> request (KubeGet KPod ''default'' podname) (\<lambda>h. env_getPod E h ''default'' podname) w;
          (case r of
             Inl e \<Rightarrow> Some (Inl e, w)
           | Inr pdState \<Rightarrow>
               let isPodRunning = (pod_Phase pdState = PodRunning \<and>
                     (case pod_ContainerStatuses pdState of [] \<Rightarrow> False | c # cs \<Rightarrow> cs_Ready c))
               in Some (Inr (if isPodRunning then Some pdState else None), w))
        })
   }"

text \<open>The loop \<^verbatim>\<open>for { _, nf, err := checkPodstatus(podName) ... }\<close>.\<close>

partial_function (option) waitPod :: "env \<Rightarrow> string \<Rightarrow> world \<Rightarrow> (error option \<times> world) option" where
  "waitPod E podname w = do {
     (r, w) \<leftarrow> checkPodstatus E podname w;
     (case r of
        Inl e \<Rightarrow> Some (Some e, w)
      | Inr nf \<Rightarrow> if nf \<noteq> None then Some (None, w) else waitPod E podname w)
   }"

declare waitPod.simps [code]

definition oneReplica :: error where
  "oneReplica = Errorf ''Currently load balancing is not supported, expected SFC deployment has only 1 replica''"

definition CheckPodStatusFromPodLabel :: "env \<Rightarrow> string \<Rightarrow> (world, error + (bool \<times> string)) prog" where
  "CheckPodStatusFromPodLabel E podLabel w = do {
     (err, w) \<leftarrow> ask (env_kubeConfig E) w;
     (case err of
        Some e \<Rightarrow> Some (Inl e, w)
      | None \<Rightarrow> do {
          (r, w) \<leftarrow> request (KubeList KPod ''default'' podLabel) (\<lambda>h. env_listPods E h ''default'' podLabel) w;
          (case r of
             Inl e \<Rightarrow> Some (Inl e, w)
           | Inr pods \<Rightarrow>
               if length pods \<noteq> 1 then Some (Inl oneReplica, w)
               else do {
                 let podName = pod_Name (pods ! 0);
                 (err, w) \<leftarrow> waitPod E podName w;
                 (case err of Some e \<Rightarrow> Some (Inl e, w) | None \<Rightarrow> Some (Inr (True, podName), w))
               })
        })
   }"

text \<open>
  The loop of \<^verbatim>\<open>checkSFCPodSelectorStatus\<close>: the phase is read afresh, the container status
  from the list; the first pod that is not running and ready ends it.
\<close>

fun selectorLoop :: "env \<Rightarrow> Pod list \<Rightarrow> bool \<Rightarrow> (world, error + bool) prog" where
  "selectorLoop E [] isPodRunning w = Some (Inr isPodRunning, w)"
| "selectorLoop E (pod # pods) isPodRunning w = do {
     (r, w) \<leftarrow> request (KubeGet KPod (pod_Namespace pod) (pod_Name pod)) (\<lambda>h. env_getPod E h (pod_Namespace pod) (pod_Name pod)) w;
     (case r of
        Inl e \<Rightarrow> Some (Inl e, w)
      | Inr pdState \<Rightarrow>
          if pod_Phase pdState = PodRunning \<and> (case pod_ContainerStatuses pod of [] \<Rightarrow> False | c # cs \<Rightarrow> cs_Ready c)
          then selectorLoop E pods True w else Some (Inr False, w))
   }"

definition checkSFCPodSelectorStatus :: "env \<Rightarrow> string \<Rightarrow> string \<Rightarrow> (world, error + Pod list option) prog" where
  "checkSFCPodSelectorStatus E nslabel podlabel w = do {
     (err, w) \<leftarrow> ask (env_kubeConfig E) w;
     (case err of
        Some e \<Rightarrow> Some (Inl e, w)
      | None \<Rightarrow> do {
          (r, w) \<leftarrow> request (KubeList KPod nslabel podlabel) (\<lambda>h. env_listPods E h nslabel podlabel) w;
          (case r of
             Inl e \<Rightarrow> Some (Inl e, w)
           | Inr pods \<Rightarrow> do {
               (s, w) \<leftarrow> selectorLoop E pods False w;
               (case s of
                  Inl e \<Rightarrow> Some (Inl e, w)
                | Inr running \<Rightarrow> Some (Inr (if running then Some pods else None), w))
             })
        })
   }"

partial_function (option) waitSelector :: "env \<Rightarrow> string \<Rightarrow> string \<Rightarrow> world \<Rightarrow> ((error + Pod list) \<times> world) option" where
  "waitSelector E ns podlabel w = do {
     (r, w) \<leftarrow> checkSFCPodSelectorStatus E ns podlabel w;
     (case r of
        Inl e \<Rightarrow> Some (Inl e, w)
      | Inr pl \<Rightarrow> (case pl of Some pods \<Rightarrow> Some (Inr pods, w) | None \<Rightarrow> waitSelector E ns podlabel w))
   }"

declare waitSelector.simps [code]

section \<open>The networks of a chain\<close>

definition ValidateNetworkChaining :: "env \<Rightarrow> NetworkChaining \<Rightarrow> (world, error + string) prog" where
  "ValidateNetworkChaining E cr w =
     (let left = nc_LeftNetwork cr; right = nc_RightNetwork cr; chains = strings_Split (nc_NetworkChain cr) (CHR '','')
      in if left = [] \<or> right = []
         then Some (Inl (Errorf (''Error - size of left is '' @ show_nat (length left) @ '' and size of right '' @ show_nat (length right))), w)
         else do {
           (err, w) \<leftarrow> ask (env_v1alpha1Config E) w;
           (case err of
              Some e \<Rightarrow> Some (Inl e, w)
            | None \<Rightarrow> do {
                (r, w) \<leftarrow> request (KubeList KNetwork ''default'' (hd chains)) (\<lambda>h. env_listNetworks E h (hd chains)) w;
                (case r of
                   Inl e \<Rightarrow> Some (Inl e, w)
                 | Inr sfcheadnet \<Rightarrow> do {
                     (r, w) \<leftarrow> request (KubeList KNetwork ''default'' (last chains)) (\<lambda>h. env_listNetworks E h (last chains)) w;
                     (case r of
                        Inl e \<Rightarrow> Some (Inl e, w)
                      | Inr sfctailnet \<Rightarrow> Some (Inr (if sfcheadnet \<noteq> [] \<and> sfctailnet \<noteq> [] then VirtualMode else []), w))
                   })
              })
         })"

definition CheckNetFromLabel :: "env \<Rightarrow> string \<Rightarrow> (world, error option) prog" where
  "CheckNetFromLabel E label w = do {
     (err, w) \<leftarrow> ask (env_v1alpha1Config E) w;
     (case err of
        Some e \<Rightarrow> Some (Some e, w)
      | None \<Rightarrow> do {
          (r, w) \<leftarrow> request (KubeList KNetwork ''default'' label) (\<lambda>h. env_listNetworks E h label) w;
          (case r of
             Inl e \<Rightarrow> Some (Some e, w)
           | Inr nets \<Rightarrow>
               if nets = [] then
                 (if length label < length ''net='' then None else CreateNetworkFromPool E (drop (length ''net='') label) w)
               else Some (None, w))
        })
   }"

text \<open>\<^verbatim>\<open>label[:3]\<close> panics for a label of fewer than three characters.\<close>

definition CheckNetForNetPool :: "env \<Rightarrow> NetworkChaining \<Rightarrow> (world, error option) prog" where
  "CheckNetForNetPool E cr = foreach (\<lambda>label w.
     (if length label < 3 then None
      else if take 3 label = ''net'' then do {
        (err, w) \<leftarrow> CheckNetFromLabel E label w;
        (case err of
           Some e \<Rightarrow> Some (Some (Errorf (''Error in Checking network in Network pool-'' @ error_msg e)), w)
         | None \<Rightarrow> Some (None, w)) }
      else Some (None, w))) (strings_Split (nc_NetworkChain cr) (CHR '',''))"

fun hasNetlabel :: "string list \<Rightarrow> bool option" where
  "hasNetlabel [] = Some False"
| "hasNetlabel (label # labels) =
     (if length label < 3 then None else if take 3 label = ''net'' then Some True else hasNetlabel labels)"

definition netlabel :: "nat \<Rightarrow> string" where
  "netlabel i = ''net='' @ ''virtual-net'' @ show_nat i"

fun extendChain :: "nat \<Rightarrow> string list \<Rightarrow> string \<Rightarrow> string" where
  "extendChain i [] updatedChain = updatedChain"
| "extendChain i (nflabel # labels) updatedChain =
     extendChain (i + 1) labels
       (if i = 0 then (netlabel i @ '','' @ nflabel) @ '','' @ netlabel (i + 1)
        else updatedChain @ '','' @ nflabel @ '','' @ netlabel (i + 1))"

definition CheckForOnlyNFLabel :: "NetworkChaining \<Rightarrow> (bool \<times> string \<times> error option) option" where
  "CheckForOnlyNFLabel cr =
     (let chains = strings_Split (nc_NetworkChain cr) (CHR '','')
      in case hasNetlabel chains of
           None \<Rightarrow> None
         | Some True \<Rightarrow> Some (False, [], None)
         | Some False \<Rightarrow>
             let updatedChain = extendChain 0 chains []
             in if updatedChain = [] then Some (False, [], Some (Errorf ''Error in updating sfc chain''))
                else Some (True, updatedChain, None))"

definition configureNetworkFromLabel :: "env \<Rightarrow> string \<Rightarrow> (world, error + RoutingNetwork) prog" where
  "configureNetworkFromLabel E label w = do {
     (err, w) \<leftarrow> ask (env_v1alpha1Config E) w;
     (case err of
        Some e \<Rightarrow> Some (Inl e, w)
      | None \<Rightarrow> do {
          (r, w) \<leftarrow> request (KubeList KNetwork ''default'' label) (\<lambda>h. env_listNetworks E h label) w;
          (case r of
             Inl e \<Rightarrow> Some (Inl e, w)
           | Inr nets \<Rightarrow>
               if length nets \<noteq> 1
               then Some (Inl (Errorf (''Virtual network is not available for the networklabel - '' @ label)), w)
               else do {
                 sn \<leftarrow> slice_nth (nw_Ipv4Subnets (nets ! 0)) 0;
                 Some (Inr \<lparr>rn_NetworkName = om_Name (nw_Meta (nets ! 0)), rn_GatewayIP = sn_ExcludeIps sn,
                   rn_Subnet = sn_Subnet sn, rn_PodSelector = [], rn_NamespaceSelector = []\<rparr>, w)
               })
        })
   }"

definition CalculateDstforTail :: "env \<Rightarrow> string list \<Rightarrow> (world, error + string list) prog" where
  "CalculateDstforTail E networklist w = do {
     (err, w) \<leftarrow> ask (env_v1alpha1Config E) w;
     (case err of
        Some e \<Rightarrow> Some (Inl e, w)
      | None \<Rightarrow> do {
          (r, w) \<leftarrow> rangeM (\<lambda>n dst w. do {
             (r, w) \<leftarrow> request (KubeGet KNetwork ''default'' n) (\<lambda>h. env_getNetwork E h ''default'' n) w;
             (case r of
                Inl e \<Rightarrow> Some (Inr e, w)
              | Inr net \<Rightarrow> do { sn \<leftarrow> slice_nth (nw_Ipv4Subnets net) 0; Some (Inl (dst @ [sn_Subnet sn]), w) }) }) networklist [] w;
          (case r of Inl dst \<Rightarrow> Some (Inr dst, w) | Inr e \<Rightarrow> Some (Inl e, w))
        })
   }"

definition DerivedNetworkFromNetworklist :: "env \<Rightarrow> string list \<Rightarrow> (world, error + string list) prog" where
  "DerivedNetworkFromNetworklist E networklabellist w = do {
     (err, w) \<leftarrow> ask (env_v1alpha1Config E) w;
     (case err of
        Some e \<Rightarrow> Some (Inl e, w)
      | None \<Rightarrow> do {
          (r, w) \<leftarrow> rangeM (\<lambda>label networklist w. do {
             (r, w) \<leftarrow> request (KubeList KNetwork ''default'' label) (\<lambda>h. env_listNetworks E h label) w;
             (case r of
                Inl e \<Rightarrow> Some (Inr e, w)
              | Inr vn \<Rightarrow>
                  if length vn \<noteq> 1
                  then Some (Inr (Errorf (''Virtual network is not available for the networklabel - '' @ label)), w)
                  else Some (Inl (networklist @ [om_Name (nw_Meta (vn ! 0))]), w)) }) networklabellist [] w;
          (case r of Inl networklist \<Rightarrow> Some (Inr networklist, w) | Inr e \<Rightarrow> Some (Inl e, w))
        })
   }"

section \<open>Attaching a pod to a network\<close>

fun findNetwork :: "env \<Rightarrow> jobject list \<Rightarrow> NetInterface \<Rightarrow> string \<Rightarrow> error + bool" where
  "findNetwork E [] net networkname = Inr False"
| "findNetwork E (v # vs) net networkname =
     (case env_mapstructure E v net of
        Inl e \<Rightarrow> Inl e
      | Inr net \<Rightarrow> if ni_Name net = networkname then Inr True else findNetwork E vs net networkname)"

definition IsPodNetwork :: "env \<Rightarrow> Pod \<Rightarrow> string \<Rightarrow> error + bool" where
  "IsPodNetwork E pod networkname =
     (case map_of (pod_Annotations pod) nfnNetAnnotation of
        None \<Rightarrow> Inr False
      | Some val \<Rightarrow>
          (case env_unmarshalNfn E val of
             Inl e \<Rightarrow> Inl e
           | Inr nfn \<Rightarrow> if nfn_Type nfn \<noteq> ''ovn4nfv'' then Inr False
                        else findNetwork E (nfn_Interface nfn) empty_NetInterface networkname))"

text \<open>\<^verbatim>\<open>NetInterface\<close> marshalled and read back as a map: it has no JSON tags.\<close>

definition netInterfaceMap :: "NetInterface \<Rightarrow> jobject" where
  "netInterfaceMap n = [(''Name'', ni_Name n), (''Interface'', ni_Interface n), (''NetType'', ni_NetType n),
     (''DefaultGateway'', ni_DefaultGateway n), (''IPAddress'', ni_IPAddress n), (''MacAddress'', ni_MacAddress n),
     (''GWIPaddress'', ni_GWIPaddress n)]"

definition buildNfnAnnotations :: "env \<Rightarrow> Pod \<Rightarrow> string \<Rightarrow> string \<Rightarrow> bool \<Rightarrow> (world, error + string) prog" where
  "buildNfnAnnotations E pod ifname networkname toDelete w =
     (if map_of (pod_Annotations pod) Ovn4nfvAnnotationTag = None then Some (Inr [], w)
      else
     (case GetOvnController w of
        Some err \<Rightarrow> Some (Inl err, w)
      | None \<Rightarrow> do {
          ((key, val), w) \<leftarrow> AddLogicalPorts E pod [netInterfaceMap (empty_NetInterface\<lparr>ni_Name := networkname, ni_Interface := ifname\<rparr>)] True w;
          (if val = []
           then Some (Inl (Errorf ''requested annotation value from the AddLogicalPorts() can't be empty''), w)
           else do {
             (err, w) \<leftarrow> (if toDelete then Some (None, w)
               else do {
                 (err, w) \<leftarrow> ask (env_kubeConfig E) w;
                 (case err of
                    Some e \<Rightarrow> Some (Some (Errorf (''Error in getting kube clientset - '' @ error_msg e)), w)
                  | None \<Rightarrow> do {
                      (err, w) \<leftarrow> AppendAnnotationOnPod E pod key val w;
                      (case err of
                         Some e \<Rightarrow> Some (Some (Errorf (''error in the appending annotation in pod -'' @ error_msg e)), w)
                       | None \<Rightarrow> Some (None, w)) }) });
             (case err of Some e \<Rightarrow> Some (Inl e, w) | None \<Rightarrow> Some (Inr (strings_ReplaceAll val [CHR 0x5C] []), w))
           })
        }))"

text \<open>
  The search for a free interface name: one pass over the interfaces, taking the next name of the
  closure each time the current one is met.
\<close>

fun pickIfname :: "env \<Rightarrow> jobject list \<Rightarrow> NetInterface \<Rightarrow> string \<Rightarrow> nat \<Rightarrow> error + string" where
  "pickIfname E [] net inet interfaceIndex = Inr inet"
| "pickIfname E (v # vs) net inet interfaceIndex =
     (case env_mapstructure E v net of
        Inl e \<Rightarrow> Inl e
      | Inr net \<Rightarrow>
          (let (inet, interfaceIndex) = (if ni_Interface net = inet then SFCNetworkIfname interfaceIndex else (inet, interfaceIndex))
           in pickIfname E vs net inet interfaceIndex))"

definition AddPodNetworkAnnotations :: "env \<Rightarrow> Pod \<Rightarrow> string \<Rightarrow> bool \<Rightarrow> (world, error + string) prog" where
  "AddPodNetworkAnnotations E pod networkname toDelete w =
     (let (inet, interfaceIndex) = SFCNetworkIfname 0
      in case map_of (pod_Annotations pod) nfnNetAnnotation of
           None \<Rightarrow> buildNfnAnnotations E pod inet networkname toDelete w
         | Some val \<Rightarrow>
             (case env_unmarshalNfn E val of
                Inl e \<Rightarrow> Some (Inl e, w)
              | Inr nfn \<Rightarrow>
                  (case pickIfname E (nfn_Interface nfn) empty_NetInterface inet interfaceIndex of
                     Inl e \<Rightarrow> Some (Inl e, w)
                   | Inr inet \<Rightarrow> buildNfnAnnotations E pod inet networkname toDelete w)))"

section \<open>The pods at the two ends of the chain\<close>

text \<open>The name of the network the pods of one end are attached to.\<close>

definition endNetwork :: "env \<Rightarrow> RoutingNetwork \<Rightarrow> string \<Rightarrow> string \<Rightarrow> (world, error + string) prog" where
  "endNetwork E ln mode networklabel w =
     (if mode \<noteq> VirtualMode then
        (if rn_NetworkName ln \<noteq> [] then do {
           (r, w) \<leftarrow> request (KubeGet KProviderNetwork ''default'' (rn_NetworkName ln)) (\<lambda>h. env_getProvider E h ''default'' (rn_NetworkName ln)) w;
           (case r of Inl e \<Rightarrow> Some (Inl e, w) | Inr pn \<Rightarrow> Some (Inr (om_Name (pn_Meta pn)), w)) }
         else Some (Inl (Errorf ''Provider network can't be empty in Non Virtual mode''), w))
      else do {
        (r, w) \<leftarrow> request (KubeList KNetwork ''default'' networklabel) (\<lambda>h. env_listNetworks E h networklabel) w;
        (case r of
           Inl e \<Rightarrow> Some (Inl e, w)
         | Inr vn \<Rightarrow>
             if length vn \<noteq> 1
             then Some (Inl (Errorf (''Virtual network is not available for the networklabel - '' @ networklabel)), w)
             else Some (Inr (om_Name (nw_Meta (vn ! 0))), w)) })"

type_synonym attach = "RoutingInfo list \<times> PodNetworkInfo list"

text \<open>The body of the loop over the selected pods: \<open>Inl\<close> continues, \<open>Inr\<close> is a returned error.\<close>

definition attachPod :: "env \<Rightarrow> string \<Rightarrow> Route list \<Rightarrow> bool \<Rightarrow> Pod \<Rightarrow> attach \<Rightarrow> (world, attach + error) prog" where
  "attachPod E networkname defaultRoute toDelete pod s w =
     (if \<not> toDelete \<and> map_of (pod_Annotations pod) SFCannotationTag = Some SFCcreated then Some (Inl s, w)
      else
     (case IsPodNetwork E pod networkname of
        Inl e \<Rightarrow> Some (Inr e, w)
      | Inr attached \<Rightarrow> do {
     (r, w) \<leftarrow> (if attached then Some (Inr [], w) else AddPodNetworkAnnotations E pod networkname toDelete w);
     (case r of
        Inl e \<Rightarrow> Some (Inr e, w)
      | Inr netinfo \<Rightarrow> do {
     id \<leftarrow> ContainerIDOf pod;
     let s' = (if attached
       then (fst s @ [\<lparr>ri_Name = pod_Name pod, ri_Namespace = pod_Namespace pod, ri_Id = id, ri_Node = pod_NodeName pod,
               ri_LeftNetworkRoute = [], ri_RightNetworkRoute = [], ri_DynamicNetworkRoutes = defaultRoute\<rparr>], snd s)
       else (fst s, snd s @ [\<lparr>pi_Name = pod_Name pod, pi_Namespace = pod_Namespace pod, pi_Id = id, pi_Node = pod_NodeName pod,
               pi_NetworkInfo = netinfo, pi_Route = defaultRoute\<rparr>]));
     (u, w) \<leftarrow> (if toDelete then Some (None, w) else SetAnnotationOnPod E pod SFCannotationTag SFCcreated w);
     Some (Inl s', w) }) }))"

definition attachNamespace ::
  "env \<Rightarrow> string \<Rightarrow> string \<Rightarrow> Route list \<Rightarrow> bool \<Rightarrow> ObjectMeta \<Rightarrow> attach \<Rightarrow> (world, attach + error) prog" where
  "attachNamespace E podLabel networkname defaultRoute toDelete ns s w =
     (if om_Labels ns = None then Some (Inl s, w)
      else do {
        (r, w) \<leftarrow> request (KubeList KPod (om_Name ns) podLabel) (\<lambda>h. env_listPods E h (om_Name ns) podLabel) w;
        (case r of
           Inl e \<Rightarrow> Some (Inr e, w)
         | Inr pods \<Rightarrow>
             if pods = [] then Some (Inl s, w)
             else do {
               (r, w) \<leftarrow> waitSelector E (om_Name ns) podLabel w;
               (case r of
                  Inl e \<Rightarrow> Some (Inr e, w)
                | Inr pl \<Rightarrow> rangeM (attachPod E networkname defaultRoute toDelete) pl s w)
             })
      })"

definition configurePodSelectorDeployment ::
  "env \<Rightarrow> RoutingNetwork \<Rightarrow> string \<Rightarrow> bool \<Rightarrow> string \<Rightarrow> string \<Rightarrow> string list \<Rightarrow> (world, error + attach) prog" where
  "configurePodSelectorDeployment E ln sfcEntryPodLabel toDelete mode networklabel dst w = do {
     (err, w) \<leftarrow> ask (env_kubeConfig E) w;
     (case err of Some e \<Rightarrow> Some (Inl e, w) | None \<Rightarrow> do {
     (err, w) \<leftarrow> ask (env_v1alpha1Config E) w;
     (case err of Some e \<Rightarrow> Some (Inl e, w) | None \<Rightarrow> do {
     (r, w) \<leftarrow> endNetwork E ln mode networklabel w;
     (case r of Inl e \<Rightarrow> Some (Inl e, w) | Inr networkname \<Rightarrow> do {
     (r, w) \<leftarrow> request (KubeList KPod ''default'' sfcEntryPodLabel) (\<lambda>h. env_listPods E h ''default'' sfcEntryPodLabel) w;
     (case r of Inl e \<Rightarrow> Some (Inl e, w) | Inr pods \<Rightarrow>
      if length pods \<noteq> 1 then Some (Inl oneReplica, w) else do {
     let podName = pod_Name (pods ! 0);
     (err, w) \<leftarrow> waitPod E podName w;
     (case err of Some e \<Rightarrow> Some (Inl e, w) | None \<Rightarrow> do {
     (r, w) \<leftarrow> GetIPAdressForPod E networkname podName w;
     (case r of Inl e \<Rightarrow> Some (Inl e, w) | Inr sfcEntryIP \<Rightarrow> do {
     let defaultRoute = map (\<lambda>d. \<lparr>rt_Dst = d, rt_GW = sfcEntryIP\<rparr>) dst;
     let nsLabel = env_selectorString E (rn_NamespaceSelector ln);
     let podLabel = env_selectorString E (rn_PodSelector ln);
     (r, w) \<leftarrow> request (KubeList KNamespace [] nsLabel) (\<lambda>h. env_listNamespaces E h nsLabel) w;
     (case r of Inl e \<Rightarrow> Some (Inl e, w) | Inr nslist \<Rightarrow> do {
     (r, w) \<leftarrow> rangeM (attachNamespace E podLabel networkname defaultRoute toDelete) nslist ([], []) w;
     (case r of Inl s \<Rightarrow> Some (Inr s, w) | Inr e \<Rightarrow> Some (Inl e, w)) }) }) }) }) }) }) })
   }"

section \<open>The routes of the functions in the chain\<close>

text \<open>
  The address of the neighbour with a given label on a given network.  The pod state returned with
  no error is always true, so that the message of the last branch is never built.
\<close>

definition neighbourIP :: "env \<Rightarrow> string list \<Rightarrow> nat \<Rightarrow> string list \<Rightarrow> nat \<Rightarrow> (world, error + string) prog" where
  "neighbourIP E deploymentList i networkList j w = do {
     label \<leftarrow> slice_nth deploymentList i;
     (r, w) \<leftarrow> CheckPodStatusFromPodLabel E label w;
     (case r of
        Inl e \<Rightarrow> Some (Inl e, w)
      | Inr (podrunningState, podname) \<Rightarrow>
          if podrunningState then do { nw \<leftarrow> slice_nth networkList j; GetIPAdressForPod E nw podname w }
          else Some (Inl (Errorf (''Error in getting network function podname with pod label -'' @ label)), w))
   }"

definition leftStep ::
  "env \<Rightarrow> nat \<Rightarrow> string list \<Rightarrow> string list \<Rightarrow> RoutingNetwork \<Rightarrow> string \<times> Route list \<Rightarrow> (world, (string \<times> Route list) + error) prog" where
  "leftStep E pos networkList deploymentList l s w = do {
     (r, w) \<leftarrow> (if pos = 0 then Some (Inr (rn_GatewayIP l), w)
                else neighbourIP E deploymentList (pos - 1) networkList (pos - 1) w);
     (case r of
        Inl e \<Rightarrow> Some (Inr e, w)
      | Inr nextLeftIP \<Rightarrow> Some (Inl (nextLeftIP, snd s @ [\<lparr>rt_Dst = rn_Subnet l, rt_GW = nextLeftIP\<rparr>]), w))
   }"

definition leftRoutes ::
  "env \<Rightarrow> nat \<Rightarrow> RoutingNetwork list \<Rightarrow> string list \<Rightarrow> string list \<Rightarrow> (world, (string \<times> Route list) + error) prog" where
  "leftRoutes E pos ln networkList deploymentList = rangeM (leftStep E pos networkList deploymentList) ln ([], [])"

text \<open>
  The last function of the chain takes the gateway of the first right network and leaves the loop
  before a route is appended.
\<close>

fun rightRoutes ::
  "env \<Rightarrow> nat \<Rightarrow> nat \<Rightarrow> RoutingNetwork list \<Rightarrow> string list \<Rightarrow> string list \<Rightarrow> string \<times> Route list \<Rightarrow> (world, (string \<times> Route list) + error) prog" where
  "rightRoutes E pos num [] networkList deploymentList s w = Some (Inl s, w)"
| "rightRoutes E pos num (right # rn) networkList deploymentList s w =
     (if pos + 1 = num then Some (Inl (rn_GatewayIP right, snd s), w)
      else do {
        (r, w) \<leftarrow> neighbourIP E deploymentList (pos + 1) networkList pos w;
        (case r of
           Inl e \<Rightarrow> Some (Inr e, w)
         | Inr nextRightIP \<Rightarrow> rightRoutes E pos num rn networkList deploymentList
             (nextRightIP, snd s @ [\<lparr>rt_Dst = rn_Subnet right, rt_GW = nextRightIP\<rparr>]) w)
      })"

text \<open>A route to every network of the chain that is not adjacent to the function.\<close>

definition farStep :: "env \<Rightarrow> nat \<Rightarrow> string \<Rightarrow> string \<Rightarrow> nat \<times> string \<Rightarrow> Route list \<Rightarrow> (world, Route list + error) prog" where
  "farStep E pos nextLeftIP nextRightIP net routes w =
     (if fst net = pos \<or> fst net + 1 = pos then Some (Inl routes, w)
      else do {
        (r, w) \<leftarrow> GetNetworkSubnet E (snd net) w;
        (case r of
           Inl e \<Rightarrow> Some (Inr e, w)
         | Inr dst \<Rightarrow> Some (Inl (routes @ [\<lparr>rt_Dst = dst, rt_GW = (if pos < fst net then nextRightIP else nextLeftIP)\<rparr>]), w))
      })"

definition farRoutes :: "env \<Rightarrow> nat \<Rightarrow> string \<Rightarrow> string \<Rightarrow> string list \<Rightarrow> (world, Route list + error) prog" where
  "farRoutes E pos nextLeftIP nextRightIP networkList = rangeM (farStep E pos nextLeftIP nextRightIP) (enumerate 0 networkList) []"

definition calculateDeploymentRoutes ::
  "env \<Rightarrow> string \<Rightarrow> string \<Rightarrow> nat \<Rightarrow> nat \<Rightarrow> RoutingNetwork list \<Rightarrow> RoutingNetwork list \<Rightarrow> string list \<Rightarrow> string list \<Rightarrow>
    (world, error + RoutingInfo) prog" where
  "calculateDeploymentRoutes E namespace label pos num ln rn networkList deploymentList w = do {
     (err, w) \<leftarrow> ask (env_kubeConfig E) w;
     (case err of Some e \<Rightarrow> Some (Inl e, w) | None \<Rightarrow> do {
     (r, w) \<leftarrow> request (KubeList KPod namespace label) (\<lambda>h. env_listPods E h namespace label) w;
     (case r of Inl e \<Rightarrow> Some (Inl e, w) | Inr pods \<Rightarrow>
     (case pods of [] \<Rightarrow> Some (Inl (Errorf ''Pod not found''), w) | pod # _ \<Rightarrow> do {
     id \<leftarrow> ContainerIDOf pod;
     (r, w) \<leftarrow> leftRoutes E pos ln networkList deploymentList w;
     (case r of Inr e \<Rightarrow> Some (Inl e, w) | Inl (nextLeftIP, lefts) \<Rightarrow> do {
     (r, w) \<leftarrow> rightRoutes E pos num rn networkList deploymentList ([], []) w;
     (case r of Inr e \<Rightarrow> Some (Inl e, w) | Inl (nextRightIP, rights) \<Rightarrow> do {
     (r, w) \<leftarrow> farRoutes E pos nextLeftIP nextRightIP networkList w;
     (case r of Inr e \<Rightarrow> Some (Inl e, w) | Inl far \<Rightarrow>
     Some (Inr \<lparr>ri_Name = pod_Name pod, ri_Namespace = namespace, ri_Id = id, ri_Node = pod_NodeName pod,
       ri_LeftNetworkRoute = lefts, ri_RightNetworkRoute = rights,
       ri_DynamicNetworkRoutes = far @ [\<lparr>rt_Dst = ''0.0.0.0'', rt_GW = nextRightIP\<rparr>]\<rparr>, w)) }) }) })) })
   }"

section \<open>The chain as a whole\<close>

text \<open>Labels at even positions name functions, those at odd positions networks.\<close>

fun splitChain :: "string list \<Rightarrow> string list \<times> string list" where
  "splitChain [] = ([], [])"
| "splitChain [d] = ([d], [])"
| "splitChain (d # n # rest) = (let (ds, ns) = splitChain rest in (d # ds, n # ns))"

text \<open>\<^verbatim>\<open>chains[1:len(labels)-1]\<close>, which panics for a chain of one label.\<close>

definition innerChain :: "string list \<Rightarrow> string list option" where
  "innerChain labels = (if length labels < 2 then None else Some (butlast (tl labels)))"

definition CheckSFCPodLabelStatus :: "env \<Rightarrow> NetworkChaining \<Rightarrow> (world, error + bool) prog" where
  "CheckSFCPodLabelStatus E cr w = do {
     let labels = strings_Split (nc_NetworkChain cr) (CHR '','');
     (r, w) \<leftarrow> ValidateNetworkChaining E cr w;
     (case r of Inl e \<Rightarrow> Some (Inl e, w) | Inr mode \<Rightarrow> do {
     labels \<leftarrow> (if mode = VirtualMode then innerChain labels else Some labels);
     (r, w) \<leftarrow> rangeM (\<lambda>sfcpodlabel isPodRunning w. do {
        (err, w) \<leftarrow> ask (env_kubeConfig E) w;
        (case err of Some e \<Rightarrow> Some (Inr (Inl e), w) | None \<Rightarrow> do {
        (r, w) \<leftarrow> request (KubeList KPod ''default'' sfcpodlabel) (\<lambda>h. env_listPods E h ''default'' sfcpodlabel) w;
        (case r of Inl e \<Rightarrow> Some (Inr (Inl e), w) | Inr pods \<Rightarrow>
          if pods = [] then Some (Inr (Inr False), w)
          else if length pods \<noteq> 1 then Some (Inr (Inl oneReplica), w)
          else do {
            let podName = pod_Name (pods ! 0);
            (r, w) \<leftarrow> request (KubeGet KPod ''default'' podName) (\<lambda>h. env_getPod E h ''default'' podName) w;
            (case r of
               Inl e \<Rightarrow> Some (Inr (Inl e), w)
             | Inr pdState \<Rightarrow> if pod_Phase pdState = PodRunning then Some (Inl True, w) else Some (Inr (Inr False), w)) }) }) })
       (fst (splitChain labels)) False w;
     (case r of Inl running \<Rightarrow> Some (Inr running, w) | Inr res \<Rightarrow> Some (res, w)) })
   }"

text \<open>The loops of \<^verbatim>\<open>CalculateRoutes\<close> over the networks of one end.\<close>

definition configureEnd ::
  "env \<Rightarrow> RoutingNetwork list \<Rightarrow> string option \<Rightarrow> bool \<Rightarrow> string \<Rightarrow> string \<Rightarrow> string list \<Rightarrow> PodNetworkInfo list \<Rightarrow> (world, attach + error) prog" where
  "configureEnd E nets deployment cs mode networklabel dst pnis = rangeM (\<lambda>net (infos, pnis) w. do {
     d \<leftarrow> deployment;
     (r, w) \<leftarrow> configurePodSelectorDeployment E net d cs mode networklabel dst w;
     (case r of Inl e \<Rightarrow> Some (Inr e, w) | Inr (r, pni) \<Rightarrow> Some (Inl (infos @ r, pnis @ pni), w)) }) nets ([], pnis)"

definition deploymentStep ::
  "env \<Rightarrow> string \<Rightarrow> RoutingNetwork list \<Rightarrow> RoutingNetwork list \<Rightarrow> string list \<Rightarrow> string list \<Rightarrow> nat \<times> string \<Rightarrow> RoutingInfo list \<Rightarrow>
    (world, RoutingInfo list + error) prog" where
  "deploymentStep E namespace lnconf rnconf networkList deploymentList d infos w = do {
     (r, w) \<leftarrow> calculateDeploymentRoutes E namespace (snd d) (fst d) (length deploymentList) lnconf rnconf networkList deploymentList w;
     (case r of Inl e \<Rightarrow> Some (Inr e, w) | Inr r \<Rightarrow> Some (Inl (infos @ [r]), w))
   }"

definition deploymentRoutes ::
  "env \<Rightarrow> string \<Rightarrow> RoutingNetwork list \<Rightarrow> RoutingNetwork list \<Rightarrow> string list \<Rightarrow> string list \<Rightarrow> (world, RoutingInfo list + error) prog" where
  "deploymentRoutes E namespace lnconf rnconf networkList deploymentList =
     rangeM (deploymentStep E namespace lnconf rnconf networkList deploymentList) (enumerate 0 deploymentList) []"

text \<open>In virtual mode the networks of the first and last label join the left and right networks.\<close>

definition endsFromLabels ::
  "env \<Rightarrow> string \<Rightarrow> string \<Rightarrow> string \<Rightarrow> RoutingNetwork list \<Rightarrow> RoutingNetwork list \<Rightarrow>
    (world, error + (RoutingNetwork list \<times> RoutingNetwork list)) prog" where
  "endsFromLabels E mode sfcheadlabel sfctaillabel ln rn w =
     (if mode = VirtualMode then do {
        (l, w) \<leftarrow> configureNetworkFromLabel E sfcheadlabel w;
        (case l of Inl e \<Rightarrow> Some (Inl e, w) | Inr l \<Rightarrow> do {
        (r, w) \<leftarrow> configureNetworkFromLabel E sfctaillabel w;
        (case r of Inl e \<Rightarrow> Some (Inl e, w) | Inr r \<Rightarrow> Some (Inr (ln @ [l], rn @ [r]), w)) }) }
      else Some (Inr (ln, rn), w))"

definition subnets :: "RoutingNetwork list \<Rightarrow> string list" where
  "subnets nets = filter (\<lambda>s. s \<noteq> []) (map rn_Subnet nets)"

definition CalculateRoutes ::
  "env \<Rightarrow> NetworkChaining \<Rightarrow> bool \<Rightarrow> bool \<Rightarrow> (world, error + (PodNetworkInfo list \<times> RoutingInfo list)) prog" where
  "CalculateRoutes E cr cs onlyPodSelector w = do {
     (err, w) \<leftarrow> CheckNetForNetPool E cr w;
     (case err of Some e \<Rightarrow> Some (Inl e, w) | None \<Rightarrow> do {
     let labels = strings_Split (nc_NetworkChain cr) (CHR '','');
     (r, w) \<leftarrow> ValidateNetworkChaining E cr w;
     (case r of Inl e \<Rightarrow> Some (Inl e, w) | Inr mode \<Rightarrow> do {
     let sfcheadlabel = (if mode = VirtualMode then hd labels else []);
     let sfctaillabel = (if mode = VirtualMode then last labels else []);
     labels \<leftarrow> (if mode = VirtualMode then innerChain labels else Some labels);
     let (deploymentList, networklabelList) = splitChain labels;
     (r, w) \<leftarrow> DerivedNetworkFromNetworklist E networklabelList w;
     (case r of Inl e \<Rightarrow> Some (Inl e, w) | Inr networkList \<Rightarrow> do {
     (r, w) \<leftarrow> configureEnd E (nc_LeftNetwork cr) (slice_nth deploymentList 0) cs mode sfcheadlabel [''0.0.0.0''] [] w;
     (case r of Inr e \<Rightarrow> Some (Inl e, w) | Inl (lnRoutingInfo, pnis) \<Rightarrow> do {
     (r, w) \<leftarrow> endsFromLabels E mode sfcheadlabel sfctaillabel (nc_LeftNetwork cr) (nc_RightNetwork cr) w;
     (case r of Inl e \<Rightarrow> Some (Inl e, w) | Inr (ln, rn) \<Rightarrow> do {
     (r, w) \<leftarrow> CalculateDstforTail E networkList w;
     (case r of Inl e \<Rightarrow> Some (Inl e, w) | Inr taildst \<Rightarrow> do {
     let rdst = subnets ln @ subnets rn @ taildst;
     (r, w) \<leftarrow> configureEnd E (nc_RightNetwork cr)
        (if deploymentList = [] then None else slice_nth deploymentList (length deploymentList - 1)) cs mode sfctaillabel rdst pnis w;
     (case r of Inr e \<Rightarrow> Some (Inl e, w) | Inl (rnRoutingInfo, podsNetworkInfo) \<Rightarrow> do {
     let chainRoutingInfo = lnRoutingInfo @ lnRoutingInfo;
     let lnconf = filter (\<lambda>n. rn_NetworkName n \<noteq> []) ln;
     let rnconf = filter (\<lambda>n. rn_NetworkName n \<noteq> []) rn;
     (if onlyPodSelector then Some (Inr (podsNetworkInfo, chainRoutingInfo), w)
      else do {
        (r, w) \<leftarrow> deploymentRoutes E (om_Namespace (nc_Meta cr)) lnconf rnconf networkList deploymentList w;
        (case r of
           Inr e \<Rightarrow> Some (Inl e, w)
         | Inl infos \<Rightarrow> Some (Inr (podsNetworkInfo, chainRoutingInfo @ infos), w)) }) }) }) }) }) }) }) })
   }"

section \<open>A new pod\<close>

definition noSFCrequired :: "env \<Rightarrow> string \<Rightarrow> string \<Rightarrow> (world, error option) prog" where
  "noSFCrequired E podname podnamespace w = do {
     (r, w) \<leftarrow> request (KubeGet KPod podnamespace podname) (\<lambda>h. env_getPod E h podnamespace podname) w;
     (case r of
        Inl e \<Rightarrow> Some (Some (Errorf (''noSFCrequired - Error in getting the pod - '' @ podname @ '' clientset get options - '' @ error_msg e)), w)
      | Inr pod \<Rightarrow> do { (u, w) \<leftarrow> SetAnnotationOnPod E pod SFCannotationTag SFCNotrequired w; Some (None, w) })
   }"

text \<open>The two nested loops over the maps; \<open>isEqual\<close> is never reset.\<close>

fun compareInner :: "string \<times> string \<Rightarrow> (string, string) gomap \<Rightarrow> bool \<Rightarrow> bool" where
  "compareInner a [] isEqual = isEqual"
| "compareInner a (b # bs) isEqual = (if a = b then True else if isEqual then isEqual else compareInner a bs isEqual)"

definition compareEachLabel :: "(string, string) gomap \<Rightarrow> (string, string) gomap \<Rightarrow> bool" where
  "compareEachLabel a b = fold (\<lambda>p isEqual. compareInner p b isEqual) a False"

definition selects :: "(string, string) gomap \<Rightarrow> (string, string) gomap \<Rightarrow> RoutingNetwork \<Rightarrow> bool" where
  "selects pdlabel pdnslabel n \<longleftrightarrow> compareEachLabel (rn_PodSelector n) pdlabel \<and> compareEachLabel (rn_NamespaceSelector n) pdnslabel"

definition findSFC :: "NetworkChaining list \<Rightarrow> (string, string) gomap \<Rightarrow> (string, string) gomap \<Rightarrow> NetworkChaining option" where
  "findSFC items pdlabel pdnslabel =
     (case find (\<lambda>nc. list_ex (selects pdlabel pdnslabel) (nc_LeftNetwork nc)) items of
        Some nc \<Rightarrow> Some nc
      | None \<Rightarrow> find (\<lambda>nc. list_ex (selects pdlabel pdnslabel) (nc_RightNetwork nc)) items)"

definition sfcErr :: "string \<Rightarrow> error \<Rightarrow> error" where
  "sfcErr what e = Errorf (''ConfigureforSFC - '' @ what @ '' - '' @ error_msg e)"

definition ConfigureforSFC ::
  "env \<Rightarrow> string \<Rightarrow> string \<Rightarrow> (world, bool \<times> PodNetworkInfo list \<times> RoutingInfo list \<times> error option) prog" where
  "ConfigureforSFC E podname podnamespace w = do {
     let failed = (\<lambda>what e w. Some ((False, [], [], Some (sfcErr what e)), w));
     (err, w) \<leftarrow> ask (env_kubeConfig E) w;
     (case err of Some e \<Rightarrow> failed ''Error in kube clientset'' e w | None \<Rightarrow> do {
     (err, w) \<leftarrow> ask (env_v1alpha1Config E) w;
     (case err of Some e \<Rightarrow> failed ''Error in k8sv1alpha clientset'' e w | None \<Rightarrow> do {
     (r, w) \<leftarrow> request (KubeList KNetworkChaining ''default'' []) (env_listChainings E) w;
     (case r of Inl e \<Rightarrow> failed ''Error in listing the k8sv1alpha network chainings'' e w | Inr sfc \<Rightarrow> do {
     (r, w) \<leftarrow> request (KubeGet KPod podnamespace podname) (\<lambda>h. env_getPod E h podnamespace podname) w;
     (case r of Inl e \<Rightarrow> failed (''Error in getting the pod - '' @ podname @ '' clientset get options'') e w | Inr pod \<Rightarrow>
     (case om_Labels (pod_Meta pod) of
        None \<Rightarrow> do { (u, w) \<leftarrow> noSFCrequired E podname podnamespace w; Some ((False, [], [], None), w) }
      | Some pdlabel \<Rightarrow> do {
     (r, w) \<leftarrow> request (KubeGet KNamespace [] podnamespace) (\<lambda>h. env_getNamespace E h podnamespace) w;
     (case r of Inl e \<Rightarrow> failed (''Error in getting the pod namespace - '' @ podnamespace @ '' clientset get options'') e w
      | Inr namespace \<Rightarrow>
     (case om_Labels namespace of
        None \<Rightarrow> do { (u, w) \<leftarrow> noSFCrequired E podname podnamespace w; Some ((False, [], [], None), w) }
      | Some pdnslabel \<Rightarrow>
     if sfc = [] then Some ((False, [], [], None), w)
     else (case findSFC sfc pdlabel pdnslabel of
        None \<Rightarrow> Some ((False, [], [], None), w)
      | Some nc \<Rightarrow> do {
     let sfcname = om_Name (nc_Meta nc);
     (r, w) \<leftarrow> request (KubeGet KNetworkChaining ''default'' sfcname) (\<lambda>h. env_getChaining E h ''default'' sfcname) w;
     (case r of Inl e \<Rightarrow> failed (''Error in getting the network chaining - '' @ sfcname @ '' k8sv1alpha1 clientset get options'') e w
      | Inr cr \<Rightarrow> do {
     (r, w) \<leftarrow> CalculateRoutes E cr False True w;
     (case r of Inl e \<Rightarrow> failed ''Error in calculate routes for configuring pod for SFC'' e w
      | Inr (podnetworkList, routeList) \<Rightarrow> Some ((True, podnetworkList, routeList, None), w)) }) }))) })) }) }) })
   }"

section \<open>Labels and names\<close>

lemma compareInner_iff: "compareInner a bs e \<longleftrightarrow> e \<or> a \<in> set bs"
  by (induction a bs e rule: compareInner.induct) auto

lemma fold_compareInner: "fold (\<lambda>p isEqual. compareInner p b isEqual) a e \<longleftrightarrow> e \<or> set a \<inter> set b \<noteq> {}"
  by (induction a arbitrary: e) (auto simp: compareInner_iff)

text \<open>
  The label comparison of the service chains is equivalent to asking for one common label: it
  holds as soon as a single key and value of the selector occurs on the object, whatever the
  selector's other labels are, and never for an empty selector.
\<close>

theorem compareEachLabel_any: "compareEachLabel a b \<longleftrightarrow> set a \<inter> set b \<noteq> {}"
  by (simp add: compareEachLabel_def fold_compareInner)

fun interleave :: "nat \<Rightarrow> string list \<Rightarrow> string list" where
  "interleave i [] = [netlabel i]"
| "interleave i (l # ls) = netlabel i # l # interleave (i + 1) ls"

lemma interleave_ne [simp]: "interleave i ls \<noteq> []"
  by (cases ls) simp_all

lemma Join_Cons: "ys \<noteq> [] \<Longrightarrow> strings_Join (x # ys) sep = x @ sep @ strings_Join ys sep"
  by (cases ys) simp_all

fun chainRest :: "nat \<Rightarrow> string list \<Rightarrow> string" where
  "chainRest i [] = []"
| "chainRest i (l # ls) = '','' @ l @ '','' @ netlabel (i + 1) @ chainRest (i + 1) ls"

lemma Join_interleave: "strings_Join (interleave i ls) '','' = netlabel i @ chainRest i ls"
  by (induction ls arbitrary: i) (simp_all add: Join_Cons)

lemma extendChain_Join: "0 < i \<Longrightarrow> extendChain i ls acc = acc @ chainRest i ls"
  by (induction ls arbitrary: i acc) simp_all

lemma extendChain_all: "ls \<noteq> [] \<Longrightarrow> extendChain 0 ls [] = strings_Join (interleave 0 ls) '',''"
  using Join_interleave [of 0 ls] by (cases ls) (simp_all add: extendChain_Join)

lemma netlabel_chars: "CHR '','' \<notin> set (netlabel i)"
  using show_nat_digits [of "CHR '',''" i] by (auto simp: netlabel_def is_digit_def)

lemma splitChain_interleave: "splitChain (butlast (tl (interleave i ls))) = (ls, map netlabel [i + 1..<i + length ls])"
proof (induction ls arbitrary: i)
  case (Cons l ls)
  show ?case
  proof (cases ls)
    case (Cons m ms)
    then have "butlast (tl (interleave i (l # ls))) = l # netlabel (i + 1) # butlast (tl (interleave (i + 1) ls))" by simp
    moreover have "[i + 1..<i + length (l # ls)] = (i + 1) # [i + 1 + 1..<i + 1 + length ls]"
      using Cons by (simp add: upt_conv_Cons del: upt_Suc)
    ultimately show ?thesis using Cons.IH [of "i + 1"] by (simp del: upt_Suc)
  qed simp
qed simp

lemma interleave_ends: "hd (interleave i ls) = netlabel i" "last (interleave i ls) = netlabel (i + length ls)"
  by (induction ls arbitrary: i) simp_all

text \<open>
  C22.  A chain of network functions only is completed with one virtual network before, between and
  after them: the completed chain, read the way the routes are computed in virtual mode, gives back
  exactly the functions, with the virtual networks numbered in order.  (The calls of this exported
  function in the repository are commented out; the property is one of the function itself.)
\<close>

theorem CheckForOnlyNFLabel_completes:
  assumes "CheckForOnlyNFLabel cr = Some (True, s, err)"
  defines "nfs \<equiv> strings_Split (nc_NetworkChain cr) (CHR '','')" and "chain \<equiv> strings_Split s (CHR '','')"
  shows "err = None \<and> splitChain (butlast (tl chain)) = (nfs, map netlabel [1..<length nfs]) \<and>
    hd chain = netlabel 0 \<and> last chain = netlabel (length nfs)"
proof -
  have ne: "nfs \<noteq> []" by (simp add: nfs_def)
  have s: "s = strings_Join (interleave 0 nfs) '',''" and e: "err = None"
    using assms(1) extendChain_all [OF ne] unfolding CheckForOnlyNFLabel_def nfs_def Let_def
    by (auto split: option.splits bool.splits if_splits)
  have "CHR '','' \<notin> set l" if "l \<in> set (interleave i nfs)" for l i
  proof -
    have "CHR '','' \<notin> set m" if "m \<in> set nfs" for m
      using that split_pred_parts [of m] by (auto simp: nfs_def strings_Split_def)
    then show ?thesis using that netlabel_chars by (induction nfs arbitrary: i) auto
  qed
  then have "chain = interleave 0 nfs" unfolding chain_def s by (intro split_Join) auto
  with e show ?thesis using splitChain_interleave [of 0 nfs] interleave_ends [of 0 nfs] by simp
qed

definition demo_chain :: "string \<Rightarrow> NetworkChaining" where
  "demo_chain labels = \<lparr>nc_Meta = \<lparr>om_Name = ''chain1'', om_Namespace = ''default'', om_Labels = None, om_Annotations = [],
       om_Finalizers = [], om_Deleting = False, om_Generation = 1\<rparr>, nc_ChainType = ''Routing'', nc_LeftNetwork = [], nc_RightNetwork = [],
     nc_NetworkChain = labels, nc_State = []\<rparr>"

theorem CheckForOnlyNFLabel_completes_witness:
  "\<exists>s. CheckForOnlyNFLabel (demo_chain ''app=slb,app=ngfw'') = Some (True, s, None) \<and>
     hd (strings_Split s (CHR '','')) = netlabel 0 \<and> last (strings_Split s (CHR '','')) = netlabel 2"
proof -
  have "CheckForOnlyNFLabel (demo_chain ''app=slb,app=ngfw'') =
      Some (True, ''net=virtual-net0,app=slb,net=virtual-net1,app=ngfw,net=virtual-net2'', None)" by code_simp
  moreover have "length (strings_Split (nc_NetworkChain (demo_chain ''app=slb,app=ngfw'')) (CHR '','')) = 2" by code_simp
  ultimately show ?thesis using CheckForOnlyNFLabel_completes [of "demo_chain ''app=slb,app=ngfw''"] by simp
qed

section \<open>Interface names\<close>

definition snName :: "nat \<Rightarrow> string" where
  "snName k = ''sn'' @ show_nat k"

lemma snName_inj [simp]: "snName j = snName k \<longleftrightarrow> j = k"
proof
  assume "snName j = snName k"
  then have "read_nat (show_nat j) = read_nat (show_nat k)" by (simp add: snName_def)
  then show "j = k" by (simp add: read_show_nat)
qed simp

text \<open>The index the search ends with, on the interface names met.\<close>

fun nextFree :: "string list \<Rightarrow> nat \<Rightarrow> nat" where
  "nextFree [] k = k"
| "nextFree (n # ns) k = nextFree ns (if n = snName k then k + 1 else k)"

text \<open>The names of the interfaces, as \<^verbatim>\<open>mapstructure\<close> decodes them one after the other into one variable.\<close>

fun ifnames :: "env \<Rightarrow> jobject list \<Rightarrow> NetInterface \<Rightarrow> error + string list" where
  "ifnames E [] net = Inr []"
| "ifnames E (v # vs) net = (case env_mapstructure E v net of Inl e \<Rightarrow> Inl e
     | Inr net \<Rightarrow> (case ifnames E vs net of Inl e \<Rightarrow> Inl e | Inr ns \<Rightarrow> Inr (ni_Interface net # ns)))"

lemma pickIfname_nextFree:
  "pickIfname E vs net (snName k) (k + 1) = (case ifnames E vs net of Inl e \<Rightarrow> Inl e | Inr ns \<Rightarrow> Inr (snName (nextFree ns k)))"
proof (induction vs arbitrary: net k)
  case (Cons v vs)
  show ?case
  proof (cases "env_mapstructure E v net")
    case (Inr net')
    have "SFCNetworkIfname (k + 1) = (snName (k + 1), k + 1 + 1)" by (simp add: SFCNetworkIfname_def snName_def)
    with Inr Cons.IH [of net' k] Cons.IH [of net' "k + 1"] show ?thesis by (simp split: sum.splits)
  qed simp
qed simp

lemma nextFree_ge: "k \<le> nextFree ns k"
  by (induction ns arbitrary: k) (auto intro: Suc_leD)

lemma nextFree_met: "k \<le> j \<Longrightarrow> j < nextFree ns k \<Longrightarrow> snName j \<in> set ns"
proof (induction ns arbitrary: k)
  case (Cons n ns)
  show ?case using Cons.IH [of k] Cons.IH [of "Suc k"] Cons.prems
    by (cases "n = snName k"; cases "j = k") (auto simp: Suc_le_eq)
qed simp

text \<open>The indices of the \<^verbatim>\<open>sn\<close> names in a list occur in increasing order.\<close>

definition in_order :: "string list \<Rightarrow> bool" where
  "in_order ns \<longleftrightarrow> sorted_wrt (\<lambda>a b. \<forall>j k. a = snName j \<and> b = snName k \<longrightarrow> j < k) ns"

lemma nextFree_fresh: "in_order ns \<Longrightarrow> snName (nextFree ns k) \<notin> set ns"
proof (induction ns arbitrary: k)
  case (Cons n ns)
  let ?k = "if n = snName k then k + 1 else k"
  have "in_order ns" using Cons.prems by (simp add: in_order_def)
  with Cons.IH have "snName (nextFree ns ?k) \<notin> set ns" .
  moreover have "n \<noteq> snName (nextFree ns ?k)"
  proof
    assume n: "n = snName (nextFree ns ?k)"
    then have "nextFree ns ?k \<noteq> k" using nextFree_ge [of ?k ns] by (auto split: if_splits)
    then have "?k < nextFree ns ?k \<or> n = snName k" using nextFree_ge [of ?k ns] by auto
    then have lt: "?k < nextFree ns ?k" using n nextFree_ge [of ?k ns] by (auto split: if_splits)
    then have "snName ?k \<in> set ns" by (intro nextFree_met) simp_all
    then have "nextFree ns ?k < ?k" using Cons.prems n by (auto simp: in_order_def)
    with lt show False by simp
  qed
  ultimately show ?case by simp
qed simp

text \<open>
  The name given to a new interface of a pod is a name no interface of the pod has, provided
  the generated names among them occur in increasing order; in any other order the single pass may
  end on a name it has already gone past, as it does for \<^verbatim>\<open>sn1, sn0\<close>.
\<close>

theorem pickIfname_fresh:
  assumes "ifnames E vs net = Inr ns"
  shows "\<exists>k. pickIfname E vs net (fst (SFCNetworkIfname 0)) (snd (SFCNetworkIfname 0)) = Inr (snName k) \<and>
     (in_order ns \<longrightarrow> snName k \<notin> set ns) \<and> (ns = [snName 1, snName 0] \<longrightarrow> k = 1)"
proof -
  have "SFCNetworkIfname 0 = (snName 0, 0 + 1)" by (simp add: SFCNetworkIfname_def snName_def)
  then show ?thesis using pickIfname_nextFree [of E vs net 0] assms nextFree_fresh [of ns 0]
    by (intro exI [of _ "nextFree ns 0"]) auto
qed

theorem pickIfname_fresh_witness:
  "\<exists>k. pickIfname (null_env\<lparr>env_mapstructure := (\<lambda>v n. Inr (n\<lparr>ni_Interface := the (map_of v ''interface'')\<rparr>))\<rparr>)
      [[(''interface'', snName 0)], [(''interface'', snName 4)]] empty_NetInterface (fst (SFCNetworkIfname 0)) (snd (SFCNetworkIfname 0)) = Inr (snName k) \<and>
     snName k \<notin> {snName 0, snName 4}"
proof -
  let ?E = "null_env\<lparr>env_mapstructure := (\<lambda>v n. Inr (n\<lparr>ni_Interface := the (map_of v ''interface'')\<rparr>))\<rparr>"
  have "ifnames ?E [[(''interface'', snName 0)], [(''interface'', snName 4)]] empty_NetInterface = Inr [snName 0, snName 4]" by simp
  moreover have "in_order [snName 0, snName 4]" by (auto simp: in_order_def)
  ultimately show ?thesis using pickIfname_fresh [of ?E "[[(''interface'', snName 0)], [(''interface'', snName 4)]]"] by auto
qed

section \<open>Waiting\<close>

definition pod_ready :: "Pod \<Rightarrow> bool" where
  "pod_ready p \<longleftrightarrow> pod_Phase p = PodRunning \<and> (case pod_ContainerStatuses p of [] \<Rightarrow> False | c # cs \<Rightarrow> cs_Ready c)"

lemma checkPodstatus_ok:
  assumes "env_kubeConfig E (trace w) = None" and "env_getPod E (trace w) ''default'' p = Inr pod"
  shows "checkPodstatus E p w = Some (Inr (if pod_ready pod then Some pod else None), w\<lparr>trace := trace w @ [KubeGet KPod ''default'' p]\<rparr>)"
  using assms by (simp add: checkPodstatus_def pod_ready_def Let_def)

text \<open>
  The unbounded wait for a pod ends at the first reading that finds it running and ready: if
  the API server answers every reading and the pod is ready at the reading after \<open>n\<close>, and
  not before, the wait returns without error after exactly \<open>n + 1\<close> readings.
\<close>

theorem waitPod_returns:
  assumes "\<And>h. env_kubeConfig E h = None"
    and "\<And>k. k \<le> n \<Longrightarrow> \<exists>pod. env_getPod E (trace w @ replicate k (KubeGet KPod ''default'' p)) ''default'' p = Inr pod \<and> (pod_ready pod \<longleftrightarrow> k = n)"
  shows "waitPod E p w = Some (None, w\<lparr>trace := trace w @ replicate (Suc n) (KubeGet KPod ''default'' p)\<rparr>)"
  using assms(2)
proof (induction n arbitrary: w)
  case 0
  then obtain pod where "env_getPod E (trace w) ''default'' p = Inr pod" "pod_ready pod" by fastforce
  with checkPodstatus_ok [OF assms(1)] show ?case by (subst waitPod.simps) simp
next
  case (Suc n)
  let ?w = "w\<lparr>trace := trace w @ [KubeGet KPod ''default'' p]\<rparr>"
  obtain pod where "env_getPod E (trace w) ''default'' p = Inr pod" "\<not> pod_ready pod" using Suc.prems [of 0] by auto
  with checkPodstatus_ok [OF assms(1)] have "waitPod E p w = waitPod E p ?w" by (subst waitPod.simps) simp
  also have "\<dots> = Some (None, ?w\<lparr>trace := trace ?w @ replicate (Suc n) (KubeGet KPod ''default'' p)\<rparr>)"
    using Suc.prems [of "Suc k" for k] by (intro Suc.IH) (simp add: replicate_app_Cons_same)
  finally show ?case by (simp add: replicate_app_Cons_same)
qed

definition demo_pod :: "string \<Rightarrow> Pod" where
  "demo_pod phase = \<lparr>pod_Meta = \<lparr>om_Name = ''slb-0'', om_Namespace = ''default'', om_Labels = None, om_Annotations = [],
       om_Finalizers = [], om_Deleting = False, om_Generation = 1\<rparr>, pod_NodeName = ''n1'', pod_HostNetwork = False, pod_Phase = phase,
     pod_PodIP = [], pod_ContainerStatuses = [\<lparr>cs_ContainerID = ''docker://c1'', cs_Ready = True\<rparr>]\<rparr>"

theorem waitPod_returns_witness:
  "\<exists>w'. waitPod (null_env\<lparr>env_getPod := (\<lambda>h ns n. Inr (demo_pod (if length h < 2 then ''Pending'' else ''Running'')))\<rparr>) ''slb-0'' exec_world = Some (None, w') \<and>
     length (trace w') = 3"
proof -
  let ?E = "null_env\<lparr>env_getPod := (\<lambda>h ns n. Inr (demo_pod (if length h < 2 then ''Pending'' else ''Running'')))\<rparr>"
  have t: "trace exec_world = []" by (simp add: exec_world_def init_world_def)
  have ready: "pod_ready (demo_pod ph) \<longleftrightarrow> ph = ''Running''" for ph by (simp add: pod_ready_def demo_pod_def PodRunning_def)
  have k: "env_kubeConfig ?E h = None" for h by (simp add: null_env_def)
  from waitPod_returns [OF k, of 2 exec_world "''slb-0''"] t ready show ?thesis by auto
qed

section \<open>The routes of one function\<close>

lemma leftRoutes_dst:
  assumes "leftRoutes E pos ln nl dl w = Some (Inl (ip, lefts), w')"
  shows "map rt_Dst lefts = map rn_Subnet ln"
proof -
  have "map rt_Dst lefts = map rt_Dst acc @ map rn_Subnet ln"
    if "rangeM (leftStep E pos nl dl) ln (x, acc) w = Some (Inl (ip, lefts), w')" for acc x w
    using that
  proof (induction ln arbitrary: acc x w)
    case (Cons l ln)
    then obtain g v where "rangeM (leftStep E pos nl dl) ln (g, acc @ [\<lparr>rt_Dst = rn_Subnet l, rt_GW = g\<rparr>]) v = Some (Inl (ip, lefts), w')"
      by (auto simp: leftStep_def [of E pos nl dl l] run_conv)
    from Cons.IH [OF this] show ?case by simp
  qed simp
  from this [OF assms [unfolded leftRoutes_def]] show ?thesis by simp
qed

lemma rightRoutes_dst:
  "rightRoutes E pos num rn nl dl (x, acc) w = Some (Inl (ip, rights), w') \<Longrightarrow>
     map rt_Dst rights = map rt_Dst acc @ (if pos + 1 = num then [] else map rn_Subnet rn)"
proof (induction rn arbitrary: x acc w)
  case (Cons r rn)
  then show ?case by (cases "pos + 1 = num") (force simp: run_conv)+
qed simp

definition far :: "nat \<Rightarrow> nat \<Rightarrow> nat list" where
  "far pos n = filter (\<lambda>i. i \<noteq> pos \<and> i + 1 \<noteq> pos) [0..<n]"

lemma farRoutes_gw:
  assumes "farRoutes E pos l r nl w = Some (Inl routes, w')"
  shows "map rt_GW routes = map (\<lambda>i. if pos < i then r else l) (far pos (length nl))"
proof -
  let ?g = "\<lambda>i. if pos < i then r else l" and ?f = "filter (\<lambda>i. i \<noteq> pos \<and> i + 1 \<noteq> pos)"
  have "map rt_GW routes = map rt_GW acc @ map ?g (?f [j..<j + length nl])"
    if "rangeM (farStep E pos l r) (enumerate j nl) acc w = Some (Inl routes, w')" for acc j w
    using that
  proof (induction nl arbitrary: acc j w)
    case (Cons nw nl)
    have u: "[j..<j + length (nw # nl)] = j # [Suc j..<Suc j + length nl]" by (simp add: upt_conv_Cons del: upt_Suc)
    show ?case
    proof (cases "j = pos \<or> j + 1 = pos")
      case True
      with Cons.prems have "rangeM (farStep E pos l r) (enumerate (Suc j) nl) acc w = Some (Inl routes, w')"
        by (auto simp: farStep_def [of E pos l r "(j, nw)"])
      from Cons.IH [OF this] True show ?thesis unfolding u by auto
    next
      case False
      with Cons.prems obtain dst v where "rangeM (farStep E pos l r) (enumerate (Suc j) nl)
           (acc @ [\<lparr>rt_Dst = dst, rt_GW = ?g j\<rparr>]) v = Some (Inl routes, w')"
        by (auto simp: farStep_def [of E pos l r "(j, nw)"] run_conv)
      from Cons.IH [OF this] False show ?thesis unfolding u by auto
    qed
  qed simp
  from this [OF assms [unfolded farRoutes_def]] show ?thesis by (simp add: far_def)
qed

text \<open>
  The routes computed for a function of the chain: one to each left network; one to each
  right network, except for the last function, which gets none; one to each network of the chain it
  is not adjacent to, towards the left or the right neighbour; and last the default route, through
  the same gateway as the networks to its right.
\<close>

theorem calculateDeploymentRoutes_shape:
  assumes "calculateDeploymentRoutes E ns label pos num ln rn networkList deploymentList w = Some (Inr r, w')"
  shows "map rt_Dst (ri_LeftNetworkRoute r) = map rn_Subnet ln \<and>
    map rt_Dst (ri_RightNetworkRoute r) = (if pos + 1 = num then [] else map rn_Subnet rn) \<and>
    (\<exists>routes left right. ri_DynamicNetworkRoutes r = routes @ [\<lparr>rt_Dst = ''0.0.0.0'', rt_GW = right\<rparr>] \<and>
       map rt_GW routes = map (\<lambda>i. if pos < i then right else left) (far pos (length networkList)))"
proof -
  from assms obtain nl lefts nr rights routes w1 w2 w3 w4 where
    l: "leftRoutes E pos ln networkList deploymentList w1 = Some (Inl (nl, lefts), w2)" and
    r: "rightRoutes E pos num rn networkList deploymentList ([], []) w2 = Some (Inl (nr, rights), w3)" and
    f: "farRoutes E pos nl nr networkList w3 = Some (Inl routes, w4)" and
    eq: "ri_LeftNetworkRoute r = lefts" "ri_RightNetworkRoute r = rights"
      "ri_DynamicNetworkRoutes r = routes @ [\<lparr>rt_Dst = ''0.0.0.0'', rt_GW = nr\<rparr>]"
    unfolding calculateDeploymentRoutes_def by (auto simp: run_conv)
  show ?thesis using leftRoutes_dst [OF l] rightRoutes_dst [OF r] farRoutes_gw [OF f] eq by auto
qed

definition demo_end :: "string \<Rightarrow> string \<Rightarrow> RoutingNetwork" where
  "demo_end gw subnet = \<lparr>rn_NetworkName = ''net'', rn_GatewayIP = gw, rn_Subnet = subnet, rn_PodSelector = [], rn_NamespaceSelector = []\<rparr>"

theorem calculateDeploymentRoutes_shape_witness:
  "\<exists>r w' right. calculateDeploymentRoutes (null_env\<lparr>env_listPods := (\<lambda>h ns l. Inr [demo_pod ''Running''])\<rparr>) ''default'' ''app=slb'' 0 1
       [demo_end ''10.1.1.1'' ''10.1.1.0/24''] [demo_end ''10.1.2.1'' ''10.1.2.0/24''] [] [''app=slb''] exec_world = Some (Inr r, w') \<and>
     map rt_Dst (ri_LeftNetworkRoute r) = [''10.1.1.0/24''] \<and> ri_RightNetworkRoute r = [] \<and>
     ri_DynamicNetworkRoutes r = [\<lparr>rt_Dst = ''0.0.0.0'', rt_GW = right\<rparr>]"
proof -
  let ?E = "null_env\<lparr>env_listPods := (\<lambda>h ns l. Inr [demo_pod ''Running''])\<rparr>"
  let ?ln = "[demo_end ''10.1.1.1'' ''10.1.1.0/24'']" and ?rn = "[demo_end ''10.1.2.1'' ''10.1.2.0/24'']"
  have k: "env_kubeConfig null_env h = None" for h by (simp add: null_env_def)
  obtain r w' where c: "calculateDeploymentRoutes ?E ''default'' ''app=slb'' 0 1 ?ln ?rn [] [''app=slb''] exec_world = Some (Inr r, w')"
    by (simp add: calculateDeploymentRoutes_def leftRoutes_def leftStep_def farRoutes_def ContainerIDOf_def slice_nth_def demo_pod_def k)
  from calculateDeploymentRoutes_shape [OF c] c show ?thesis by (auto simp: far_def demo_end_def)
qed

section \<open>The routes of the chain\<close>

text \<open>What the pods at one end are told: only routes to the given destinations.\<close>

definition end_info :: "string list \<Rightarrow> RoutingInfo \<Rightarrow> bool" where
  "end_info dst r \<longleftrightarrow> ri_LeftNetworkRoute r = [] \<and> ri_RightNetworkRoute r = [] \<and> map rt_Dst (ri_DynamicNetworkRoutes r) = dst"

lemma attachPod_info:
  assumes "attachPod E nw dr del pod s w = Some (Inl s', w')" and "\<forall>r \<in> set (fst s). end_info (map rt_Dst dr) r"
  shows "\<forall>r \<in> set (fst s'). end_info (map rt_Dst dr) r"
  using assms by (auto simp: attachPod_def end_info_def run_conv Let_def split: if_splits)

lemma attachNamespace_info:
  assumes "attachNamespace E pl nw dr del ns s w = Some (Inl s', w')" and "\<forall>r \<in> set (fst s). end_info (map rt_Dst dr) r"
  shows "\<forall>r \<in> set (fst s'). end_info (map rt_Dst dr) r"
proof -
  from assms(1) consider "s' = s" | pods v where "rangeM (attachPod E nw dr del) pods s v = Some (Inl s', w')"
    by (auto simp: attachNamespace_def run_conv)
  then show ?thesis
  proof cases
    case 2
    from rangeM_inv [where I = "\<lambda>s. \<forall>r \<in> set (fst s). end_info (map rt_Dst dr) r", OF 2 assms(2)] attachPod_info show ?thesis by blast
  qed (use assms(2) in simp)
qed

lemma configurePodSelectorDeployment_info:
  assumes "configurePodSelectorDeployment E ln lab del mode nl dst w = Some (Inr (infos, pnis), w')"
  shows "\<forall>r \<in> set infos. end_info dst r"
proof -
  from assms obtain nslist podLabel nw ip v where
    l: "rangeM (attachNamespace E podLabel nw (map (\<lambda>d. \<lparr>rt_Dst = d, rt_GW = ip\<rparr>) dst) del) nslist ([], []) v = Some (Inl (infos, pnis), w')"
    unfolding configurePodSelectorDeployment_def Let_def by (auto simp: run_conv)
  let ?dr = "map (\<lambda>d. \<lparr>rt_Dst = d, rt_GW = ip\<rparr>) dst"
  have "map rt_Dst ?dr = dst" by (simp add: comp_def)
  moreover have "\<forall>r \<in> set (fst (infos, pnis)). end_info (map rt_Dst ?dr) r"
    by (rule rangeM_inv [where I = "\<lambda>s. \<forall>r \<in> set (fst s). end_info (map rt_Dst ?dr) r", OF l])
      (simp, rule attachNamespace_info)
  ultimately show ?thesis by simp
qed

lemma configureEnd_info:
  assumes "configureEnd E nets d cs mode nl dst pnis w = Some (Inl (infos, pnis'), w')"
  shows "\<forall>r \<in> set infos. end_info dst r"
proof -
  have "\<forall>r \<in> set (fst (infos, pnis')). end_info dst r"
    using assms unfolding configureEnd_def
    by (rule rangeM_inv [where I = "\<lambda>s. \<forall>r \<in> set (fst s). end_info dst r"])
      (auto simp: run_conv dest!: configurePodSelectorDeployment_info)
  then show ?thesis by simp
qed

lemma deploymentRoutes_length:
  assumes "deploymentRoutes E ns ln rn nl dl w = Some (Inl infos, w')"
  shows "length infos = length dl"
proof -
  have "length infos = length acc + length ds"
    if "rangeM (deploymentStep E ns ln rn nl dl) ds acc w = Some (Inl infos, w')" for acc ds w
    using that
  proof (induction ds arbitrary: acc w)
    case (Cons d ds)
    then obtain r v where "rangeM (deploymentStep E ns ln rn nl dl) ds (acc @ [r]) v = Some (Inl infos, w')"
      by (auto simp: deploymentStep_def [of E ns ln rn nl dl d] run_conv)
    from Cons.IH [OF this] show ?case by simp
  qed simp
  from this [OF assms [unfolded deploymentRoutes_def]] show ?thesis by simp
qed

text \<open>
  The routing information of a chain lists that of the left pods twice and that of the right
  pods not at all: what is returned is a list \<open>ls @ ls @ fs\<close> in which \<open>ls\<close> only has
  default routes and \<open>fs\<close> is one entry for each function, or empty when only the pods are
  asked for.
\<close>

theorem CalculateRoutes_left_twice:
  assumes "CalculateRoutes E cr cs only w = Some (Inr (pnis, infos), w')"
  shows "\<exists>ls fs. infos = ls @ ls @ fs \<and> (\<forall>r \<in> set ls. end_info [''0.0.0.0''] r) \<and> (only \<longrightarrow> fs = []) \<and>
    (\<not> only \<longrightarrow> (\<exists>labels. (labels = strings_Split (nc_NetworkChain cr) (CHR '','') \<or>
        innerChain (strings_Split (nc_NetworkChain cr) (CHR '','')) = Some labels) \<and> length fs = length (fst (splitChain labels))))"
proof -
  from assms obtain ls fs d mode hl p p' labels v v' where
    e: "configureEnd E (nc_LeftNetwork cr) d cs mode hl [''0.0.0.0''] p v = Some (Inl (ls, p'), v')"
    and labels: "labels = strings_Split (nc_NetworkChain cr) (CHR '','') \<or>
        innerChain (strings_Split (nc_NetworkChain cr) (CHR '','')) = Some labels"
    and infos: "infos = ls @ ls @ fs"
    and fs: "(only \<and> fs = []) \<or> (\<exists>ns ln rn nl u u'. \<not> only \<and> deploymentRoutes E ns ln rn nl (fst (splitChain labels)) u = Some (Inl fs, u'))"
    unfolding CalculateRoutes_def Let_def split_def
    by (auto simp: run_conv split: if_splits) (metis append_Nil2)+
  from configureEnd_info [OF e] infos fs labels deploymentRoutes_length show ?thesis by (metis append_Nil2)
qed

definition chain_env :: env where
  "chain_env = null_env\<lparr>env_exec := (\<lambda>h c args. (if List.member args ''lsp-list'' then ''u (slb-0)'' else ''m 10.1.1.5'', [], None)),
     env_listPods := (\<lambda>h ns l. Inr [(demo_pod ''Running'')\<lparr>pod_Meta := (pod_Meta (demo_pod []))\<lparr>om_Annotations := [(nfnNetAnnotation, ''j'')]\<rparr>\<rparr>]),
     env_getPod := (\<lambda>h ns n. Inr (demo_pod ''Running'')),
     env_listNamespaces := (\<lambda>h l. Inr [(pod_Meta (demo_pod []))\<lparr>om_Name := ''default'', om_Labels := Some []\<rparr>]),
     env_getProvider := (\<lambda>h ns n. Inr \<lparr>pn_Meta = (pod_Meta (demo_pod []))\<lparr>om_Name := n\<rparr>, pn_CniType = [], pn_Ipv4Subnets = [], pn_Ipv6Subnets = [],
        pn_ProviderNetType = [], pn_Vlan = \<lparr>vs_VlanId = [], vs_VlanNodeSelector = [], vs_NodeLabelList = [], vs_ProviderInterfaceName = [],
          vs_LogicalInterfaceName = []\<rparr>, pn_Direct = \<lparr>ds_DirectNodeSelector = [], ds_NodeLabelList = [], ds_ProviderInterfaceName = []\<rparr>, pn_State = []\<rparr>),
     env_unmarshalNfn := (\<lambda>s. Inr \<lparr>nfn_Type = ''ovn4nfv'', nfn_Interface = [[]]\<rparr>),
     env_mapstructure := (\<lambda>v n. Inr (n\<lparr>ni_Name := ''net''\<rparr>))\<rparr>"

definition end_chain :: NetworkChaining where
  "end_chain = (demo_chain ''app=slb'')\<lparr>nc_LeftNetwork := [demo_end ''10.1.1.1'' ''10.1.1.0/24''],
     nc_RightNetwork := [demo_end ''10.1.2.1'' ''10.1.2.0/24'']\<rparr>"

lemma chain_env_routes:
  "case CalculateRoutes chain_env end_chain True True exec_world of
     Some (Inr (pnis, infos), w') \<Rightarrow> map (\<lambda>r. map rt_GW (ri_DynamicNetworkRoutes r)) infos = [[''10.1.1.5''], [''10.1.1.5'']] | _ \<Rightarrow> False"
  by code_simp

theorem CalculateRoutes_left_twice_witness:
  "\<exists>pnis infos w' ls. CalculateRoutes chain_env end_chain True True exec_world = Some (Inr (pnis, infos), w') \<and> infos = ls @ ls \<and> ls \<noteq> []"
proof -
  from chain_env_routes obtain pnis infos w' where c: "CalculateRoutes chain_env end_chain True True exec_world = Some (Inr (pnis, infos), w')"
    and i: "map (\<lambda>r. map rt_GW (ri_DynamicNetworkRoutes r)) infos = [[''10.1.1.5''], [''10.1.1.5'']]"
    by (auto split: option.splits sum.splits prod.splits)
  from CalculateRoutes_left_twice [OF c] i obtain ls where "infos = ls @ ls" by auto
  with c i show ?thesis by (metis append_Nil list.simps(8) list.distinct(1))
qed

end
