(* ===== verification/Cri_Client.thy ===== *)
theory Cri_Client
  imports Chaining
begin

text \<open>
  How the agent finds the process of a container: \<^verbatim>\<open>internal/pkg/criclient/criclient.go\<close> and
  its three implementations in \<^verbatim>\<open>docker\<close>, \<^verbatim>\<open>containerd\<close> and \<^verbatim>\<open>crio\<close>.  The runtimes
  themselves are a parameter.
\<close>

section \<open>Container identifiers\<close>

text \<open>\<^verbatim>\<open>strings.Split\<close> for a separator of several characters.\<close>

function strings_SplitStr :: "string \<Rightarrow> string \<Rightarrow> string list" where
  "strings_SplitStr s sep =
     (if sep \<noteq> [] \<and> prefix sep s then [] # strings_SplitStr (drop (length sep) s) sep
      else case s of
        [] \<Rightarrow> [[]]
      | c # cs \<Rightarrow> (case strings_SplitStr cs sep of p # ps \<Rightarrow> (c # p) # ps | [] \<Rightarrow> [[c]]))"
  by pat_completeness auto
termination
  by (relation "measure (\<lambda>(s, sep). length s)") (auto simp: prefix_def)

declare strings_SplitStr.simps [simp del]

text \<open>An identifier of Kubernetes is \<^verbatim>\<open>runtime://id\<close>; reading its second part cannot fail.\<close>

definition stripScheme :: "string \<Rightarrow> string option" where
  "stripScheme i = (if strings_Contains i ''://'' then slice_nth (strings_SplitStr i ''://'') 1 else Some i)"

section \<open>The clients\<close>

datatype CRIClient = DockerClient | ContainerdClient | CrioClient

record runtime =
  rt_newClient :: "CRIClient \<Rightarrow> error option"
  rt_TaskPid :: "string \<Rightarrow> error + nat"
  rt_ContainerInfo :: "string \<Rightarrow> error + int"
  rt_ContainerInspect :: "string \<Rightarrow> error + int"

definition docker_GetPid :: "runtime \<Rightarrow> string \<Rightarrow> (error + int) option" where
  "docker_GetPid R i =
     Some (case rt_ContainerInspect R i of
        Inl e \<Rightarrow> Inl e
      | Inr pid \<Rightarrow> if pid = 0 then Inl (Errorf (''Container not found '' @ i)) else Inr pid)"

definition containerd_GetPid :: "runtime \<Rightarrow> string \<Rightarrow> (error + int) option" where
  "containerd_GetPid R i = do {
     i \<leftarrow> stripScheme i;
     Some (case rt_TaskPid R i of Inl e \<Rightarrow> Inl e | Inr pid \<Rightarrow> Inr (int pid))
   }"

definition crio_GetPid :: "runtime \<Rightarrow> string \<Rightarrow> (error + int) option" where
  "crio_GetPid R i = do { i \<leftarrow> stripScheme i; Some (rt_ContainerInfo R i) }"

fun cri_GetPid :: "CRIClient \<Rightarrow> runtime \<Rightarrow> string \<Rightarrow> (error + int) option" where
  "cri_GetPid DockerClient = docker_GetPid"
| "cri_GetPid ContainerdClient = containerd_GetPid"
| "cri_GetPid CrioClient = crio_GetPid"

definition docker_NewClient :: "runtime \<Rightarrow> error + CRIClient" where
  "docker_NewClient R = (case rt_newClient R DockerClient of Some e \<Rightarrow> Inl e | None \<Rightarrow> Inr DockerClient)"

definition containerd_NewClient :: "runtime \<Rightarrow> error + CRIClient" where
  "containerd_NewClient R = (case rt_newClient R ContainerdClient of Some e \<Rightarrow> Inl e | None \<Rightarrow> Inr ContainerdClient)"

definition crio_NewClient :: "runtime \<Rightarrow> error + CRIClient" where
  "crio_NewClient R = (case rt_newClient R CrioClient of Some e \<Rightarrow> Inl e | None \<Rightarrow> Inr CrioClient)"

text \<open>The older function of \<^verbatim>\<open>chain.go\<close>, which makes a client of its own.\<close>

definition GetPidForContainer :: "runtime \<Rightarrow> string \<Rightarrow> error + int" where
  "GetPidForContainer R i =
     (case rt_newClient R DockerClient of
        Some e \<Rightarrow> Inl e
      | None \<Rightarrow>
          (case rt_ContainerInspect R i of
             Inl e \<Rightarrow> Inl e
           | Inr pid \<Rightarrow> if pid = 0 then Inl (Errorf (''Container not found '' @ i)) else Inr pid))"

lemma GetPidForContainer_docker:
  "Some (GetPidForContainer R i) = (case docker_NewClient R of Inl e \<Rightarrow> Some (Inl e) | Inr cli \<Rightarrow> cri_GetPid cli R i)"
  by (simp add: GetPidForContainer_def docker_NewClient_def docker_GetPid_def split: option.split)

definition NewCRIClient :: "runtime \<Rightarrow> Node \<Rightarrow> error + CRIClient" where
  "NewCRIClient R node =
     (let critype = hd (strings_Split (node_ContainerRuntimeVersion node) (CHR '':''))
      in if critype = ''docker'' then docker_NewClient R
         else if critype = ''containerd'' then containerd_NewClient R
         else if critype = ''cri-o'' then crio_NewClient R
         else Inl (Errorf (''Unsupported CRI type: '' @ critype)))"

section \<open>The process of a pod's container\<close>

lemma SplitStr_plain: "\<not> strings_Contains s sep \<Longrightarrow> strings_SplitStr s sep = [s]"
proof (induction s)
  case Nil
  then show ?case by (simp add: strings_SplitStr.simps [of "[]"])
next
  case (Cons c s)
  then show ?case by (simp add: strings_SplitStr.simps [of "c # s"])
qed

lemma SplitStr_scheme:
  assumes "CHR '':'' \<notin> set scheme" and "\<not> strings_Contains i ''://''"
  shows "strings_SplitStr (scheme @ ''://'' @ i) ''://'' = [scheme, i]"
  using assms(1)
proof (induction scheme)
  case Nil
  show ?case using SplitStr_plain [OF assms(2)] by (simp add: strings_SplitStr.simps [of "CHR '':'' # _"])
next
  case (Cons c scheme)
  then show ?case by (simp add: strings_SplitStr.simps [of "c # _"])
qed

lemma stripScheme_scheme:
  assumes "CHR '':'' \<notin> set scheme" and "\<not> strings_Contains i ''://''"
  shows "stripScheme (scheme @ ''://'' @ i) = Some i"
  using SplitStr_scheme [OF assms] Contains_append_left [of "''://'' @ i" "''://''" scheme]
  by (simp add: stripScheme_def slice_nth_def)

text \<open>
  What a runtime promises: a container of a status is found under the identifier the operator
  sends, which is the identifier of the status without a \<^verbatim>\<open>docker\<close> scheme.
\<close>

locale cri_client =
  fixes scheme :: string and getPid :: "string \<Rightarrow> (error + int) option" and lookup :: "string \<Rightarrow> error + int"
  assumes getPid_status: "\<not> strings_Contains i ''://'' \<Longrightarrow> getPid (strings_TrimPrefix (scheme @ ''://'' @ i) ''docker://'') = Some (lookup i)"
begin

lemma pid_of_pod:
  assumes "pod_ContainerStatuses pod = c # cs" and "cs_ContainerID c = scheme @ ''://'' @ i" and "\<not> strings_Contains i ''://''"
  shows "Option.bind (ContainerIDOf pod) getPid = Some (lookup i)"
  using assms getPid_status by (simp add: ContainerIDOf_def slice_nth_def)

end

text \<open>The answer of the runtime about one of its identifiers.\<close>

fun cri_lookup :: "CRIClient \<Rightarrow> runtime \<Rightarrow> string \<Rightarrow> error + int" where
  "cri_lookup DockerClient R i = (case rt_ContainerInspect R i of
     Inl e \<Rightarrow> Inl e | Inr pid \<Rightarrow> if pid = 0 then Inl (Errorf (''Container not found '' @ i)) else Inr pid)"
| "cri_lookup ContainerdClient R i = map_sum id int (rt_TaskPid R i)"
| "cri_lookup CrioClient R i = rt_ContainerInfo R i"

fun cri_scheme :: "CRIClient \<Rightarrow> string" where
  "cri_scheme DockerClient = ''docker''"
| "cri_scheme ContainerdClient = ''containerd''"
| "cri_scheme CrioClient = ''cri-o''"

interpretation cri: cri_client "cri_scheme c" "cri_GetPid c R" "cri_lookup c R"
proof
  fix i
  assume i: "\<not> strings_Contains i ''://''"
  show "cri_GetPid c R (strings_TrimPrefix (cri_scheme c @ ''://'' @ i) ''docker://'') = Some (cri_lookup c R i)"
  proof (cases c)
    case DockerClient
    then show ?thesis by (simp add: strings_TrimPrefix_def docker_GetPid_def)
  next
    case ContainerdClient
    with stripScheme_scheme [OF _ i, of "''containerd''"] show ?thesis
      by (simp add: strings_TrimPrefix_def containerd_GetPid_def split: sum.split)
  next
    case CrioClient
    with stripScheme_scheme [OF _ i, of "''cri-o''"] show ?thesis by (simp add: strings_TrimPrefix_def crio_GetPid_def)
  qed
qed

lemma critype_scheme: "hd (strings_Split (cri_scheme c @ ''://'' @ v) (CHR '':'')) = cri_scheme c"
  by (cases c) (simp_all add: strings_Split_def)

text \<open>
  C39.  Whatever runtime a node runs, the agent asks that runtime for the process of exactly the
  container a pod's status names, although the operator only knows how to strip Docker's scheme
  from the identifier it sends.
\<close>

theorem agent_finds_container:
  assumes "node_ContainerRuntimeVersion node = cri_scheme c @ ''://'' @ version" and "rt_newClient R c = None"
    and "pod_ContainerStatuses pod = st # sts" and "cs_ContainerID st = cri_scheme c @ ''://'' @ i" and "\<not> strings_Contains i ''://''"
  shows "\<exists>cli sent. NewCRIClient R node = Inr cli \<and> ContainerIDOf pod = Some sent \<and> cri_GetPid cli R sent = Some (cri_lookup c R i)"
proof -
  have "NewCRIClient R node = Inr c"
    unfolding NewCRIClient_def Let_def assms(1) critype_scheme using assms(2) by (cases c) (simp_all add: docker_NewClient_def containerd_NewClient_def crio_NewClient_def)
  moreover obtain sent where "ContainerIDOf pod = Some sent" using assms(3) by (simp add: ContainerIDOf_def slice_nth_def)
  ultimately show ?thesis using cri.pid_of_pod [OF assms(3-5)] by simp
qed

definition sample_runtime :: runtime where
  "sample_runtime = \<lparr>rt_newClient = (\<lambda>c. None), rt_TaskPid = (\<lambda>i. Inr 42), rt_ContainerInfo = (\<lambda>i. Inr 42), rt_ContainerInspect = (\<lambda>i. Inr 42)\<rparr>"

theorem agent_finds_container_witness:
  "\<exists>cli sent. NewCRIClient sample_runtime \<lparr>node_Name = ''n'', node_ContainerRuntimeVersion = ''cri-o://1.24''\<rparr> = Inr cli \<and>
     ContainerIDOf (zero_Pod\<lparr>pod_ContainerStatuses := [\<lparr>cs_ContainerID = ''cri-o://4711'', cs_Ready = True\<rparr>]\<rparr>) = Some sent \<and>
     cri_GetPid cli sample_runtime sent = Some (Inr 42)"
  using agent_finds_container [of "\<lparr>node_Name = ''n'', node_ContainerRuntimeVersion = ''cri-o://1.24''\<rparr>" CrioClient "''1.24''" sample_runtime
    "zero_Pod\<lparr>pod_ContainerStatuses := [\<lparr>cs_ContainerID = ''cri-o://4711'', cs_Ready = True\<rparr>]\<rparr>" "\<lparr>cs_ContainerID = ''cri-o://4711'', cs_Ready = True\<rparr>" "[]" "''4711''"]
  by (simp add: sample_runtime_def zero_Pod_def)

end
