(* ===== verification/Nodus_Auth.thy ===== *)
theory Nodus_Auth
  imports Kube_Client Ovn_Exec
begin

text \<open>
  \<^verbatim>\<open>internal/pkg/auth/auth.go\<close> and the parts of \<^verbatim>\<open>kube.go\<close> it calls: how the operator and
  the agent obtain the certificate of the service and build their TLS configuration from its
  secret, with the two places that do so, \<^verbatim>\<open>SetupNotifServer\<close> and the agent's \<^verbatim>\<open>main\<close>.
  Reading PEM data is the standard library's \<^verbatim>\<open>crypto\<close>, a parameter; a nil pointer is
  \<open>None\<close> and reading through it is a panic.
\<close>

section \<open>Secrets and certificates\<close>

definition GetSecret :: "env \<Rightarrow> string \<Rightarrow> string \<Rightarrow> (world, error + Secret option) prog" where
  "GetSecret E namespace name = request (KubeGet KSecret namespace name) (\<lambda>h. env_getSecret E h namespace name)"

definition GetCertManagerClient :: "env \<Rightarrow> (world, error option) prog" where
  "GetCertManagerClient E = ask (env_certManager E)"

definition GetKubeClient :: "env \<Rightarrow> (world, error option) prog" where
  "GetKubeClient E = ask (env_kubeConfig E)"

definition getCertClient :: "env \<Rightarrow> (world, error option) prog" where
  "getCertClient E w = do {
     (err, w) \<leftarrow> GetKubeClient E w;
     (if err \<noteq> None then Some (err, w) else GetCertManagerClient E w)
   }"

definition GetCert :: "env \<Rightarrow> string \<Rightarrow> string \<Rightarrow> (world, error + Certificate) prog" where
  "GetCert E namespace name w = do {
     (err, w) \<leftarrow> getCertClient E w;
     (case err of
        Some e \<Rightarrow> Some (Inl e, w)
      | None \<Rightarrow> request (KubeGet KCertificate namespace name) (\<lambda>h. env_getCertificate E h namespace name) w)
   }"

definition maxTries :: nat where "maxTries = 60"
definition DefaultCert :: string where "DefaultCert = ''nodus-cert''"
definition DefaultCniCert :: string where "DefaultCniCert = ''nodus-cni-cert''"
definition NamespaceEnv :: string where "NamespaceEnv = ''POD_NAMESPACE''"
definition NfnOperatorHostEnv :: string where "NfnOperatorHostEnv = ''NFN_OPERATOR_SERVICE_HOST''"
definition CAFile :: string where "CAFile = ''ca.crt''"
definition CertFile :: string where "CertFile = ''tls.crt''"
definition KeyFile :: string where "KeyFile = ''tls.key''"
definition ipAddrSecretAnnotationKey :: string where "ipAddrSecretAnnotationKey = ''cert-manager.io/ip-sans''"

text \<open>
  The two loops, on the tries that are left and the variables \<^verbatim>\<open>s\<close> and \<^verbatim>\<open>err\<close>; a single
  try left is the test \<^verbatim>\<open>i >= maxTries - 1\<close>.
\<close>

fun waitSecret :: "env \<Rightarrow> string \<Rightarrow> string \<Rightarrow> nat \<Rightarrow> Secret option \<times> error option \<Rightarrow> (world, Secret option \<times> error option) prog" where
  "waitSecret E namespace name 0 v w = Some (v, w)"
| "waitSecret E namespace name (Suc n) v w = do {
     (r, w) \<leftarrow> GetSecret E namespace name w;
     (case r of
        Inr (Some s) \<Rightarrow> Some ((Some s, None), w)
      | Inr None \<Rightarrow> if n = 0 then Some ((None, None), w) else waitSecret E namespace name n (None, None) w
      | Inl e \<Rightarrow> if n = 0 then Some ((None, Some e), w) else waitSecret E namespace name n (None, Some e) w)
   }"

definition WaitForSecret :: "env \<Rightarrow> string \<Rightarrow> string \<Rightarrow> (world, Secret option \<times> error option) prog" where
  "WaitForSecret E namespace name = waitSecret E namespace name maxTries (None, None)"

text \<open>Comparing the addresses position by position: the certificate may have too few, a panic.\<close>

fun sameAddresses :: "string list \<Rightarrow> string list \<Rightarrow> bool option" where
  "sameAddresses [] ips = Some True"
| "sameAddresses (a # as) [] = None"
| "sameAddresses (a # as) (ip # ips) = (if a \<noteq> ip then Some False else sameAddresses as ips)"

definition secretAddresses :: "Secret \<Rightarrow> string list" where
  "secretAddresses s = strings_Split (case map_of (sec_Annotations s) ipAddrSecretAnnotationKey of Some v \<Rightarrow> v | None \<Rightarrow> []) (CHR '','')"

fun waitSecretIP :: "env \<Rightarrow> Certificate \<Rightarrow> nat \<Rightarrow> Secret option \<times> error option \<Rightarrow> (world, Secret option \<times> error option) prog" where
  "waitSecretIP E cert 0 v w = Some (v, w)"
| "waitSecretIP E cert (Suc n) v w = do {
     (r, w) \<leftarrow> GetSecret E (crt_Namespace cert) (crt_SecretName cert) w;
     (case r of
        Inr (Some s) \<Rightarrow> do {
          isOK \<leftarrow> sameAddresses (secretAddresses s) (crt_IPAddresses cert);
          (if isOK then Some ((Some s, None), w) else waitSecretIP E cert n (Some s, None) w) }
      | Inr None \<Rightarrow> if n = 0 then Some ((None, None), w) else waitSecretIP E cert n (None, None) w
      | Inl e \<Rightarrow> if n = 0 then Some ((None, Some e), w) else waitSecretIP E cert n (None, Some e) w)
   }"

definition WaitForSecretIP :: "env \<Rightarrow> Certificate \<Rightarrow> (world, Secret option \<times> error option) prog" where
  "WaitForSecretIP E cert = waitSecretIP E cert maxTries (None, None)"

definition IsCertIPUpToDate :: "Certificate \<Rightarrow> string \<Rightarrow> bool" where
  "IsCertIPUpToDate crt ipAddr \<longleftrightarrow> ipAddr \<in> set (crt_IPAddresses crt)"

text \<open>Writing the certificate and waiting for its secret: \<^verbatim>\<open>Create\<close> and \<^verbatim>\<open>Update\<close>.\<close>

definition certAndWait ::
  "(Certificate \<Rightarrow> event) \<Rightarrow> (Certificate \<Rightarrow> (world, Secret option \<times> error option) prog) \<Rightarrow> env \<Rightarrow> Certificate \<Rightarrow>
     (world, Certificate option \<times> Secret option \<times> error option) prog" where
  "certAndWait wr wait E cert w = do {
     (err, w) \<leftarrow> getCertClient E w;
     (case err of
        Some e \<Rightarrow> Some ((None, None, Some e), w)
      | None \<Rightarrow> do {
     (r, w) \<leftarrow> request (wr cert) (\<lambda>h. env_writeCertificate E h cert) w;
     (case r of
        Inl e \<Rightarrow> Some ((None, None, Some e), w)
      | Inr cc \<Rightarrow> do {
     (err, w) \<leftarrow> GetKubeClient E w;
     (case err of
        Some e \<Rightarrow> Some ((Some cc, None, Some e), w)
      | None \<Rightarrow> do {
     ((s, err), w) \<leftarrow> wait cc w;
     Some (if err \<noteq> None then (Some cc, None, err) else (Some cc, s, None), w) }) }) })
   }"

definition applyCertAndWait :: "env \<Rightarrow> Certificate \<Rightarrow> (world, Certificate option \<times> Secret option \<times> error option) prog" where
  "applyCertAndWait E = certAndWait CreateCertificate (\<lambda>cc. WaitForSecret E (crt_Namespace cc) (crt_SecretName cc)) E"

definition updateCertAndWait :: "env \<Rightarrow> Certificate \<Rightarrow> (world, Certificate option \<times> Secret option \<times> error option) prog" where
  "updateCertAndWait E = certAndWait UpdateCertificate (WaitForSecretIP E) E"

definition UpdateCertIP :: "env \<Rightarrow> Certificate \<Rightarrow> string \<Rightarrow> (world, Certificate option \<times> Secret option \<times> error option) prog" where
  "UpdateCertIP E cert ipAddr = updateCertAndWait E (cert\<lparr>crt_IPAddresses := [ipAddr]\<rparr>)"

section \<open>TLS configurations\<close>

datatype ClientAuthType = NoClientCert | RequireAndVerifyClientCert

record TLSConfig =
  tls_Certificates :: "string list"
  tls_RootCAs :: "string list option"
  tls_ClientCAs :: "string list option"
  tls_ClientAuth :: ClientAuthType
  tls_MinVersion :: "16 word"
  tls_CipherSuites :: "16 word list"

definition VersionTLS12 :: "16 word" where "VersionTLS12 = 0x0303"
definition cipherSuites :: "16 word list" where "cipherSuites = [0xc02c, 0xc030]"

definition CreateTLSConfig :: "string \<Rightarrow> string list \<Rightarrow> bool \<Rightarrow> TLSConfig" where
  "CreateTLSConfig peerCert caCertPool isServer =
     (if isServer
      then \<lparr>tls_Certificates = [peerCert], tls_RootCAs = None, tls_ClientCAs = Some caCertPool, tls_ClientAuth = RequireAndVerifyClientCert,
        tls_MinVersion = VersionTLS12, tls_CipherSuites = cipherSuites\<rparr>
      else \<lparr>tls_Certificates = [peerCert], tls_RootCAs = Some caCertPool, tls_ClientCAs = None, tls_ClientAuth = NoClientCert,
        tls_MinVersion = VersionTLS12, tls_CipherSuites = cipherSuites\<rparr>)"

definition secretData :: "Secret \<Rightarrow> string \<Rightarrow> string" where
  "secretData s k = (case map_of (sec_Data s) k of Some v \<Rightarrow> v | None \<Rightarrow> [])"

definition LoadCertsFromSecret :: "env \<Rightarrow> Secret option \<Rightarrow> (error + (string \<times> string list)) option" where
  "LoadCertsFromSecret E secret =
     (case secret of
        None \<Rightarrow> None
      | Some s \<Rightarrow> Some (case env_X509KeyPair E (secretData s CertFile) (secretData s KeyFile) of
           Inl e \<Rightarrow> Inl e
         | Inr peerCert \<Rightarrow> Inr (peerCert, env_certsFromPEM E (secretData s CAFile))))"

definition createTLS :: "env \<Rightarrow> Secret option \<Rightarrow> bool \<Rightarrow> (error + TLSConfig) option" where
  "createTLS E secret isServer = do {
     r \<leftarrow> LoadCertsFromSecret E secret;
     Some (case r of Inl e \<Rightarrow> Inl e | Inr (peerCert, caCertPool) \<Rightarrow> Inr (CreateTLSConfig peerCert caCertPool isServer))
   }"

definition CreateServerTLSFromSecret :: "env \<Rightarrow> Secret option \<Rightarrow> (error + TLSConfig) option" where
  "CreateServerTLSFromSecret E secret = createTLS E secret True"

definition CreateClientTLSFromSecret :: "env \<Rightarrow> Secret option \<Rightarrow> (error + TLSConfig) option" where
  "CreateClientTLSFromSecret E secret = createTLS E secret False"

definition CreateClientTLSConfig :: "env \<Rightarrow> Secret option \<Rightarrow> (error + TLSConfig) option" where
  "CreateClientTLSConfig E secret = do {
     r \<leftarrow> LoadCertsFromSecret E secret;
     Some (case r of Inl e \<Rightarrow> Inl e | Inr (peerCert, caCertPool) \<Rightarrow> Inr (CreateTLSConfig peerCert caCertPool False))
   }"

section \<open>Credentials of the operator and of the agent\<close>

text \<open>
  The certificate stage of \<^verbatim>\<open>SetupNotifServer\<close> and of the agent's \<^verbatim>\<open>main\<close>.  Errors are
  only logged: without a certificate \<^verbatim>\<open>crt\<close> is nil and reading its addresses panics, without
  a TLS configuration the credentials pointer is nil and dereferencing it panics.
\<close>

definition obtainSecret :: "env \<Rightarrow> bool \<Rightarrow> (world, Secret option) prog" where
  "obtainSecret E kubecli w =
     (let namespace = env_Getenv E NamespaceEnv; nfnSvcIP = env_Getenv E NfnOperatorHostEnv
      in do {
        (r, w) \<leftarrow> GetCert E namespace DefaultCert w;
        (case r of
           Inl e \<Rightarrow> None
         | Inr crt \<Rightarrow>
             if \<not> IsCertIPUpToDate crt nfnSvcIP then do {
               ((crt, sec, err), w) \<leftarrow> UpdateCertIP E crt nfnSvcIP w;
               Some (sec, w) }
             else if \<not> kubecli then None
             else do {
               ((sec, err), w) \<leftarrow> WaitForSecretIP E crt w;
               Some (sec, w) }) })"

definition serverCredentials :: "env \<Rightarrow> bool \<Rightarrow> (world, TLSConfig) prog" where
  "serverCredentials E kubecli w = do {
     (sec, w) \<leftarrow> obtainSecret E kubecli w;
     r \<leftarrow> CreateServerTLSFromSecret E sec;
     (case r of Inl e \<Rightarrow> None | Inr tls \<Rightarrow> Some (tls, w))
   }"

definition agentCredentials :: "env \<Rightarrow> bool \<Rightarrow> (world, TLSConfig) prog" where
  "agentCredentials E kubecli w = do {
     (sec, w) \<leftarrow> obtainSecret E kubecli w;
     r \<leftarrow> CreateClientTLSFromSecret E sec;
     (case r of Inl e \<Rightarrow> None | Inr tls \<Rightarrow> Some (tls, w))
   }"

section \<open>Obtaining credentials only makes requests\<close>

lemma GetSecret_frame [frame_intros]: "frame (GetSecret E ns n)"
  unfolding GetSecret_def by (intro frame_intros)

lemma waitSecretIP_frame [frame_intros]: "frame (waitSecretIP E cert n v)"
proof (induction n arbitrary: v)
  case (Suc n)
  have "frame (\<lambda>w. do {
     (r, w) \<leftarrow> GetSecret E (crt_Namespace cert) (crt_SecretName cert) w;
     (case r of
        Inr (Some s) \<Rightarrow> do {
          isOK \<leftarrow> sameAddresses (secretAddresses s) (crt_IPAddresses cert);
          (if isOK then Some ((Some s, None), w) else waitSecretIP E cert n (Some s, None) w) }
      | Inr None \<Rightarrow> if n = 0 then Some ((None, None), w) else waitSecretIP E cert n (None, None) w
      | Inl e \<Rightarrow> if n = 0 then Some ((None, Some e), w) else waitSecretIP E cert n (None, Some e) w) })"
    by (intro frame_intros Suc)
  then show ?case by (simp add: frame_def)
qed (simp add: frame_def)

lemma waitSecret_frame [frame_intros]: "frame (waitSecret E ns name n v)"
proof (induction n arbitrary: v)
  case (Suc n)
  have "frame (\<lambda>w. do {
     (r, w) \<leftarrow> GetSecret E ns name w;
     (case r of
        Inr (Some s) \<Rightarrow> Some ((Some s, None), w)
      | Inr None \<Rightarrow> if n = 0 then Some ((None, None), w) else waitSecret E ns name n (None, None) w
      | Inl e \<Rightarrow> if n = 0 then Some ((None, Some e), w) else waitSecret E ns name n (None, Some e) w) })"
    by (intro frame_intros Suc)
  then show ?case by (simp add: frame_def)
qed (simp add: frame_def)

lemma obtainSecret_frame [frame_intros]: "frame (obtainSecret E k)"
  unfolding obtainSecret_def [abs_def] GetCert_def [abs_def] getCertClient_def [abs_def] GetKubeClient_def GetCertManagerClient_def
    UpdateCertIP_def updateCertAndWait_def certAndWait_def [abs_def] WaitForSecretIP_def Let_def
  by (intro frame_intros)

section \<open>Waiting for a secret\<close>

text \<open>The answers that make the loop go on, the last one it returns, and the history after \<open>j\<close> reads.\<close>

definition rejected :: "string list \<Rightarrow> error + Secret option \<Rightarrow> bool" where
  "rejected ips r = (case r of Inr (Some s) \<Rightarrow> sameAddresses (secretAddresses s) ips = Some False | _ \<Rightarrow> True)"

definition lastAnswer :: "error + Secret option \<Rightarrow> Secret option \<times> error option" where
  "lastAnswer r = (case r of Inl e \<Rightarrow> (None, Some e) | Inr s \<Rightarrow> (s, None))"

definition secretRead :: "env \<Rightarrow> Certificate \<Rightarrow> world \<Rightarrow> nat \<Rightarrow> error + Secret option" where
  "secretRead E cert w j =
     env_getSecret E (trace w @ replicate j (KubeGet KSecret (crt_Namespace cert) (crt_SecretName cert))) (crt_Namespace cert) (crt_SecretName cert)"

definition afterReads :: "Certificate \<Rightarrow> nat \<Rightarrow> world \<Rightarrow> world" where
  "afterReads cert j w = w\<lparr>trace := trace w @ replicate j (KubeGet KSecret (crt_Namespace cert) (crt_SecretName cert))\<rparr>"

lemma afterReads_0 [simp]: "afterReads cert 0 w = w"
  by (simp add: afterReads_def)

lemma afterReads_Suc: "afterReads cert j (afterReads cert (Suc 0) w) = afterReads cert (Suc j) w"
  by (simp add: afterReads_def)

lemma secretRead_Suc: "secretRead E cert (afterReads cert (Suc 0) w) j = secretRead E cert w (Suc j)"
  by (simp add: secretRead_def afterReads_def)

lemma waitSecretIP_step:
  "waitSecretIP E cert (Suc n) v w =
     (if rejected (crt_IPAddresses cert) (secretRead E cert w 0)
      then waitSecretIP E cert n (lastAnswer (secretRead E cert w 0)) (afterReads cert (Suc 0) w)
      else case secretRead E cert w 0 of
        Inr (Some s) \<Rightarrow> do { isOK \<leftarrow> sameAddresses (secretAddresses s) (crt_IPAddresses cert); Some ((Some s, None), afterReads cert (Suc 0) w) }
      | _ \<Rightarrow> None)"
  by (cases n) (auto simp: GetSecret_def rejected_def lastAnswer_def secretRead_def afterReads_def split: sum.split option.split bind_split)

lemma waitSecretIP_run:
  assumes "\<And>j. j < k \<Longrightarrow> rejected (crt_IPAddresses cert) (secretRead E cert w j)" and "k \<le> n"
  shows "waitSecretIP E cert n v w =
     waitSecretIP E cert (n - k) (if k = 0 then v else lastAnswer (secretRead E cert w (k - 1))) (afterReads cert k w)"
  using assms
proof (induction k arbitrary: n v w)
  case (Suc k)
  then obtain m where n: "n = Suc m" by (cases n) auto
  let ?w = "afterReads cert (Suc 0) w"
  have "rejected (crt_IPAddresses cert) (secretRead E cert ?w j)" if "j < k" for j
    using Suc.prems(1) [of "Suc j"] that by (simp add: secretRead_Suc)
  from Suc.IH [OF this, of m "lastAnswer (secretRead E cert w 0)"] Suc.prems(1) [of 0] Suc.prems(2) n show ?case
    by (cases k) (simp_all add: waitSecretIP_step afterReads_Suc secretRead_Suc del: waitSecretIP.simps)
qed simp

text \<open>
  Waiting for the secret of a certificate ends after at most sixty reads: with the secret of
  the first read that carries the certificate's addresses; and when none does, with the answer of
  the sixtieth read, which for a secret issued for other addresses is returned without an error.
\<close>

theorem WaitForSecretIP_bounded:
  assumes "\<And>j. j < k \<Longrightarrow> rejected (crt_IPAddresses cert) (secretRead E cert w j)"
  shows "(k < 60 \<longrightarrow> secretRead E cert w k = Inr (Some s) \<longrightarrow> sameAddresses (secretAddresses s) (crt_IPAddresses cert) = Some True \<longrightarrow>
       WaitForSecretIP E cert w = Some ((Some s, None), afterReads cert (Suc k) w)) \<and>
     (k = 60 \<longrightarrow> WaitForSecretIP E cert w = Some (lastAnswer (secretRead E cert w 59), afterReads cert 60 w))"
proof (intro conjI impI)
  assume k: "k < 60" and s: "secretRead E cert w k = Inr (Some s)" "sameAddresses (secretAddresses s) (crt_IPAddresses cert) = Some True"
  then obtain m where m: "60 - k = Suc m" by (cases "60 - k") auto
  have "secretRead E cert (afterReads cert k w) 0 = secretRead E cert w k" by (simp add: secretRead_def afterReads_def)
  with s have "waitSecretIP E cert (Suc m) v (afterReads cert k w) = Some ((Some s, None), afterReads cert (Suc k) w)" for v
    by (simp add: waitSecretIP_step rejected_def afterReads_def replicate_append_same del: waitSecretIP.simps)
  with waitSecretIP_run [of k cert E w 60] assms k m show "WaitForSecretIP E cert w = Some ((Some s, None), afterReads cert (Suc k) w)"
    by (simp add: WaitForSecretIP_def maxTries_def)
next
  assume "k = 60"
  with waitSecretIP_run [of k cert E w 60] assms show "WaitForSecretIP E cert w = Some (lastAnswer (secretRead E cert w 59), afterReads cert 60 w)"
    by (simp add: WaitForSecretIP_def maxTries_def)
qed

definition old_secret :: Secret where
  "old_secret = \<lparr>sec_Annotations = [(''cert-manager.io/ip-sans'', ''10.96.0.7'')], sec_Data = [(''ca.crt'', ''CA''), (''tls.crt'', ''CERT''), (''tls.key'', ''KEY'')]\<rparr>"

definition service_cert :: Certificate where
  "service_cert = \<lparr>crt_Namespace = ''kube-system'', crt_Name = ''nodus-cert'', crt_SecretName = ''nodus-cert'', crt_IPAddresses = [''10.96.0.9'']\<rparr>"

definition cert_env :: env where
  "cert_env = null_env\<lparr>env_getSecret := (\<lambda>h ns n. Inr (Some old_secret)), env_getCertificate := (\<lambda>h ns n. Inr service_cert),
     env_Getenv := (\<lambda>v. if v = ''POD_NAMESPACE'' then ''kube-system'' else ''10.96.0.9'')\<rparr>"

lemma cert_env_rejects: "rejected (crt_IPAddresses service_cert) (secretRead cert_env service_cert w j)"
proof -
  have "sameAddresses (secretAddresses old_secret) (crt_IPAddresses service_cert) = Some False" by code_simp
  then show ?thesis by (simp add: secretRead_def cert_env_def rejected_def)
qed

theorem WaitForSecretIP_bounded_witness:
  "WaitForSecretIP cert_env service_cert init_world = Some ((Some old_secret, None), afterReads service_cert 60 init_world)"
  using WaitForSecretIP_bounded [of 60 service_cert cert_env init_world, OF cert_env_rejects]
  by (simp add: secretRead_def cert_env_def lastAnswer_def)

section \<open>Mutual authentication\<close>

text \<open>
  A secret the API server returned between two worlds, to a read of the secret of a certificate that
  it had returned before: the operator's certificate, or the one it stored on an update.
\<close>

definition readSecret :: "env \<Rightarrow> Certificate \<Rightarrow> world \<Rightarrow> world \<Rightarrow> Secret \<Rightarrow> bool" where
  "readSecret E cert w w' s \<longleftrightarrow> (\<exists>h rest. prefix (trace w) h \<and> trace w' = h @ KubeGet KSecret (crt_Namespace cert) (crt_SecretName cert) # rest \<and>
     env_getSecret E h (crt_Namespace cert) (crt_SecretName cert) = Inr (Some s))"

definition storedCert :: "env \<Rightarrow> world \<Rightarrow> Certificate \<Rightarrow> bool" where
  "storedCert E w cert \<longleftrightarrow> (\<exists>h. prefix h (trace w) \<and> (env_getCertificate E h (env_Getenv E NamespaceEnv) DefaultCert = Inr cert \<or>
     (\<exists>c. env_writeCertificate E h c = Inr cert)))"

definition servedSecret :: "env \<Rightarrow> world \<Rightarrow> world \<Rightarrow> Secret \<Rightarrow> bool" where
  "servedSecret E w w' s \<longleftrightarrow> (\<exists>cert. storedCert E w' cert \<and> readSecret E cert w w' s)"

lemma readSecret_later: "readSecret E cert v w' s \<Longrightarrow> prefix (trace w) (trace v) \<Longrightarrow> readSecret E cert w w' s"
  by (auto simp: readSecret_def intro: prefix_order.trans)

lemma secretRead_first:
  "secretRead E cert w 0 = Inr (Some s) \<Longrightarrow> prefix (trace (afterReads cert (Suc 0) w)) (trace w') \<Longrightarrow> readSecret E cert w w' s"
  by (auto simp: readSecret_def secretRead_def afterReads_def prefix_def)

lemma waitSecretIP_served:
  "waitSecretIP E cert n v w = Some ((x, err), w') \<Longrightarrow>
     prefix (trace w) (trace w') \<and> (\<forall>s. x = Some s \<longrightarrow> fst v = Some s \<or> readSecret E cert w w' s)"
proof (induction n arbitrary: v w)
  case (Suc n)
  let ?u = "afterReads cert (Suc 0) w"
  have w: "prefix (trace w) (trace ?u)" by (simp add: afterReads_def)
  show ?case
  proof (cases "rejected (crt_IPAddresses cert) (secretRead E cert w 0)")
    case True
    with Suc.prems have "waitSecretIP E cert n (lastAnswer (secretRead E cert w 0)) ?u = Some ((x, err), w')"
      by (simp add: waitSecretIP_step del: waitSecretIP.simps)
    from Suc.IH [OF this] have u: "prefix (trace ?u) (trace w')" "x = Some s \<Longrightarrow> fst (lastAnswer (secretRead E cert w 0)) = Some s \<or> readSecret E cert ?u w' s" for s
      by auto
    have "readSecret E cert w w' s" if "fst (lastAnswer (secretRead E cert w 0)) = Some s" for s
      using that secretRead_first [OF _ u(1)] by (auto simp: lastAnswer_def split: sum.splits)
    with u w show ?thesis by (metis prefix_order.trans readSecret_later)
  next
    case False
    with Suc.prems obtain t where "secretRead E cert w 0 = Inr (Some t)" "x = Some t" "w' = ?u"
      by (auto simp: waitSecretIP_step run_conv simp del: waitSecretIP.simps split: sum.splits option.splits)
    with w secretRead_first [of E cert w t w'] show ?thesis by simp
  qed
qed simp

lemma WaitForSecretIP_served:
  "WaitForSecretIP E cert v = Some ((Some s, err), w') \<Longrightarrow> storedCert E v cert \<Longrightarrow> prefix (trace w) (trace v) \<Longrightarrow> servedSecret E w w' s"
  unfolding WaitForSecretIP_def servedSecret_def storedCert_def
  by (drule waitSecretIP_served) (auto intro: readSecret_later prefix_order.trans)

lemma obtainSecret_served:
  assumes "obtainSecret E k w = Some (Some s, w')"
  shows "servedSecret E w w' s"
proof -
  let ?ns = "env_Getenv E NamespaceEnv"
  let ?w = "w\<lparr>trace := trace w @ [KubeGet KCertificate ?ns DefaultCert]\<rparr>"
  from assms obtain crt where c: "env_getCertificate E (trace w) ?ns DefaultCert = Inr crt"
    and k: "(\<exists>x. UpdateCertIP E crt (env_Getenv E NfnOperatorHostEnv) ?w = Some (x, w') \<and> fst (snd x) = Some s) \<or>
      (\<exists>err. WaitForSecretIP E crt ?w = Some ((Some s, err), w'))"
    by (cases "env_getCertificate E (trace w) ?ns DefaultCert")
      (auto simp: obtainSecret_def GetCert_def getCertClient_def GetCertManagerClient_def GetKubeClient_def Let_def run_conv split: if_splits)
  from k show ?thesis
  proof (elim disjE exE conjE)
    fix err assume "WaitForSecretIP E crt ?w = Some ((Some s, err), w')"
    then show ?thesis by (rule WaitForSecretIP_served) (use c in \<open>auto simp: storedCert_def\<close>)
  next
    fix x assume "UpdateCertIP E crt (env_Getenv E NfnOperatorHostEnv) ?w = Some (x, w')" "fst (snd x) = Some s"
    then obtain new cc err where "env_writeCertificate E (trace ?w) new = Inr cc"
      "WaitForSecretIP E cc (?w\<lparr>trace := trace ?w @ [UpdateCertificate new]\<rparr>) = Some ((Some s, err), w')"
      by (auto simp: UpdateCertIP_def updateCertAndWait_def certAndWait_def getCertClient_def GetCertManagerClient_def GetKubeClient_def run_conv
          split: if_splits)
    then show ?thesis by (intro WaitForSecretIP_served) (auto simp: storedCert_def intro!: exI [of _ "trace ?w"])
  qed
qed

lemma createTLS_eq:
  "createTLS E sec isServer = Some (Inr tls) \<longleftrightarrow>
     (\<exists>s c. sec = Some s \<and> env_X509KeyPair E (secretData s CertFile) (secretData s KeyFile) = Inr c \<and>
        tls = CreateTLSConfig c (env_certsFromPEM E (secretData s CAFile)) isServer)"
  by (auto simp: createTLS_def LoadCertsFromSecret_def split: option.splits sum.splits)

text \<open>
  C32.  Neither end of the notification channel ever starts without mutual authentication.  If the
  operator or the agent gets past its certificate stage at all, its TLS configuration presents the
  key pair of a secret that was read from the API server during the stage as the secret of a certificate
  the server had returned, trusts exactly the authorities in that secret, asks
  for TLS 1.2, and the operator demands and verifies a certificate of every client.  Every failure
  on the way, all of which are only logged, ends the process.
\<close>

theorem credentials_mutual:
  "(serverCredentials E k w = Some (tls, w') \<longrightarrow> (\<exists>s c. servedSecret E w w' s \<and>
      env_X509KeyPair E (secretData s CertFile) (secretData s KeyFile) = Inr c \<and> tls_Certificates tls = [c] \<and>
      tls_ClientCAs tls = Some (env_certsFromPEM E (secretData s CAFile)) \<and> tls_ClientAuth tls = RequireAndVerifyClientCert \<and>
      tls_MinVersion tls = VersionTLS12)) \<and>
   (agentCredentials E k w = Some (tls, w') \<longrightarrow> (\<exists>s c. servedSecret E w w' s \<and>
      env_X509KeyPair E (secretData s CertFile) (secretData s KeyFile) = Inr c \<and> tls_Certificates tls = [c] \<and>
      tls_RootCAs tls = Some (env_certsFromPEM E (secretData s CAFile)) \<and> tls_MinVersion tls = VersionTLS12))"
  by (intro conjI impI)
    (auto simp: serverCredentials_def agentCredentials_def run_conv CreateServerTLSFromSecret_def CreateClientTLSFromSecret_def createTLS_eq
      CreateTLSConfig_def dest!: obtainSecret_served split: sum.splits)

theorem credentials_mutual_witness:
  "\<exists>tls w'. serverCredentials cert_env True init_world = Some (tls, w') \<and> tls_ClientAuth tls = RequireAndVerifyClientCert \<and> tls_Certificates tls = [''CERT'']"
proof -
  have "IsCertIPUpToDate service_cert (env_Getenv cert_env NfnOperatorHostEnv)"
    by (simp add: IsCertIPUpToDate_def service_cert_def cert_env_def NfnOperatorHostEnv_def)
  moreover obtain v where "WaitForSecretIP cert_env service_cert (init_world\<lparr>trace := [KubeGet KCertificate ''kube-system'' DefaultCert]\<rparr>) =
      Some ((Some old_secret, None), v)"
    using WaitForSecretIP_bounded [of 60 service_cert cert_env, OF cert_env_rejects]
    by (simp add: secretRead_def cert_env_def lastAnswer_def)
  ultimately obtain tls w' where r: "serverCredentials cert_env True init_world = Some (tls, w')"
    by (auto simp: serverCredentials_def GetKubeClient_def obtainSecret_def GetCert_def getCertClient_def GetCertManagerClient_def
        CreateServerTLSFromSecret_def createTLS_def LoadCertsFromSecret_def cert_env_def null_env_def NamespaceEnv_def init_world_def)
  from credentials_mutual [THEN conjunct1, THEN mp, OF r] have "tls_ClientAuth tls = RequireAndVerifyClientCert" by blast
  moreover from credentials_mutual [THEN conjunct1, THEN mp, OF r] have "tls_Certificates tls = [''CERT'']"
    by (auto simp: servedSecret_def readSecret_def cert_env_def null_env_def old_secret_def secretData_def CertFile_def)
  ultimately show ?thesis using r by blast
qed

end
