(* ===== verification/Cni_Shim.thy ===== *)
theory Cni_Shim
  imports Cni_Server Nodus_Auth
begin

unbundle bit_operations_syntax

text \<open>
  The plugin binary the container runtime calls, \<^verbatim>\<open>internal/pkg/cnishim/cnishim.go\<close>, and the
  start of the server it talks to, \<^verbatim>\<open>NewCNIServer\<close> and \<^verbatim>\<open>Start\<close> of
  \<^verbatim>\<open>cniserver.go\<close>.  The HTTP exchange over the socket is an argument of the shim, so that the
  handler of the server can take its place; the file system is the environment.
\<close>

section \<open>Starting the server\<close>

definition CNIServerRunDir :: string where "CNIServerRunDir = ''/var/run/ovn4nfv-k8s-plugin/cniserver''"
definition CNIServerSocketName :: string where "CNIServerSocketName = ''ovn4nfv-k8s-plugin-cni-server.sock''"
definition CNIServerSocketPath :: string where "CNIServerSocketPath = CNIServerRunDir @ ''/'' @ CNIServerSocketName"

record CNIServer =
  srv_serverrundir :: string
  srv_TLSConfig :: TLSConfig

definition NewCNIServer :: "env \<Rightarrow> string \<Rightarrow> (world, CNIServer option) prog" where
  "NewCNIServer E serverRunDir w =
     (let serverRunDir = (if serverRunDir = [] then CNIServerRunDir else serverRunDir); namespace = env_Getenv E NamespaceEnv
      in do {
        (err, w) \<leftarrow> GetKubeClient E w;
        (if err \<noteq> None then Some (None, w)
         else do {
           ((sec, err), w) \<leftarrow> WaitForSecret E namespace DefaultCniCert w;
           (if sec = None \<or> err \<noteq> None then Some (None, w)
            else do {
              r \<leftarrow> LoadCertsFromSecret E sec;
              (case r of
                 Inl e \<Rightarrow> Some (None, w)
               | Inr (cert, pool) \<Rightarrow> Some (Some \<lparr>srv_serverrundir = serverRunDir, srv_TLSConfig = CreateTLSConfig cert pool True\<rparr>, w)) }) }) })"

definition os_do :: "env \<Rightarrow> fsop \<Rightarrow> (world, error option) prog" where
  "os_do E c = request (FileOp c) (\<lambda>h. env_fs E h c)"

definition os_Stat :: "env \<Rightarrow> string \<Rightarrow> (world, error + FileInfo) prog" where
  "os_Stat E p = request (StatFile p) (\<lambda>h. env_stat E h p)"

text \<open>An error other than that the file does not exist.\<close>

definition realError :: "env \<Rightarrow> error option \<Rightarrow> bool" where
  "realError E err = (case err of Some e \<Rightarrow> \<not> env_isNotExist E e | None \<Rightarrow> False)"

text \<open>The old directory, which could not be removed, is only reused when it is private to root.\<close>

definition checkRunDir :: "env \<Rightarrow> string \<Rightarrow> string \<Rightarrow> (world, error option) prog" where
  "checkRunDir E dir socketPath w = do {
     (r, w) \<leftarrow> os_Stat E dir w;
     (case r of
        Inl e \<Rightarrow> Some (Some (Errorf (''failed to stat old cni server info socket directory '' @ dir @ '': '' @ error_msg e)), w)
      | Inr info \<Rightarrow>
     (case fi_Sys info of
        OtherSys t \<Rightarrow> Some (Some (Errorf (''failed to read CNI Server info socket directory stat info: '' @ t)), w)
      | Stat_t uid \<Rightarrow>
          if uid \<noteq> 0 then Some (Some (Errorf (''insecure owner of CNI Server info socket directory '' @ dir @ '': '' @ strconv_Itoa uid)), w)
          else if fi_Mode info AND 0x1FF \<noteq> 0x1C0
            then Some (Some (Errorf (''insecure permissions on CNI Server info socket directory '' @ dir @ '': '' @ env_fmtMode E (fi_Mode info))), w)
          else do {
            (err, w) \<leftarrow> os_do E (Remove socketPath) w;
            Some (if realError E err then map_option (\<lambda>e. Errorf (''failed to remove old CNI Server info socket '' @ socketPath @ '': '' @ error_msg e)) err
                  else None, w) }))
   }"

text \<open>
  \<^verbatim>\<open>Start\<close>; \<^verbatim>\<open>cs\<close> is a nil pointer when \<^verbatim>\<open>NewCNIServer\<close> failed.  The run
  directory is a clean path.  The last request starts the goroutine that serves the listener;
  its flag says whether it is served with TLS (\<^verbatim>\<open>ServeTLS\<close>) or not (\<^verbatim>\<open>Serve\<close>).
\<close>

definition CNIServer_Start :: "env \<Rightarrow> bool \<Rightarrow> CNIServer option \<Rightarrow> (world, error option) prog" where
  "CNIServer_Start E requestFunc cs w =
     (if \<not> requestFunc then Some (Some (Errorf ''no CNI request handler''), w)
      else case cs of
        None \<Rightarrow> None
      | Some cs \<Rightarrow>
     (let dir = srv_serverrundir cs; socketPath = dir @ ''/'' @ CNIServerSocketName
      in do {
        (err, w) \<leftarrow> os_do E (RemoveAll dir) w;
        (err, w) \<leftarrow> (if realError E err then checkRunDir E dir socketPath w else Some (None, w));
        (if err \<noteq> None then Some (err, w) else do {
        (err, w) \<leftarrow> os_do E (MkdirAll dir 0x1C0) w;
        (case err of
           Some e \<Rightarrow> Some (Some (Errorf (''failed to create CNI Server info socket directory '' @ dir @ '': '' @ error_msg e)), w)
         | None \<Rightarrow> do {
        (err, w) \<leftarrow> os_do E (ListenUnix socketPath) w;
        (case err of
           Some e \<Rightarrow> Some (Some (Errorf (''failed to listen on CNI Server info socket: '' @ error_msg e)), w)
         | None \<Rightarrow> do {
        (err, w) \<leftarrow> os_do E (Chmod socketPath 0x180) w;
        (case err of
           Some e \<Rightarrow> do {
             (u, w) \<leftarrow> os_do E (CloseListener socketPath) w;
             Some (Some (Errorf (''failed to set CNI Server info socket mode: '' @ error_msg e)), w) }
         | None \<Rightarrow> do {
             (u, w) \<leftarrow> request (ServeHttp socketPath False) (\<lambda>h. ()) w;
             Some (None, w) }) }) }) }) }))"

section \<open>The shim\<close>

definition CNIEndpoint :: "string \<Rightarrow> string" where
  "CNIEndpoint cniServerSocketPath = (if cniServerSocketPath = [] then CNIServerSocketPath else cniServerSocketPath)"

definition config_Namespace :: string where "config_Namespace = ''kube-system''"

text \<open>\<^verbatim>\<open>%v\<close> of a request: its environment, and its bytes as decimal numbers.\<close>

definition fmt_endpoint :: "CNIEndpointRequest \<Rightarrow> string" where
  "fmt_endpoint r = ''&{'' @ fmt_map (cer_ArgEnv r) @ '' ['' @ strings_Join (map (\<lambda>c. show_nat (of_char c)) (cer_NetConfig r)) '' '' @ '']}''"

text \<open>
  An exchange on the socket: the connection may fail, and so may reading the body of the reply.  The
  client is given a TLS configuration, but both dialling functions return the bare connection to the
  socket, so that it is not used.
\<close>

type_synonym post = "string \<Rightarrow> TLSConfig \<Rightarrow> string \<Rightarrow> (world, error + (nat \<times> (error + string))) prog"

definition sendCNIServerReq :: "env \<Rightarrow> post \<Rightarrow> string \<Rightarrow> CNIEndpointRequest \<Rightarrow> (world, error + string) prog" where
  "sendCNIServerReq E httpPost ep req w =
     (case marshalRequest req of
        Inl e \<Rightarrow> Some (Inl (Errorf (''sendCNIServerReq: failed to Marshal CNIShim Req '' @ fmt_endpoint req @ '':'' @ error_msg e)), w)
      | Inr cnireqdata \<Rightarrow> do {
     (err, w) \<leftarrow> GetKubeConfigfromFile E w;
     (case err of
        Some e \<Rightarrow> Some (Inl (Errorf (''sendCNIServerReq: error getting kubernetes config: '' @ error_msg e)), w)
      | None \<Rightarrow> do {
     (r, w) \<leftarrow> GetSecret E config_Namespace DefaultCniCert w;
     (case r of
        Inl e \<Rightarrow> Some (Inl (Errorf (''sendCNIServerReq: unable to get CNI secret: '' @ error_msg e)), w)
      | Inr sec \<Rightarrow> do {
     tls \<leftarrow> CreateClientTLSConfig E sec;
     (case tls of
        Inl e \<Rightarrow> Some (Inl (Errorf (''sendCNIServerReq: error loading certificates: '' @ error_msg e)), w)
      | Inr tlsconfig \<Rightarrow> do {
     (r, w) \<leftarrow> httpPost ep tlsconfig cnireqdata w;
     Some (case r of
        Inl e \<Rightarrow> Inl (Errorf (''Failed to send CNIServer request: '' @ error_msg e))
      | Inr (status, Inl e) \<Rightarrow> Inl (Errorf (''Failed to read the CNI Server reponse:'' @ error_msg e))
      | Inr (status, Inr rbody) \<Rightarrow>
          if status \<noteq> 200 then Inl (Errorf (''CNI Server request is failed with reponse status '' @ show_nat status @ '' and reponse body '' @ rbody))
          else Inr rbody, w) }) }) }) })"

definition CmdAdd :: "env \<Rightarrow> post \<Rightarrow> string \<Rightarrow> string list \<Rightarrow> string \<Rightarrow> (world, error option) prog" where
  "CmdAdd E httpPost ep environ stdin w =
     (case ConfigureNetConf E stdin of
        Inl e \<Rightarrow> Some (Some (Errorf ''invalid stdin args''), w)
      | Inr conf \<Rightarrow> do {
          (r, w) \<leftarrow> sendCNIServerReq E httpPost ep (cniEndpointRequest environ stdin) w;
          (case r of
             Inl e \<Rightarrow> Some (Some e, w)
           | Inr reponsebody \<Rightarrow>
               (case env_parseResult E reponsebody of
                  Inl e \<Rightarrow> Some (Some (Errorf (''failed to unmarshall CNIServer Result reponse '' @ reponsebody @ '' - err:'' @ error_msg e)), w)
                | Inr result \<Rightarrow> request (PrintResult result (ncf_CNIVersion conf)) (\<lambda>h. env_printResult E h result (ncf_CNIVersion conf)) w)) })"

definition CmdCheck :: "(world, error option) prog" where
  "CmdCheck w = Some (None, w)"

definition CmdDel :: "env \<Rightarrow> post \<Rightarrow> string \<Rightarrow> string list \<Rightarrow> string \<Rightarrow> (world, error option) prog" where
  "CmdDel E httpPost ep environ stdin w = do {
     (r, w) \<leftarrow> sendCNIServerReq E httpPost ep (cniEndpointRequest environ stdin) w;
     Some (case r of Inl e \<Rightarrow> Some e | Inr b \<Rightarrow> None, w)
   }"

section \<open>The socket is private to root\<close>

lemma checkRunDir_ok:
  assumes "checkRunDir E dir path w = Some (None, w')"
  shows "\<exists>info. env_stat E (trace w) dir = Inr info \<and> fi_Sys info = Stat_t 0 \<and> fi_Mode info AND 0x1FF = 0x1C0 \<and>
     w' = w\<lparr>trace := trace w @ [StatFile dir, FileOp (Remove path)]\<rparr>"
  using assms by (auto simp: checkRunDir_def os_Stat_def os_do_def split: sum.splits SysInfo.splits if_splits)

text \<open>
  C38.  A server that has started listens on a socket of mode 0600 inside a directory it made with
  mode 0700; either everything that was there before had been removed, or the old directory
  belonged to root, had mode 0700 and the old socket was removed from it.  These modes are the only
  protection: the listener is then served without TLS.
\<close>

theorem CNIServer_Start_private:
  assumes "CNIServer_Start E True (Some cs) w = Some (None, w')"
  defines "dir \<equiv> srv_serverrundir cs" and "path \<equiv> srv_serverrundir cs @ ''/'' @ CNIServerSocketName"
  shows "\<exists>before. trace w' = trace w @ before @ [FileOp (MkdirAll dir 0x1C0), FileOp (ListenUnix path), FileOp (Chmod path 0x180),
       ServeHttp path False] \<and>
     env_fs E (trace w @ before) (MkdirAll dir 0x1C0) = None \<and>
     env_fs E (trace w @ before @ [FileOp (MkdirAll dir 0x1C0)]) (ListenUnix path) = None \<and>
     env_fs E (trace w @ before @ [FileOp (MkdirAll dir 0x1C0), FileOp (ListenUnix path)]) (Chmod path 0x180) = None \<and>
     (before = [FileOp (RemoveAll dir)] \<and> \<not> realError E (env_fs E (trace w) (RemoveAll dir)) \<or>
      (\<exists>info. before = [FileOp (RemoveAll dir), StatFile dir, FileOp (Remove path)] \<and>
         env_stat E (trace w @ [FileOp (RemoveAll dir)]) dir = Inr info \<and> fi_Sys info = Stat_t 0 \<and> fi_Mode info AND 0x1FF = 0x1C0))"
  using assms(1)
  by (auto simp: CNIServer_Start_def os_do_def Let_def dir_def path_def run_conv split: if_splits option.splits dest!: checkRunDir_ok)

lemma map_of_rev: "distinct (map fst xs) \<Longrightarrow> map_of (rev xs) = map_of xs"
  by (intro map_of_inject_set [THEN iffD2]) (simp_all add: rev_map [symmetric])

section \<open>From the runtime's environment to the server\<close>

text \<open>A variable as the runtime sets it; an argument of \<^verbatim>\<open>CNI_ARGS\<close> is written the same way.\<close>

definition setting :: "string \<times> string \<Rightarrow> string" where
  "setting p = fst p @ ''='' @ snd p"

definition wf_var :: "string \<times> string \<Rightarrow> bool" where
  "wf_var p \<longleftrightarrow> fst p \<noteq> [] \<and> (\<forall>c \<in> set (fst p). c \<noteq> CHR ''='' \<and> \<not> is_space c)"

definition wf_arg :: "string \<times> string \<Rightarrow> bool" where
  "wf_arg p \<longleftrightarrow> (\<forall>c \<in> set (fst p) \<union> set (snd p). c \<noteq> CHR ''='' \<and> c \<noteq> CHR '';'' \<and> \<not> is_space c)"

lemma envEntry_setting:
  assumes "wf_var p"
  shows "envEntry (setting p) = Some p"
proof -
  from assms have k: "\<forall>c \<in> set (fst p). c \<noteq> CHR ''=''" "\<forall>c \<in> set (fst p). \<not> is_space c" "fst p \<noteq> []" by (auto simp: wf_var_def)
  then have "setting p ! 0 \<noteq> CHR ''=''" by (cases "fst p") (auto simp: setting_def)
  with k show ?thesis
    by (auto simp: envEntry_def setting_def takeWhile_append dropWhile_append TrimSpace_id prod_eq_iff)
qed

interpretation env_setting: codec setting envEntry wf_var
  by unfold_locales (rule envEntry_setting)

lemma osEnvMap_settings:
  "\<forall>p \<in> set kvs. wf_var p \<Longrightarrow> map_of (osEnvMap (map setting kvs) m) = map_of m ++ map_of (rev kvs)"
  by (induction kvs arbitrary: m) (auto simp: env_setting.dec_enc map_add_def fun_eq_iff split: option.split)

lemma shimArgs_settings:
  "\<forall>p \<in> set args. wf_arg p \<Longrightarrow> \<exists>m'. shimArgs (map setting args) m = Inr m' \<and> map_of m' = map_of m ++ map_of (rev args)"
proof (induction args arbitrary: m)
  case (Cons p args)
  obtain k v where p: "p = (k, v)" by (cases p)
  from Cons.prems p have wf: "\<forall>c \<in> set k. c \<noteq> CHR ''=''" "\<forall>c \<in> set v. c \<noteq> CHR ''=''" "\<forall>c \<in> set k. \<not> is_space c" "\<forall>c \<in> set v. \<not> is_space c"
    by (auto simp: wf_arg_def)
  then have "strings_Split (setting p) (CHR ''='') = [k, v]"
    using split_Join [of "[k, v]" "CHR ''=''"] by (auto simp: setting_def p)
  with wf have "shimArgs (map setting (p # args)) m = shimArgs (map setting args) (map_put k v m)" by (simp add: TrimSpace_id)
  moreover have "map_of (map_put k v m) ++ map_of (rev args) = map_of m ++ map_of (rev (p # args))"
    by (auto simp: p map_add_def fun_eq_iff split: option.split)
  moreover obtain m' where "shimArgs (map setting args) (map_put k v m) = Inr m'" "map_of m' = map_of (map_put k v m) ++ map_of (rev args)"
    using Cons.IH Cons.prems by (metis list.set_intros(2))
  ultimately show ?case by metis
qed simp

lemma loadCNIShimArgs_settings:
  assumes "map_of env ''CNI_ARGS'' = Some (strings_Join (map setting args) '';'')" and "args \<noteq> []" and "\<forall>p \<in> set args. wf_arg p"
  shows "\<exists>m. loadCNIShimArgs env = Inr m \<and> map_of m = map_of (rev args)"
proof -
  have "wf_list (CHR '';'') (map setting args)" using assms(2,3) by (auto simp: wf_list_def wf_arg_def setting_def)
  then have "strings_Split (strings_Join (map setting args) '';'') (CHR '';'') = map setting args" using char_list.dec_enc by simp
  with assms(1) shimArgs_settings [OF assms(3), of "[]"] show ?thesis by (auto simp: loadCNIShimArgs_def)
qed

text \<open>
  The request reaches the server: what the shim writes for its environment is read with the same
  variables and the same configuration.
\<close>

lemma osEnvMap_ok: "map_ok m \<Longrightarrow> map_ok (osEnvMap items m)"
  by (induction items arbitrary: m) (auto split: option.split)

lemma shim_request_sent:
  assumes "\<forall>p \<in> set vars. wf_var p" and "distinct (map fst vars)" and "ascii_vars vars"
  shows "\<exists>body r. marshalRequest (cniEndpointRequest (map setting vars) stdin) = Inr body \<and> unmarshalRequest body = Inr r \<and>
     map_of (cer_ArgEnv r) = map_of vars \<and> cer_NetConfig r = stdin"
proof -
  let ?env = "osEnvMap (map setting vars) []"
  have d: "map_ok ?env" by (rule osEnvMap_ok) (simp add: map_ok_def)
  from assms(1,2) have env: "map_of ?env = map_of vars" by (simp add: osEnvMap_settings map_of_rev)
  have "set ?env = set vars" using env d assms(2) by (simp add: map_ok_def map_of_inject_set)
  with assms(3) have "ascii_vars ?env" by (simp add: ascii_vars_def)
  with request_roundtrip [of "cniEndpointRequest (map setting vars) stdin"] d env show ?thesis
    by (auto simp: cniEndpointRequest_def map_of_sort_key)
qed

text \<open>
  The request of the server is what the runtime asked for: the variables of the CNI protocol, with
  the pod's name and namespace among the arguments.
\<close>

lemma shim_request_roundtrip:
  assumes "distinct (map fst vars)" and "\<forall>p \<in> set args. wf_arg p" and "distinct (map fst args)"
    and "{(''CNI_COMMAND'', cmd), (''CNI_CONTAINERID'', sandbox), (''CNI_NETNS'', netns), (''CNI_IFNAME'', ifname),
      (''CNI_ARGS'', strings_Join (map setting args) '';'')} \<subseteq> set vars"
    and "{(''K8S_POD_NAMESPACE'', ns), (''K8S_POD_NAME'', name)} \<subseteq> set args" and "ConfigureNetConf E stdin = Inr conf"
    and env: "map_of (cer_ArgEnv r) = map_of vars" and stdin: "cer_NetConfig r = stdin"
  shows "loadCNIRequestToCNIServer E r =
     Inr \<lparr>req_Command = cmd, req_PodNamespace = ns, req_PodName = name, req_SandboxID = sandbox, req_Netns = netns,
       req_IfName = ifname, req_CNIConf = Some conf\<rparr>"
proof -
  let ?env = "cer_ArgEnv r"
  from env assms(1,4) have vars: "map_of ?env ''CNI_COMMAND'' = Some cmd" "map_of ?env ''CNI_CONTAINERID'' = Some sandbox"
    "map_of ?env ''CNI_NETNS'' = Some netns" "map_of ?env ''CNI_IFNAME'' = Some ifname"
    "map_of ?env ''CNI_ARGS'' = Some (strings_Join (map setting args) '';'')" by simp_all
  from assms(5) have "args \<noteq> []" by auto
  from loadCNIShimArgs_settings [OF vars(5) this assms(2)] obtain m where
    m: "loadCNIShimArgs ?env = Inr m" "map_of m = map_of args" using assms(3) by (auto simp: map_of_rev)
  with assms(3,5) have "map_of m ''K8S_POD_NAMESPACE'' = Some ns" "map_of m ''K8S_POD_NAME'' = Some name" by simp_all
  with vars m(1) assms(6) stdin show ?thesis
    by (simp add: loadCNIRequestToCNIServer_def required_def)
qed

text \<open>The server's handler in place of the socket.\<close>

definition serve :: "env \<Rightarrow> post" where
  "serve E ep tls body w = do { ((status, reply), w) \<leftarrow> handleCNIShimRequest E body w; Some (Inr (status, Inr reply), w) }"

text \<open>
  C34.  Calling the plugin is calling the server: if the environment of the shim holds the
  variables of the CNI protocol, in ASCII, and the shim can read the certificate, the JSON text it
  sends is handled as exactly the request the runtime made, with these values, and the shim returns the server's
  result, or an error that contains the server's error.
\<close>

theorem shim_calls_server:
  assumes "\<forall>p \<in> set vars. wf_var p" and "distinct (map fst vars)" and "\<forall>p \<in> set args. wf_arg p" and "distinct (map fst args)"
    and "{(''CNI_COMMAND'', cmd), (''CNI_CONTAINERID'', sandbox), (''CNI_NETNS'', netns), (''CNI_IFNAME'', ifname),
      (''CNI_ARGS'', strings_Join (map setting args) '';'')} \<subseteq> set vars"
    and "{(''K8S_POD_NAMESPACE'', ns), (''K8S_POD_NAME'', name)} \<subseteq> set args" and "ConfigureNetConf E stdin = Inr conf"
    and "ascii_vars vars"
    and "env_kubeConfigFile E (trace w) = None" and "env_getSecret E (trace w) ''kube-system'' ''nodus-cni-cert'' = Inr (Some s)"
    and "env_X509KeyPair E (secretData s ''tls.crt'') (secretData s ''tls.key'') = Inr cert"
  shows "sendCNIServerReq E (serve E) ep (cniEndpointRequest (map setting vars) stdin) w =
     do { (r, w') \<leftarrow> HandleCNIcommandRequest E \<lparr>req_Command = cmd, req_PodNamespace = ns, req_PodName = name, req_SandboxID = sandbox,
            req_Netns = netns, req_IfName = ifname, req_CNIConf = Some conf\<rparr>
            (w\<lparr>trace := trace w @ [KubeGet KSecret ''kube-system'' ''nodus-cni-cert'']\<rparr>);
          Some (case r of
             Inl e \<Rightarrow> Inl (Errorf (''CNI Server request is failed with reponse status 400 and reponse body '' @ error_msg e @ [CHR 0x0A]))
           | Inr result \<Rightarrow> Inr result, w') }"
proof -
  have "show_nat 400 = ''400''" by code_simp
  moreover obtain body r where "marshalRequest (cniEndpointRequest (map setting vars) stdin) = Inr body" "unmarshalRequest body = Inr r"
    "map_of (cer_ArgEnv r) = map_of vars" "cer_NetConfig r = stdin" using shim_request_sent [OF assms(1,2,8)] by blast
  ultimately show ?thesis using shim_request_roundtrip [OF assms(2-7)] assms(9-11)
    by (auto simp: sendCNIServerReq_def serve_def handleCNIShimRequest_def CreateClientTLSConfig_def LoadCertsFromSecret_def GetSecret_def
        config_Namespace_def GetKubeConfigfromFile_def DefaultCniCert_def CertFile_def KeyFile_def http_Error_def split: bind_split sum.split)
qed

definition del_args :: "(string \<times> string) list" where
  "del_args = [(''K8S_POD_NAMESPACE'', ''default''), (''K8S_POD_NAME'', ''web'')]"

definition del_vars :: "(string \<times> string) list" where
  "del_vars = [(''CNI_COMMAND'', ''DEL''), (''CNI_CONTAINERID'', ''0123456789abcdef''), (''CNI_NETNS'', ''/proc/7/ns/net''), (''CNI_IFNAME'', ''eth0''),
     (''CNI_ARGS'', ''K8S_POD_NAMESPACE=default;K8S_POD_NAME=web'')]"

definition shim_env :: env where
  "shim_env = null_env\<lparr>env_getSecret := (\<lambda>h ns n. Inr (Some old_secret))\<rparr>"

theorem shim_calls_server_witness:
  "sendCNIServerReq shim_env (serve shim_env) CNIServerSocketPath (cniEndpointRequest (map setting del_vars) ''{}'') init_world =
     do { (r, w') \<leftarrow> HandleCNIcommandRequest shim_env \<lparr>req_Command = ''DEL'', req_PodNamespace = ''default'', req_PodName = ''web'',
            req_SandboxID = ''0123456789abcdef'', req_Netns = ''/proc/7/ns/net'', req_IfName = ''eth0'',
            req_CNIConf = Some \<lparr>ncf_CNIVersion = [], ncf_NFNNetwork = [], ncf_RawPrevResult = None\<rparr>\<rparr>
            (init_world\<lparr>trace := [KubeGet KSecret ''kube-system'' ''nodus-cni-cert'']\<rparr>);
          Some (case r of
             Inl e \<Rightarrow> Inl (Errorf (''CNI Server request is failed with reponse status 400 and reponse body '' @ error_msg e @ [CHR 0x0A]))
           | Inr result \<Rightarrow> Inr result, w') }"
proof -
  have v: "\<forall>p \<in> set del_vars. wf_var p" "distinct (map fst del_vars)" "\<forall>p \<in> set del_args. wf_arg p" "distinct (map fst del_args)"
    by code_simp+
  have i: "init_world\<lparr>trace := trace init_world @ [e]\<rparr> = init_world\<lparr>trace := [e]\<rparr>" for e by (simp add: init_world_def)
  show ?thesis unfolding i [symmetric]
    by (rule shim_calls_server [OF v, where s = old_secret and cert = "secretData old_secret ''tls.crt''"])
      (simp_all add: setting_def del_vars_def del_args_def ascii_vars_def ascii_def shim_env_def null_env_def ConfigureNetConf_def)
qed

theorem CNIServer_Start_private_witness:
  "\<exists>w' before. CNIServer_Start null_env True (Some \<lparr>srv_serverrundir = ''/run/cni'', srv_TLSConfig = CreateTLSConfig ''c'' [''ca''] True\<rparr>) init_world = Some (None, w') \<and>
     trace w' = before @ [FileOp (MkdirAll ''/run/cni'' 0x1C0), FileOp (ListenUnix (''/run/cni/'' @ CNIServerSocketName)),
       FileOp (Chmod (''/run/cni/'' @ CNIServerSocketName) 0x180), ServeHttp (''/run/cni/'' @ CNIServerSocketName) False]"
proof -
  let ?cs = "\<lparr>srv_serverrundir = ''/run/cni'', srv_TLSConfig = CreateTLSConfig ''c'' [''ca''] True\<rparr>"
  obtain w' where r: "CNIServer_Start null_env True (Some ?cs) init_world = Some (None, w')"
    by (simp add: CNIServer_Start_def os_do_def null_env_def realError_def Let_def)
  from CNIServer_Start_private [OF r] r show ?thesis by (auto simp: init_world_def)
qed

end
