(* ===== verification/Agent_Main.thy ===== *)
theory Agent_Main
  imports Nfn_Agent Cri_Client Cni_Shim
begin

text \<open>
  The start of the agent, \<^verbatim>\<open>main\<close> of \<^verbatim>\<open>cmd/nfn-agent/nfn-agent.go\<close>, which composes the
  packet filter, the command runner, the credentials, the client of the container runtime and the
  CNI server before it listens to notifications.  Dialling the operator and the in-cluster
  configuration are parameters; a signal that ends the process early is not modelled.
\<close>

record agent_env =
  ag_Dial :: "history \<Rightarrow> string \<Rightarrow> TLSConfig \<Rightarrow> error option"
  ag_InClusterConfig :: "history \<Rightarrow> error option"
  ag_NewForConfig :: "history \<Rightarrow> error option"
  ag_runtime :: runtime

definition serverAddress :: "env \<Rightarrow> string" where
  "serverAddress E =
     (let serverIP = env_Getenv E ''NFN_OPERATOR_SERVICE_HOST'';
          serverIP = (if strings_Contains serverIP '':'' then ''['' @ serverIP @ '']'' else serverIP)
      in serverIP @ '':'' @ env_Getenv E ''NFN_OPERATOR_SERVICE_PORT'')"

text \<open>
  What a completed start has set up: the credentials of the connection, the client of the runtime
  and the CNI server.  \<open>Inl ()\<close> is \<^verbatim>\<open>return\<close> after an error was logged, a panic
  is \<open>None\<close>.
\<close>

record agent =
  ag_TLS :: TLSConfig
  ag_CRI :: CRIClient
  ag_Server :: CNIServer

definition agent_main :: "env \<Rightarrow> agent_env \<Rightarrow> (world, unit + agent) prog" where
  "agent_main E A w = do {
     (err, w) \<leftarrow> configureFirewall E w;
     (if err \<noteq> None then Some (Inl (), w) else do {
     (err, w) \<leftarrow> SetExec E w;
     (if err \<noteq> None then Some (Inl (), w) else do {
     (nokube, w) \<leftarrow> GetKubeClient E w;
     (clientTLS, w) \<leftarrow> agentCredentials E (nokube = None) w;
     (err, w) \<leftarrow> ask (\<lambda>h. ag_Dial A h (serverAddress E) clientTLS) w;
     (if err \<noteq> None then Some (Inl (), w) else do {
     (err, w) \<leftarrow> ask (ag_InClusterConfig A) w;
     (if err \<noteq> None then Some (Inl (), w) else do {
     (err, w) \<leftarrow> ask (ag_NewForConfig A) w;
     (if err \<noteq> None then Some (Inl (), w)
      else if nokube \<noteq> None then None
      else do {
     (r, w) \<leftarrow> GetNode E (env_Getenv E ''HOSTNAME'') w;
     (case r of Inl e \<Rightarrow> Some (Inl (), w) | Inr node \<Rightarrow>
     (case NewCRIClient (ag_runtime A) node of Inl e \<Rightarrow> Some (Inl (), w) | Inr cri \<Rightarrow> do {
     (cniserver, w) \<leftarrow> NewCNIServer E [] w;
     (err, w) \<leftarrow> CNIServer_Start E True cniserver w;
     (if err \<noteq> None then Some (Inl (), w)
      else (case cniserver of
         None \<Rightarrow> None
       | Some cs \<Rightarrow> Some (Inr \<lparr>ag_TLS = clientTLS, ag_CRI = cri, ag_Server = cs\<rparr>, w))) })) }) }) }) }) })
   }"

text \<open>
  After the start the agent listens to notifications in the background and waits for its end: a
  signal, or the reason \<^verbatim>\<open>shutDownAgent\<close> sends over the error channel when the stream has
  ended.  The process without signals returns that reason.
\<close>

datatype shutdown = OsSignal string | ErrorChannel string

definition shutDownAgent :: "string \<Rightarrow> shutdown" where
  "shutDownAgent reason = ErrorChannel reason"

fun shutdownHandler :: "shutdown \<Rightarrow> string" where
  "shutdownHandler (OsSignal sig) = ''Received OS signal '' @ sig"
| "shutdownHandler (ErrorChannel reason) = reason"

definition agent_process :: "env \<Rightarrow> agent_env \<Rightarrow> notify_client \<Rightarrow> (world, string option) prog" where
  "agent_process E A C w = do {
     (r, w) \<leftarrow> agent_main E A w;
     (case r of
        Inl u \<Rightarrow> Some (None, w)
      | Inr ag \<Rightarrow> do {
          (reason, w) \<leftarrow> subscribeNotif E C w;
          Some (Some (shutdownHandler (shutDownAgent reason)), w) })
   }"

section \<open>What a started agent can rely on\<close>

lemma frame_case_SysInfo:
  "(\<And>u. x = Stat_t u \<Longrightarrow> frame (m u)) \<Longrightarrow> (\<And>t. x = OtherSys t \<Longrightarrow> frame (n t)) \<Longrightarrow>
     frame (\<lambda>w. case x of Stat_t u \<Rightarrow> m u w | OtherSys t \<Rightarrow> n t w)"
  by (cases x) (simp_all add: frame_def)

lemma os_frames [frame_intros]: "frame (os_do E c)" "frame (os_Stat E p)"
  unfolding os_do_def os_Stat_def by (intro frame_intros)+

lemma checkRunDir_frame [frame_intros]: "frame (checkRunDir E d p)"
  unfolding checkRunDir_def [abs_def] by (intro frame_intros frame_case_SysInfo)

lemma start_frames:
  "frame (GetKubeClient E)" "frame (GetNode E n)" "frame (agentCredentials E k)" "frame (NewCNIServer E d)" "frame (CNIServer_Start E b cs)"
  unfolding GetKubeClient_def GetNode_def agentCredentials_def [abs_def] WaitForSecret_def NewCNIServer_def [abs_def] CNIServer_Start_def [abs_def]
    Let_def
  by (intro frame_intros)+

lemma firewall_frame [frame_intros]: "frame (configureFirewall E)"
  unfolding configureFirewall_def [abs_def] Let_def by (intro frame_intros)

lemma agentCredentials_trust:
  assumes "agentCredentials E k w = Some (tls, w')"
  shows "\<exists>s c. servedSecret E w w' s \<and> env_X509KeyPair E (secretData s CertFile) (secretData s KeyFile) = Inr c \<and>
     tls_Certificates tls = [c] \<and> tls_RootCAs tls = Some (env_certsFromPEM E (secretData s CAFile)) \<and> tls_MinVersion tls = VersionTLS12"
  using assms by (auto simp: agentCredentials_def run_conv CreateClientTLSFromSecret_def createTLS_eq CreateTLSConfig_def
      dest!: obtainSecret_served split: sum.splits)

lemma NewCNIServer_dir:
  assumes "NewCNIServer E [] w = Some (Some cs, w')"
  shows "srv_serverrundir cs = CNIServerRunDir"
  using assms by (auto simp: NewCNIServer_def Let_def run_conv split: if_splits)

lemma Start_last:
  assumes "CNIServer_Start E True (Some cs) w = Some (None, w')" and "path = srv_serverrundir cs @ ''/'' @ CNIServerSocketName"
  shows "\<exists>h. trace w' = h @ [FileOp (Chmod path 0x180), ServeHttp path False] \<and> env_fs E h (Chmod path 0x180) = None"
  using assms by (auto simp: CNIServer_Start_def os_do_def Let_def run_conv split: if_splits option.splits)

text \<open>
  C33.  An agent that gets as far as listening for notifications has everything its handlers use:
  its packet filter was set up first, the runner holds the paths of the three command line tools,
  so that no command panics, and the connection to the operator presents the key pair of a secret
  read from the API server in its certificate stage and trusts only the authorities of that secret.
  The CNI server has just been started on its socket after the mode was set to 0600, but without
  TLS: although a configuration that would verify the clients was built from a secret, the listener
  is a plain one, and the access rights of the socket are all that protects it.  The notification
  state is still the initial one.
\<close>

theorem agent_main_ready:
  assumes "agent_main E A w = Some (Inr ag, w')"
  shows "(\<exists>v. configureFirewall E w = Some (None, v)) \<and>
     (\<exists>r. runner w' = Some r \<and> env_LookPath E ''ovn-nbctl'' = Inr (eh_nbctlPath r) \<and> env_LookPath E ''ovs-vsctl'' = Inr (eh_vsctlPath r) \<and>
        env_LookPath E ''ip'' = Inr (eh_ipPath r)) \<and>
     (\<exists>k v v' s c. agentCredentials E k v = Some (ag_TLS ag, v') \<and> servedSecret E v v' s \<and>
        env_X509KeyPair E (secretData s CertFile) (secretData s KeyFile) = Inr c \<and> tls_Certificates (ag_TLS ag) = [c] \<and>
        tls_RootCAs (ag_TLS ag) = Some (env_certsFromPEM E (secretData s CAFile)) \<and> tls_MinVersion (ag_TLS ag) = VersionTLS12) \<and>
     (\<exists>h. trace w' = h @ [FileOp (Chmod CNIServerSocketPath 0x180), ServeHttp CNIServerSocketPath False] \<and>
        env_fs E h (Chmod CNIServerSocketPath 0x180) = None) \<and>
     inSync w' = inSync w \<and> pnCreateStore w' = pnCreateStore w"
proof -
  from assms obtain w1 w2 nk w3 tls w4 node w5 cri cs w6 where
    fw: "configureFirewall E w = Some (None, w1)" and ex: "SetExec E w1 = Some (None, w2)" and kc: "GetKubeClient E w2 = Some (nk, w3)"
    and cr: "agentCredentials E (nk = None) w3 = Some (tls, w4)" and nd: "GetNode E (env_Getenv E ''HOSTNAME'') w4 = Some (Inr node, w5)"
    and new: "NewCNIServer E [] w5 = Some (Some cs, w6)" and st: "CNIServer_Start E True (Some cs) w6 = Some (None, w')"
    and ag: "ag = \<lparr>ag_TLS = tls, ag_CRI = cri, ag_Server = cs\<rparr>"
    by (auto simp: agent_main_def run_conv split: if_splits option.splits)
  from SetExec_runner [OF ex] obtain r where
    r: "w2 = w1\<lparr>runner := Some r\<rparr>" "env_LookPath E ''ovn-nbctl'' = Inr (eh_nbctlPath r)" "env_LookPath E ''ovs-vsctl'' = Inr (eh_vsctlPath r)"
      "env_LookPath E ''ip'' = Inr (eh_ipPath r)" by blast
  note keep = frame_fields(1,5,6) [OF firewall_frame fw] frame_fields(1,5,6) [OF start_frames(1) kc] frame_fields(1,5,6) [OF start_frames(3) cr]
    frame_fields(1,5,6) [OF start_frames(2) nd] frame_fields(1,5,6) [OF start_frames(4) new] frame_fields(1,5,6) [OF start_frames(5) st]
  from keep r have "runner w' = Some r" "inSync w' = inSync w" "pnCreateStore w' = pnCreateStore w" by simp_all
  moreover have "\<exists>h. trace w' = h @ [FileOp (Chmod CNIServerSocketPath 0x180), ServeHttp CNIServerSocketPath False] \<and>
      env_fs E h (Chmod CNIServerSocketPath 0x180) = None"
    by (rule Start_last [OF st]) (simp add: NewCNIServer_dir [OF new] CNIServerSocketPath_def)
  moreover from agentCredentials_trust [OF cr] cr ag have "\<exists>k v v' s c. agentCredentials E k v = Some (ag_TLS ag, v') \<and> servedSecret E v v' s \<and>
      env_X509KeyPair E (secretData s CertFile) (secretData s KeyFile) = Inr c \<and> tls_Certificates (ag_TLS ag) = [c] \<and>
      tls_RootCAs (ag_TLS ag) = Some (env_certsFromPEM E (secretData s CAFile)) \<and> tls_MinVersion (ag_TLS ag) = VersionTLS12"
    by (simp, blast)
  ultimately show ?thesis using fw r(2-4) by simp
qed

definition started_env :: env where
  "started_env = null_env\<lparr>env_getSecret := (\<lambda>h ns n. Inr (Some old_secret)),
     env_getCertificate := (\<lambda>h ns n. Inr (service_cert\<lparr>crt_IPAddresses := [''10.96.0.7'']\<rparr>)),
     env_Getenv := (\<lambda>v. if v = ''NFN_OPERATOR_SERVICE_HOST'' then ''10.96.0.7'' else ''node1''),
     env_getNode := (\<lambda>h n. Inr \<lparr>node_Name = n, node_ContainerRuntimeVersion = ''containerd://1.6.8''\<rparr>)\<rparr>"

definition quiet_agent :: agent_env where
  "quiet_agent = \<lparr>ag_Dial = (\<lambda>h a t. None), ag_InClusterConfig = (\<lambda>h. None), ag_NewForConfig = (\<lambda>h. None),
     ag_runtime = sample_runtime\<rparr>"

lemma started_env_starts: "case agent_main started_env quiet_agent init_world of Some (Inr ag, w') \<Rightarrow> True | _ \<Rightarrow> False"
  by code_simp

theorem agent_main_ready_witness:
  "\<exists>ag w'. agent_main started_env quiet_agent init_world = Some (Inr ag, w') \<and> runner w' \<noteq> None \<and> \<not> inSync w' \<and>
     tls_RootCAs (ag_TLS ag) \<noteq> None \<and> last (trace w') = ServeHttp CNIServerSocketPath False"
proof -
  from started_env_starts obtain ag w' where r: "agent_main started_env quiet_agent init_world = Some (Inr ag, w')"
    by (auto split: option.splits sum.splits prod.splits)
  from agent_main_ready [OF r] r show ?thesis by (auto simp: init_world_def)
qed

end
