(* ===== verification/Ovn_Acl.thy ===== *)
theory Ovn_Acl
  imports Ovn_Exec
begin

text \<open>
  Access control lists and port groups: \<^verbatim>\<open>internal/pkg/ovn/acl.go\<close> and
  \<^verbatim>\<open>internal/pkg/ovn/port_group.go\<close>.
\<close>

section \<open>ACLs\<close>

record ACL =
  acl_Entity :: string
  acl_Direction :: string
  acl_Priority :: int
  acl_Match :: string
  acl_Verdict :: string

definition Ingress :: string where "Ingress = ''to-lport''"
definition Egress :: string where "Egress = ''from-lport''"

lemmas directions = Ingress_def Egress_def

text \<open>The class \<^verbatim>\<open>\s\<close> of Go's regular expressions.\<close>

definition re_space :: "char \<Rightarrow> bool" where
  "re_space c \<longleftrightarrow> c \<in> {CHR '' '', CHR 0x09, CHR 0x0A, CHR 0x0C, CHR 0x0D}"

fun squeeze :: "string \<Rightarrow> string" where
  "squeeze [] = []"
| "squeeze (c # cs) =
     (if re_space c then (if cs \<noteq> [] \<and> re_space (hd cs) then squeeze cs else CHR '' '' # squeeze cs)
      else c # squeeze cs)"

text \<open>The leftmost longest match of \<^verbatim>\<open>\(.*\)\<close>: from the first open parenthesis to the last closing one.\<close>

definition find_parens :: "string \<Rightarrow> string" where
  "find_parens line =
     (let t = dropWhile (\<lambda>c. c \<noteq> CHR ''('') line
      in if CHR '')'' \<in> set t then rev (dropWhile (\<lambda>c. c \<noteq> CHR '')'') (rev t)) else [])"

definition fromString :: "ACL \<Rightarrow> string \<Rightarrow> error + ACL" where
  "fromString rule line =
     (let line = squeeze (dropWhile re_space line);
          rule = rule\<lparr>acl_Match := strings_Trim (strings_Trim (find_parens line) ''('') '')''\<rparr>;
          bySpace = strings_Split line (CHR '' '')
      in case bySpace of
           dir # prio # rest \<Rightarrow>
             (case strconv_ParseInt16 prio of
                Inl e \<Rightarrow> Inl e
              | Inr p \<Rightarrow> Inr (rule\<lparr>acl_Direction := dir, acl_Priority := p, acl_Verdict := last bySpace\<rparr>))
         | _ \<Rightarrow> Inl (Errorf ''Unable to parse ACL''))"

definition ToString :: "ACL \<Rightarrow> string" where
  "ToString rule = ''Entity: '' @ acl_Entity rule @ '', Direction: '' @ acl_Direction rule @ '', Priority: '' @
     strconv_Itoa (acl_Priority rule) @ '', Match: '' @ acl_Match rule @ '', Verdict: '' @ acl_Verdict rule"

fun parseACLs :: "string \<Rightarrow> string list \<Rightarrow> error + ACL list" where
  "parseACLs entity [] = Inr []"
| "parseACLs entity (line # lines) =
     (case fromString \<lparr>acl_Entity = entity, acl_Direction = [], acl_Priority = 0, acl_Match = [], acl_Verdict = []\<rparr> line of
        Inl e \<Rightarrow> Inl e
      | Inr rule \<Rightarrow> (case parseACLs entity lines of Inl e \<Rightarrow> Inl e | Inr rules \<Rightarrow> Inr (rule # rules)))"

definition ACLList :: "env \<Rightarrow> string \<Rightarrow> string \<Rightarrow> (world, string \<times> ACL list \<times> error option) prog" where
  "ACLList E entity entityType w = do {
     let args = (if entityType \<noteq> [] then [''--type='' @ entityType @ ''d''] else []) @ [''acl-list'', entity];
     ((stdout, stderr, err), w) \<leftarrow> RunOVNNbctl E args w;
     (if err \<noteq> None then Some ((stdout, [], err), w)
      else case parseACLs entity (strings_Split stdout (CHR 0x0A)) of
             Inl e \<Rightarrow> Some ((stdout, [], Some e), w)
           | Inr rules \<Rightarrow> Some ((stdout, rules, None), w))
   }"

definition aclAddArgs :: "ACL \<Rightarrow> string \<Rightarrow> string \<Rightarrow> string \<Rightarrow> bool \<Rightarrow> bool \<Rightarrow> string list" where
  "aclAddArgs rule entityType meter name mayExist enLog =
     (if entityType \<noteq> [] then [''--type='' @ entityType] else []) @
     (if enLog then [''--log''] else []) @
     (if meter \<noteq> [] then [''--meter='' @ meter] else []) @
     (if name \<noteq> [] then [''--name='' @ name] else []) @
     (if mayExist then [''--may-exist''] else []) @
     [''acl-add'', acl_Entity rule, acl_Direction rule, strconv_Itoa (acl_Priority rule), acl_Match rule, acl_Verdict rule]"

definition ACLAdd ::
  "env \<Rightarrow> ACL \<Rightarrow> string \<Rightarrow> string \<Rightarrow> string \<Rightarrow> string \<Rightarrow> bool \<Rightarrow> bool \<Rightarrow> (world, string \<times> error option) prog" where
  "ACLAdd E rule entityType meter severity name mayExist enLog w = do {
     ((stdout, stderr, err), w) \<leftarrow> RunOVNNbctl E (aclAddArgs rule entityType meter name mayExist enLog) w;
     (if err \<noteq> None then Some (([], err), w) else Some ((stdout, None), w))
   }"

definition ACLDel :: "env \<Rightarrow> ACL \<Rightarrow> string \<Rightarrow> (world, string \<times> error option) prog" where
  "ACLDel E rule entityType w = do {
     let args = (if entityType \<noteq> [] then [''--type='' @ entityType @ ''d''] else []) @
       [''acl-del'', acl_Entity rule, acl_Direction rule, strconv_Itoa (acl_Priority rule), acl_Match rule];
     ((stdout, stderr, err), w) \<leftarrow> RunOVNNbctl E args w;
     (if err \<noteq> None then Some (([], err), w) else Some ((stdout, None), w))
   }"

definition ACLDelEntity :: "env \<Rightarrow> string \<Rightarrow> string \<Rightarrow> (world, string \<times> error option) prog" where
  "ACLDelEntity E entity entityType w = do {
     let args = (if entityType \<noteq> [] then [''--type='' @ entityType @ ''d''] else []) @ [''acl-del'', entity];
     ((stdout, stderr, err), w) \<leftarrow> RunOVNNbctl E args w;
     (if err \<noteq> None then Some (([], err), w) else Some ((stdout, None), w))
   }"

section \<open>Port groups\<close>

definition preparePGArgs :: "string \<Rightarrow> string \<Rightarrow> string list \<Rightarrow> string list" where
  "preparePGArgs command grp ports = [command, grp] @ ports"

definition PGAddWithPorts :: "env \<Rightarrow> string \<Rightarrow> string list \<Rightarrow> (world, string \<times> error option) prog" where
  "PGAddWithPorts E grp ports w = do {
     ((stdout, stderr, err), w) \<leftarrow> RunOVNNbctl E (preparePGArgs ''pg-add'' grp ports) w;
     (if err \<noteq> None then Some (([], err), w) else Some ((stdout, None), w))
   }"

definition PGAdd :: "env \<Rightarrow> string \<Rightarrow> (world, string \<times> error option) prog" where
  "PGAdd E grp = PGAddWithPorts E grp []"

definition PGSetPorts :: "env \<Rightarrow> string \<Rightarrow> string list \<Rightarrow> (world, string \<times> error option) prog" where
  "PGSetPorts E grp ports w = do {
     ((stdout, stderr, err), w) \<leftarrow> RunOVNNbctl E (preparePGArgs ''pg-set-ports'' grp ports) w;
     (if err \<noteq> None then Some (([], err), w) else Some ((stdout, None), w))
   }"

definition PGDel :: "env \<Rightarrow> string \<Rightarrow> (world, string \<times> error option) prog" where
  "PGDel E grp w = do {
     ((stdout, stderr, err), w) \<leftarrow> RunOVNNbctl E [''pg-del'', grp] w;
     (if err \<noteq> None then Some (([], err), w) else Some ((stdout, None), w))
   }"

definition denyMatchPort :: "string \<Rightarrow> string \<Rightarrow> string" where
  "denyMatchPort pgName direction = (if direction = Ingress then ''outport'' else ''inport'') @ '' == '' @ ''@'' @ pgName"

definition ruleDeny :: "string \<Rightarrow> string \<Rightarrow> ACL" where
  "ruleDeny pgName direction = \<lparr>acl_Entity = pgName, acl_Direction = direction, acl_Priority = 0,
     acl_Match = denyMatchPort pgName direction @ '' && (tcp || udp || icmp || sctp)'', acl_Verdict = ''drop''\<rparr>"

definition ruleAllowARP :: "string \<Rightarrow> string \<Rightarrow> ACL" where
  "ruleAllowARP pgName direction = \<lparr>acl_Entity = pgName, acl_Direction = direction, acl_Priority = 1,
     acl_Match = denyMatchPort pgName direction @ '' && arp'', acl_Verdict = ''allow''\<rparr>"

definition addDenyRule :: "env \<Rightarrow> string \<Rightarrow> string \<Rightarrow> (world, error option) prog" where
  "addDenyRule E pgName direction w = do {
     ((stdout, err), w) \<leftarrow> ACLAdd E (ruleDeny pgName direction) [] [] [] ''GeneralDenyACL'' True False w;
     (if err \<noteq> None then Some (err, w)
      else do {
        ((stdout, err), w) \<leftarrow> ACLAdd E (ruleAllowARP pgName direction) [] [] [] ''ArpAllowACL'' True False w;
        (if err \<noteq> None then Some (err, w) else Some (None, w))
      })
   }"

definition AddDenyPG :: "env \<Rightarrow> string \<Rightarrow> bool \<Rightarrow> bool \<Rightarrow> (world, error option) prog" where
  "AddDenyPG E pgName isIngressPolicy isEgressPolicy w = do {
     ((stdout, existingACLs, err), w) \<leftarrow> ACLList E pgName [] w;
     (ignored, w) \<leftarrow> (if err \<noteq> None then PGAdd E pgName w else Some (([], None), w));
     (if length existingACLs < 4 then do {
        (err, w) \<leftarrow> (if isIngressPolicy then addDenyRule E pgName Ingress w else Some (None, w));
        (if err \<noteq> None then Some (err, w)
         else do {
           (err, w) \<leftarrow> (if isEgressPolicy then addDenyRule E pgName Egress w else Some (None, w));
           (if err \<noteq> None then Some (err, w) else Some (None, w))
         })
      }
      else Some (None, w))
   }"

section \<open>What the operations send\<close>

lemma ACLAdd_runs [runs_intros]: "runs (ACLAdd E rule et m sv n me lg)"
  unfolding ACLAdd_def [abs_def] by (intro runs_intros)

lemma ACLAdd_emits [emits_intros]:
  "(\<And>e. nbctl (aclAddArgs rule et m n me lg) e \<Longrightarrow> P e) \<Longrightarrow> emits P (ACLAdd E rule et m sv n me lg)"
  unfolding ACLAdd_def [abs_def] by (intro emits_intros)

lemma ACLList_runs [runs_intros]: "runs (ACLList E entity et)"
  unfolding ACLList_def [abs_def] Let_def by (intro runs_intros)

lemma ACLList_emits [emits_intros]:
  "(\<And>e. nbctl ((if et \<noteq> [] then [''--type='' @ et @ ''d''] else []) @ [''acl-list'', entity]) e \<Longrightarrow> P e) \<Longrightarrow>
     emits P (ACLList E entity et)"
  unfolding ACLList_def [abs_def] Let_def by (intro emits_intros)

lemma PGAdd_runs [runs_intros]: "runs (PGAdd E g)"
  unfolding PGAdd_def PGAddWithPorts_def [abs_def] by (intro runs_intros)

lemma PGAdd_emits [emits_intros]: "(\<And>e. nbctl [''pg-add'', g] e \<Longrightarrow> P e) \<Longrightarrow> emits P (PGAdd E g)"
  unfolding PGAdd_def PGAddWithPorts_def [abs_def] preparePGArgs_def by (intro emits_intros) simp

lemma PGSetPorts_runs [runs_intros]: "runs (PGSetPorts E g ports)"
  unfolding PGSetPorts_def [abs_def] by (intro runs_intros)

lemma PGSetPorts_emits [emits_intros]:
  "(\<And>e. nbctl ([''pg-set-ports'', g] @ ports) e \<Longrightarrow> P e) \<Longrightarrow> emits P (PGSetPorts E g ports)"
  unfolding PGSetPorts_def [abs_def] preparePGArgs_def by (intro emits_intros)

lemma PGDel_runs [runs_intros]: "runs (PGDel E g)"
  unfolding PGDel_def [abs_def] by (intro runs_intros)

lemma PGDel_emits [emits_intros]: "(\<And>e. nbctl [''pg-del'', g] e \<Longrightarrow> P e) \<Longrightarrow> emits P (PGDel E g)"
  unfolding PGDel_def [abs_def] by (intro emits_intros)

lemma AddDenyPG_runs [runs_intros]: "runs (AddDenyPG E pg i e)"
  unfolding AddDenyPG_def [abs_def] addDenyRule_def [abs_def] by (intro runs_intros)

lemma addDenyRule_emits [emits_intros]:
  assumes "\<And>e. nbctl (aclAddArgs (ruleDeny pg dir) [] [] ''GeneralDenyACL'' True False) e \<Longrightarrow> P e"
    and "\<And>e. nbctl (aclAddArgs (ruleAllowARP pg dir) [] [] ''ArpAllowACL'' True False) e \<Longrightarrow> P e"
  shows "emits P (addDenyRule E pg dir)"
  unfolding addDenyRule_def [abs_def] by (intro emits_intros assms)

interpretation acl_add: requests_only any_nbctl "\<lambda>rule. ACLAdd E rule et m sv n me lg"
  by unfold_locales (intro emits_intros, auto simp: any_nbctl_def)

interpretation pg_set: requests_only any_nbctl "PGSetPorts E g"
  by unfold_locales (intro emits_intros, auto simp: any_nbctl_def)

section \<open>Reading a rule back\<close>


















section \<open>Properties\<close>





definition deny_event :: "string \<Rightarrow> event \<Rightarrow> bool" where
  "deny_event pg e \<longleftrightarrow> nbctl [''acl-list'', pg] e \<or> nbctl [''pg-add'', pg] e \<or>
     (\<exists>dir. (dir = Ingress \<or> dir = Egress) \<and>
        (nbctl (aclAddArgs (ruleDeny pg dir) [] [] ''GeneralDenyACL'' True False) e \<or>
         nbctl (aclAddArgs (ruleAllowARP pg dir) [] [] ''ArpAllowACL'' True False) e))"

lemma AddDenyPG_emits: "emits (deny_event pg) (AddDenyPG E pg i e)"
  unfolding AddDenyPG_def [abs_def]
  by (intro emits_intros) (auto simp: deny_event_def)

end
