(* ===== verification/Network_Policy.thy ===== *)
theory Network_Policy
  imports Ovn_Acl
begin

text \<open>
  \<^verbatim>\<open>pkg/controller/networkpolicy/networkpolicy_controller.go\<close>: a Kubernetes network
  policy becomes a port group of the selected pods with a low priority drop rule, and allow rules
  whose match strings are built from the policy's ports, address blocks and peers.
\<close>

section \<open>Match strings\<close>

definition concatenate :: "string \<Rightarrow> string \<Rightarrow> string \<Rightarrow> string" where
  "concatenate a b operand = a @ '' '' @ operand @ '' '' @ b"

definition addBraces :: "string \<Rightarrow> string" where
  "addBraces a = ''('' @ a @ '')''"

definition getIPVersion :: "string \<Rightarrow> string" where
  "getIPVersion ip = (if strings_Contains ip ''.'' then ''ip4'' else ''ip6'')"

record XgressRule =
  xr_Ports :: "NetworkPolicyPort list"
  xr_Peer :: "NetworkPolicyPeer list"
  xr_Type :: string

definition fromIngress :: "NetworkPolicyIngressRule list \<Rightarrow> XgressRule list" where
  "fromIngress rules = map (\<lambda>r. \<lparr>xr_Ports = ing_Ports r, xr_Peer = ing_From r, xr_Type = Ingress\<rparr>) rules"

definition fromEgress :: "NetworkPolicyEgressRule list \<Rightarrow> XgressRule list" where
  "fromEgress rules = map (\<lambda>r. \<lparr>xr_Ports = eg_Ports r, xr_Peer = eg_To r, xr_Type = Egress\<rparr>) rules"

definition getPortName :: "Pod \<Rightarrow> string" where
  "getPortName pod = pod_Namespace pod @ ''_'' @ pod_Name pod"

definition getPorts :: "Pod list \<Rightarrow> string list" where
  "getPorts podList = map getPortName podList"

definition getIPs :: "Pod list \<Rightarrow> string list" where
  "getIPs podList = map pod_PodIP podList"

record PolicyPorts =
  pp_TCPPorts :: "int list"
  pp_UDPPorts :: "int list"
  pp_SCTPPorts :: "int list"

text \<open>A missing protocol or port is a nil dereference.\<close>

definition addPort :: "NetworkPolicyPort \<Rightarrow> int \<Rightarrow> PolicyPorts \<Rightarrow> PolicyPorts option" where
  "addPort p port ports =
     (case npp_Protocol p of
        None \<Rightarrow> None
      | Some proto \<Rightarrow>
          Some (if proto = ''UDP'' then ports\<lparr>pp_UDPPorts := pp_UDPPorts ports @ [port]\<rparr>
                else if proto = ''SCTP'' then ports\<lparr>pp_SCTPPorts := pp_SCTPPorts ports @ [port]\<rparr>
                else ports\<lparr>pp_TCPPorts := pp_TCPPorts ports @ [port]\<rparr>))"

fun networkPortsFrom :: "PolicyPorts \<Rightarrow> NetworkPolicyPort list \<Rightarrow> PolicyPorts option" where
  "networkPortsFrom policyPorts [] = Some policyPorts"
| "networkPortsFrom policyPorts (p # ps) =
     (case npp_Port p of
        None \<Rightarrow> None
      | Some (IntPort n) \<Rightarrow>
          (case addPort p n policyPorts of None \<Rightarrow> None | Some pp \<Rightarrow> networkPortsFrom pp ps)
      | Some (NamedPort _) \<Rightarrow> networkPortsFrom policyPorts ps)"

definition getNetworkPorts :: "NetworkPolicyPort list \<Rightarrow> PolicyPorts option" where
  "getNetworkPorts ports = networkPortsFrom \<lparr>pp_TCPPorts = [], pp_UDPPorts = [], pp_SCTPPorts = []\<rparr> ports"

definition protocolToString :: "string \<Rightarrow> string" where
  "protocolToString protocol = (if protocol = ''UDP'' then ''udp'' else if protocol = ''SCTP'' then ''sctp'' else ''tcp'')"

definition portMatch :: "string \<Rightarrow> string \<Rightarrow> int \<Rightarrow> string" where
  "portMatch protocol direction port = protocol @ ''.'' @ direction @ '' == '' @ strconv_Itoa port"

definition getPortsMatch :: "int list \<Rightarrow> string \<Rightarrow> string \<Rightarrow> string" where
  "getPortsMatch ports protocol direction =
     (case ports of
        [] \<Rightarrow> []
      | p # ps \<Rightarrow> foldl (\<lambda>m p. concatenate m (portMatch protocol direction p) ''||'') (portMatch protocol direction p) ps)"

text \<open>The third branch puts braces around \<^verbatim>\<open>udp\<close>, which is already in braces or empty.\<close>

definition createPortsMatch :: "PolicyPorts \<Rightarrow> string \<Rightarrow> string" where
  "createPortsMatch ports direction =
     (let tcp = getPortsMatch (pp_TCPPorts ports) ''tcp'' direction;
          rules = (if tcp \<noteq> [] then [addBraces tcp] else []);
          udp = getPortsMatch (pp_UDPPorts ports) ''udp'' direction;
          udp = (if udp \<noteq> [] then addBraces udp else udp);
          rules = (if udp \<noteq> [] then rules @ [udp] else rules);
          sctp = getPortsMatch (pp_SCTPPorts ports) ''sctp'' direction;
          rules = (if sctp \<noteq> [] then rules @ [addBraces udp] else rules)
      in addBraces (strings_Join rules '' || ''))"

definition createIPBlockMatch :: "IPBlock \<Rightarrow> string \<Rightarrow> string" where
  "createIPBlockMatch block direction =
     (let tag = getIPVersion (ib_CIDR block) @ ''.'' @ direction
      in addBraces (foldl (\<lambda>m ex. concatenate m (concatenate tag ex ''!='') ''&&'')
           (concatenate tag (ib_CIDR block) ''=='') (ib_Except block)))"

definition ipSliceToACL :: "string list \<Rightarrow> string \<Rightarrow> string \<Rightarrow> string \<Rightarrow> string" where
  "ipSliceToACL data direction comparator operand =
     (let dir = (if direction = Ingress then ''.src'' else ''.dst'');
          term = (\<lambda>d. concatenate (getIPVersion d @ dir) d comparator)
      in case data of
           [] \<Rightarrow> []
         | d # ds \<Rightarrow> foldl (\<lambda>acl d. concatenate acl (term d) operand) (term d) ds)"

section \<open>Peers\<close>

definition getPeerIPs :: "env \<Rightarrow> NetworkPolicyPeer \<Rightarrow> (world, error + string list) prog" where
  "getPeerIPs E peer w = do {
     let options = [peer_NamespaceSelector peer, peer_PodSelector peer];
     (r, w) \<leftarrow> request (KubeListPods options) (\<lambda>h. env_listPodsSel E h options) w;
     (case r of Inl e \<Rightarrow> Some (Inl e, w) | Inr podList \<Rightarrow> Some (Inr (getIPs podList), w))
   }"

definition createPeerMatch :: "env \<Rightarrow> NetworkPolicyPeer \<Rightarrow> string \<Rightarrow> (world, error + string) prog" where
  "createPeerMatch E peer direction w = do {
     (r, w) \<leftarrow> getPeerIPs E peer w;
     (case r of
        Inl e \<Rightarrow> Some (Inl e, w)
      | Inr peerIPAddress \<Rightarrow> Some (Inr (ipSliceToACL peerIPAddress direction ''=='' ''||''), w))
   }"

section \<open>Allow rules\<close>

definition getPortGroupName :: "NetworkPolicy \<Rightarrow> string" where
  "getPortGroupName policy = ''pg'' @ Hash (om_Namespace (pol_Meta policy) @ ''_'' @ om_Name (pol_Meta policy))"

text \<open>
  The variables of \<^verbatim>\<open>addACLs\<close> that outlive an iteration: they are declared before the
  loop, and the ones below are not reset inside it.
\<close>

record aclVars =
  av_portsMatch :: string
  av_aclRule :: string
  av_Priority :: int
  av_ovnRules :: "ACL list"

text \<open>One allow rule from the match strings of a peer; \<^verbatim>\<open>aclRule\<close> keeps its value when both are empty.\<close>

definition peerStep :: "string \<Rightarrow> XgressRule \<Rightarrow> string \<Rightarrow> string \<Rightarrow> aclVars \<Rightarrow> aclVars" where
  "peerStep entity xgressRule ipBlockMatch peerIPAddressMatch s =
     (let matchPort = (if xr_Type xgressRule = Ingress then ''outport'' else ''inport'');
          tmpMatch = (if peerIPAddressMatch \<noteq> [] \<and> ipBlockMatch \<noteq> []
                        then concatenate (addBraces peerIPAddressMatch) ipBlockMatch ''||''
                      else if peerIPAddressMatch \<noteq> [] then peerIPAddressMatch
                      else ipBlockMatch);
          aclRule = (if tmpMatch \<noteq> [] \<and> av_portsMatch s \<noteq> []
                       then av_portsMatch s @ '' && '' @ addBraces tmpMatch
                     else if tmpMatch \<noteq> [] then addBraces tmpMatch
                     else av_aclRule s);
          port = concatenate matchPort (''@'' @ entity) ''=='';
          rule = \<lparr>acl_Entity = entity, acl_Direction = xr_Type xgressRule, acl_Priority = av_Priority s,
                  acl_Match = concatenate port aclRule ''&&'', acl_Verdict = ''allow''\<rparr>
      in s\<lparr>av_aclRule := aclRule,
           av_ovnRules := (if acl_Match rule \<noteq> [] then av_ovnRules s @ [rule] else av_ovnRules s)\<rparr>)"

definition peerRule :: "env \<Rightarrow> string \<Rightarrow> XgressRule \<Rightarrow> NetworkPolicyPeer \<Rightarrow> aclVars \<Rightarrow> (world, aclVars + error) prog" where
  "peerRule E entity xgressRule peer s w = do {
     let ipBlockMatch = (case peer_IPBlock peer of
           None \<Rightarrow> []
         | Some block \<Rightarrow> createIPBlockMatch block (if xr_Type xgressRule = Egress then ''dst'' else ''src''));
     (r, w) \<leftarrow> (if peer_NamespaceSelector peer \<noteq> None \<or> peer_PodSelector peer \<noteq> None
               then createPeerMatch E peer (xr_Type xgressRule) w else Some (Inr [], w));
     (case r of
        Inl e \<Rightarrow> Some (Inr e, w)
      | Inr peerIPAddressMatch \<Rightarrow> Some (Inl (peerStep entity xgressRule ipBlockMatch peerIPAddressMatch s), w))
   }"

definition noPeerRule :: "string \<Rightarrow> XgressRule \<Rightarrow> aclVars \<Rightarrow> aclVars" where
  "noPeerRule entity xgressRule s =
     (let matchPort = (if xr_Type xgressRule = Ingress then ''outport'' else ''inport'');
          port = concatenate matchPort (''@'' @ entity) ''=='';
          s = (if av_portsMatch s \<noteq> [] then s else s\<lparr>av_Priority := 2000\<rparr>);
          aclRule = (if av_portsMatch s \<noteq> [] then concatenate port (av_portsMatch s) ''&&''
                     else concatenate port ''(tcp || udp || icmp || sctp)'' ''&&'');
          rule = \<lparr>acl_Entity = entity, acl_Direction = xr_Type xgressRule, acl_Priority = av_Priority s,
                  acl_Match = aclRule, acl_Verdict = ''allow''\<rparr>
      in s\<lparr>av_ovnRules := av_ovnRules s @ [rule]\<rparr>)"

definition applyRules :: "env \<Rightarrow> ACL list \<Rightarrow> (world, error option) prog" where
  "applyRules E = foreach (\<lambda>rule w. do {
     ((stdout, err), w) \<leftarrow> ACLAdd E rule [] [] [] [] True False w;
     Some (err, w)
   })"

definition xgressPorts :: "XgressRule \<Rightarrow> aclVars \<Rightarrow> aclVars option" where
  "xgressPorts xgressRule s =
     (if xr_Ports xgressRule \<noteq> []
      then (case getNetworkPorts (xr_Ports xgressRule) of
              None \<Rightarrow> None
            | Some ports \<Rightarrow> Some (s\<lparr>av_portsMatch := addBraces (concatenate (createPortsMatch ports ''dst'')
                (createPortsMatch ports ''src'') ''||'')\<rparr>))
      else Some s)"

definition xgressPeers :: "env \<Rightarrow> string \<Rightarrow> XgressRule \<Rightarrow> aclVars \<Rightarrow> (world, aclVars + error) prog" where
  "xgressPeers E entity xgressRule s w =
     (if xr_Peer xgressRule \<noteq> [] then rangeM (peerRule E entity xgressRule) (xr_Peer xgressRule) s w
      else Some (Inl (noPeerRule entity xgressRule s), w))"

definition xgressStep :: "env \<Rightarrow> string \<Rightarrow> XgressRule \<Rightarrow> aclVars \<Rightarrow> (world, aclVars + error) prog" where
  "xgressStep E entity xgressRule s w =
     (case xgressPorts xgressRule s of
        None \<Rightarrow> None
      | Some s \<Rightarrow> do {
          (r, w) \<leftarrow> xgressPeers E entity xgressRule s w;
          (case r of
             Inr e \<Rightarrow> Some (Inr e, w)
           | Inl s \<Rightarrow> do {
               (err, w) \<leftarrow> applyRules E (av_ovnRules s) w;
               (case err of Some e \<Rightarrow> Some (Inr e, w) | None \<Rightarrow> Some (Inl s, w))
             })
        })"

definition initVars :: aclVars where
  "initVars = \<lparr>av_portsMatch = [], av_aclRule = [], av_Priority = 1000, av_ovnRules = []\<rparr>"

definition addACLs :: "env \<Rightarrow> NetworkPolicy \<Rightarrow> XgressRule list \<Rightarrow> (world, error option) prog" where
  "addACLs E policy xgressRules w = do {
     (r, w) \<leftarrow> rangeM (xgressStep E (getPortGroupName policy)) xgressRules initVars w;
     (case r of Inr e \<Rightarrow> Some (Some e, w) | Inl _ \<Rightarrow> Some (None, w))
   }"

definition processPolicyRules :: "env \<Rightarrow> NetworkPolicy \<Rightarrow> (world, error option) prog" where
  "processPolicyRules E policy w = do {
     (err, w) \<leftarrow> addACLs E policy (fromIngress (pol_Ingress policy)) w;
     (if err \<noteq> None then Some (err, w)
      else do {
        (err, w) \<leftarrow> addACLs E policy (fromEgress (pol_Egress policy)) w;
        (if err \<noteq> None then Some (err, w) else Some (None, w))
      })
   }"

section \<open>Policies\<close>

definition listPods :: "env \<Rightarrow> NetworkPolicy \<Rightarrow> (world, error + Pod list) prog" where
  "listPods E policy =
     (let ns = om_Namespace (pol_Meta policy); sel = env_selectorString E (pol_PodSelector policy)
      in request (KubeList KPod ns sel) (\<lambda>h. env_listPods E h ns sel))"

definition createPolicy :: "env \<Rightarrow> NetworkPolicy \<Rightarrow> (world, bool) prog" where
  "createPolicy E policy w = do {
     let isEgressPolicy = ''Egress'' \<in> set (pol_PolicyTypes policy);
     let isIngressPolicy = (''Ingress'' \<in> set (pol_PolicyTypes policy) \<or> \<not> isEgressPolicy);
     (r, w) \<leftarrow> listPods E policy w;
     (case r of
        Inl e \<Rightarrow> Some (False, w)
      | Inr podList \<Rightarrow> do {
          let ports = getPorts podList;
          let pgName = getPortGroupName policy;
          (err, w) \<leftarrow> AddDenyPG E pgName isIngressPolicy isEgressPolicy w;
          (if err \<noteq> None then Some (False, w)
           else do {
             ((stdout, err), w) \<leftarrow> (if ports \<noteq> [] then PGSetPorts E pgName ports w else Some (([], None), w));
             (if err \<noteq> None then Some (False, w)
              else do {
                (err, w) \<leftarrow> processPolicyRules E policy w;
                Some (err = None, w)
              })
           })
        })
   }"

definition deletePolicy :: "env \<Rightarrow> NetworkPolicy \<Rightarrow> (world, bool) prog" where
  "deletePolicy E policy w = do {
     ((stdout, err), w) \<leftarrow> PGDel E (getPortGroupName policy) w;
     Some (err = None, w)
   }"

definition updatePolicy :: "env \<Rightarrow> NetworkPolicy \<Rightarrow> NetworkPolicy \<Rightarrow> (world, bool) prog" where
  "updatePolicy E oldPolicy newPolicy w = do {
     (status, w) \<leftarrow> deletePolicy E oldPolicy w;
     (if \<not> status then Some (False, w) else createPolicy E newPolicy w)
   }"

definition ListNetworkPolicies :: "env \<Rightarrow> (world, error + NetworkPolicy list) prog" where
  "ListNetworkPolicies E = request (KubeList KNetworkPolicy [] []) (env_listPolicies E)"

definition RefreshNetworkPolicies :: "env \<Rightarrow> (world, error option) prog" where
  "RefreshNetworkPolicies E w = do {
     (r, w) \<leftarrow> ListNetworkPolicies E w;
     (case r of
        Inl e \<Rightarrow> Some (Some e, w)
      | Inr items \<Rightarrow> foreach (\<lambda>np w. do {
          (policyUpdated, w) \<leftarrow> updatePolicy E np np w;
          (if \<not> policyUpdated then Some (Some (Errorf ''Unable to update policy: ''), w) else Some (None, w))
        }) items w)
   }"

text \<open>
  The predicates the controller is started with.  \<^verbatim>\<open>UpdateFunc\<close> reads both policies from
  \<^verbatim>\<open>e.ObjectOld\<close>.
\<close>

definition onCreate :: "env \<Rightarrow> NetworkPolicy \<Rightarrow> (world, bool) prog" where
  "onCreate E policy = createPolicy E policy"

definition onUpdate :: "env \<Rightarrow> NetworkPolicy \<Rightarrow> NetworkPolicy \<Rightarrow> (world, bool) prog" where
  "onUpdate E objectOld objectNew = updatePolicy E objectOld objectOld"

definition onDelete :: "env \<Rightarrow> NetworkPolicy \<Rightarrow> (world, bool) prog" where
  "onDelete E policy = deletePolicy E policy"

section \<open>What a match string means\<close>

text \<open>
  The part of OVN's match language the ports of a policy are translated to, with its meaning on
  packets and its concrete syntax.
\<close>

datatype proto = TCP | UDP | SCTP
datatype side = Src | Dst

record packet =
  pk_proto :: proto
  pk_src :: int
  pk_dst :: int

datatype mexp = PortIs proto side int | AnyOf "mexp list" | Paren mexp

fun pk_port :: "side \<Rightarrow> packet \<Rightarrow> int" where
  "pk_port Src p = pk_src p"
| "pk_port Dst p = pk_dst p"

fun meval :: "mexp \<Rightarrow> packet \<Rightarrow> bool" where
  "meval (PortIs pr sd n) p \<longleftrightarrow> pk_proto p = pr \<and> pk_port sd p = n"
| "meval (AnyOf ms) p \<longleftrightarrow> list_ex (\<lambda>m. meval m p) ms"
| "meval (Paren m) p \<longleftrightarrow> meval m p"

fun proto_name :: "proto \<Rightarrow> string" where
  "proto_name TCP = ''tcp''"
| "proto_name UDP = ''udp''"
| "proto_name SCTP = ''sctp''"

fun side_name :: "side \<Rightarrow> string" where
  "side_name Src = ''src''"
| "side_name Dst = ''dst''"

fun mprint :: "mexp \<Rightarrow> string" where
  "mprint (PortIs pr sd n) = proto_name pr @ ''.'' @ side_name sd @ '' == '' @ strconv_Itoa n"
| "mprint (AnyOf ms) = strings_Join (map mprint ms) '' || ''"
| "mprint (Paren m) = ''('' @ mprint m @ '')''"

lemma foldl_join:
  "foldl (\<lambda>m p. concatenate m (f p) ''||'') a ps = strings_Join (a # map f ps) '' || ''"
proof (induction ps arbitrary: a)
  case (Cons p ps)
  have "strings_Join ((a @ '' || '' @ f p) # xs) '' || '' = strings_Join (a # f p # xs) '' || ''" for xs
    by (cases xs) simp_all
  with Cons show ?case by (simp add: concatenate_def)
qed simp

lemma getPortsMatch_print:
  "getPortsMatch ns (proto_name pr) (side_name sd) = mprint (AnyOf (map (PortIs pr sd) ns))"
proof (cases ns)
  case (Cons n ns')
  have "portMatch (proto_name pr) (side_name sd) = mprint \<circ> PortIs pr sd" by (auto simp: portMatch_def fun_eq_iff)
  with Cons foldl_join [of "mprint \<circ> PortIs pr sd" "mprint (PortIs pr sd n)" ns'] show ?thesis
    by (simp add: getPortsMatch_def comp_assoc)
qed (simp add: getPortsMatch_def)

lemma mprint_ports_ne: "ns \<noteq> [] \<Longrightarrow> mprint (AnyOf (map (PortIs pr sd) ns)) \<noteq> []"
  by (cases ns rule: remdups_adj.cases) auto

definition ports_exp :: "PolicyPorts \<Rightarrow> side \<Rightarrow> mexp" where
  "ports_exp ports sd = Paren (AnyOf (map (\<lambda>(pr, ns). Paren (AnyOf (map (PortIs pr sd) ns)))
     (filter (\<lambda>(pr, ns). ns \<noteq> []) [(TCP, pp_TCPPorts ports), (UDP, pp_UDPPorts ports)])))"

lemma createPortsMatch_print:
  assumes "pp_SCTPPorts ports = []"
  shows "createPortsMatch ports (side_name sd) = mprint (ports_exp ports sd)"
proof -
  have s: "getPortsMatch [] ''sctp'' (side_name sd) = []" by (simp add: getPortsMatch_def)
  have t: "getPortsMatch ns ''tcp'' (side_name sd) = mprint (AnyOf (map (PortIs TCP sd) ns))"
    and u: "getPortsMatch ns ''udp'' (side_name sd) = mprint (AnyOf (map (PortIs UDP sd) ns))" for ns
    using getPortsMatch_print [of ns TCP sd] getPortsMatch_print [of ns UDP sd] by simp_all
  show ?thesis
    using mprint_ports_ne [of "pp_TCPPorts ports" TCP sd] mprint_ports_ne [of "pp_UDPPorts ports" UDP sd]
    unfolding createPortsMatch_def assms s t u Let_def
    by (cases "pp_TCPPorts ports = []"; cases "pp_UDPPorts ports = []")
      (simp_all add: ports_exp_def addBraces_def del: mprint.simps(2), simp_all)
qed

lemma meval_ports_exp:
  "meval (ports_exp ports sd) p \<longleftrightarrow>
     pk_proto p = TCP \<and> pk_port sd p \<in> set (pp_TCPPorts ports) \<or> pk_proto p = UDP \<and> pk_port sd p \<in> set (pp_UDPPorts ports)"
  by (auto simp: ports_exp_def list_ex_iff)

section \<open>Which requests a policy makes\<close>

definition allow_rule :: "string \<Rightarrow> ACL \<Rightarrow> bool" where
  "allow_rule entity r \<longleftrightarrow> acl_Entity r = entity \<and> acl_Verdict r = ''allow'' \<and> acl_Priority r \<in> {1000, 2000} \<and>
     acl_Direction r \<in> {Ingress, Egress}"

definition allow_event :: "string \<Rightarrow> event \<Rightarrow> bool" where
  "allow_event entity e \<longleftrightarrow> (\<exists>opts. e = KubeListPods opts) \<or>
     (\<exists>r. allow_rule entity r \<and> nbctl (aclAddArgs r [] [] [] True False) e)"

definition vars_ok :: "string \<Rightarrow> aclVars \<Rightarrow> bool" where
  "vars_ok entity s \<longleftrightarrow> av_Priority s \<in> {1000, 2000} \<and> (\<forall>r \<in> set (av_ovnRules s). allow_rule entity r)"

lemma createPeerMatch_emits: "emits (\<lambda>e. \<exists>opts. e = KubeListPods opts) (createPeerMatch E peer dir)"
  unfolding createPeerMatch_def [abs_def] getPeerIPs_def [abs_def] Let_def by (intro emits_intros) auto

lemma peerRule_emits: "emits (allow_event entity) (peerRule E entity x peer s)"
  unfolding peerRule_def [abs_def] Let_def
  by (intro emits_intros emits_mono [OF createPeerMatch_emits]) (auto simp: allow_event_def)

lemma peerStep_vars:
  "vars_ok entity s \<Longrightarrow> xr_Type x \<in> {Ingress, Egress} \<Longrightarrow> vars_ok entity (peerStep entity x bm pm s)"
  by (simp add: peerStep_def Let_def vars_ok_def allow_rule_def)

lemma peerRule_vars:
  assumes "peerRule E entity x peer s w = Some (Inl s', w')" and "vars_ok entity s" "xr_Type x \<in> {Ingress, Egress}"
  shows "vars_ok entity s'"
proof -
  from assms(1) obtain bm pm where "s' = peerStep entity x bm pm s"
    by (auto simp: peerRule_def Let_def run_conv)
  with peerStep_vars [OF assms(2,3)] show ?thesis by simp
qed

lemma noPeerRule_vars: "vars_ok entity s \<Longrightarrow> xr_Type x \<in> {Ingress, Egress} \<Longrightarrow> vars_ok entity (noPeerRule entity x s)"
  by (simp add: noPeerRule_def Let_def vars_ok_def allow_rule_def)

lemma xgressPorts_vars: "xgressPorts x s = Some t \<Longrightarrow> vars_ok entity s \<Longrightarrow> vars_ok entity t"
  by (auto simp: xgressPorts_def vars_ok_def run_conv)

lemma xgressPeers_vars:
  assumes "xgressPeers E entity x s w = Some (Inl s', w')" and "vars_ok entity s" and dir: "xr_Type x \<in> {Ingress, Egress}"
  shows "vars_ok entity s'"
proof (cases "xr_Peer x = []")
  case True
  with assms(1) have "s' = noPeerRule entity x s" by (simp add: xgressPeers_def)
  with noPeerRule_vars [OF assms(2) dir] show ?thesis by simp
next
  case False
  with assms(1) have "rangeM (peerRule E entity x) (xr_Peer x) s w = Some (Inl s', w')" by (simp add: xgressPeers_def)
  then show ?thesis using assms(2) by (rule rangeM_inv) (rule peerRule_vars [OF _ _ dir])
qed

lemma applyRules_emits: "\<forall>r \<in> set rs. allow_rule entity r \<Longrightarrow> emits (allow_event entity) (applyRules E rs)"
  unfolding applyRules_def by (intro emits_intros) (auto simp: allow_event_def)

lemma xgressPeers_emits: "emits (allow_event entity) (xgressPeers E entity x s)"
  unfolding xgressPeers_def [abs_def] by (intro emits_intros peerRule_emits)

lemma xgressStep_cases:
  assumes "xgressStep E entity x s w = Some (a, w')"
  obtains (peers) t e where "xgressPorts x s = Some t" "xgressPeers E entity x t w = Some (Inr e, w')" "a = Inr e"
    | (rules) t t' v err where "xgressPorts x s = Some t" "xgressPeers E entity x t w = Some (Inl t', v)"
        "applyRules E (av_ovnRules t') v = Some (err, w')" "a = (case err of None \<Rightarrow> Inl t' | Some e \<Rightarrow> Inr e)"
  using assms unfolding xgressStep_def by (auto simp: run_conv)

lemma xgressStep_vars:
  assumes "xgressStep E entity x s w = Some (Inl s', w')" and "vars_ok entity s" and "xr_Type x \<in> {Ingress, Egress}"
  shows "vars_ok entity s'"
  using assms(1)
proof (cases rule: xgressStep_cases)
  case (rules t t' v err)
  with xgressPeers_vars [OF rules(2) xgressPorts_vars [OF rules(1) assms(2)] assms(3)] show ?thesis
    by (simp split: option.splits)
qed simp

lemma xgressStep_emits:
  assumes "vars_ok entity s" and dir: "xr_Type x \<in> {Ingress, Egress}"
  shows "emits (allow_event entity) (xgressStep E entity x s)"
  unfolding emits_def
proof (intro allI impI)
  fix w a w'
  assume "xgressStep E entity x s w = Some (a, w')"
  then show "\<exists>es. trace w' = trace w @ es \<and> (\<forall>e \<in> set es. allow_event entity e)"
  proof (cases rule: xgressStep_cases)
    case (peers t e)
    from emitsD [OF xgressPeers_emits peers(2)] show ?thesis .
  next
    case (rules t t' v err)
    have "vars_ok entity t'" by (rule xgressPeers_vars [OF rules(2) xgressPorts_vars [OF rules(1) assms(1)] dir])
    then have ok: "\<forall>r \<in> set (av_ovnRules t'). allow_rule entity r" by (simp add: vars_ok_def)
    from emitsD [OF xgressPeers_emits rules(2)] emitsD [OF applyRules_emits [OF ok] rules(3)]
    obtain es fs where "trace w' = trace w @ (es @ fs)" "\<forall>e \<in> set es. allow_event entity e" "\<forall>e \<in> set fs. allow_event entity e"
      by (metis append_assoc)
    then show ?thesis by (metis Un_iff set_append)
  qed
qed

lemma addACLs_emits:
  assumes "\<forall>x \<in> set xs. xr_Type x \<in> {Ingress, Egress}"
  shows "emits (allow_event (getPortGroupName policy)) (addACLs E policy xs)"
proof -
  have "emits (allow_event (getPortGroupName policy)) (rangeM (xgressStep E (getPortGroupName policy)) xs initVars)"
    by (rule emits_rangeM_inv [where I = "vars_ok (getPortGroupName policy)"])
      (use assms xgressStep_vars xgressStep_emits in \<open>auto simp: vars_ok_def initVars_def\<close>)
  then show ?thesis unfolding addACLs_def [abs_def] by (rule emits_bind) (intro emits_intros)
qed

lemma processPolicyRules_emits: "emits (allow_event (getPortGroupName policy)) (processPolicyRules E policy)"
  unfolding processPolicyRules_def [abs_def]
  by (intro emits_intros addACLs_emits) (auto simp: fromIngress_def fromEgress_def)

section \<open>Returning\<close>

definition port_given :: "NetworkPolicyPort \<Rightarrow> bool" where
  "port_given p \<longleftrightarrow> npp_Port p \<noteq> None \<and> (\<forall>n. npp_Port p = Some (IntPort n) \<longrightarrow> npp_Protocol p \<noteq> None)"

lemma networkPortsFrom_total: "networkPortsFrom pp ps = None \<longleftrightarrow> (\<exists>p \<in> set ps. \<not> port_given p)"
proof (induction ps arbitrary: pp)
  case (Cons p ps)
  show ?case
  proof (cases "npp_Port p")
    case (Some q)
    with Cons show ?thesis by (cases q) (auto simp: port_given_def addPort_def split: option.splits)
  qed (simp add: port_given_def)
qed simp

lemma getPeerIPs_runs [runs_intros]: "runs (getPeerIPs E peer)"
  unfolding getPeerIPs_def [abs_def] Let_def by (intro runs_intros)

lemma createPeerMatch_runs [runs_intros]: "runs (createPeerMatch E peer dir)"
  unfolding createPeerMatch_def [abs_def] by (intro runs_intros)

lemma peerRule_runs [runs_intros]: "runs (peerRule E entity x peer s)"
  unfolding peerRule_def [abs_def] Let_def by (intro runs_intros)

lemma applyRules_runs [runs_intros]: "runs (applyRules E rs)"
  unfolding applyRules_def by (intro runs_intros)

lemma xgressPeers_runs [runs_intros]: "runs (xgressPeers E entity x s)"
  unfolding xgressPeers_def [abs_def] by (intro runs_intros)

lemma xgressStep_runs:
  assumes "\<forall>p \<in> set (xr_Ports x). port_given p"
  shows "runs (xgressStep E entity x s)"
proof -
  have "xgressPorts x s \<noteq> None"
    using assms by (auto simp: xgressPorts_def getNetworkPorts_def networkPortsFrom_total split: option.splits)
  then show ?thesis unfolding xgressStep_def [abs_def] by (intro runs_intros) simp
qed

lemma addACLs_runs:
  assumes "\<forall>x \<in> set xs. \<forall>p \<in> set (xr_Ports x). port_given p"
  shows "runs (addACLs E policy xs)"
proof -
  have "runs (rangeM (xgressStep E (getPortGroupName policy)) xs initVars)"
    using assms by (intro runs_rangeM xgressStep_runs) blast
  then show ?thesis unfolding addACLs_def [abs_def] by (rule runs_bind) (intro runs_intros)
qed

definition policy_ports :: "NetworkPolicy \<Rightarrow> NetworkPolicyPort list" where
  "policy_ports policy = concat (map ing_Ports (pol_Ingress policy) @ map eg_Ports (pol_Egress policy))"

lemma createPolicy_runs:
  assumes "\<forall>p \<in> set (policy_ports policy). port_given p"
  shows "runs (createPolicy E policy)"
proof -
  have "runs (addACLs E policy (fromIngress (pol_Ingress policy)))" "runs (addACLs E policy (fromEgress (pol_Egress policy)))"
    using assms by (intro addACLs_runs; auto simp: fromIngress_def fromEgress_def policy_ports_def)+
  then have "runs (processPolicyRules E policy)" unfolding processPolicyRules_def [abs_def] by (intro runs_intros)
  then show ?thesis unfolding createPolicy_def [abs_def] listPods_def Let_def by (intro runs_intros)
qed

section \<open>Properties\<close>

text \<open>
  Once the command runner is set, creating a policy always returns, provided every port of
  the policy has its port and, if numeric, its protocol (the two pointers the code dereferences).
\<close>

theorem createPolicy_returns:
  assumes "runner w \<noteq> None" and "\<forall>p \<in> set (policy_ports policy). port_given p"
  shows "\<exists>b w'. createPolicy E policy w = Some (b, w') \<and> runner w' = runner w"
  using runsD [OF createPolicy_runs [OF assms(2)] assms(1)] .

definition policy_ex :: NetworkPolicy where
  "policy_ex = \<lparr>pol_Meta = \<lparr>om_Name = ''web'', om_Namespace = ''default'', om_Labels = None,
       om_Annotations = [], om_Finalizers = [], om_Deleting = False, om_Generation = 1\<rparr>, pol_PodSelector = [],
     pol_Ingress = [\<lparr>ing_Ports = [\<lparr>npp_Protocol = Some ''TCP'', npp_Port = Some (IntPort 80)\<rparr>], ing_From = []\<rparr>,
                    \<lparr>ing_Ports = [], ing_From = []\<rparr>],
     pol_Egress = [], pol_PolicyTypes = [''Ingress'']\<rparr>"

theorem createPolicy_returns_witness:
  "\<exists>b w'. createPolicy null_env policy_ex exec_world = Some (b, w') \<and> runner w' = runner exec_world"
  by (rule createPolicy_returns) (simp_all add: exec_world_def policy_ex_def policy_ports_def port_given_def)

text \<open>
  C12.  Whatever a policy says, what is sent for it starts with listing its pods; then come only
  the group's own deny and ARP rules, then only the assignment of the pods' ports, and only then
  allow rules, all of them for the policy's own port group and all above the priority of the deny
  rule.  So no traffic is allowed before the drop rule has been requested.
\<close>

theorem createPolicy_deny_before_allow:
  assumes "createPolicy E policy w = Some (b, w')"
  shows "\<exists>ds ps as. trace w' = trace w @
       [KubeList KPod (om_Namespace (pol_Meta policy)) (env_selectorString E (pol_PodSelector policy))] @ ds @ ps @ as \<and>
     (\<forall>e \<in> set ds. deny_event (getPortGroupName policy) e) \<and>
     (\<forall>e \<in> set ps. \<exists>pods. env_listPods E (trace w) (om_Namespace (pol_Meta policy))
        (env_selectorString E (pol_PodSelector policy)) = Inr pods \<and>
        nbctl ([''pg-set-ports'', getPortGroupName policy] @ getPorts pods) e) \<and>
     (\<forall>e \<in> set as. allow_event (getPortGroupName policy) e)"
proof -
  let ?sel = "env_selectorString E (pol_PodSelector policy)" and ?ns = "om_Namespace (pol_Meta policy)"
    and ?pg = "getPortGroupName policy"
  let ?w = "w\<lparr>trace := trace w @ [KubeList KPod ?ns ?sel]\<rparr>"
  let ?ps = "\<lambda>e. \<exists>pods. env_listPods E (trace w) ?ns ?sel = Inr pods \<and> nbctl ([''pg-set-ports'', ?pg] @ getPorts pods) e"
  define i where "i = (''Ingress'' \<in> set (pol_PolicyTypes policy) \<or> \<not> ''Egress'' \<in> set (pol_PolicyTypes policy))"
  define g where "g = (''Egress'' \<in> set (pol_PolicyTypes policy))"
  show ?thesis
  proof (cases "env_listPods E (trace w) ?ns ?sel")
    case (Inl e)
    with assms have "w' = ?w" by (simp add: createPolicy_def listPods_def Let_def)
    then show ?thesis by (intro exI [of _ "[]"]) simp
  next
    case (Inr pods)
    let ?setports = "\<lambda>w. if getPorts pods \<noteq> [] then PGSetPorts E ?pg (getPorts pods) w else Some (([], None), w)"
    from assms Inr obtain err v where deny: "AddDenyPG E ?pg i g ?w = Some (err, v)"
      and rest: "v = w' \<or> (\<exists>r u. ?setports v = Some (r, u) \<and> (u = w' \<or> (\<exists>err. processPolicyRules E policy u = Some (err, w'))))"
      unfolding createPolicy_def listPods_def Let_def i_def g_def by (auto simp: bind_eq_Some_conv split: if_splits)
    from emitsD [OF AddDenyPG_emits deny] obtain ds where
      ds: "trace v = trace ?w @ ds" "\<forall>e \<in> set ds. deny_event ?pg e" by blast
    have sp: "emits ?ps ?setports" by (intro emits_intros) (use Inr in auto)
    from rest obtain ps as where "trace w' = trace v @ ps @ as" "\<forall>e \<in> set ps. ?ps e" "\<forall>e \<in> set as. allow_event ?pg e"
    proof (elim disjE exE conjE)
      assume "v = w'"
      with that [of "[]" "[]"] show thesis by simp
    next
      fix r u assume "?setports v = Some (r, u)" "u = w'"
      with emitsD [OF sp] that [of _ "[]"] show thesis by fastforce
    next
      fix r u err assume u: "?setports v = Some (r, u)" "processPolicyRules E policy u = Some (err, w')"
      from emitsD [OF sp u(1)] emitsD [OF processPolicyRules_emits u(2)] that show thesis by (metis append_assoc)
    qed
    with ds show ?thesis by auto
  qed
qed

theorem createPolicy_deny_before_allow_witness:
  "\<exists>b w' ds ps as. createPolicy null_env policy_ex exec_world = Some (b, w') \<and>
     trace w' = [KubeList KPod ''default'' []] @ ds @ ps @ as \<and>
     (\<forall>e \<in> set ds. deny_event (getPortGroupName policy_ex) e) \<and> (\<forall>e \<in> set as. allow_event (getPortGroupName policy_ex) e)"
proof -
  have "\<forall>p \<in> set (policy_ports policy_ex). port_given p" by (simp add: policy_ex_def policy_ports_def port_given_def)
  from runsD [OF createPolicy_runs [OF this], of exec_world null_env]
  obtain b w' where w': "createPolicy null_env policy_ex exec_world = Some (b, w')" by (auto simp: exec_world_def)
  have s: "om_Namespace (pol_Meta policy_ex) = ''default''" "env_selectorString null_env (pol_PodSelector policy_ex) = []"
    "trace exec_world = []" by (simp_all add: policy_ex_def null_env_def exec_world_def init_world_def)
  from createPolicy_deny_before_allow [OF w'] w' show ?thesis unfolding s append_Nil by blast
qed

text \<open>
  C13.  The match a policy's ports are translated to means what the policy says: for a policy
  without SCTP ports, the string is the concrete syntax of an expression that a packet satisfies
  exactly if its protocol and its source or destination port are listed.
\<close>

theorem createPortsMatch_meaning:
  assumes "pp_SCTPPorts ports = []"
  shows "\<exists>e. addBraces (concatenate (createPortsMatch ports ''dst'') (createPortsMatch ports ''src'') ''||'') = mprint e \<and>
     (\<forall>p. meval e p \<longleftrightarrow>
        pk_proto p = TCP \<and> (pk_src p \<in> set (pp_TCPPorts ports) \<or> pk_dst p \<in> set (pp_TCPPorts ports)) \<or>
        pk_proto p = UDP \<and> (pk_src p \<in> set (pp_UDPPorts ports) \<or> pk_dst p \<in> set (pp_UDPPorts ports)))"
proof -
  let ?e = "Paren (AnyOf [ports_exp ports Dst, ports_exp ports Src])"
  have "addBraces (concatenate (createPortsMatch ports ''dst'') (createPortsMatch ports ''src'') ''||'') = mprint ?e"
    using createPortsMatch_print [OF assms, of Dst] createPortsMatch_print [OF assms, of Src]
    by (simp add: addBraces_def concatenate_def)
  moreover have "meval ?e p \<longleftrightarrow>
      pk_proto p = TCP \<and> (pk_src p \<in> set (pp_TCPPorts ports) \<or> pk_dst p \<in> set (pp_TCPPorts ports)) \<or>
      pk_proto p = UDP \<and> (pk_src p \<in> set (pp_UDPPorts ports) \<or> pk_dst p \<in> set (pp_UDPPorts ports))" for p
    by (auto simp: meval_ports_exp)
  ultimately show ?thesis by blast
qed

theorem createPortsMatch_meaning_witness:
  "\<exists>e. addBraces (concatenate (createPortsMatch \<lparr>pp_TCPPorts = [80, 443], pp_UDPPorts = [53], pp_SCTPPorts = []\<rparr> ''dst'')
       (createPortsMatch \<lparr>pp_TCPPorts = [80, 443], pp_UDPPorts = [53], pp_SCTPPorts = []\<rparr> ''src'') ''||'') = mprint e \<and>
     meval e \<lparr>pk_proto = TCP, pk_src = 5000, pk_dst = 443\<rparr> \<and> \<not> meval e \<lparr>pk_proto = UDP, pk_src = 5000, pk_dst = 443\<rparr>"
proof -
  have s: "pp_SCTPPorts \<lparr>pp_TCPPorts = [80, 443], pp_UDPPorts = [53], pp_SCTPPorts = []\<rparr> = []" by simp
  from createPortsMatch_meaning [OF s] obtain e where
    e: "addBraces (concatenate (createPortsMatch \<lparr>pp_TCPPorts = [80, 443], pp_UDPPorts = [53], pp_SCTPPorts = []\<rparr> ''dst'')
       (createPortsMatch \<lparr>pp_TCPPorts = [80, 443], pp_UDPPorts = [53], pp_SCTPPorts = []\<rparr> ''src'') ''||'') = mprint e"
    and m: "\<And>p. meval e p \<longleftrightarrow> pk_proto p = TCP \<and> (pk_src p \<in> {80, 443} \<or> pk_dst p \<in> {80, 443}) \<or>
      pk_proto p = UDP \<and> (pk_src p \<in> {53} \<or> pk_dst p \<in> {53})" by auto
  have "meval e \<lparr>pk_proto = TCP, pk_src = 5000, pk_dst = 443\<rparr>" "\<not> meval e \<lparr>pk_proto = UDP, pk_src = 5000, pk_dst = 443\<rparr>"
    by (simp_all add: m)
  with e show ?thesis by blast
qed

text \<open>
  SCTP ports never reach the match: any two non-empty lists of SCTP ports give the same
  string, and a policy with SCTP ports only gets a match without any port at all.
\<close>

theorem createPortsMatch_ignores_sctp:
  assumes "ss \<noteq> []" and "ts \<noteq> []"
  shows "createPortsMatch (ports\<lparr>pp_SCTPPorts := ss\<rparr>) dir = createPortsMatch (ports\<lparr>pp_SCTPPorts := ts\<rparr>) dir \<and>
     createPortsMatch \<lparr>pp_TCPPorts = [], pp_UDPPorts = [], pp_SCTPPorts = ss\<rparr> dir = ''(())''"
proof -
  have ne: "getPortsMatch ns ''sctp'' dir \<noteq> []" if ns: "ns \<noteq> []" for ns
  proof -
    from ns obtain n ns' where "ns = n # ns'" by (cases ns) auto
    then have "getPortsMatch ns ''sctp'' dir = strings_Join (portMatch ''sctp'' dir n # map (portMatch ''sctp'' dir) ns') '' || ''"
      using foldl_join [of "portMatch ''sctp'' dir"] by (simp add: getPortsMatch_def)
    moreover have "portMatch ''sctp'' dir n \<noteq> []" by (simp add: portMatch_def)
    ultimately show ?thesis by (cases ns') auto
  qed
  then show ?thesis using assms by (simp add: createPortsMatch_def Let_def getPortsMatch_def addBraces_def)
qed

theorem createPortsMatch_ignores_sctp_witness:
  "createPortsMatch \<lparr>pp_TCPPorts = [], pp_UDPPorts = [], pp_SCTPPorts = [132]\<rparr> ''dst'' = ''(())''"
  using createPortsMatch_ignores_sctp [of "[132]" "[133]"] by simp

text \<open>
  The name of a policy's port group is one OVN accepts: it is not empty, starts with a letter,
  continues with digits only, and has at most 22 characters, whatever the policy is called.
\<close>

theorem getPortGroupName_wellformed:
  "\<exists>ds. getPortGroupName policy = ''pg'' @ ds \<and> ds \<noteq> [] \<and> (\<forall>c \<in> set ds. is_digit c) \<and>
     length (getPortGroupName policy) \<le> 22"
proof (intro exI conjI)
  let ?s = "om_Namespace (pol_Meta policy) @ ''_'' @ om_Name (pol_Meta policy)"
  show "getPortGroupName policy = ''pg'' @ Hash ?s" by (simp add: getPortGroupName_def)
  show "Hash ?s \<noteq> []" by (rule Hash_ne)
  show "\<forall>c \<in> set (Hash ?s). is_digit c" using Hash_digits by blast
  show "length (getPortGroupName policy) \<le> 22" using Hash_length [of ?s] by (simp add: getPortGroupName_def)
qed

theorem getPortGroupName_wellformed_witness:
  "\<exists>ds. getPortGroupName \<lparr>pol_Meta = \<lparr>om_Name = ''deny-all'', om_Namespace = ''default'', om_Labels = None,
       om_Annotations = [], om_Finalizers = [], om_Deleting = False, om_Generation = 1\<rparr>, pol_PodSelector = [],
       pol_Ingress = [], pol_Egress = [], pol_PolicyTypes = [''Ingress'']\<rparr> = ''pg'' @ ds \<and> ds \<noteq> []"
  using getPortGroupName_wellformed [of "\<lparr>pol_Meta = \<lparr>om_Name = ''deny-all'', om_Namespace = ''default'', om_Labels = None,
       om_Annotations = [], om_Finalizers = [], om_Deleting = False, om_Generation = 1\<rparr>, pol_PodSelector = [],
       pol_Ingress = [], pol_Egress = [], pol_PolicyTypes = [''Ingress'']\<rparr>"] by blast

definition ports_rule :: "string \<Rightarrow> string \<Rightarrow> PolicyPorts \<Rightarrow> ACL" where
  "ports_rule entity dir ports = \<lparr>acl_Entity = entity, acl_Direction = dir, acl_Priority = 1000,
     acl_Match = concatenate (concatenate (if dir = Ingress then ''outport'' else ''inport'') (''@'' @ entity) ''=='')
       (addBraces (concatenate (createPortsMatch ports ''dst'') (createPortsMatch ports ''src'') ''||'')) ''&&'',
     acl_Verdict = ''allow''\<rparr>"

definition stale_vars :: "string \<Rightarrow> PolicyPorts \<Rightarrow> string list \<Rightarrow> aclVars" where
  "stale_vars entity ports dirs = \<lparr>av_portsMatch = addBraces (concatenate (createPortsMatch ports ''dst'')
       (createPortsMatch ports ''src'') ''||''), av_aclRule = [], av_Priority = 1000,
     av_ovnRules = map (\<lambda>dir. ports_rule entity dir ports) dirs\<rparr>"

lemma xgressStep_no_peers:
  assumes "xgressPorts r s = Some t" and "xr_Peer r = []"
  shows "xgressStep E entity r s w = Option.bind (applyRules E (av_ovnRules (noPeerRule entity r t)) w)
     (\<lambda>(err, w). case err of Some e \<Rightarrow> Some (Inr e, w) | None \<Rightarrow> Some (Inl (noPeerRule entity r t), w))"
  using assms by (simp add: xgressStep_def xgressPeers_def)

text \<open>
  A rule without ports and peers means that all traffic is allowed, but after a rule with
  ports it does not: \<^verbatim>\<open>portsMatch\<close> keeps the ports of the earlier rule, so everything
  sent for the two rules is restricted to those ports.
\<close>

theorem addACLs_stale_ports:
  assumes "xr_Ports r1 \<noteq> []" "getNetworkPorts (xr_Ports r1) = Some ports" "xr_Peer r1 = []"
    and "xr_Ports r2 = []" "xr_Peer r2 = []"
    and "addACLs E policy [r1, r2] w = Some (err, w')" and "e \<in> set (new_events w w')"
  shows "\<exists>dir. dir \<in> {xr_Type r1, xr_Type r2} \<and>
     nbctl (aclAddArgs (ports_rule (getPortGroupName policy) dir ports) [] [] [] True False) e"
proof -
  let ?pg = "getPortGroupName policy"
  let ?P = "\<lambda>e. \<exists>dir. dir \<in> {xr_Type r1, xr_Type r2} \<and> nbctl (aclAddArgs (ports_rule ?pg dir ports) [] [] [] True False) e"
  let ?s1 = "stale_vars ?pg ports [xr_Type r1]" and ?s2 = "stale_vars ?pg ports [xr_Type r1, xr_Type r2]"
  have s1: "noPeerRule ?pg r1 (initVars\<lparr>av_portsMatch := av_portsMatch ?s1\<rparr>) = ?s1"
    and s2: "noPeerRule ?pg r2 ?s1 = ?s2"
    by (simp_all add: noPeerRule_def Let_def initVars_def stale_vars_def ports_rule_def addBraces_def)
  have p1: "xgressPorts r1 initVars = Some (initVars\<lparr>av_portsMatch := av_portsMatch ?s1\<rparr>)" and p2: "xgressPorts r2 ?s1 = Some ?s1"
    using assms by (simp_all add: xgressPorts_def stale_vars_def)
  note step1 = xgressStep_no_peers [OF p1 assms(3), of E ?pg, unfolded s1]
  note step2 = xgressStep_no_peers [OF p2 assms(5), of E ?pg, unfolded s2]
  have em: "emits ?P (applyRules E (av_ovnRules (stale_vars ?pg ports dirs)))" if "set dirs \<subseteq> {xr_Type r1, xr_Type r2}" for dirs
    unfolding applyRules_def stale_vars_def by (intro emits_intros) (use that in auto)
  have e2: "emits ?P (\<lambda>w. Option.bind (applyRules E (av_ovnRules ?s1) w) (\<lambda>(err, w).
      case err of Some e \<Rightarrow> Some (Some e, w) | None \<Rightarrow> Option.bind (applyRules E (av_ovnRules ?s2) w) (\<lambda>(err, w). Some (err, w))))"
    by (intro emits_bind emits_case_option em emits_return) auto
  have eq: "addACLs E policy [r1, r2] = (\<lambda>w. Option.bind (applyRules E (av_ovnRules ?s1) w) (\<lambda>(err, w).
      case err of Some e \<Rightarrow> Some (Some e, w) | None \<Rightarrow> Option.bind (applyRules E (av_ovnRules ?s2) w) (\<lambda>(err, w). Some (err, w))))"
    by (auto simp: addACLs_def step1 step2 fun_eq_iff split: option.splits Option.bind_splits)
  show ?thesis by (rule new_events_emits [OF e2 [folded eq] assms(6,7)])
qed

theorem addACLs_stale_ports_witness:
  "\<exists>err w'. addACLs null_env policy_ex (fromIngress (pol_Ingress policy_ex)) exec_world = Some (err, w') \<and>
     (\<forall>e \<in> set (new_events exec_world w'). nbctl (aclAddArgs (ports_rule (getPortGroupName policy_ex) Ingress
        \<lparr>pp_TCPPorts = [80], pp_UDPPorts = [], pp_SCTPPorts = []\<rparr>) [] [] [] True False) e)"
proof -
  let ?r1 = "\<lparr>xr_Ports = [\<lparr>npp_Protocol = Some ''TCP'', npp_Port = Some (IntPort 80)\<rparr>], xr_Peer = [], xr_Type = Ingress\<rparr>"
  let ?r2 = "\<lparr>xr_Ports = [], xr_Peer = [], xr_Type = Ingress\<rparr>"
  let ?ports = "\<lparr>pp_TCPPorts = [80], pp_UDPPorts = [], pp_SCTPPorts = []\<rparr>"
  have rules: "fromIngress (pol_Ingress policy_ex) = [?r1, ?r2]" by (simp add: fromIngress_def policy_ex_def)
  have "runs (addACLs null_env policy_ex [?r1, ?r2])" by (rule addACLs_runs) (simp add: port_given_def)
  then obtain err w' where w': "addACLs null_env policy_ex [?r1, ?r2] exec_world = Some (err, w')"
    using runsD [of "addACLs null_env policy_ex [?r1, ?r2]" exec_world] by (auto simp: exec_world_def)
  have r: "xr_Ports ?r1 \<noteq> []" "getNetworkPorts (xr_Ports ?r1) = Some ?ports" "xr_Peer ?r1 = []" "xr_Ports ?r2 = []" "xr_Peer ?r2 = []"
    by (simp_all add: getNetworkPorts_def addPort_def)
  have "\<forall>e \<in> set (new_events exec_world w'). nbctl (aclAddArgs (ports_rule (getPortGroupName policy_ex) Ingress ?ports) [] [] [] True False) e"
    using addACLs_stale_ports [OF r w'] by auto
  with w' show ?thesis unfolding rules by blast
qed

end
