(* ===== verification/Run_Relation.thy ===== *)
theory Run_Relation
  imports Notify_Server Chaining Network_Policy
begin

text \<open>
  What every operation of the operator does to the world, for a whole family of relations at once.
  A relation \<open>R\<close> between the world before and after a run that is reflexive and transitive, that a
  request satisfies and that filling the gateway cache satisfies, is satisfied by every operation
  that does no other change.  The locale \<open>run_relation\<close> proves this once for the operations of the
  pool, of OVN, of the chains and of the network policies; the theories above it instantiate
  \<open>R\<close> by the relations they need, such as \<^emph>\<open>writes no custom resource\<close>.
\<close>

section \<open>Runs and the requests they make\<close>

text \<open>The requests that write a custom resource.\<close>

fun cr_write :: "event \<Rightarrow> bool" where
  "cr_write (UpdateNetworkCR n) = True"
| "cr_write (StatusNetworkCR n) = True"
| "cr_write (UpdateProviderCR p) = True"
| "cr_write (StatusProviderCR p) = True"
| "cr_write (UpdateChainingCR c) = True"
| "cr_write (StatusChainingCR c) = True"
| "cr_write e = False"

abbreviation quiet :: "(world, 'a) prog \<Rightarrow> bool" where
  "quiet m \<equiv> emits (\<lambda>e. \<not> cr_write e) m"

lemma nbctl_quiet: "nbctl args e \<Longrightarrow> \<not> cr_write e"
  by (auto simp: nbctl_def)

lemma any_nbctl_quiet: "any_nbctl e \<Longrightarrow> \<not> cr_write e"
  by (auto simp: any_nbctl_def dest: nbctl_quiet)

lemma RunOVNNbctl_quiet: "quiet (RunOVNNbctl E args)"
  by (rule emits_mono [OF RunOVNNbctl_nbctl]) (rule nbctl_quiet)

definition preserves :: "(world \<Rightarrow> world \<Rightarrow> bool) \<Rightarrow> (world, 'a) prog \<Rightarrow> bool" where
  "preserves R m \<longleftrightarrow> (\<forall>w a w'. m w = Some (a, w') \<longrightarrow> R w w')"

lemma preservesD: "preserves R m \<Longrightarrow> m w = Some (a, w') \<Longrightarrow> R w w'"
  by (simp add: preserves_def)

named_theorems preserves_intros \<open>rules for programs that keep a relation between worlds\<close>

text \<open>A run from \<open>w\<close> to \<open>v\<close> that only makes requests satisfying \<open>P\<close>.\<close>

definition grows :: "(event \<Rightarrow> bool) \<Rightarrow> world \<Rightarrow> world \<Rightarrow> bool" where
  "grows P w v \<longleftrightarrow> (\<exists>es. trace v = trace w @ es \<and> (\<forall>e \<in> set es. P e))"

lemma grows_refl [simp]: "grows P w w"
  by (simp add: grows_def)

lemma grows_trans: "grows P u v \<Longrightarrow> grows P v w \<Longrightarrow> grows P u w"
  unfolding grows_def
proof (elim exE conjE)
  fix es fs
  assume "trace v = trace u @ es" "\<forall>e \<in> set es. P e" "trace w = trace v @ fs" "\<forall>e \<in> set fs. P e"
  then show "\<exists>es. trace w = trace u @ es \<and> (\<forall>e \<in> set es. P e)" by (intro exI [of _ "es @ fs"]) auto
qed

lemma emits_grows: "emits P m \<longleftrightarrow> (\<forall>w a w'. m w = Some (a, w') \<longrightarrow> grows P w w')"
  by (simp add: emits_def grows_def)

lemma emits_growsD: "emits P m \<Longrightarrow> m w = Some (a, w') \<Longrightarrow> grows P w w'"
  by (simp add: emits_grows)

lemma preserves_grows: "preserves (grows P) m \<longleftrightarrow> emits P m"
  by (simp add: emits_grows preserves_def)

section \<open>The relations\<close>

locale run_relation =
  fixes R :: "world \<Rightarrow> world \<Rightarrow> bool"
  assumes R_refl: "R w w"
    and R_trans: "R u v \<Longrightarrow> R v w \<Longrightarrow> R u w"
    and R_request: "\<not> cr_write e \<Longrightarrow> R w (w\<lparr>trace := trace w @ [e]\<rparr>)"
    and R_cache: "R w (w\<lparr>gatewayCache := Some c\<rparr>)"
begin

lemma preserves_return [preserves_intros]: "preserves R (\<lambda>w. Some (a, w))"
  by (simp add: preserves_def R_refl)

lemma preserves_panic [preserves_intros]: "preserves R (\<lambda>w. None)"
  by (simp add: preserves_def)

lemma preserves_ask [preserves_intros]: "preserves R (ask answer)"
  by (simp add: preserves_def R_refl)

lemma preserves_request [preserves_intros]: "\<not> cr_write e \<Longrightarrow> preserves R (request e answer)"
  by (simp add: preserves_def R_request)

lemma preserves_write [preserves_intros]: "\<not> cr_write e \<Longrightarrow> preserves R (kube_write E e)"
  by (simp add: kube_write_def preserves_request)

lemma preserves_bind [preserves_intros]:
  assumes "preserves R m" and "\<And>a. preserves R (f a)"
  shows "preserves R (\<lambda>w. Option.bind (m w) (\<lambda>(a, w). f a w))"
  unfolding preserves_def
proof (intro allI impI)
  fix w b w'
  assume "Option.bind (m w) (\<lambda>(a, w). f a w) = Some (b, w')"
  then obtain a v where m: "m w = Some (a, v)" and f: "f a v = Some (b, w')" by (auto simp: run_conv)
  from R_trans [OF preservesD [OF assms(1) m] preservesD [OF assms(2) f]] show "R w w'" .
qed

lemma preserves_bind2 [preserves_intros]:
  assumes "preserves R m" and "\<And>a b. preserves R (f a b)"
  shows "preserves R (\<lambda>w. Option.bind (m w) (\<lambda>((a, b), w). f a b w))"
  using preserves_bind [OF assms(1), of "\<lambda>p. f (fst p) (snd p)"] assms(2) by (simp add: split_def)

lemma preserves_bind3 [preserves_intros]:
  assumes "preserves R m" and "\<And>a b c. preserves R (f a b c)"
  shows "preserves R (\<lambda>w. Option.bind (m w) (\<lambda>((a, b, c), w). f a b c w))"
  using preserves_bind [OF assms(1), of "\<lambda>p. f (fst p) (fst (snd p)) (snd (snd p))"] assms(2) by (simp add: split_def)

lemma preserves_bind4 [preserves_intros]:
  assumes "preserves R m" and "\<And>a b c d. preserves R (f a b c d)"
  shows "preserves R (\<lambda>w. Option.bind (m w) (\<lambda>((a, b, c, d), w). f a b c d w))"
  using preserves_bind [OF assms(1), of "\<lambda>p. f (fst p) (fst (snd p)) (fst (snd (snd p))) (snd (snd (snd p)))"] assms(2)
  by (simp add: split_def)

lemma preserves_if [preserves_intros]:
  "(b \<Longrightarrow> preserves R m) \<Longrightarrow> (\<not> b \<Longrightarrow> preserves R n) \<Longrightarrow> preserves R (\<lambda>w. if b then m w else n w)"
  by (simp add: preserves_def)

lemma preserves_case_option [preserves_intros]:
  "(x = None \<Longrightarrow> preserves R m) \<Longrightarrow> (\<And>y. x = Some y \<Longrightarrow> preserves R (n y)) \<Longrightarrow>
     preserves R (\<lambda>w. case x of None \<Rightarrow> m w | Some y \<Rightarrow> n y w)"
  by (cases x) (simp_all add: preserves_def)

lemma preserves_case_sum [preserves_intros]:
  "(\<And>y. x = Inl y \<Longrightarrow> preserves R (m y)) \<Longrightarrow> (\<And>y. x = Inr y \<Longrightarrow> preserves R (n y)) \<Longrightarrow>
     preserves R (\<lambda>w. case x of Inl y \<Rightarrow> m y w | Inr y \<Rightarrow> n y w)"
  by (cases x) (simp_all add: preserves_def)

lemma preserves_case_prod [preserves_intros]:
  "(\<And>a b. x = (a, b) \<Longrightarrow> preserves R (m a b)) \<Longrightarrow> preserves R (\<lambda>w. case x of (a, b) \<Rightarrow> m a b w)"
  by (cases x) (simp add: preserves_def)

lemma preserves_case_list [preserves_intros]:
  "(x = [] \<Longrightarrow> preserves R m) \<Longrightarrow> (\<And>y ys. x = y # ys \<Longrightarrow> preserves R (n y ys)) \<Longrightarrow>
     preserves R (\<lambda>w. case x of [] \<Rightarrow> m w | y # ys \<Rightarrow> n y ys w)"
  by (cases x) (simp_all add: preserves_def)

lemma preserves_case_two [preserves_intros]:
  "(\<And>a b xs. x = a # b # xs \<Longrightarrow> preserves R (f a b xs)) \<Longrightarrow> preserves R g \<Longrightarrow>
    preserves R (\<lambda>w. case x of [] \<Rightarrow> g w | [a] \<Rightarrow> g w | a # b # xs \<Rightarrow> f a b xs w)"
  by (auto simp: preserves_def split: list.splits)

lemma preserves_case_poll [preserves_intros]:
  "(\<And>x. p = Found x \<Longrightarrow> preserves R (a x)) \<Longrightarrow> (\<And>e. p = PollErr e \<Longrightarrow> preserves R (b e)) \<Longrightarrow> (p = TimedOut \<Longrightarrow> preserves R c) \<Longrightarrow>
    preserves R (\<lambda>w. case p of Found x \<Rightarrow> a x w | PollErr e \<Rightarrow> b e w | TimedOut \<Rightarrow> c w)"
  by (cases p) simp_all

lemma preserves_option_bind [preserves_intros]:
  "(\<And>x. y = Some x \<Longrightarrow> preserves R (f x)) \<Longrightarrow> preserves R (\<lambda>w. Option.bind y (\<lambda>x. f x w))"
  by (cases y) (simp_all add: preserves_def)

lemma preserves_let [preserves_intros]: "preserves R (m x) \<Longrightarrow> preserves R (\<lambda>w. let y = x in m y w)"
  by (simp add: preserves_def)

lemma preserves_read: "(\<And>x. preserves R (m x)) \<Longrightarrow> preserves R (\<lambda>w. m (g w) w)"
  by (simp add: preserves_def)

lemma preserves_GetOvnController [preserves_intros]:
  "(\<And>e. preserves R (m e)) \<Longrightarrow> preserves R n \<Longrightarrow> preserves R (\<lambda>w. case GetOvnController w of Some e \<Rightarrow> m e w | None \<Rightarrow> n w)"
  by (auto simp: preserves_def split: option.splits)

lemma preserves_foreach [preserves_intros]:
  assumes "\<And>x. x \<in> set xs \<Longrightarrow> preserves R (f x)"
  shows "preserves R (foreach f xs)"
  using assms
proof (induction xs)
  case (Cons x xs)
  then have "preserves R (f x)" and "preserves R (foreach f xs)" by simp_all
  then have "preserves R (\<lambda>w. Option.bind (f x w) (\<lambda>(r, w). case r of None \<Rightarrow> foreach f xs w | Some e \<Rightarrow> Some (Some e, w)))"
    by (intro preserves_intros)
  then show ?case by (simp add: preserves_def)
qed (simp add: preserves_def R_refl)

lemma preserves_forall [preserves_intros]:
  assumes "\<And>x. x \<in> set xs \<Longrightarrow> preserves R (f x)"
  shows "preserves R (forall f xs)"
  using assms
proof (induction xs)
  case (Cons x xs)
  then have "preserves R (f x)" and "preserves R (forall f xs)" by simp_all
  then have "preserves R (\<lambda>w. Option.bind (f x w) (\<lambda>(r, w). forall f xs w))" by (intro preserves_intros)
  then show ?case by (simp add: preserves_def)
qed (simp add: preserves_def R_refl)

lemma preserves_rangeM [preserves_intros]:
  assumes "\<And>x s. x \<in> set xs \<Longrightarrow> preserves R (f x s)"
  shows "preserves R (rangeM f xs s)"
  using assms
proof (induction xs arbitrary: s)
  case (Cons x xs)
  then have "preserves R (f x s)" and "\<And>s. preserves R (rangeM f xs s)" by simp_all
  then have "preserves R (\<lambda>w. Option.bind (f x s w) (\<lambda>(r, w). case r of Inl s' \<Rightarrow> rangeM f xs s' w | Inr r' \<Rightarrow> Some (Inr r', w)))"
    by (intro preserves_intros)
  then show ?case by (simp add: preserves_def)
qed (simp add: preserves_def R_refl)

text \<open>An operation that leaves all variables alone and writes no custom resource.\<close>

lemma R_requests: "\<forall>e \<in> set es. \<not> cr_write e \<Longrightarrow> R w (w\<lparr>trace := trace w @ es\<rparr>)"
proof (induction es rule: rev_induct)
  case (snoc e es)
  have "R (w\<lparr>trace := trace w @ es\<rparr>) (w\<lparr>trace := trace w @ es @ [e]\<rparr>)"
    using snoc.prems R_request [of e "w\<lparr>trace := trace w @ es\<rparr>"] by simp
  with snoc show ?case by (auto intro: R_trans)
qed (simp add: R_refl)

lemma preserves_frame:
  assumes "frame m" and "quiet m"
  shows "preserves R m"
  unfolding preserves_def
proof (intro allI impI)
  fix w a w' assume m: "m w = Some (a, w')"
  from emitsD [OF assms(2) m] obtain es where es: "trace w' = trace w @ es" "\<forall>e \<in> set es. \<not> cr_write e" by blast
  from frameD [OF assms(1) m] es(1) R_requests [OF es(2), of w] show "R w w'" by metis
qed

lemma preserves_RetryOnConflict [preserves_intros]:
  assumes "preserves R fn"
  shows "preserves R (RetryOnConflict E fn)"
  unfolding preserves_def
proof (intro allI impI)
  fix w a w' assume r: "RetryOnConflict E fn w = Some (a, w')"
  show "R w w'"
    by (rule RetryOnConflict_rule [OF r]) (auto intro: R_trans preservesD [OF assms])
qed

section \<open>OVN and the notification server\<close>

lemma RunOVNNbctl_preserves [preserves_intros]: "preserves R (RunOVNNbctl E args)"
  by (rule preserves_frame [OF RunOVNNbctl_frame RunOVNNbctl_quiet])

lemma generateMac_preserves [preserves_intros]: "preserves R (generateMac E)"
  by (rule preserves_frame [OF generateMac_frame generateMac_emits])

lemma pollAddresses_preserves: "preserves R (pollAddresses E c p n)"
  by (rule preserves_frame [OF pollAddresses_frame emits_mono [OF pollAddresses_emits any_nbctl_quiet]])

lemma getGatewayFromSwitch_preserves: "preserves R (getGatewayFromSwitch E ls)"
  unfolding preserves_def
proof (intro allI impI)
  fix w a w' assume "getGatewayFromSwitch E ls w = Some (a, w')"
  then show "R w w'"
    by (auto simp: getGatewayFromSwitch_def run_conv R_refl dest!: preservesD [OF RunOVNNbctl_preserves] intro: R_trans [OF _ R_cache])
qed

lemma createOvnLS_preserves: "preserves R (createOvnLS E name s4 g4 ex s6 g6)"
  by (rule preserves_frame [OF createOvnLS_frame]) (rule emits_mono [OF createOvnLS_emits], auto dest: nbctl_quiet)

lemma sendTo_preserves: "preserves R (sendTo E msg c)"
  unfolding sendTo_def [abs_def] stream_Send_def by (intro preserves_intros) simp

lemma notifyEach_preserves: "preserves R (notifyEach E mk node ok xs)"
proof -
  have "preserves R (\<lambda>w. case clientList w of None \<Rightarrow> None | Some cl \<Rightarrow> sendTo E m (GetClient cl n) w)" for m n
    by (rule preserves_read [where g = clientList]) (intro preserves_intros sendTo_preserves)
  then show ?thesis unfolding notifyEach_def by (intro preserves_intros)
qed

lemma notify_preserves:
  "preserves R (SendRouteNotif E ri t)" "preserves R (SendDeleteRouteNotif E ri t)"
  "preserves R (SendPodNetworkNotif E pn t)" "preserves R (SendDeletePodNetworkNotif E pn t)"
  by (simp_all add: senders_each notifyEach_preserves)

section \<open>Chains\<close>

lemma checkPodstatus_preserves: "preserves R (checkPodstatus E p)"
  unfolding checkPodstatus_def [abs_def] Let_def by (intro preserves_intros) simp

lemma waitPod_preserves: "preserves R (waitPod E p)"
proof -
  have "R w (snd y)" if "waitPod E p w = Some y" for w y
  proof (rule waitPod.raw_induct [of "\<lambda>E p w y. R w (snd y)", OF _ that])
    fix rec E p w y
    assume IH: "\<And>E p w y. rec E p w = Some y \<Longrightarrow> R w (snd y)"
      and body: "Option.bind (checkPodstatus E p w) (\<lambda>(r, w). case r of Inl e \<Rightarrow> Some (Some e, w) | Inr nf \<Rightarrow> if nf \<noteq> None then Some (None, w) else rec E p w) = Some y"
    from body obtain r v where r: "checkPodstatus E p w = Some (r, v)"
      and k: "(case r of Inl e \<Rightarrow> Some (Some e, v) | Inr nf \<Rightarrow> if nf \<noteq> None then Some (None, v) else rec E p v) = Some y"
      by (auto simp: bind_eq_Some_conv)
    from k have "snd y = v \<or> rec E p v = Some y" by (auto split: sum.splits if_splits)
    with IH [of E p v y] preservesD [OF checkPodstatus_preserves r] show "R w (snd y)" by (auto intro: R_trans)
  qed
  then show ?thesis by (auto simp: preserves_def)
qed

lemma CheckPodStatusFromPodLabel_preserves: "preserves R (CheckPodStatusFromPodLabel E l)"
  unfolding CheckPodStatusFromPodLabel_def [abs_def] Let_def by (intro preserves_intros waitPod_preserves) simp

lemma selectorLoop_preserves: "preserves R (selectorLoop E pods b)"
proof (induction pods arbitrary: b)
  case (Cons p ps)
  have "preserves R (\<lambda>w. do {
     (r, w) \<leftarrow> request (KubeGet KPod (pod_Namespace p) (pod_Name p)) (\<lambda>h. env_getPod E h (pod_Namespace p) (pod_Name p)) w;
     (case r of Inl e \<Rightarrow> Some (Inl e, w)
      | Inr pdState \<Rightarrow> if pod_Phase pdState = PodRunning \<and> (case pod_ContainerStatuses p of [] \<Rightarrow> False | c # cs \<Rightarrow> cs_Ready c)
          then selectorLoop E ps True w else Some (Inr False, w)) })"
    by (intro preserves_intros Cons) simp
  then show ?case by (simp add: preserves_def)
qed (simp add: preserves_def R_refl)

lemma checkSFCPodSelectorStatus_preserves: "preserves R (checkSFCPodSelectorStatus E ns l)"
  unfolding checkSFCPodSelectorStatus_def [abs_def] by (intro preserves_intros selectorLoop_preserves) simp

lemma waitSelector_preserves: "preserves R (waitSelector E ns l)"
proof -
  have "R w (snd y)" if "waitSelector E ns l w = Some y" for w y
  proof (rule waitSelector.raw_induct [of "\<lambda>E ns l w y. R w (snd y)", OF _ that])
    fix rec E ns l w y
    assume IH: "\<And>E ns l w y. rec E ns l w = Some y \<Longrightarrow> R w (snd y)"
      and body: "Option.bind (checkSFCPodSelectorStatus E ns l w) (\<lambda>(r, w). case r of Inl e \<Rightarrow> Some (Inl e, w) | Inr pl \<Rightarrow> (case pl of Some pods \<Rightarrow> Some (Inr pods, w) | None \<Rightarrow> rec E ns l w)) = Some y"
    from body obtain r v where r: "checkSFCPodSelectorStatus E ns l w = Some (r, v)"
      and k: "(case r of Inl e \<Rightarrow> Some (Inl e, v) | Inr pl \<Rightarrow> (case pl of Some pods \<Rightarrow> Some (Inr pods, v) | None \<Rightarrow> rec E ns l v)) = Some y"
      by (auto simp: bind_eq_Some_conv)
    from k have "snd y = v \<or> rec E ns l v = Some y" by (auto split: sum.splits option.splits)
    with IH [of E ns l v y] preservesD [OF checkSFCPodSelectorStatus_preserves r] show "R w (snd y)" by (auto intro: R_trans)
  qed
  then show ?thesis by (auto simp: preserves_def)
qed

lemma ValidateNetworkChaining_preserves: "preserves R (ValidateNetworkChaining E cr)"
  unfolding ValidateNetworkChaining_def [abs_def] Let_def by (intro preserves_intros) simp_all

lemma UpdateNetworkPool_preserves: "preserves R (UpdateNetworkPool E b np)"
  unfolding UpdateNetworkPool_def [abs_def] updatePoolOnce_def Let_def by (intro preserves_intros) simp_all

lemma CreateNetwork_preserves: "preserves R (CreateNetwork E sn)"
  unfolding CreateNetwork_def [abs_def] by (intro preserves_intros) simp_all

lemma CreateNetworkFromPool_preserves: "preserves R (CreateNetworkFromPool E ns)"
  unfolding CreateNetworkFromPool_def [abs_def] CheckVirtualNetworkConf_def
  by (intro preserves_intros UpdateNetworkPool_preserves CreateNetwork_preserves) simp_all

lemma CheckNetFromLabel_preserves: "preserves R (CheckNetFromLabel E l)"
  unfolding CheckNetFromLabel_def [abs_def] by (intro preserves_intros CreateNetworkFromPool_preserves) simp_all

lemma CheckNetForNetPool_preserves: "preserves R (CheckNetForNetPool E cr)"
  unfolding CheckNetForNetPool_def by (intro preserves_intros CheckNetFromLabel_preserves)

lemma configureNetworkFromLabel_preserves: "preserves R (configureNetworkFromLabel E l)"
  unfolding configureNetworkFromLabel_def [abs_def] by (intro preserves_intros) simp_all

lemma CalculateDstforTail_preserves: "preserves R (CalculateDstforTail E nl)"
  unfolding CalculateDstforTail_def [abs_def] by (intro preserves_intros) simp_all

lemma DerivedNetworkFromNetworklist_preserves: "preserves R (DerivedNetworkFromNetworklist E nl)"
  unfolding DerivedNetworkFromNetworklist_def [abs_def] by (intro preserves_intros) simp_all

lemma appendOnce_preserves: "preserves R (appendOnce E ns n k v)"
  unfolding appendOnce_def [abs_def] Let_def by (intro preserves_intros) simp_all

lemma AppendAnnotationOnPod_preserves: "preserves R (AppendAnnotationOnPod E pod k v)"
  unfolding AppendAnnotationOnPod_def [abs_def] Let_def by (intro preserves_intros appendOnce_preserves) simp_all

lemma SetAnnotationOnPod_preserves: "preserves R (SetAnnotationOnPod E pod k v)"
  unfolding SetAnnotationOnPod_def by (intro preserves_intros) simp

lemma FindLogicalSwitch_preserves: "preserves R (FindLogicalSwitch E n)"
  unfolding FindLogicalSwitch_def [abs_def] by (intro preserves_intros)

lemma getNodeLogicalPortIPAddr_preserves: "preserves R (getNodeLogicalPortIPAddr E pod)"
  unfolding getNodeLogicalPortIPAddr_def [abs_def] Let_def by (intro preserves_intros pollAddresses_preserves)

lemma addLogicalPortWithSwitch_preserves: "preserves R (addLogicalPortWithSwitch E pod ls ip mac gw pn)"
  unfolding addLogicalPortWithSwitch_def [abs_def] Let_def
  by (intro preserves_intros pollAddresses_preserves getGatewayFromSwitch_preserves getNodeLogicalPortIPAddr_preserves)

lemma addPortStep_preserves: "preserves R (addPortStep E pod extra net s)"
  unfolding addPortStep_def [abs_def] Let_def
  by (intro preserves_intros FindLogicalSwitch_preserves CreateNetworkFromPool_preserves addLogicalPortWithSwitch_preserves)

lemma AddLogicalPorts_preserves: "preserves R (AddLogicalPorts E pod objs extra)"
  unfolding AddLogicalPorts_def [abs_def] by (intro preserves_intros addPortStep_preserves addLogicalPortWithSwitch_preserves)

lemma buildNfnAnnotations_preserves: "preserves R (buildNfnAnnotations E pod i n d)"
  unfolding buildNfnAnnotations_def [abs_def]
  by (rule preserves_read [where g = GetOvnController]) (intro preserves_intros AddLogicalPorts_preserves AppendAnnotationOnPod_preserves)

lemma AddPodNetworkAnnotations_preserves: "preserves R (AddPodNetworkAnnotations E pod n d)"
  unfolding AddPodNetworkAnnotations_def [abs_def] Let_def by (intro preserves_intros buildNfnAnnotations_preserves)

lemma endNetwork_preserves: "preserves R (endNetwork E ln mode nl)"
  unfolding endNetwork_def [abs_def] by (intro preserves_intros) simp_all

lemma attachPod_preserves: "preserves R (attachPod E nw dr del pod s)"
  unfolding attachPod_def [abs_def] Let_def
  by (intro preserves_intros AddPodNetworkAnnotations_preserves SetAnnotationOnPod_preserves)

lemma attachNamespace_preserves: "preserves R (attachNamespace E pl nw dr del ns s)"
  unfolding attachNamespace_def [abs_def] by (intro preserves_intros waitSelector_preserves attachPod_preserves) simp_all

lemma GetIPAdressForPod_preserves: "preserves R (GetIPAdressForPod E nw n)"
  unfolding GetIPAdressForPod_def [abs_def] Let_def by (intro preserves_intros)

lemma GetNetworkSubnet_preserves: "preserves R (GetNetworkSubnet E nw)"
  unfolding GetNetworkSubnet_def [abs_def] by (intro preserves_intros)

lemma configurePodSelectorDeployment_preserves: "preserves R (configurePodSelectorDeployment E ln l d m nl dst)"
  unfolding configurePodSelectorDeployment_def [abs_def] Let_def
  by (intro preserves_intros endNetwork_preserves waitPod_preserves GetIPAdressForPod_preserves attachNamespace_preserves) simp_all

lemma neighbourIP_preserves: "preserves R (neighbourIP E dl i nl j)"
  unfolding neighbourIP_def [abs_def] by (intro preserves_intros CheckPodStatusFromPodLabel_preserves GetIPAdressForPod_preserves)

lemma leftRoutes_preserves: "preserves R (leftRoutes E pos ln nl dl)"
  unfolding leftRoutes_def leftStep_def [abs_def] by (intro preserves_intros neighbourIP_preserves)

lemma rightRoutes_preserves: "preserves R (rightRoutes E pos num rn nl dl s)"
proof (induction rn arbitrary: s)
  case (Cons r rn)
  have "preserves R (\<lambda>w. if pos + 1 = num then Some (Inl (rn_GatewayIP r, snd s), w)
      else do { (x, w) \<leftarrow> neighbourIP E dl (pos + 1) nl pos w;
        (case x of Inl e \<Rightarrow> Some (Inr e, w)
         | Inr g \<Rightarrow> rightRoutes E pos num rn nl dl (g, snd s @ [\<lparr>rt_Dst = rn_Subnet r, rt_GW = g\<rparr>]) w) })"
    by (intro preserves_intros neighbourIP_preserves Cons)
  then show ?case by (simp add: preserves_def)
qed (simp add: preserves_def R_refl)

lemma farRoutes_preserves: "preserves R (farRoutes E pos l r nl)"
  unfolding farRoutes_def farStep_def [abs_def] by (intro preserves_intros GetNetworkSubnet_preserves)

lemma calculateDeploymentRoutes_preserves: "preserves R (calculateDeploymentRoutes E ns l p n ln rn nl dl)"
  unfolding calculateDeploymentRoutes_def [abs_def]
  by (intro preserves_intros leftRoutes_preserves rightRoutes_preserves farRoutes_preserves) simp_all

lemma CheckSFCPodLabelStatus_preserves: "preserves R (CheckSFCPodLabelStatus E cr)"
  unfolding CheckSFCPodLabelStatus_def [abs_def] Let_def by (intro preserves_intros ValidateNetworkChaining_preserves) simp_all

lemma configureEnd_preserves: "preserves R (configureEnd E nets d cs m nl dst p)"
proof -
  have "preserves R (case s of (infos, pnis) \<Rightarrow> \<lambda>w. do {
     d \<leftarrow> d;
     (r, w) \<leftarrow> configurePodSelectorDeployment E net d cs m nl dst w;
     (case r of Inl e \<Rightarrow> Some (Inr e, w) | Inr (r, pni) \<Rightarrow> Some (Inl (infos @ r, pnis @ pni), w)) })" for net and s :: "RoutingInfo list \<times> PodNetworkInfo list"
    unfolding prod.case_eq_if [of _ s] by (intro preserves_intros configurePodSelectorDeployment_preserves)
  then show ?thesis unfolding configureEnd_def by (intro preserves_intros)
qed

lemma deploymentRoutes_preserves: "preserves R (deploymentRoutes E ns ln rn nl dl)"
  unfolding deploymentRoutes_def deploymentStep_def [abs_def] by (intro preserves_intros calculateDeploymentRoutes_preserves)

lemma endsFromLabels_preserves: "preserves R (endsFromLabels E m h t ln rn)"
  unfolding endsFromLabels_def [abs_def] by (intro preserves_intros configureNetworkFromLabel_preserves)

lemma CalculateRoutes_preserves: "preserves R (CalculateRoutes E cr cs only)"
  unfolding CalculateRoutes_def [abs_def] Let_def
  by (intro preserves_intros CheckNetForNetPool_preserves ValidateNetworkChaining_preserves DerivedNetworkFromNetworklist_preserves
      configureEnd_preserves endsFromLabels_preserves CalculateDstforTail_preserves deploymentRoutes_preserves)

section \<open>Networks, ports and policies in OVN\<close>

lemma networks_preserve:
  "preserves R (createNetwork E name sn rp)" "preserves R (createProviderNetwork E name sn)"
  "preserves R (deleteLogicalSwitch E name)" "preserves R (deleteLogicalRouterPort E name)"
  unfolding createNetwork_def [abs_def] createProviderNetwork_def [abs_def] deleteLogicalSwitch_def [abs_def] deleteLogicalRouterPort_def [abs_def] Let_def
  by (intro preserves_intros createOvnLS_preserves)+

lemma Controller_preserves:
  "preserves R (Controller_CreateNetwork E n)" "preserves R (Controller_DeleteNetwork E n)"
  "preserves R (Controller_CreateProviderNetwork E p)" "preserves R (Controller_DeleteProviderNetwork E p)"
  unfolding Controller_CreateNetwork_def [abs_def] Controller_DeleteNetwork_def [abs_def] Controller_CreateProviderNetwork_def [abs_def]
    Controller_DeleteProviderNetwork_def [abs_def] Let_def
  by (intro preserves_intros networks_preserve)+

lemma ports_preserve: "preserves R (DeleteLogicalPorts E name ns)" "preserves R (node_AddNodeLogicalPorts E node)"
  unfolding DeleteLogicalPorts_def [abs_def] node_AddNodeLogicalPorts_def [abs_def] AddNodeLogicalPorts_def [abs_def]
    addNodeLogicalPortWithSwitch_def [abs_def] Let_def
  by (intro preserves_intros pollAddresses_preserves getGatewayFromSwitch_preserves)+

lemma acl_preserve:
  "preserves R (ACLAdd E rule et m sv n me lg)" "preserves R (ACLList E entity et)" "preserves R (PGAdd E g)" "preserves R (PGSetPorts E g ps)"
  "preserves R (PGDel E g)"
  unfolding ACLAdd_def [abs_def] ACLList_def [abs_def] PGAdd_def PGAddWithPorts_def [abs_def] PGSetPorts_def [abs_def] PGDel_def [abs_def] Let_def
  by (intro preserves_intros)+

lemma AddDenyPG_preserves: "preserves R (AddDenyPG E pg i e)"
  unfolding AddDenyPG_def [abs_def] addDenyRule_def [abs_def] by (intro preserves_intros acl_preserve)

lemma xgressStep_preserves: "preserves R (xgressStep E pg x s)"
  unfolding xgressStep_def [abs_def] xgressPeers_def [abs_def] peerRule_def [abs_def] createPeerMatch_def [abs_def] getPeerIPs_def [abs_def]
    applyRules_def Let_def
  by (intro preserves_intros acl_preserve) simp_all

lemma processPolicyRules_preserves: "preserves R (processPolicyRules E policy)"
  unfolding processPolicyRules_def [abs_def] addACLs_def [abs_def] by (intro preserves_intros xgressStep_preserves)

lemma policy_preserves: "preserves R (createPolicy E policy)" "preserves R (deletePolicy E policy)" "preserves R (updatePolicy E old new)"
proof -
  show c: "preserves R (createPolicy E policy)" for policy
    unfolding createPolicy_def [abs_def] listPods_def Let_def
    by (intro preserves_intros AddDenyPG_preserves acl_preserve processPolicyRules_preserves) simp_all
  show d: "preserves R (deletePolicy E policy)" for policy
    unfolding deletePolicy_def [abs_def] by (intro preserves_intros acl_preserve)
  show "preserves R (updatePolicy E old new)" unfolding updatePolicy_def [abs_def] by (intro preserves_intros c d)
qed

lemma RefreshNetworkPolicies_preserves: "preserves R (RefreshNetworkPolicies E)"
  unfolding RefreshNetworkPolicies_def [abs_def] ListNetworkPolicies_def by (intro preserves_intros policy_preserves) simp_all

end

end
