(* ===== verification/Reconcilers.thy ===== *)
theory Reconcilers
  imports Run_Relation
begin

text \<open>
  The controllers of \<^verbatim>\<open>pkg/controller\<close> for networks, provider networks, network chainings
  and pods, and \<^verbatim>\<open>pkg/utils/finalizer_utils.go\<close>.  A reconciler works on a copy of the
  object, which the model passes along as a value; writing it back is the request \<open>Update...CR\<close>
  or, for the status, \<open>Status...CR\<close>.  The reply of the API server to a write differs from what
  was written only in fields the model does not have.
\<close>

section \<open>Finalizers\<close>

fun utils_Contains :: "string list \<Rightarrow> string \<Rightarrow> bool" where
  "utils_Contains [] str = False"
| "utils_Contains (item # items) str = (if item = str then True else utils_Contains items str)"

fun utils_Remove :: "string list \<Rightarrow> string \<Rightarrow> string list" where
  "utils_Remove [] str = []"
| "utils_Remove (item # items) str = (if item = str then utils_Remove items str else item # utils_Remove items str)"

text \<open>
  The text the three \<^verbatim>\<open>reconcileFinalizers\<close> share, over the access to the object's metadata,
  the update request, the finalizer's name and the operation that deletes.
\<close>

definition finalize ::
  "('o \<Rightarrow> ObjectMeta) \<Rightarrow> (ObjectMeta \<Rightarrow> 'o \<Rightarrow> 'o) \<Rightarrow> ('o \<Rightarrow> event) \<Rightarrow> string \<Rightarrow> (env \<Rightarrow> 'o \<Rightarrow> (world, error option \<times> 'o) prog) \<Rightarrow>
    env \<Rightarrow> 'o \<Rightarrow> (world, error option \<times> 'o) prog" where
  "finalize meta setMeta upd fin del E x w =
     (if om_Deleting (meta x) then
        (if utils_Contains (om_Finalizers (meta x)) fin then do {
           ((err, x), w) \<leftarrow> del E x w;
           let x = setMeta ((meta x)\<lparr>om_Finalizers := utils_Remove (om_Finalizers (meta x)) fin\<rparr>) x;
           (err, w) \<leftarrow> kube_write E (upd x) w;
           Some ((err, x), w) }
         else Some ((None, x), w))
      else if \<not> utils_Contains (om_Finalizers (meta x)) fin then do {
        let x = setMeta ((meta x)\<lparr>om_Finalizers := om_Finalizers (meta x) @ [fin]\<rparr>) x;
        (err, w) \<leftarrow> kube_write E (upd x) w;
        Some ((err, x), w) }
      else Some ((None, x), w))"

text \<open>The text the three \<^verbatim>\<open>Reconcile\<close> methods share.\<close>

definition reconcileObject ::
  "(env \<Rightarrow> string \<Rightarrow> string \<Rightarrow> (world, error + 'o) prog) \<Rightarrow> (env \<Rightarrow> 'o \<Rightarrow> (world, error option \<times> 'o) prog) \<Rightarrow>
    (env \<Rightarrow> 'o \<Rightarrow> (world, error option \<times> 'o) prog) \<Rightarrow> env \<Rightarrow> string \<Rightarrow> string \<Rightarrow> (world, error option) prog" where
  "reconcileObject fetch fin create E ns name w = do {
     (r, w) \<leftarrow> fetch E ns name w;
     (case r of
        Inl e \<Rightarrow> if IsNotFound e then Some (None, w) else Some (Some e, w)
      | Inr x \<Rightarrow> do {
          ((err, x), w) \<leftarrow> fin E x w;
          (case err of
             Some e \<Rightarrow> Some (Some e, w)
           | None \<Rightarrow> do { ((err, x), w) \<leftarrow> create E x w; Some (err, w) })
        })
   }"

definition lsExists :: error where "lsExists = Errorf ''LS exists''"
definition cniUnsupported :: error where "cniUnsupported = Errorf ''CNI type not supported''"

section \<open>Networks\<close>

definition nfnNetworkFinalizer :: string where "nfnNetworkFinalizer = ''nfnCleanUpNetwork''"

definition network_createNetwork :: "env \<Rightarrow> Network \<Rightarrow> (world, error option \<times> Network) prog" where
  "network_createNetwork E cr w =
     (if om_Deleting (nw_Meta cr) then Some ((None, cr), w)
      else if nw_CniType cr = ovn4nfv then
        (case GetOvnController w of
           Some e \<Rightarrow> Some ((Some e, cr), w)
         | None \<Rightarrow> do {
             (err, w) \<leftarrow> Controller_CreateNetwork E cr w;
             let cr = cr\<lparr>nw_State := (if err \<noteq> None \<and> err \<noteq> Some lsExists then CreateInternalError else Created)\<rparr>;
             (err, w) \<leftarrow> kube_write E (StatusNetworkCR cr) w;
             Some ((err, cr), w)
           })
      else Some ((Some cniUnsupported, cr), w))"

definition network_deleteNetwork :: "env \<Rightarrow> Network \<Rightarrow> (world, error option \<times> Network) prog" where
  "network_deleteNetwork E cr w =
     (if nw_CniType cr = ovn4nfv then
        (case GetOvnController w of
           Some e \<Rightarrow> Some ((Some e, cr), w)
         | None \<Rightarrow> do {
             (err, w) \<leftarrow> Controller_DeleteNetwork E cr w;
             (if err \<noteq> None then do {
                let cr = cr\<lparr>nw_State := DeleteInternalError\<rparr>;
                (err, w) \<leftarrow> kube_write E (StatusNetworkCR cr) w;
                Some ((err, cr), w) }
              else Some ((None, cr), w))
           })
      else Some ((Some cniUnsupported, cr), w))"

definition network_reconcileFinalizers :: "env \<Rightarrow> Network \<Rightarrow> (world, error option \<times> Network) prog" where
  "network_reconcileFinalizers = finalize nw_Meta (\<lambda>m cr. cr\<lparr>nw_Meta := m\<rparr>) UpdateNetworkCR nfnNetworkFinalizer network_deleteNetwork"

definition network_Reconcile :: "env \<Rightarrow> string \<Rightarrow> string \<Rightarrow> (world, error option) prog" where
  "network_Reconcile = reconcileObject (\<lambda>E ns name. request (KubeGet KNetwork ns name) (\<lambda>h. env_getNetwork E h ns name))
     network_reconcileFinalizers network_createNetwork"

section \<open>Provider networks\<close>

definition nfnProviderNetworkFinalizer :: string where "nfnProviderNetworkFinalizer = ''nfnCleanUpProviderNetwork''"

text \<open>When OVN fails the state is set on the copy only: the status is written in the other branch.\<close>

definition provider_createNetwork :: "env \<Rightarrow> ProviderNetwork \<Rightarrow> (world, error option \<times> ProviderNetwork) prog" where
  "provider_createNetwork E cr w =
     (if om_Deleting (pn_Meta cr) then Some ((None, cr), w)
      else if pn_CniType cr = ovn4nfv then
        (case GetOvnController w of
           Some e \<Rightarrow> Some ((Some e, cr), w)
         | None \<Rightarrow> do {
             (err, w) \<leftarrow> Controller_CreateProviderNetwork E cr w;
             (if err \<noteq> None \<and> err \<noteq> Some lsExists then Some ((None, cr\<lparr>pn_State := CreateInternalError\<rparr>), w)
              else do {
                (err, w) \<leftarrow> SendNotif E cr ''create'' [] w;
                let cr = cr\<lparr>pn_State := (if err \<noteq> None then CreateInternalError else Created)\<rparr>;
                (err, w) \<leftarrow> kube_write E (StatusProviderCR cr) w;
                Some ((err, cr), w) })
           })
      else Some ((Some cniUnsupported, cr), w))"

definition provider_deleteNetwork :: "env \<Rightarrow> ProviderNetwork \<Rightarrow> (world, error option \<times> ProviderNetwork) prog" where
  "provider_deleteNetwork E cr w =
     (if pn_CniType cr = ovn4nfv then
        (case GetOvnController w of
           Some e \<Rightarrow> Some ((Some e, cr), w)
         | None \<Rightarrow> do {
             (u, w) \<leftarrow> SendNotif E cr ''delete'' [] w;
             (err, w) \<leftarrow> Controller_DeleteProviderNetwork E cr w;
             (if err \<noteq> None then do {
                let cr = cr\<lparr>pn_State := DeleteInternalError\<rparr>;
                (err, w) \<leftarrow> kube_write E (StatusProviderCR cr) w;
                Some ((err, cr), w) }
              else Some ((None, cr), w))
           })
      else Some ((Some cniUnsupported, cr), w))"

definition provider_reconcileFinalizers :: "env \<Rightarrow> ProviderNetwork \<Rightarrow> (world, error option \<times> ProviderNetwork) prog" where
  "provider_reconcileFinalizers =
     finalize pn_Meta (\<lambda>m cr. cr\<lparr>pn_Meta := m\<rparr>) UpdateProviderCR nfnProviderNetworkFinalizer provider_deleteNetwork"

definition provider_Reconcile :: "env \<Rightarrow> string \<Rightarrow> string \<Rightarrow> (world, error option) prog" where
  "provider_Reconcile = reconcileObject (\<lambda>E ns name. request (KubeGet KProviderNetwork ns name) (\<lambda>h. env_getProvider E h ns name))
     provider_reconcileFinalizers provider_createNetwork"

section \<open>Network chainings\<close>

definition nfnNetworkChainFinalizer :: string where "nfnNetworkChainFinalizer = ''nfnCleanUpNetworkChain''"

text \<open>The predicate on updates: whether the event is handed to \<^verbatim>\<open>Reconcile\<close>.\<close>

definition chaining_UpdateFunc :: "NetworkChaining \<Rightarrow> NetworkChaining \<Rightarrow> bool" where
  "chaining_UpdateFunc oldObj obj =
     (if nc_State obj = CreateInternalError \<or> nc_State obj = DeleteInternalError then True
      else if om_Generation (nc_Meta obj) = om_Generation (nc_Meta oldObj) \<and> om_Finalizers (nc_Meta oldObj) = om_Finalizers (nc_Meta obj)
      then False else True)"

partial_function (option) waitChain :: "env \<Rightarrow> NetworkChaining \<Rightarrow> world \<Rightarrow> ((error option \<times> NetworkChaining) \<times> world) option" where
  "waitChain E cr w = do {
     (r, w) \<leftarrow> CheckSFCPodLabelStatus E cr w;
     (case r of
        Inl e \<Rightarrow> Some ((Some e, cr), w)
      | Inr ps \<Rightarrow>
          if ps then do {
            let cr = cr\<lparr>nc_State := Creating\<rparr>;
            (err, w) \<leftarrow> kube_write E (StatusChainingCR cr) w;
            Some ((err, cr), w) }
          else waitChain E cr w)
   }"

declare waitChain.simps [code]

definition checkChain :: "env \<Rightarrow> NetworkChaining \<Rightarrow> (world, error option \<times> NetworkChaining) prog" where
  "checkChain E cr w = do {
     (err, w) \<leftarrow> CheckNetForNetPool E cr w;
     (case err of Some e \<Rightarrow> Some ((Some e, cr), w) | None \<Rightarrow> do {
     (r, w) \<leftarrow> CheckSFCPodLabelStatus E cr w;
     (case r of Inl e \<Rightarrow> Some ((Some e, cr), w) | Inr podStatus \<Rightarrow> do {
     let cr = cr\<lparr>nc_State := (if podStatus then Creating else Pending)\<rparr>;
     (err, w) \<leftarrow> kube_write E (StatusChainingCR cr) w;
     (case err of
        Some e \<Rightarrow> Some ((Some e, cr), w)
      | None \<Rightarrow>
          if podStatus then Some ((None, cr), w) else waitChain E cr w) }) })
   }"

definition createChain :: "env \<Rightarrow> NetworkChaining \<Rightarrow> (world, error option \<times> NetworkChaining) prog" where
  "createChain E cr w =
     (if om_Deleting (nc_Meta cr) then Some ((None, cr), w)
      else if nc_State cr = Created then Some ((None, cr), w)
      else if nc_ChainType cr = ''Routing'' then do {
        ((err, cr), w) \<leftarrow> checkChain E cr w;
        (case err of Some e \<Rightarrow> Some ((Some e, cr), w) | None \<Rightarrow> do {
        (r, w) \<leftarrow> CalculateRoutes E cr False False w;
        (case r of Inl e \<Rightarrow> Some ((Some e, cr), w) | Inr (podnetworkList, routeList) \<Rightarrow> do {
        (err, w) \<leftarrow> SendRouteNotif E routeList ''create'' w;
        let cr = cr\<lparr>nc_State := (if err \<noteq> None then CreateInternalError else Created)\<rparr>;
        (cr, w) \<leftarrow> (if nc_State cr \<noteq> CreateInternalError then do {
             (err, w) \<leftarrow> SendPodNetworkNotif E podnetworkList ''create'' w;
             Some (cr\<lparr>nc_State := (if err \<noteq> None then CreateInternalError else Created)\<rparr>, w) }
           else Some (cr, w));
        (err, w) \<leftarrow> kube_write E (StatusChainingCR cr) w;
        Some ((err, cr), w) }) }) }
      else Some ((Some (Errorf ''Chaining type not supported''), cr), w))"

text \<open>The state compared after the routes are withdrawn is that of a failed creation.\<close>

definition deleteChain :: "env \<Rightarrow> NetworkChaining \<Rightarrow> (world, error option \<times> NetworkChaining) prog" where
  "deleteChain E cr w =
     (if nc_State cr = Deleted then Some ((None, cr), w)
      else if nc_ChainType cr = ''Routing'' then do {
        (r, w) \<leftarrow> CalculateRoutes E cr True False w;
        (case r of Inl e \<Rightarrow> Some ((Some e, cr), w) | Inr (podnetworkList, routeList) \<Rightarrow> do {
        (err, w) \<leftarrow> SendDeleteRouteNotif E routeList ''delete'' w;
        let cr = cr\<lparr>nc_State := (if err \<noteq> None then DeleteInternalError else Deleted)\<rparr>;
        (cr, w) \<leftarrow> (if nc_State cr \<noteq> CreateInternalError then do {
             (err, w) \<leftarrow> SendDeletePodNetworkNotif E podnetworkList ''delete'' w;
             Some (cr\<lparr>nc_State := (if err \<noteq> None then DeleteInternalError else Deleted)\<rparr>, w) }
           else Some (cr, w));
        (err, w) \<leftarrow> kube_write E (StatusChainingCR cr) w;
        Some ((err, cr), w) }) }
      else Some ((Some (Errorf ''Chaining type not supported''), cr), w))"

definition chaining_reconcileFinalizers :: "env \<Rightarrow> NetworkChaining \<Rightarrow> (world, error option \<times> NetworkChaining) prog" where
  "chaining_reconcileFinalizers =
     finalize nc_Meta (\<lambda>m cr. cr\<lparr>nc_Meta := m\<rparr>) UpdateChainingCR nfnNetworkChainFinalizer deleteChain"

definition chaining_Reconcile :: "env \<Rightarrow> string \<Rightarrow> string \<Rightarrow> (world, error option) prog" where
  "chaining_Reconcile = reconcileObject (\<lambda>E ns name. request (KubeGet KNetworkChaining ns name) (\<lambda>h. env_getChaining E h ns name))
     chaining_reconcileFinalizers createChain"

section \<open>Pods\<close>

definition enableOvnDefaultIntf :: bool where "enableOvnDefaultIntf = True"
definition NodusNetworkPolicyAnnotationTag :: string where "NodusNetworkPolicyAnnotationTag = ''NodusNetworkPolicyUpdated''"

definition setPodAnnotation :: "env \<Rightarrow> Pod \<Rightarrow> string \<Rightarrow> string \<Rightarrow> (world, error option) prog" where
  "setPodAnnotation E pod key val = kube_write E (PatchPod (pod_Namespace pod) (pod_Name pod) (annotationPatch key val))"

definition readPodAnnotation :: "env \<Rightarrow> Pod \<Rightarrow> error + nfnNetwork" where
  "readPodAnnotation E pod =
     (case map_of (pod_Annotations pod) nfnNetAnnotation of
        None \<Rightarrow> Inl (Errorf ''Invalid annotations'')
      | Some annotation \<Rightarrow> env_unmarshalNfn E annotation)"

definition failedToAddPorts :: error where "failedToAddPorts = Errorf ''Failed to add ports''"

definition addLogicalPorts :: "env \<Rightarrow> Pod \<Rightarrow> (world, error option) prog" where
  "addLogicalPorts E pod w =
     (let nfn = (case readPodAnnotation E pod of
          Inr n \<Rightarrow> Inr n
        | Inl err \<Rightarrow> if enableOvnDefaultIntf then Inr \<lparr>nfn_Type = ovn4nfv, nfn_Interface = []\<rparr> else Inl err)
      in case nfn of
           Inl err \<Rightarrow> Some (Some err, w)
         | Inr nfn \<Rightarrow>
             if nfn_Type nfn = ovn4nfv then
               (case GetOvnController w of
                  Some e \<Rightarrow> Some (Some e, w)
                | None \<Rightarrow>
                    if map_of (pod_Annotations pod) Ovn4nfvAnnotationTag \<noteq> None then Some (Some (Errorf ''Pod annotation found''), w)
                    else do {
                      ((key, val), w) \<leftarrow> AddLogicalPorts E pod (nfn_Interface nfn) False w;
                      (if key \<noteq> [] then setPodAnnotation E pod key val w else Some (Some failedToAddPorts, w)) })
             else Some (Some (Errorf (''Unsupported Networking type '' @ nfn_Type nfn)), w))"

definition deleteLogicalPorts :: "env \<Rightarrow> string \<Rightarrow> string \<Rightarrow> (world, error option) prog" where
  "deleteLogicalPorts E name namespace w =
     (case GetOvnController w of
        Some e \<Rightarrow> Some (Some e, w)
      | None \<Rightarrow> do { (u, w) \<leftarrow> DeleteLogicalPorts E name namespace w; Some (None, w) })"

definition checkforsfc :: "env \<Rightarrow> Pod \<Rightarrow> (world, error option) prog" where
  "checkforsfc E pod w = do {
     (err, w) \<leftarrow> ask (env_kubeConfig E) w;
     (case err of
        Some e \<Rightarrow> Some (Some e, w)
      | None \<Rightarrow> do {
          (r, w) \<leftarrow> request (KubeGet KPod (pod_Namespace pod) (pod_Name pod)) (\<lambda>h. env_getPod E h (pod_Namespace pod) (pod_Name pod)) w;
          (case r of Inl e \<Rightarrow> Some (Some e, w) | Inr p \<Rightarrow> Some (None, w)) })
   }"

text \<open>The result of \<^verbatim>\<open>Reconcile\<close>: whether to requeue, and the error.\<close>

definition pod_Reconcile :: "env \<Rightarrow> string \<Rightarrow> string \<Rightarrow> (world, bool \<times> error option) prog" where
  "pod_Reconcile E ns name w = do {
     (r, w) \<leftarrow> request (KubeGet KPod ns name) (\<lambda>h. env_getPod E h ns name) w;
     (case r of
        Inl e \<Rightarrow>
          if IsNotFound e then do { (u, w) \<leftarrow> deleteLogicalPorts E name ns w; Some ((False, None), w) }
          else Some ((False, Some e), w)
      | Inr instance_ \<Rightarrow>
          if pod_Name instance_ = [] \<or> pod_Namespace instance_ = [] then Some ((False, None), w)
          else if om_Deleting (pod_Meta instance_) then do {
            (u, w) \<leftarrow> deleteLogicalPorts E (pod_Name instance_) (pod_Namespace instance_) w; Some ((False, None), w) }
          else if pod_HostNetwork instance_ then Some ((False, None), w)
          else if pod_NodeName instance_ = [] then Some ((True, None), w)
          else do {
            (err, w) \<leftarrow> addLogicalPorts E instance_ w;
            (if (case err of Some e \<Rightarrow> error_msg e = ''Failed to add ports'' | None \<Rightarrow> False) then Some ((False, err), w)
             else do { (err, w) \<leftarrow> checkforsfc E instance_ w; Some ((False, err), w) }) })
   }"

text \<open>The predicates on pod events, which also do the work for pods that have started running.\<close>

definition configureSFC :: "env \<Rightarrow> Pod \<Rightarrow> (world, unit) prog" where
  "configureSFC E obj w = do {
     ((result, pni, ri, err), w) \<leftarrow> ConfigureforSFC E (pod_Name obj) (pod_Namespace obj) w;
     (u, w) \<leftarrow> (if ri \<noteq> [] then SendRouteNotif E ri ''create'' w else Some (None, w));
     (u, w) \<leftarrow> (if pni \<noteq> [] then SendPodNetworkNotif E pni ''create'' w else Some (None, w));
     Some ((), w)
   }"

definition pod_UpdateFunc :: "env \<Rightarrow> Pod \<Rightarrow> (world, bool) prog" where
  "pod_UpdateFunc E obj w =
     (if map_of (pod_Annotations obj) Ovn4nfvAnnotationTag = None then Some (True, w)
      else if pod_Phase obj \<noteq> PodRunning then Some (False, w)
      else do {
        (err, w) \<leftarrow> (if map_of (pod_Annotations obj) NodusNetworkPolicyAnnotationTag = None then do {
             (err, w) \<leftarrow> RefreshNetworkPolicies E w;
             (if err \<noteq> None then Some (err, w)
              else do { (u, w) \<leftarrow> setPodAnnotation E obj NodusNetworkPolicyAnnotationTag ''true'' w; Some (None, w) }) }
           else Some (None, w));
        (if err \<noteq> None then Some (False, w)
         else if map_of (pod_Annotations obj) SFCannotationTag = None then do { (u, w) \<leftarrow> configureSFC E obj w; Some (False, w) }
         else Some (False, w)) })"

definition pod_DeleteFunc :: "env \<Rightarrow> (world, bool) prog" where
  "pod_DeleteFunc E w = do {
     (err, w) \<leftarrow> RefreshNetworkPolicies E w;
     Some (err = None, w)
   }"

section \<open>What the chaining operations request\<close>

text \<open>No operation below the controllers writes a custom resource.\<close>

interpretation silent: run_relation "grows (\<lambda>e. \<not> cr_write e)"
  by unfold_locales (auto simp: grows_def dest: grows_trans [unfolded grows_def])

lemmas CheckSFCPodLabelStatus_quiet = silent.CheckSFCPodLabelStatus_preserves [unfolded preserves_grows]
  and CheckNetForNetPool_quiet = silent.CheckNetForNetPool_preserves [unfolded preserves_grows]
  and CalculateRoutes_quiet = silent.CalculateRoutes_preserves [unfolded preserves_grows]
  and notify_quiet = silent.notify_preserves [unfolded preserves_grows]

section \<open>The contract of a finalizer\<close>

text \<open>
  The finalizers a request writes, if it writes the metadata of a custom resource, and the requests
  that leave a given list of finalizers as it is.
\<close>

fun written_finalizers :: "event \<Rightarrow> string list option" where
  "written_finalizers (UpdateNetworkCR n) = Some (om_Finalizers (nw_Meta n))"
| "written_finalizers (UpdateProviderCR p) = Some (om_Finalizers (pn_Meta p))"
| "written_finalizers (UpdateChainingCR c) = Some (om_Finalizers (nc_Meta c))"
| "written_finalizers e = None"

definition keeps :: "string list \<Rightarrow> event \<Rightarrow> bool" where
  "keeps fs e \<longleftrightarrow> written_finalizers e \<in> {None, Some fs}"

lemma not_write_keeps: "\<not> cr_write e \<Longrightarrow> keeps fs e"
  by (cases e) (simp_all add: keeps_def)

lemma quiet_keeps: "quiet m \<Longrightarrow> emits (keeps fs) m"
  by (erule emits_mono) (rule not_write_keeps)

text \<open>
  What a controller with a finalizer relies on: reading the metadata back gives what was set, the
  operations keep the metadata and write no other finalizers, and an object being deleted is not
  created.
\<close>

lemma utils_Contains_set: "utils_Contains xs x \<longleftrightarrow> x \<in> set xs"
  by (induction xs) auto

lemma utils_Remove_removeAll: "utils_Remove xs x = removeAll x xs"
  by (induction xs) auto

locale finalizer_controller =
  fixes meta :: "'o \<Rightarrow> ObjectMeta" and setMeta :: "ObjectMeta \<Rightarrow> 'o \<Rightarrow> 'o" and upd :: "'o \<Rightarrow> event" and fin :: string
    and del :: "env \<Rightarrow> 'o \<Rightarrow> (world, error option \<times> 'o) prog" and create :: "env \<Rightarrow> 'o \<Rightarrow> (world, error option \<times> 'o) prog"
    and k :: kind and get :: "env \<Rightarrow> history \<Rightarrow> string \<Rightarrow> string \<Rightarrow> error + 'o"
    and rec :: "env \<Rightarrow> string \<Rightarrow> string \<Rightarrow> (world, error option) prog"
  assumes rec_eq: "rec = reconcileObject (\<lambda>E ns name. request (KubeGet k ns name) (\<lambda>h. get E h ns name)) (finalize meta setMeta upd fin del) create"
    and meta_set: "meta (setMeta m x) = m"
    and del_meta: "del E x w = Some ((err, x'), w') \<Longrightarrow> meta x' = meta x"
    and del_keeps: "emits (keeps (om_Finalizers (meta x))) (del E x)"
    and create_keeps: "emits (keeps (om_Finalizers (meta x))) (create E x)"
    and create_deleting: "om_Deleting (meta x) \<Longrightarrow> create E x w = Some ((None, x), w)"
begin

lemma rec_found:
  assumes "get E (trace w) ns name = Inr x"
  shows "rec E ns name w = do {
     ((err, x), w) \<leftarrow> finalize meta setMeta upd fin del E x (w\<lparr>trace := trace w @ [KubeGet k ns name]\<rparr>);
     (case err of Some e \<Rightarrow> Some (Some e, w) | None \<Rightarrow> do { ((err, x), w) \<leftarrow> create E x w; Some (err, w) }) }"
  using assms by (simp add: rec_eq reconcileObject_def)

lemma rec_protects:
  assumes x: "get E (trace w) ns name = Inr x" "\<not> om_Deleting (meta x)" "fin \<notin> set (om_Finalizers (meta x))"
    and run: "rec E ns name w = Some (err, w')"
    and y: "y = setMeta ((meta x)\<lparr>om_Finalizers := om_Finalizers (meta x) @ [fin]\<rparr>) x"
  shows "\<exists>es. trace w' = trace w @ KubeGet k ns name # upd y # es \<and> (\<forall>e \<in> set es. keeps (om_Finalizers (meta x) @ [fin]) e) \<and>
     (\<forall>e. env_write E (trace w @ [KubeGet k ns name]) (upd y) = Some e \<longrightarrow> es = [] \<and> err = Some e)"
proof (cases "env_write E (trace w @ [KubeGet k ns name]) (upd y)")
  case None
  let ?v = "w\<lparr>trace := trace w @ [KubeGet k ns name, upd y]\<rparr>"
  from None run x y obtain z where "create E y ?v = Some ((err, z), w')"
    by (auto simp: rec_found finalize_def utils_Contains_set kube_write_def Let_def run_conv)
  from emitsD [OF create_keeps this] None y show ?thesis by (auto simp: meta_set)
next
  case (Some e)
  with run x y show ?thesis by (auto simp: rec_found finalize_def utils_Contains_set kube_write_def Let_def run_conv)
qed

lemma rec_cleans_up:
  assumes x: "get E (trace w) ns name = Inr x" "om_Deleting (meta x)" "fin \<in> set (om_Finalizers (meta x))"
    and run: "rec E ns name w = Some (err, w')"
  shows "\<exists>derr z v y es. del E x (w\<lparr>trace := trace w @ [KubeGet k ns name]\<rparr>) = Some ((derr, z), v) \<and>
     trace v = trace w @ KubeGet k ns name # es \<and> trace w' = trace v @ [upd y] \<and> (\<forall>e \<in> set es. keeps (om_Finalizers (meta x)) e) \<and>
     om_Finalizers (meta y) = removeAll fin (om_Finalizers (meta x)) \<and> err = env_write E (trace v) (upd y)"
proof -
  let ?v = "w\<lparr>trace := trace w @ [KubeGet k ns name]\<rparr>"
  from run x obtain derr z v where d: "del E x ?v = Some ((derr, z), v)"
    by (auto simp: rec_found finalize_def utils_Contains_set run_conv)
  define y where "y = setMeta ((meta z)\<lparr>om_Finalizers := removeAll fin (om_Finalizers (meta z))\<rparr>) z"
  have m: "meta z = meta x" by (rule del_meta [OF d])
  then have "om_Deleting (meta y)" "om_Finalizers (meta y) = removeAll fin (om_Finalizers (meta x))" using x by (simp_all add: y_def meta_set)
  moreover from this run x d have "err = env_write E (trace v) (upd y)" "trace w' = trace v @ [upd y]"
    by (auto simp: rec_found finalize_def utils_Contains_set utils_Remove_removeAll kube_write_def Let_def y_def [symmetric] create_deleting
        run_conv)
  moreover from emitsD [OF del_keeps d] obtain es where "trace v = trace w @ KubeGet k ns name # es" "\<forall>e \<in> set es. keeps (om_Finalizers (meta x)) e" by auto
  ultimately show ?thesis using d by blast
qed

lemma rec_nothing_left:
  assumes "get E (trace w) ns name = Inr x" "om_Deleting (meta x)" "fin \<notin> set (om_Finalizers (meta x))"
  shows "rec E ns name w = Some (None, w\<lparr>trace := trace w @ [KubeGet k ns name]\<rparr>)"
  using assms by (simp add: rec_found finalize_def utils_Contains_set create_deleting)

end

text \<open>The operations of the three controllers keep the contract.\<close>

lemma nbctl_keeps: "nbctl args e \<Longrightarrow> keeps fs e"
  by (auto simp: nbctl_def keeps_def)

lemma emits_GetOvnController [emits_intros]:
  "(\<And>e. emits P (m e)) \<Longrightarrow> emits P n \<Longrightarrow> emits P (\<lambda>w. case GetOvnController w of Some e \<Rightarrow> m e w | None \<Rightarrow> n w)"
  by (auto simp: emits_def split: option.splits)

lemma createOvnLS_keeps: "emits (keeps fs) (createOvnLS E name s4 g4 ex s6 g6)"
  by (rule emits_mono [OF createOvnLS_emits]) (auto dest: nbctl_keeps)

lemma ovn_keeps:
  "emits (keeps fs) (createNetwork E name sn rp)" "emits (keeps fs) (createProviderNetwork E name sn)"
  "emits (keeps fs) (deleteLogicalSwitch E name)" "emits (keeps fs) (deleteLogicalRouterPort E name)"
  unfolding createNetwork_def [abs_def] createProviderNetwork_def [abs_def] deleteLogicalSwitch_def [abs_def] deleteLogicalRouterPort_def [abs_def] Let_def
  by (intro emits_intros createOvnLS_keeps; auto dest: nbctl_keeps)+

lemma Controller_keeps:
  "emits (keeps fs) (Controller_CreateNetwork E n)" "emits (keeps fs) (Controller_DeleteNetwork E n)"
  "emits (keeps fs) (Controller_CreateProviderNetwork E p)" "emits (keeps fs) (Controller_DeleteProviderNetwork E p)"
  unfolding Controller_CreateNetwork_def [abs_def] Controller_DeleteNetwork_def [abs_def] Controller_CreateProviderNetwork_def [abs_def]
    Controller_DeleteProviderNetwork_def [abs_def] Let_def
  by (intro emits_intros ovn_keeps)+

lemma SendNotif_keeps: "emits (keeps (om_Finalizers (pn_Meta pn))) (SendNotif E pn t n)"
  unfolding SendNotif_def [abs_def] sendSelected_def updatePnStatus_def
  by (intro emits_intros sendMsg_sends) (simp_all add: keeps_def)

lemma network_keeps:
  "emits (keeps fs) (network_createNetwork E cr)" "emits (keeps fs) (network_deleteNetwork E cr)"
  unfolding network_createNetwork_def [abs_def] network_deleteNetwork_def [abs_def] Let_def
  by (intro emits_intros Controller_keeps; simp add: keeps_def)+

lemma provider_keeps:
  "emits (keeps (om_Finalizers (pn_Meta p))) (provider_createNetwork E p)"
  "emits (keeps (om_Finalizers (pn_Meta p))) (provider_deleteNetwork E p)"
  unfolding provider_createNetwork_def [abs_def] provider_deleteNetwork_def [abs_def] Let_def
  by (intro emits_intros Controller_keeps SendNotif_keeps; simp add: keeps_def)+

text \<open>
  Waiting for the pods of a chain ends with an error and nothing written, or with the status
  \<open>Creating\<close> written last.
\<close>

abbreviation silent :: "world \<Rightarrow> world \<Rightarrow> bool" where
  "silent \<equiv> grows (\<lambda>e. \<not> cr_write e)"

definition waited :: "env \<Rightarrow> NetworkChaining \<Rightarrow> world \<Rightarrow> (error option \<times> NetworkChaining) \<times> world \<Rightarrow> bool" where
  "waited E cr w y \<longleftrightarrow> ((\<exists>e. fst y = (Some e, cr)) \<and> silent w (snd y)) \<or>
     (\<exists>v. silent w v \<and> snd (fst y) = cr\<lparr>nc_State := Creating\<rparr> \<and> snd y = v\<lparr>trace := trace v @ [StatusChainingCR (cr\<lparr>nc_State := Creating\<rparr>)]\<rparr>)"

lemma waited_trans: "silent w v \<Longrightarrow> waited E cr v y \<Longrightarrow> waited E cr w y"
  unfolding waited_def by (blast intro: grows_trans)

lemma waitChain_waited:
  assumes "waitChain E cr w = Some y"
  shows "waited E cr w y"
proof (rule waitChain.raw_induct [of waited, OF _ assms])
  fix rec E cr w y
  assume IH: "\<And>E cr w y. rec E cr w = Some y \<Longrightarrow> waited E cr w y"
    and body: "Option.bind (CheckSFCPodLabelStatus E cr w) (\<lambda>(r, w). case r of Inl e \<Rightarrow> Some ((Some e, cr), w) | Inr ps \<Rightarrow> if ps then do {
            let cr = cr\<lparr>nc_State := Creating\<rparr>;
            (err, w) \<leftarrow> kube_write E (StatusChainingCR cr) w;
            Some ((err, cr), w) } else rec E cr w) = Some y"
  from body obtain r v where r: "CheckSFCPodLabelStatus E cr w = Some (r, v)"
    and k: "(case r of Inl e \<Rightarrow> Some ((Some e, cr), v) | Inr ps \<Rightarrow> if ps then do {
            let cr = cr\<lparr>nc_State := Creating\<rparr>;
            (err, w) \<leftarrow> kube_write E (StatusChainingCR cr) v;
            Some ((err, cr), w) } else rec E cr v) = Some y"
    by (auto simp: bind_eq_Some_conv)
  have s: "silent w v" by (rule emits_growsD [OF CheckSFCPodLabelStatus_quiet r])
  from k consider e where "y = ((Some e, cr), v)"
    | err where "y = ((err, cr\<lparr>nc_State := Creating\<rparr>), v\<lparr>trace := trace v @ [StatusChainingCR (cr\<lparr>nc_State := Creating\<rparr>)]\<rparr>)"
    | "rec E cr v = Some y"
    by (auto simp: kube_write_def Let_def split: sum.splits if_splits)
  then show "waited E cr w y"
  proof cases
    case 3
    from waited_trans [OF s IH [OF this]] show ?thesis .
  qed (use s in \<open>auto simp: waited_def\<close>)
qed

lemma waitChain_writes: "emits (\<lambda>e. \<not> cr_write e \<or> e = StatusChainingCR (cr\<lparr>nc_State := Creating\<rparr>)) (waitChain E cr)"
  unfolding emits_grows by (auto dest!: waitChain_waited simp: waited_def grows_def)

lemma chain_keeps: "emits (keeps fs) (createChain E cr)" "emits (keeps fs) (deleteChain E cr)"
proof -
  have q: "quiet m \<Longrightarrow> emits (keeps fs) m" for m :: "(world, 'a) prog" by (rule quiet_keeps)
  have "emits (keeps fs) (waitChain E cr)" for cr
    by (rule emits_mono [OF waitChain_writes]) (auto simp: keeps_def dest: not_write_keeps)
  then show "emits (keeps fs) (createChain E cr)" 
    unfolding createChain_def [abs_def] checkChain_def [abs_def] Let_def
    by (intro emits_intros quiet_keeps [OF CalculateRoutes_quiet] quiet_keeps [OF CheckNetForNetPool_quiet] quiet_keeps [OF CheckSFCPodLabelStatus_quiet]
     notify_quiet [THEN quiet_keeps]) (simp_all add: keeps_def)
  show "emits (keeps fs) (deleteChain E cr)"
    unfolding deleteChain_def [abs_def] Let_def
    by (intro emits_intros quiet_keeps [OF CalculateRoutes_quiet] notify_quiet [THEN quiet_keeps]) (simp_all add: keeps_def)
qed

interpretation network_fin: finalizer_controller nw_Meta "\<lambda>m cr. cr\<lparr>nw_Meta := m\<rparr>" UpdateNetworkCR nfnNetworkFinalizer
  network_deleteNetwork network_createNetwork KNetwork env_getNetwork network_Reconcile
proof unfold_locales
  fix E x w err x' w'
  assume "network_deleteNetwork E x w = Some ((err, x'), w')"
  then show "nw_Meta x' = nw_Meta x" by (auto simp: network_deleteNetwork_def Let_def run_conv)
qed (simp_all add: network_Reconcile_def network_reconcileFinalizers_def [abs_def] network_keeps, simp add: network_createNetwork_def)

interpretation provider_fin: finalizer_controller pn_Meta "\<lambda>m cr. cr\<lparr>pn_Meta := m\<rparr>" UpdateProviderCR nfnProviderNetworkFinalizer
  provider_deleteNetwork provider_createNetwork KProviderNetwork env_getProvider provider_Reconcile
proof unfold_locales
  fix E x w err x' w'
  assume "provider_deleteNetwork E x w = Some ((err, x'), w')"
  then show "pn_Meta x' = pn_Meta x" by (auto simp: provider_deleteNetwork_def Let_def run_conv)
qed (simp_all add: provider_Reconcile_def provider_reconcileFinalizers_def [abs_def] provider_keeps, simp add: provider_createNetwork_def)

interpretation chain_fin: finalizer_controller nc_Meta "\<lambda>m cr. cr\<lparr>nc_Meta := m\<rparr>" UpdateChainingCR nfnNetworkChainFinalizer
  deleteChain createChain KNetworkChaining env_getChaining chaining_Reconcile
proof unfold_locales
  fix E x w err x' w'
  assume "deleteChain E x w = Some ((err, x'), w')"
  then show "nc_Meta x' = nc_Meta x" by (auto simp: deleteChain_def Let_def run_conv)
qed (simp_all add: chaining_Reconcile_def chaining_reconcileFinalizers_def [abs_def] chain_keeps, simp add: createChain_def)

text \<open>
  C26.  A network that carries no finalizer yet is protected before anything is created for it:
  after reading it, the first request of \<^verbatim>\<open>Reconcile\<close> writes it back with the finalizer
  appended, no later request takes the finalizer away, and when the write fails nothing else is
  requested and the failure is returned.
\<close>

theorem network_Reconcile_protects:
  assumes "env_getNetwork E (trace w) ns name = Inr cr" and "\<not> om_Deleting (nw_Meta cr)"
    and "nfnNetworkFinalizer \<notin> set (om_Finalizers (nw_Meta cr))" and "network_Reconcile E ns name w = Some (err, w')"
    and "cr' = cr\<lparr>nw_Meta := (nw_Meta cr)\<lparr>om_Finalizers := om_Finalizers (nw_Meta cr) @ [nfnNetworkFinalizer]\<rparr>\<rparr>"
  shows "\<exists>es. trace w' = trace w @ KubeGet KNetwork ns name # UpdateNetworkCR cr' # es \<and>
     (\<forall>e \<in> set es. keeps (om_Finalizers (nw_Meta cr')) e) \<and>
     (\<forall>e. env_write E (trace w @ [KubeGet KNetwork ns name]) (UpdateNetworkCR cr') = Some e \<longrightarrow> es = [] \<and> err = Some e)"
  using network_fin.rec_protects [OF assms] assms(5) by simp

text \<open>
  C27.  Deleting a chain: the deletion runs first and takes no finalizer away; whatever it
  returns, the last request then removes the finalizer, every occurrence of it and no other, and
  the answer to that request is the result.  The chain is not created again.
\<close>

theorem chaining_Reconcile_cleans_up:
  assumes "env_getChaining E (trace w) ns name = Inr cr" and "om_Deleting (nc_Meta cr)"
    and "nfnNetworkChainFinalizer \<in> set (om_Finalizers (nc_Meta cr))" and "chaining_Reconcile E ns name w = Some (err, w')"
  shows "\<exists>derr cr1 v cr2 es.
     deleteChain E cr (w\<lparr>trace := trace w @ [KubeGet KNetworkChaining ns name]\<rparr>) = Some ((derr, cr1), v) \<and>
     trace v = trace w @ KubeGet KNetworkChaining ns name # es \<and> trace w' = trace v @ [UpdateChainingCR cr2] \<and>
     (\<forall>e \<in> set es. keeps (om_Finalizers (nc_Meta cr)) e) \<and>
     om_Finalizers (nc_Meta cr2) = removeAll nfnNetworkChainFinalizer (om_Finalizers (nc_Meta cr)) \<and>
     err = env_write E (trace v) (UpdateChainingCR cr2)"
  by (rule chain_fin.rec_cleans_up [OF assms])


definition fin_meta :: "bool \<Rightarrow> string list \<Rightarrow> ObjectMeta" where
  "fin_meta d fs = \<lparr>om_Name = ''n'', om_Namespace = ''default'', om_Labels = None, om_Annotations = [], om_Finalizers = fs, om_Deleting = d, om_Generation = 1\<rparr>"

definition fin_net :: "string list \<Rightarrow> Network" where
  "fin_net fs = \<lparr>nw_Meta = fin_meta False fs, nw_CniType = ''ovn4nfv'', nw_Ipv4Subnets = [], nw_Ipv6Subnets = [], nw_State = []\<rparr>"

lemma protects_run:
  "case network_Reconcile (null_env\<lparr>env_getNetwork := (\<lambda>h ns n. Inr (fin_net [''other'']))\<rparr>) ''default'' ''n'' (exec_world\<lparr>gatewayCache := Some []\<rparr>) of
     Some (err, w) \<Rightarrow> err = None \<and> length (trace w) = 3 | None \<Rightarrow> False"
  by code_simp

theorem network_Reconcile_protects_witness:
  "\<exists>w' es. network_Reconcile (null_env\<lparr>env_getNetwork := (\<lambda>h ns n. Inr (fin_net [''other'']))\<rparr>) ''default'' ''n''
       (exec_world\<lparr>gatewayCache := Some []\<rparr>) = Some (None, w') \<and>
     trace w' = KubeGet KNetwork ''default'' ''n'' # UpdateNetworkCR (fin_net [''other'', nfnNetworkFinalizer]) # es \<and>
     es \<noteq> [] \<and> (\<forall>e \<in> set es. keeps [''other'', nfnNetworkFinalizer] e)"
proof -
  let ?E = "null_env\<lparr>env_getNetwork := (\<lambda>h ns n. Inr (fin_net [''other'']))\<rparr>" and ?w = "exec_world\<lparr>gatewayCache := Some []\<rparr>"
  from protects_run obtain w' where w': "network_Reconcile ?E ''default'' ''n'' ?w = Some (None, w')" "length (trace w') = 3"
    by (auto split: option.splits)
  have "trace ?w = []" by (simp add: exec_world_def init_world_def)
  with network_Reconcile_protects [of ?E ?w "''default''" "''n''" "fin_net [''other'']" None w' "fin_net [''other'', nfnNetworkFinalizer]"] w'
  show ?thesis by (auto simp: fin_net_def fin_meta_def nfnNetworkFinalizer_def)
qed

definition fin_chain :: NetworkChaining where
  "fin_chain = \<lparr>nc_Meta = fin_meta True [nfnNetworkChainFinalizer, ''other''], nc_ChainType = ''Bridge'', nc_LeftNetwork = [], nc_RightNetwork = [],
     nc_NetworkChain = [], nc_State = Created\<rparr>"

theorem chaining_Reconcile_cleans_up_witness:
  "\<exists>w' cr. chaining_Reconcile (null_env\<lparr>env_getChaining := (\<lambda>h ns n. Inr fin_chain)\<rparr>) ''default'' ''n'' exec_world = Some (None, w') \<and>
     trace w' = [KubeGet KNetworkChaining ''default'' ''n'', UpdateChainingCR cr] \<and> om_Finalizers (nc_Meta cr) = [''other'']"
proof -
  let ?E = "null_env\<lparr>env_getChaining := (\<lambda>h ns n. Inr fin_chain)\<rparr>"
  have w: "trace exec_world = []" "env_write null_env h e = None" for h e by (simp_all add: exec_world_def init_world_def null_env_def)
  have d: "deleteChain ?E fin_chain v = Some ((Some (Errorf ''Chaining type not supported''), fin_chain), v)" for v
    by (simp add: deleteChain_def fin_chain_def Created_def Deleted_def)
  have m: "om_Deleting (nc_Meta fin_chain)" "om_Finalizers (nc_Meta fin_chain) = [nfnNetworkChainFinalizer, ''other'']"
    by (simp_all add: fin_chain_def fin_meta_def)
  have g: "env_getChaining ?E (trace exec_world) ''default'' ''n'' = Inr fin_chain" by simp
  obtain err w' where r: "chaining_Reconcile ?E ''default'' ''n'' exec_world = Some (err, w')"
    unfolding chain_fin.rec_found [OF g] by (simp add: finalize_def m d utils_Contains_set createChain_def kube_write_def Let_def w)
  from chaining_Reconcile_cleans_up [OF g m(1) _ r] d w r m show ?thesis
    by (auto simp: nfnNetworkChainFinalizer_def)
qed

section \<open>The life of a chain\<close>

text \<open>The states of the chain that a history writes.\<close>

fun chain_state :: "event \<Rightarrow> string option" where
  "chain_state (StatusChainingCR c) = Some (nc_State c)"
| "chain_state e = None"

definition chain_states :: "history \<Rightarrow> string list" where
  "chain_states es = List.map_filter chain_state es"

text \<open>One attempt to create a chain: \<open>None\<close> is its start.\<close>

inductive chain_step :: "string option \<Rightarrow> string \<Rightarrow> bool" where
  wait: "chain_step None Pending"
| ready: "chain_step None Creating"
| go: "chain_step (Some Pending) Creating"
| succeed: "chain_step (Some Creating) Created"
| fail: "chain_step (Some Creating) CreateInternalError"

inductive chain_path :: "string option \<Rightarrow> string list \<Rightarrow> bool" where
  stop: "chain_path s []"
| step: "chain_step s t \<Longrightarrow> chain_path (Some t) ts \<Longrightarrow> chain_path s (t # ts)"

inductive_simps chain_path_Cons [simp]: "chain_path s (t # ts)"

declare chain_step.intros [simp] chain_path.stop [simp]

lemma chain_states_append [simp]: "chain_states (a @ b) = chain_states a @ chain_states b"
  by (simp add: chain_states_def List.map_filter_def)

lemma chain_states_Nil [simp]: "chain_states [] = []"
  by (simp add: chain_states_def List.map_filter_def)

lemma chain_states_status [simp]: "chain_states [StatusChainingCR c] = [nc_State c]"
  by (simp add: chain_states_def List.map_filter_def)

lemma chain_states_quiet: "\<forall>e \<in> set es. \<not> cr_write e \<Longrightarrow> chain_states es = []"
proof -
  have "\<not> cr_write e \<Longrightarrow> chain_state e = None" for e by (cases e) simp_all
  then show "\<forall>e \<in> set es. \<not> cr_write e \<Longrightarrow> chain_states es = []"
    by (induction es) (auto simp: chain_states_def List.map_filter_def)
qed

text \<open>A run that writes the states \<open>ss\<close>.\<close>

definition writes :: "string list \<Rightarrow> world \<Rightarrow> world \<Rightarrow> bool" where
  "writes ss w v \<longleftrightarrow> (\<exists>es. trace v = trace w @ es \<and> chain_states es = ss)"

lemma silent_writes: "silent w v \<Longrightarrow> writes [] w v"
  unfolding grows_def writes_def by (metis chain_states_quiet)

lemma writes_trans: "writes ss u v \<Longrightarrow> writes ts v w \<Longrightarrow> writes (ss @ ts) u w"
  unfolding writes_def by (metis append_assoc chain_states_append)

lemma writes_quiet: "quiet m \<Longrightarrow> m v = Some (a, w) \<Longrightarrow> writes ss u v \<Longrightarrow> writes ss u w"
  using writes_trans [of ss u v "[]" w] by (metis append_Nil2 emits_growsD silent_writes)

lemma writes_status: "writes ss u v \<Longrightarrow> writes (ss @ [nc_State c]) u (v\<lparr>trace := trace v @ [StatusChainingCR c]\<rparr>)"
  unfolding writes_def by auto

lemma writes_refl [simp]: "writes [] w w"
  by (simp add: writes_def)

lemma checkChain_states:
  assumes "checkChain E cr w = Some ((err, cr'), w')"
  shows "\<exists>ss. writes ss w w' \<and> chain_path None ss \<and> (err = None \<longrightarrow> ss \<in> {[Creating], [Pending, Creating]} \<and> nc_State cr' = Creating)"
proof -
  from assms obtain e v where v: "CheckNetForNetPool E cr w = Some (e, v)"
    and k: "(case e of Some e \<Rightarrow> Some ((Some e, cr), v) | None \<Rightarrow> do {
     (r, w) \<leftarrow> CheckSFCPodLabelStatus E cr v;
     (case r of Inl e \<Rightarrow> Some ((Some e, cr), w) | Inr podStatus \<Rightarrow> do {
     let cr = cr\<lparr>nc_State := (if podStatus then Creating else Pending)\<rparr>;
     (err, w) \<leftarrow> kube_write E (StatusChainingCR cr) w;
     (case err of
        Some e \<Rightarrow> Some ((Some e, cr), w)
      | None \<Rightarrow> if podStatus then Some ((None, cr), w) else waitChain E cr w) }) }) = Some ((err, cr'), w')"
    by (auto simp: checkChain_def bind_eq_Some_conv)
  have wv: "writes [] w v" by (rule silent_writes [OF emits_growsD [OF CheckNetForNetPool_quiet v]])
  show ?thesis
  proof (cases e)
    case (Some x)
    with k wv show ?thesis by (intro exI [of _ "[]"]) auto
  next
    case None
    with k obtain r u where u: "CheckSFCPodLabelStatus E cr v = Some (r, u)" by (auto simp: bind_eq_Some_conv)
    have wu: "writes [] w u" by (rule writes_quiet [OF CheckSFCPodLabelStatus_quiet u wv])
    show ?thesis
    proof (cases r)
      case (Inl x)
      with k None u wu show ?thesis by (intro exI [of _ "[]"]) auto
    next
      case (Inr ready)
      define c where "c = cr\<lparr>nc_State := (if ready then Creating else Pending)\<rparr>"
      define t where "t = u\<lparr>trace := trace u @ [StatusChainingCR c]\<rparr>"
      have wt: "writes [nc_State c] w t" using writes_status [OF wu, of c] by (simp add: t_def)
      have first: "chain_step None (nc_State c)" by (auto simp: c_def)
      from k None u Inr have "(case env_write E (trace u) (StatusChainingCR c) of Some e \<Rightarrow> Some ((Some e, c), t)
         | None \<Rightarrow> if ready then Some ((None, c), t) else waitChain E c t) = Some ((err, cr'), w')"
        unfolding c_def t_def by (simp add: kube_write_def Let_def)
      then consider "err \<noteq> None" "w' = t" | "ready" "cr' = c" "w' = t" | "\<not> ready" "waitChain E c t = Some ((err, cr'), w')"
        by (auto split: option.splits if_splits) metis
      then show ?thesis
      proof cases
        case 3
        from waitChain_waited [OF 3(2)] consider "err \<noteq> None" "silent t w'"
          | s where "silent t s" "cr' = c\<lparr>nc_State := Creating\<rparr>" "w' = s\<lparr>trace := trace s @ [StatusChainingCR (c\<lparr>nc_State := Creating\<rparr>)]\<rparr>"
          by (auto simp: waited_def)
        then show ?thesis
        proof cases
          case 1
          from writes_trans [OF wt silent_writes [OF 1(2)]] 1 first show ?thesis by (intro exI [of _ "[nc_State c]"]) auto
        next
          case 2
          from writes_status [OF writes_trans [OF wt silent_writes [OF 2(1)]], of "c\<lparr>nc_State := Creating\<rparr>"] 2 3(1)
          show ?thesis by (intro exI [of _ "[Pending, Creating]"]) (auto simp: c_def)
        qed
      qed (use wt first in \<open>auto simp: c_def intro!: exI [of _ "[nc_State c]"]\<close>)
    qed
  qed
qed


text \<open>The last part of \<^verbatim>\<open>createChain\<close> writes one state, after requests that write none.\<close>

lemma createChain_split:
  assumes "createChain E cr w = Some ((err, cr'), w')" and "\<not> om_Deleting (nc_Meta cr)" and "nc_State cr \<noteq> Created"
    and "nc_ChainType cr = ''Routing''"
  obtains e c where "checkChain E cr w = Some ((Some e, c), w')" and "err = Some e"
  | c v where "checkChain E cr w = Some ((None, c), v)" and "silent v w'" and "err \<noteq> None"
  | c v u where "checkChain E cr w = Some ((None, c), v)" and "silent v u" and "nc_State cr' \<in> {Created, CreateInternalError}"
      and "w' = u\<lparr>trace := trace u @ [StatusChainingCR cr']\<rparr>"
proof -
  from assms obtain e c v where c: "checkChain E cr w = Some ((e, c), v)"
    by (auto simp: createChain_def bind_eq_Some_conv)
  show thesis
  proof (cases e)
    case (Some x)
    with c assms that(1) show thesis by (auto simp: createChain_def)
  next
    case None
    with c assms obtain r t where r: "CalculateRoutes E c False False v = Some (r, t)"
      by (auto simp: createChain_def bind_eq_Some_conv)
    have vt: "silent v t" by (rule emits_growsD [OF CalculateRoutes_quiet r])
    show thesis
    proof (cases r)
      case (Inl x)
      with None c r assms that(2) vt show thesis by (auto simp: createChain_def)
    next
      case (Inr p)
      with None c r assms obtain rerr s where s: "SendRouteNotif E (snd p) ''create'' t = Some (rerr, s)"
        by (auto simp: createChain_def bind_eq_Some_conv split_def)
      have vs: "silent v s" by (rule grows_trans [OF vt emits_growsD [OF notify_quiet(1) s]])
      show thesis
      proof (cases rerr)
        case None
        with \<open>e = None\<close> c r s Inr assms obtain perr u where u: "SendPodNetworkNotif E (fst p) ''create'' s = Some (perr, u)"
          by (auto simp: createChain_def bind_eq_Some_conv split_def Let_def Created_def CreateInternalError_def)
        have vu: "silent v u" by (rule grows_trans [OF vs emits_growsD [OF notify_quiet(3) u]])
        from None \<open>e = None\<close> c r s u Inr assms that(3) [OF _ vu] show thesis
          by (auto simp: createChain_def kube_write_def split_def Let_def Created_def CreateInternalError_def)
      next
        case (Some x)
        with \<open>e = None\<close> c r s Inr assms that(3) [OF _ vs] show thesis
          by (auto simp: createChain_def kube_write_def split_def Let_def Created_def CreateInternalError_def)
      qed
    qed
  qed
qed

text \<open>
  C28.  The states one attempt to create a chain writes form a path of the state machine
  \<open>chain_step\<close>: at most once \<open>Pending\<close>, then \<open>Creating\<close>, then one final state.  When the
  attempt reports no error the path reaches \<open>Created\<close> or \<open>CreateInternalError\<close>, and that is the
  state of the object returned.
\<close>

theorem createChain_states:
  assumes "createChain E cr w = Some ((err, cr'), w')" and "\<not> om_Deleting (nc_Meta cr)" and "nc_State cr \<noteq> Created"
  shows "chain_path None (chain_states (new_events w w')) \<and>
     (err = None \<longrightarrow> (\<exists>ss. chain_states (new_events w w') = ss @ [Creating, nc_State cr'] \<and> nc_State cr' \<in> {Created, CreateInternalError}))"
proof (cases "nc_ChainType cr = ''Routing''")
  case False
  with assms show ?thesis by (auto simp: createChain_def new_events_def)
next
  case True
  have new: "chain_states (new_events w w') = ss" if "writes ss w w'" for ss using that by (auto simp: writes_def new_events_def)
  from assms(1-3) True show ?thesis
  proof (cases rule: createChain_split)
    case (1 e c)
    with checkChain_states [OF 1(1)] new show ?thesis by auto
  next
    case (2 c v)
    from checkChain_states [OF 2(1)] obtain ss where ss: "writes ss w v" "chain_path None ss" by auto
    from writes_trans [OF ss(1) silent_writes [OF 2(2)]] new 2(3) ss(2) show ?thesis by auto
  next
    case (3 c v u)
    from checkChain_states [OF 3(1)] obtain ss where ss: "writes ss w v" "ss \<in> {[Creating], [Pending, Creating]}" by auto
    from writes_status [OF writes_trans [OF ss(1) silent_writes [OF 3(2)]], of cr'] 3(4)
    have "writes (ss @ [nc_State cr']) w w'" by simp
    then have "chain_states (new_events w w') = ss @ [nc_State cr']" by (rule new)
    with ss(2) 3(3) show ?thesis by auto
  qed
qed

definition live_chain :: NetworkChaining where
  "live_chain = end_chain\<lparr>nc_Meta := fin_meta False [nfnNetworkChainFinalizer]\<rparr>"

lemma live_chain_run:
  "case createChain chain_env live_chain (exec_world\<lparr>clientList := Some []\<rparr>) of
     Some ((err, cr), w) \<Rightarrow> err = None \<and> chain_states (trace w) = [Creating, Created] | None \<Rightarrow> False"
  by code_simp

theorem createChain_states_witness:
  "\<exists>cr' w' ss. createChain chain_env live_chain (exec_world\<lparr>clientList := Some []\<rparr>) = Some ((None, cr'), w') \<and>
     chain_states (trace w') = ss @ [Creating, nc_State cr']"
proof -
  let ?w = "exec_world\<lparr>clientList := Some []\<rparr>"
  have l: "\<not> om_Deleting (nc_Meta live_chain)" "nc_State live_chain \<noteq> Created"
    by (simp_all add: live_chain_def end_chain_def demo_chain_def fin_meta_def Created_def)
  from live_chain_run obtain cr' w' where r: "createChain chain_env live_chain ?w = Some ((None, cr'), w')"
    by (auto split: option.splits prod.splits)
  have "new_events ?w w' = trace w'" by (simp add: new_events_def exec_world_def init_world_def)
  with createChain_states [OF r l] r show ?thesis by auto
qed

section \<open>What the controllers report\<close>

text \<open>
  A deletion whose routes could not be withdrawn is still recorded as \<open>Deleted\<close> when the pod
  networks could: the state checked in between is the one of a failed creation.
\<close>

lemma deleteChain_hides_route_error:
  assumes "nc_State cr \<noteq> Deleted" and "nc_ChainType cr = ''Routing''"
    and "CalculateRoutes E cr True False w = Some (Inr (pl, rl), w1)"
    and "SendDeleteRouteNotif E rl ''delete'' w1 = Some (Some e, w2)"
    and "SendDeletePodNetworkNotif E pl ''delete'' w2 = Some (None, w3)"
  shows "\<exists>err w'. deleteChain E cr w = Some ((err, cr\<lparr>nc_State := Deleted\<rparr>), w') \<and> last (trace w') = StatusChainingCR (cr\<lparr>nc_State := Deleted\<rparr>)"
  using assms by (simp add: deleteChain_def Let_def kube_write_def DeleteInternalError_def CreateInternalError_def)

text \<open>When OVN fails to create a provider network nothing is written and no error is returned.\<close>

lemma provider_createNetwork_hides_error:
  assumes "\<not> om_Deleting (pn_Meta cr)" and "pn_CniType cr = ovn4nfv" and "GetOvnController w = None"
    and "Controller_CreateProviderNetwork E cr w = Some (Some e, w')" and "e \<noteq> lsExists"
  shows "\<exists>cr'. provider_createNetwork E cr w = Some ((None, cr'), w')"
  using assms by (simp add: provider_createNetwork_def)

text \<open>
  A pod that arrives before the OVN controller is ready gets no port, and is neither reported
  as failed nor queued again when the API server still has it.
\<close>

lemma pod_Reconcile_forgets:
  assumes "env_getPod E (trace w) ns name = Inr p" and "pod_Name p \<noteq> []" "pod_Namespace p \<noteq> []" and "\<not> om_Deleting (pod_Meta p)"
    and "\<not> pod_HostNetwork p" and "pod_NodeName p \<noteq> []" and "map_of (pod_Annotations p) nfnNetAnnotation = None"
    and "GetOvnController w = Some e" and "\<And>h. env_kubeConfig E h = None" and "\<And>h. env_getPod E h (pod_Namespace p) (pod_Name p) = Inr p"
  shows "\<exists>w'. pod_Reconcile E ns name w = Some ((False, None), w')"
proof -
  from assms(8) have "GetOvnController (w\<lparr>trace := t\<rparr>) = Some e" "error_msg e = ''OVN Controller not initialized''" for t
    by (auto simp: GetOvnController_def split: option.splits)
  with assms show ?thesis
    by (simp add: pod_Reconcile_def addLogicalPorts_def readPodAnnotation_def enableOvnDefaultIntf_def checkforsfc_def)
qed

end
