(* ===== verification/Operator_Main.thy ===== *)
theory Operator_Main
  imports Reconcilers Nodus_Auth
begin

text \<open>
  The operator process: \<^verbatim>\<open>cmd/nfn-operator/nfn-operator.go\<close>, the registration of the API
  types and of the five controllers (\<^verbatim>\<open>pkg/apis\<close>, \<^verbatim>\<open>pkg/controller/controller.go\<close>,
  the \<^verbatim>\<open>add\<close> functions), \<^verbatim>\<open>SetupNotifServer\<close>, and the callbacks that
  controller-runtime and gRPC make once the process runs.  The manager of controller-runtime, the
  listener and the gRPC server are parameters; a callback is atomic, and the callbacks of the
  controllers, the goroutine that sets up the server and the subscriptions interleave in any order.
\<close>

record operator_env =
  op_GetConfig :: "history \<Rightarrow> error option"
  op_NodusClientset :: "history \<Rightarrow> error option"
  op_KubeClientset :: "history \<Rightarrow> error option"
  op_Listen :: "history \<Rightarrow> string \<Rightarrow> error option"
  op_Serve :: "history \<Rightarrow> bool \<Rightarrow> error option option"
  op_NewManager :: "history \<Rightarrow> error option"
  op_AddToScheme :: "history \<Rightarrow> string \<times> string \<Rightarrow> string list \<Rightarrow> error option"
  op_NewController :: "history \<Rightarrow> string \<Rightarrow> error option"
  op_Watch :: "history \<Rightarrow> kind \<Rightarrow> error option"
  op_Start :: "history \<Rightarrow> error option"
  op_getPolicy :: "history \<Rightarrow> string \<Rightarrow> string \<Rightarrow> error + NetworkPolicy"
  op_flannel :: flannel

section \<open>Registration of the API types\<close>

definition SchemeGroupVersion :: "string \<times> string" where
  "SchemeGroupVersion = (''k8s.plugin.opnfv.org'', ''v1alpha1'')"

text \<open>The types the \<^verbatim>\<open>init\<close> functions of the three files register, in the order of the file names.\<close>

definition network_types :: "string list" where "network_types = [''Network'', ''NetworkList'']"
definition networkchaining_types :: "string list" where "networkchaining_types = [''NetworkChaining'', ''NetworkChainingList'']"
definition providernetwork_types :: "string list" where "providernetwork_types = [''ProviderNetwork'', ''ProviderNetworkList'']"

definition SchemeBuilder :: "string list" where
  "SchemeBuilder = network_types @ networkchaining_types @ providernetwork_types"

definition Resource :: "string \<Rightarrow> string \<times> string" where
  "Resource resource = (fst SchemeGroupVersion, resource)"

definition AddToSchemes :: "(operator_env \<Rightarrow> (world, error option) prog) list" where
  "AddToSchemes = [\<lambda>Op. request (AddTypes SchemeGroupVersion SchemeBuilder) (\<lambda>h. op_AddToScheme Op h SchemeGroupVersion SchemeBuilder)]"

definition AddToScheme :: "operator_env \<Rightarrow> (world, error option) prog" where
  "AddToScheme Op = foreach (\<lambda>f. f Op) AddToSchemes"

section \<open>Registration of the controllers\<close>

text \<open>
  \<^verbatim>\<open>controller.New\<close> and \<^verbatim>\<open>Watch\<close>.  The reconciler and the predicates handed over are the
  functions of \<open>Reconcilers\<close> and \<open>Network_Policy\<close>, which run as callbacks below.
\<close>

definition registerController :: "operator_env \<Rightarrow> string \<Rightarrow> kind \<Rightarrow> (world, error option) prog" where
  "registerController Op name k w = do {
     (err, w) \<leftarrow> request (NewController name) (\<lambda>h. op_NewController Op h name) w;
     (if err \<noteq> None then Some (err, w)
      else do {
        (err, w) \<leftarrow> request (WatchKind k) (\<lambda>h. op_Watch Op h k) w;
        (if err \<noteq> None then Some (err, w) else Some (None, w))
      })
   }"

definition network_Add :: "env \<Rightarrow> operator_env \<Rightarrow> (world, error option) prog" where
  "network_Add E Op w = do {
     (err, w) \<leftarrow> registerController Op ''network-controller'' KNetwork w;
     (if err \<noteq> None then Some (err, w)
      else do {
        (ignored, w) \<leftarrow> CheckandCreateNetworkPools E (op_flannel Op) w;
        Some (None, w)
      })
   }"

definition networkchaining_Add :: "env \<Rightarrow> operator_env \<Rightarrow> (world, error option) prog" where
  "networkchaining_Add E Op = registerController Op ''networkchaining-controller'' KNetworkChaining"

definition networkpolicy_Add :: "env \<Rightarrow> operator_env \<Rightarrow> (world, error option) prog" where
  "networkpolicy_Add E Op = registerController Op ''networkpolicy-controller'' KNetworkPolicy"

definition pod_Add :: "env \<Rightarrow> operator_env \<Rightarrow> (world, error option) prog" where
  "pod_Add E Op = registerController Op ''pod-controller'' KPod"

definition providernetwork_Add :: "env \<Rightarrow> operator_env \<Rightarrow> (world, error option) prog" where
  "providernetwork_Add E Op = registerController Op ''providernetwork-controller'' KProviderNetwork"

text \<open>The list the \<^verbatim>\<open>init\<close> functions build, which run in the order of the file names.\<close>

definition AddToManagerFuncs :: "(env \<Rightarrow> operator_env \<Rightarrow> (world, error option) prog) list" where
  "AddToManagerFuncs = [network_Add, networkchaining_Add, networkpolicy_Add, pod_Add, providernetwork_Add]"

definition AddToManager :: "env \<Rightarrow> operator_env \<Rightarrow> (world, error option) prog" where
  "AddToManager E Op = foreach (\<lambda>f. f E Op) AddToManagerFuncs"

section \<open>The notification server\<close>

text \<open>
  Errors on the way are only logged: a clientset or a listener that could not be made is nil.  The
  result is the configuration the server serves with and what \<^verbatim>\<open>Serve\<close> returned;
  \<^verbatim>\<open>Serve\<close>, which blocks while the server runs, is told whether it has a listener, and may panic.
\<close>

definition initNotifServer :: "env \<Rightarrow> operator_env \<Rightarrow> (world, TLSConfig \<times> bool) prog" where
  "initNotifServer E Op w = do {
     (err, w) \<leftarrow> ask (op_NodusClientset Op) w;
     (kerr, w) \<leftarrow> ask (op_KubeClientset Op) w;
     (lerr, w) \<leftarrow> request (ListenTcp '':50000'') (\<lambda>h. op_Listen Op h '':50000'') w;
     (serverTLS, w) \<leftarrow> serverCredentials E (kerr = None) w;
     let w = w\<lparr>clientList := Some newServer\<rparr>;
     Some ((serverTLS, lerr = None), w)
   }"

definition SetupNotifServer :: "env \<Rightarrow> operator_env \<Rightarrow> (world, TLSConfig \<times> error option) prog" where
  "SetupNotifServer E Op w = do {
     ((serverTLS, listening), w) \<leftarrow> initNotifServer E Op w;
     (r, w) \<leftarrow> request ServeGrpc (\<lambda>h. op_Serve Op h listening) w;
     (case r of None \<Rightarrow> None | Some err \<Rightarrow> Some ((serverTLS, err), w))
   }"

section \<open>The process\<close>

text \<open>\<^verbatim>\<open>main\<close> up to the start of the manager; \<open>False\<close> is \<^verbatim>\<open>os.Exit(1)\<close>.\<close>

definition operator_boot :: "env \<Rightarrow> operator_env \<Rightarrow> (world, bool) prog" where
  "operator_boot E Op w = do {
     (err, w) \<leftarrow> NewOvnController E w;
     (if err \<noteq> None then Some (False, w) else do {
     (err, w) \<leftarrow> request LoadKubeConfig (op_GetConfig Op) w;
     (if err \<noteq> None then Some (False, w) else do {
     (u, w) \<leftarrow> request (GoRoutine ''SetupNotifServer'') (\<lambda>h. ()) w;
     (err, w) \<leftarrow> request NewManager (op_NewManager Op) w;
     (if err \<noteq> None then Some (False, w) else do {
     (err, w) \<leftarrow> AddToScheme Op w;
     (if err \<noteq> None then Some (False, w) else do {
     (err, w) \<leftarrow> AddToManager E Op w;
     Some (err = None, w) }) }) }) })
   }"

definition operator_main :: "env \<Rightarrow> operator_env \<Rightarrow> (world, int) prog" where
  "operator_main E Op w = do {
     (ok, w) \<leftarrow> operator_boot E Op w;
     (if \<not> ok then Some (1, w)
      else do {
        (err, w) \<leftarrow> request StartManager (op_Start Op) w;
        Some (if err \<noteq> None then 1 else 0, w)
      })
   }"

section \<open>Callbacks\<close>

definition policy_Reconcile :: "operator_env \<Rightarrow> string \<Rightarrow> string \<Rightarrow> (world, error option) prog" where
  "policy_Reconcile Op ns name w = do {
     (r, w) \<leftarrow> request (KubeGet KNetworkPolicy ns name) (\<lambda>h. op_getPolicy Op h ns name) w;
     (case r of
        Inl e \<Rightarrow> if IsNotFound e then Some (None, w) else Some (Some e, w)
      | Inr p \<Rightarrow>
          if om_Name (pol_Meta p) = [] \<or> om_Namespace (pol_Meta p) = [] then Some (None, w)
          else if om_Deleting (pol_Meta p) then Some (None, w)
          else Some (None, w))
   }"

datatype callback =
    ReconcileNetwork string string
  | ReconcileProviderNetwork string string
  | ReconcileNetworkChaining string string
  | ReconcilePod string string
  | ReconcileNetworkPolicy string string
  | PodUpdated Pod
  | PodDeleted
  | PolicyCreated NetworkPolicy
  | PolicyUpdated NetworkPolicy NetworkPolicy
  | PolicyDeleted NetworkPolicy

definition completed :: "(world, 'a) prog \<Rightarrow> (world, unit) prog" where
  "completed m w = do { (a, w) \<leftarrow> m w; Some ((), w) }"

fun dispatch :: "env \<Rightarrow> operator_env \<Rightarrow> callback \<Rightarrow> (world, unit) prog" where
  "dispatch E Op (ReconcileNetwork ns name) = completed (network_Reconcile E ns name)"
| "dispatch E Op (ReconcileProviderNetwork ns name) = completed (provider_Reconcile E ns name)"
| "dispatch E Op (ReconcileNetworkChaining ns name) = completed (chaining_Reconcile E ns name)"
| "dispatch E Op (ReconcilePod ns name) = completed (pod_Reconcile E ns name)"
| "dispatch E Op (ReconcileNetworkPolicy ns name) = completed (policy_Reconcile Op ns name)"
| "dispatch E Op (PodUpdated pod) = completed (pod_UpdateFunc E pod)"
| "dispatch E Op PodDeleted = completed (pod_DeleteFunc E)"
| "dispatch E Op (PolicyCreated p) = completed (onCreate E p)"
| "dispatch E Op (PolicyUpdated old new) = completed (onUpdate E old new)"
| "dispatch E Op (PolicyDeleted p) = completed (onDelete E p)"

text \<open>
  The runs of a started operator: whether its server has been set up, and for each node the stream of
  its last completed subscription.  The goroutine of the server runs at some time after the process
  has started; nodes subscribe only then.
\<close>

inductive operator_runs :: "env \<Rightarrow> operator_env \<Rightarrow> world \<Rightarrow> bool \<Rightarrow> (string \<rightharpoonup> nat) \<Rightarrow> world \<Rightarrow> bool" for E Op w0 where
  boot: "operator_boot E Op w0 = Some (True, w) \<Longrightarrow> operator_runs E Op w0 False Map.empty w"
| serve: "operator_runs E Op w0 False subs w \<Longrightarrow> initNotifServer E Op w = Some (r, w') \<Longrightarrow> operator_runs E Op w0 True subs w'"
| call: "operator_runs E Op w0 up subs w \<Longrightarrow> dispatch E Op c w = Some ((), w') \<Longrightarrow> operator_runs E Op w0 up subs w'"
| join: "operator_runs E Op w0 True subs w \<Longrightarrow> Subscribe E node ss w = Some (Inr (), w') \<Longrightarrow>
    operator_runs E Op w0 True (subs(node \<mapsto> ss)) w'"
| refuse: "operator_runs E Op w0 True subs w \<Longrightarrow> Subscribe E node ss w = Some (Inl e, w') \<Longrightarrow> operator_runs E Op w0 True subs w'"

definition operator_reaches :: "env \<Rightarrow> operator_env \<Rightarrow> world \<Rightarrow> bool \<Rightarrow> world \<Rightarrow> bool" where
  "operator_reaches E Op w0 up w \<longleftrightarrow> (\<exists>subs. operator_runs E Op w0 up subs w)"

section \<open>The start of the operator\<close>

text \<open>The requests by which the process starts its parts, in the only order they are made in.\<close>

fun startup_event :: "event \<Rightarrow> bool" where
  "startup_event LoadKubeConfig = True"
| "startup_event NewManager = True"
| "startup_event (AddTypes gv types) = True"
| "startup_event (NewController name) = True"
| "startup_event (WatchKind k) = True"
| "startup_event (GoRoutine f) = True"
| "startup_event StartManager = True"
| "startup_event e = False"

definition controllers :: "(string \<times> kind) list" where
  "controllers = [(''network-controller'', KNetwork), (''networkchaining-controller'', KNetworkChaining),
     (''networkpolicy-controller'', KNetworkPolicy), (''pod-controller'', KPod), (''providernetwork-controller'', KProviderNetwork)]"

definition registration :: "(string \<times> kind) list \<Rightarrow> event list" where
  "registration cs = concat (map (\<lambda>(name, k). [NewController name, WatchKind k]) cs)"

definition startup_order :: "event list" where
  "startup_order = [LoadKubeConfig, GoRoutine ''SetupNotifServer'', NewManager, AddTypes SchemeGroupVersion SchemeBuilder] @
     registration controllers @ [StartManager]"

abbreviation startup :: "world \<Rightarrow> world \<Rightarrow> event list" where
  "startup w w' \<equiv> filter startup_event (new_events w w')"

text \<open>What the outside answers to a start-up request, and the requests that were all answered without an error.\<close>

fun start_answer :: "operator_env \<Rightarrow> history \<Rightarrow> event \<Rightarrow> error option" where
  "start_answer Op h LoadKubeConfig = op_GetConfig Op h"
| "start_answer Op h NewManager = op_NewManager Op h"
| "start_answer Op h (AddTypes gv types) = op_AddToScheme Op h gv types"
| "start_answer Op h (NewController name) = op_NewController Op h name"
| "start_answer Op h (WatchKind k) = op_Watch Op h k"
| "start_answer Op h StartManager = op_Start Op h"
| "start_answer Op h e = None"

primrec accepted :: "operator_env \<Rightarrow> history \<Rightarrow> event list \<Rightarrow> bool" where
  "accepted Op h [] = True"
| "accepted Op h (e # es) \<longleftrightarrow> (startup_event e \<longrightarrow> start_answer Op h e = None) \<and> accepted Op (h @ [e]) es"

text \<open>The last request is the first start-up request that was answered with an error.\<close>

definition stopped_at_error :: "operator_env \<Rightarrow> history \<Rightarrow> event list \<Rightarrow> bool" where
  "stopped_at_error Op h new \<longleftrightarrow> (\<exists>n e. new = n @ [e] \<and> accepted Op h n \<and> startup_event e \<and> start_answer Op (h @ n) e \<noteq> None)"

lemma accepted_append: "accepted Op h (a @ b) \<longleftrightarrow> accepted Op h a \<and> accepted Op (h @ a) b"
  by (induction a arbitrary: h) auto

lemma accepted_other: "\<forall>e \<in> set es. \<not> startup_event e \<Longrightarrow> accepted Op h es"
  by (induction es arbitrary: h) auto

lemma stopped_append: "accepted Op h a \<Longrightarrow> stopped_at_error Op (h @ a) b \<Longrightarrow> stopped_at_error Op h (a @ b)"
  by (auto simp: stopped_at_error_def accepted_append intro: exI [of _ "a @ _"])

text \<open>
  A program that only makes the start-up requests in \<open>es\<close>, in that order: all of them and with
  every one accepted if it returns no error, and up to the one that is refused otherwise.
\<close>

definition starts :: "operator_env \<Rightarrow> event list \<Rightarrow> (world, error option) prog \<Rightarrow> bool" where
  "starts Op es m \<longleftrightarrow> (\<forall>w r w'. m w = Some (r, w') \<longrightarrow> (\<exists>new. w' = w\<lparr>trace := trace w @ new\<rparr> \<and> prefix (filter startup_event new) es \<and>
     (if r = None then filter startup_event new = es \<and> accepted Op (trace w) new else stopped_at_error Op (trace w) new)))"

lemma startsD:
  assumes "starts Op es m" and "m w = Some (r, w')"
  obtains new where "w' = w\<lparr>trace := trace w @ new\<rparr>" "prefix (filter startup_event new) es"
    "r = None \<longrightarrow> filter startup_event new = es \<and> accepted Op (trace w) new" "r \<noteq> None \<longrightarrow> stopped_at_error Op (trace w) new"
proof -
  from assms obtain new where "w' = w\<lparr>trace := trace w @ new\<rparr>" "prefix (filter startup_event new) es"
    "if r = None then filter startup_event new = es \<and> accepted Op (trace w) new else stopped_at_error Op (trace w) new"
    unfolding starts_def by blast
  with that show ?thesis by (auto split: if_splits)
qed

lemma starts_request:
  assumes "startup_event e" and "\<And>h. answer h = start_answer Op h e"
  shows "starts Op [e] (request e answer)"
  using assms by (auto simp: starts_def stopped_at_error_def)

lemma starts_foreach:
  assumes "list_all2 (\<lambda>x es. starts Op es (f x)) xs ess"
  shows "starts Op (concat ess) (foreach f xs)"
  using assms
proof (induction rule: list_all2_induct)
  case (Cons x xs es ess)
  show ?case unfolding starts_def
  proof (intro allI impI)
    fix w r w' assume "foreach f (x # xs) w = Some (r, w')"
    then obtain r1 v where v: "f x w = Some (r1, v)"
      and rest: "(case r1 of None \<Rightarrow> foreach f xs v | Some e \<Rightarrow> Some (Some e, v)) = Some (r, w')" by (auto simp: run_conv)
    from startsD [OF Cons(1) v] obtain n1 where n1: "v = w\<lparr>trace := trace w @ n1\<rparr>" "prefix (filter startup_event n1) es"
      "r1 = None \<longrightarrow> filter startup_event n1 = es \<and> accepted Op (trace w) n1" "r1 \<noteq> None \<longrightarrow> stopped_at_error Op (trace w) n1" .
    show "\<exists>new. w' = w\<lparr>trace := trace w @ new\<rparr> \<and> prefix (filter startup_event new) (concat (es # ess)) \<and>
       (if r = None then filter startup_event new = concat (es # ess) \<and> accepted Op (trace w) new else stopped_at_error Op (trace w) new)"
    proof (cases r1)
      case None
      with rest have "foreach f xs v = Some (r, w')" by simp
      from startsD [OF Cons.IH this] obtain n2 where n2: "w' = v\<lparr>trace := trace v @ n2\<rparr>" "prefix (filter startup_event n2) (concat ess)"
        "r = None \<longrightarrow> filter startup_event n2 = concat ess \<and> accepted Op (trace v) n2" "r \<noteq> None \<longrightarrow> stopped_at_error Op (trace v) n2" .
      with n1 None show ?thesis by (intro exI [of _ "n1 @ n2"]) (auto simp: accepted_append intro: stopped_append)
    next
      case (Some e)
      with rest n1 show ?thesis by (intro exI [of _ n1]) (auto intro: prefix_order.trans)
    qed
  qed
qed (auto simp: starts_def intro!: exI [of _ "[]"])

lemma pools_emit: "emits (\<lambda>e. \<not> startup_event e) (CheckandCreateNetworkPools E F)"
  unfolding CheckandCreateNetworkPools_def [abs_def] CheckVirtualNetworkConf_def [abs_def] CalculateVirtualNetworkSubnet_def [abs_def]
    CreateNetworkPool_def [abs_def] Let_def
  by (intro emits_intros) simp_all

lemma pools_frame: "frame (CheckandCreateNetworkPools E F)"
  unfolding CheckandCreateNetworkPools_def [abs_def] CheckVirtualNetworkConf_def [abs_def] CalculateVirtualNetworkSubnet_def [abs_def]
    CreateNetworkPool_def [abs_def] Let_def
  by (intro frame_intros)

lemma starts_register: "starts Op [NewController name, WatchKind k] (registerController Op name k)"
proof -
  have "registerController Op name k = foreach (\<lambda>f. f)
      [request (NewController name) (\<lambda>h. op_NewController Op h name), request (WatchKind k) (\<lambda>h. op_Watch Op h k)]"
    by (auto simp: fun_eq_iff registerController_def split: option.splits)
  moreover have "starts Op (concat [[NewController name], [WatchKind k]]) (foreach (\<lambda>f. f)
      [request (NewController name) (\<lambda>h. op_NewController Op h name), request (WatchKind k) (\<lambda>h. op_Watch Op h k)])"
    by (rule starts_foreach) (simp add: starts_request)
  ultimately show ?thesis by simp
qed

lemma starts_pools: "starts Op [] (\<lambda>w. do { (ignored, w) \<leftarrow> CheckandCreateNetworkPools E F w; Some (None, w) })"
  unfolding starts_def
proof (intro allI impI)
  fix w r w' assume "do { (ignored, w) \<leftarrow> CheckandCreateNetworkPools E F w; Some (None :: error option, w) } = Some (r, w')"
  then obtain u where u: "CheckandCreateNetworkPools E F w = Some (u, w')" and r: "r = None" by (auto simp: run_conv)
  from emitsD [OF pools_emit u] obtain new where new: "trace w' = trace w @ new" "\<forall>e \<in> set new. \<not> startup_event e" by blast
  with frameD [OF pools_frame u] r show "\<exists>new. w' = w\<lparr>trace := trace w @ new\<rparr> \<and> prefix (filter startup_event new) [] \<and>
      (if r = None then filter startup_event new = [] \<and> accepted Op (trace w) new else stopped_at_error Op (trace w) new)"
    by (intro exI [of _ new]) (simp add: accepted_other)
qed

lemma starts_network: "starts Op [NewController ''network-controller'', WatchKind KNetwork] (network_Add E Op)"
proof -
  let ?pools = "\<lambda>w. do { (ignored, w) \<leftarrow> CheckandCreateNetworkPools E (op_flannel Op) w; Some (None, w) }"
  have "network_Add E Op = foreach (\<lambda>f. f) [registerController Op ''network-controller'' KNetwork, ?pools]"
    by (auto simp: fun_eq_iff network_Add_def split: option.splits Option.bind_splits intro!: arg_cong2 [where f = Option.bind])
  moreover have "starts Op (concat [[NewController ''network-controller'', WatchKind KNetwork], []])
      (foreach (\<lambda>f. f) [registerController Op ''network-controller'' KNetwork, ?pools])"
    by (rule starts_foreach) (simp add: starts_register starts_pools)
  ultimately show ?thesis by simp
qed

lemma starts_AddToManager: "starts Op (registration controllers) (AddToManager E Op)"
proof -
  have "list_all2 (\<lambda>f es. starts Op es (f E Op)) AddToManagerFuncs (map (\<lambda>(name, k). [NewController name, WatchKind k]) controllers)"
    by (simp add: AddToManagerFuncs_def controllers_def networkchaining_Add_def networkpolicy_Add_def pod_Add_def providernetwork_Add_def
        starts_register starts_network)
  then show ?thesis unfolding AddToManager_def registration_def by (rule starts_foreach)
qed

lemma starts_AddToScheme: "starts Op [AddTypes SchemeGroupVersion SchemeBuilder] (AddToScheme Op)"
proof -
  have "starts Op (concat [[AddTypes SchemeGroupVersion SchemeBuilder]]) (foreach (\<lambda>f. f Op) AddToSchemes)"
    by (rule starts_foreach) (simp add: AddToSchemes_def starts_request)
  then show ?thesis by (simp add: AddToScheme_def)
qed

text \<open>The steps of \<^verbatim>\<open>main\<close> after the OVN controller, up to the start of the manager.\<close>

definition boot_steps :: "env \<Rightarrow> operator_env \<Rightarrow> (world, error option) prog list" where
  "boot_steps E Op = [request LoadKubeConfig (op_GetConfig Op), request (GoRoutine ''SetupNotifServer'') (\<lambda>h. None),
     request NewManager (op_NewManager Op), AddToScheme Op, AddToManager E Op]"

lemma operator_boot_steps:
  "operator_boot E Op w = do {
     (err, w) \<leftarrow> NewOvnController E w;
     (if err \<noteq> None then Some (False, w)
      else do { (err, w) \<leftarrow> foreach (\<lambda>f. f) (boot_steps E Op) w; Some (err = None, w) }) }"
  by (auto simp: operator_boot_def boot_steps_def Let_def split: option.splits Option.bind_splits prod.splits)

lemma starts_boot: "starts Op (butlast startup_order) (foreach (\<lambda>f. f) (boot_steps E Op))"
proof -
  have "starts Op (concat [[LoadKubeConfig], [GoRoutine ''SetupNotifServer''], [NewManager], [AddTypes SchemeGroupVersion SchemeBuilder],
      registration controllers]) (foreach (\<lambda>f. f) (boot_steps E Op))"
    by (rule starts_foreach) (simp add: boot_steps_def starts_request starts_AddToScheme starts_AddToManager)
  then show ?thesis by (simp add: startup_order_def butlast_append)
qed

lemma starts_main: "starts Op startup_order (foreach (\<lambda>f. f) (boot_steps E Op @ [request StartManager (op_Start Op)]))"
proof -
  have "starts Op (concat [[LoadKubeConfig], [GoRoutine ''SetupNotifServer''], [NewManager], [AddTypes SchemeGroupVersion SchemeBuilder],
      registration controllers, [StartManager]]) (foreach (\<lambda>f. f) (boot_steps E Op @ [request StartManager (op_Start Op)]))"
    by (rule starts_foreach) (simp add: boot_steps_def starts_request starts_AddToScheme starts_AddToManager)
  then show ?thesis by (simp add: startup_order_def)
qed

lemma operator_main_steps:
  "operator_main E Op w = do {
     (err, w) \<leftarrow> NewOvnController E w;
     (if err \<noteq> None then Some (1, w)
      else do { (err, w) \<leftarrow> foreach (\<lambda>f. f) (boot_steps E Op @ [request StartManager (op_Start Op)]) w; Some (if err = None then 0 else 1, w) }) }"
  by (auto simp: operator_main_def operator_boot_steps foreach_append split: option.splits Option.bind_splits prod.splits)

lemma NewOvnController_ready:
  assumes "NewOvnController E w = Some (None, w')"
  shows "\<exists>r. runner w' = Some r \<and> env_LookPath E ''ovn-nbctl'' = Inr (eh_nbctlPath r)" and "ovnConf w' = Some (netConf E)"
    and "gatewayCache w' = Some []" and "clientList w' = clientList w" and "inSync w' = inSync w" and "pnCreateStore w' = pnCreateStore w"
proof -
  from assms obtain r u v where r: "env_LookPath E ''ovn-nbctl'' = Inr (eh_nbctlPath r)" "u = w\<lparr>runner := Some r, ovnConf := Some (netConf E)\<rparr>"
    and s: "SetupOvnUtils E u = Some (None, v)" and w': "w' = v\<lparr>gatewayCache := Some []\<rparr>" by (rule NewOvnController_run)
  note f = frame_fields [OF SetupOvnUtils_frame s]
  show "\<exists>r. runner w' = Some r \<and> env_LookPath E ''ovn-nbctl'' = Inr (eh_nbctlPath r)" using f(1) r by (simp add: w')
  show "ovnConf w' = Some (netConf E)" "gatewayCache w' = Some []" "clientList w' = clientList w" "inSync w' = inSync w" "pnCreateStore w' = pnCreateStore w"
    using f r(2) by (simp_all add: w')
qed

lemma NewOvnController_emits: "emits any_nbctl (NewOvnController E)"
proof -
  have s: "emits any_nbctl (SetExec E)" and g: "emits any_nbctl (GetOvnNetConf E)"
    by (auto simp: emits_def SetExec_def GetOvnNetConf_def Let_def split: sum.splits if_splits)
  have l: "emits any_nbctl (createOvnLS E n s4 g4 ex s6 g6)" for n s4 g4 ex s6 g6
    by (rule emits_mono [OF createOvnLS_emits]) (auto simp: any_nbctl_def)
  have r: "emits any_nbctl (\<lambda>w. case ovnConf w of None \<Rightarrow> None | Some c \<Rightarrow> do {
      ((g4, g6, err), w) \<leftarrow> createOvnLS E Ovn4nfvDefaultNw (oc_Subnetv4 c) (oc_GatewayIPv4 c) (oc_ExcludeIPs c) (oc_Subnetv6 c) (oc_GatewayIPv6 c) w;
      (if err \<noteq> None \<and> err \<noteq> Some (Errorf ''LS exists'') then Some (err, w) else Some (None, w)) })"
    by (rule emits_read [where g = ovnConf]) (intro emits_intros l)
  have d: "emits any_nbctl (setupDistributedRouter E n)" for n
    unfolding setupDistributedRouter_def [abs_def] by (intro emits_intros) (auto simp: any_nbctl_def)
  have u: "emits any_nbctl (SetupOvnUtils E)" unfolding SetupOvnUtils_def [abs_def] by (intro emits_intros d r)
  have c: "emits any_nbctl (\<lambda>w. Some (None, w\<lparr>gatewayCache := Some []\<rparr>))" by (simp add: emits_def)
  show ?thesis unfolding NewOvnController_def [abs_def] by (intro emits_intros s g u c)
qed

lemma nbctl_no_startup: "any_nbctl e \<Longrightarrow> \<not> startup_event e"
  by (auto simp: any_nbctl_def nbctl_def)

lemma NewOvnController_quiet:
  assumes "NewOvnController E w = Some (err, v)"
  obtains n where "trace v = trace w @ n" "\<forall>e \<in> set n. \<not> startup_event e"
proof -
  have "emits (\<lambda>e. \<not> startup_event e) (NewOvnController E)"
    by (rule emits_mono [OF NewOvnController_emits]) (rule nbctl_no_startup)
  from emitsD [OF this assms] that show ?thesis by blast
qed

text \<open>
  C23.  The operator starts its parts in one order: the OVN controller before anything else; then the
  configuration, the goroutine of the notification server, the manager, the API types, the five
  controllers, each created and then watching its kind, and last the manager is started.  Exit code 0
  means that every one of these requests was made and answered without an error.  Otherwise the exit
  code is 1, and either the OVN controller could not be made and nothing was started, or the last
  request of the process is the first one that was answered with an error.  Whenever anything was
  started at all, the OVN controller is available and its command found, but \<^verbatim>\<open>main\<close> itself never
  sets up the list of clients the controllers notify: that is left to the goroutine.
\<close>

theorem operator_main_starts:
  assumes "operator_main E Op w = Some (code, w')"
  shows "prefix (startup w w') startup_order \<and>
     (if code = 0 then startup w w' = startup_order \<and> accepted Op (trace w) (new_events w w')
      else code = 1 \<and> (startup w w' = [] \<and> (\<exists>e. NewOvnController E w = Some (Some e, w')) \<or>
        stopped_at_error Op (trace w) (new_events w w'))) \<and>
     (startup w w' \<noteq> [] \<longrightarrow> GetOvnController w' = None \<and> (\<exists>r. runner w' = Some r \<and> env_LookPath E ''ovn-nbctl'' = Inr (eh_nbctlPath r)) \<and>
        clientList w' = clientList w)"
proof -
  from assms obtain err v where n: "NewOvnController E w = Some (err, v)"
    and rest: "err \<noteq> None \<and> code = 1 \<and> w' = v \<or> err = None \<and> (\<exists>r. foreach (\<lambda>f. f) (boot_steps E Op @ [request StartManager (op_Start Op)]) v = Some (r, w') \<and>
      code = (if r = None then 0 else 1))"
    unfolding operator_main_steps by (auto simp: run_conv simp del: foreach.simps split: if_splits)
  from n obtain n0 where n0: "trace v = trace w @ n0" "\<forall>e \<in> set n0. \<not> startup_event e" by (rule NewOvnController_quiet)
  from rest show ?thesis
  proof (elim disjE exE conjE)
    assume "err \<noteq> None" "code = 1" "w' = v"
    with n n0 show ?thesis by (auto simp: new_events_def)
  next
    fix r assume err: "err = None" and m: "foreach (\<lambda>f. f) (boot_steps E Op @ [request StartManager (op_Start Op)]) v = Some (r, w')"
      and code: "code = (if r = None then 0 else 1)"
    from startsD [OF starts_main m] obtain new where new: "w' = v\<lparr>trace := trace v @ new\<rparr>" "prefix (filter startup_event new) startup_order"
      "r = None \<longrightarrow> filter startup_event new = startup_order \<and> accepted Op (trace v) new" "r \<noteq> None \<longrightarrow> stopped_at_error Op (trace v) new" .
    have e: "new_events w w' = n0 @ new" "filter startup_event n0 = []" using n0 new(1) by (simp_all add: new_events_def)
    note a = accepted_other [OF n0(2), of Op "trace w"]
    from new(3,4) code have "if code = 0 then filter startup_event new = startup_order \<and> accepted Op (trace w) (n0 @ new)
        else code = 1 \<and> stopped_at_error Op (trace w) (n0 @ new)"
      using a n0(1) by (auto simp: accepted_append intro: stopped_append)
    moreover have "runner w' = runner v" "gatewayCache w' = gatewayCache v" "clientList w' = clientList v" using new(1) by simp_all
    ultimately show ?thesis using NewOvnController_ready [OF n [unfolded err]] new(2) by (simp add: e GetOvnController_def)
  qed
qed

lemma operator_boot_run:
  assumes "operator_boot E Op w = Some (True, w')"
  obtains v new where "NewOvnController E w = Some (None, v)" and "w' = v\<lparr>trace := trace v @ new\<rparr>"
proof -
  from assms obtain v where n: "NewOvnController E w = Some (None, v)" and m: "foreach (\<lambda>f. f) (boot_steps E Op) v = Some (None, w')"
    unfolding operator_boot_steps by (auto simp: run_conv simp del: foreach.simps split: if_splits)
  from startsD [OF starts_boot m] that [OF n] show ?thesis by metis
qed

definition early_provider :: ProviderNetwork where
  "early_provider = (demo_provider ''ALL'')\<lparr>pn_Meta := (pn_Meta (demo_provider ''ALL''))\<lparr>om_Finalizers := [nfnProviderNetworkFinalizer]\<rparr>\<rparr>"

definition operator_ex :: env where
  "operator_ex = null_env\<lparr>env_Getenv := (\<lambda>v. if v = ''OVN_SUBNET'' then ''10.154.142.0/18'' else if v = NfnOperatorHostEnv then ''10.96.0.7'' else []),
     env_exec := (\<lambda>h c args. (Ovn4nfvDefaultNw, [], None)), env_statFile := (\<lambda>h p. Some (NotFoundErr [])),
     env_getSecret := (\<lambda>h ns n. Inr (Some old_secret)), env_getCertificate := (\<lambda>h ns n. Inr (service_cert\<lparr>crt_IPAddresses := [''10.96.0.7'']\<rparr>)),
     env_getProvider := (\<lambda>h ns n. Inr early_provider)\<rparr>"

definition quiet_operator :: operator_env where
  "quiet_operator = \<lparr>op_GetConfig = (\<lambda>_. None), op_NodusClientset = (\<lambda>_. None), op_KubeClientset = (\<lambda>_. None), op_Listen = (\<lambda>_ _. None),
     op_Serve = (\<lambda>_ l. if l then Some None else None), op_NewManager = (\<lambda>_. None), op_AddToScheme = (\<lambda>_ _ _. None), op_NewController = (\<lambda>_ _. None),
     op_Watch = (\<lambda>_ _. None), op_Start = (\<lambda>_. None), op_getPolicy = (\<lambda>_ _ _. Inl (NotFoundErr [])), op_flannel = flannel_ex\<rparr>"

lemma operator_ex_ovn: "case NewOvnController operator_ex init_world of Some (err, w') \<Rightarrow> err = None | None \<Rightarrow> False"
  by code_simp

lemma operator_ex_starts: "\<exists>w'. operator_boot operator_ex (quiet_operator\<lparr>op_Start := answer\<rparr>) init_world = Some (True, w')"
  using operator_ex_ovn 
  by (auto simp: operator_boot_def split: option.splits prod.splits simp:
      AddToScheme_def AddToSchemes_def AddToManager_def AddToManagerFuncs_def network_Add_def registerController_def networkchaining_Add_def
      networkpolicy_Add_def pod_Add_def providernetwork_Add_def CheckandCreateNetworkPools_def CheckVirtualNetworkConf_def
      operator_ex_def [THEN arg_cong [where f = env_statFile]] quiet_operator_def)

lemma operator_ex_boots: "\<exists>w'. operator_boot operator_ex quiet_operator init_world = Some (True, w')"
  using operator_ex_starts [of "op_Start quiet_operator"] by simp

text \<open>A start that succeeds, and one in which the manager ends with an error.\<close>

theorem operator_main_starts_witness:
  "\<exists>w' v'. operator_main operator_ex quiet_operator init_world = Some (0, w') \<and> startup init_world w' = startup_order \<and>
     accepted quiet_operator [] (trace w') \<and> GetOvnController w' = None \<and> clientList w' = None \<and>
     operator_main operator_ex (quiet_operator\<lparr>op_Start := \<lambda>_. Some (ExtErr ''lost'')\<rparr>) init_world = Some (1, v') \<and>
     stopped_at_error (quiet_operator\<lparr>op_Start := \<lambda>_. Some (ExtErr ''lost'')\<rparr>) [] (trace v')"
proof -
  let ?bad = "quiet_operator\<lparr>op_Start := \<lambda>_. Some (ExtErr ''lost'')\<rparr>"
  have i: "trace init_world = []" "clientList init_world = None" by (simp_all add: init_world_def)
  have e: "new_events init_world w' = trace w'" for w' by (simp add: new_events_def i)
  from operator_ex_boots obtain v where v: "operator_boot operator_ex quiet_operator init_world = Some (True, v)" by blast
  then obtain w' where r: "operator_main operator_ex quiet_operator init_world = Some (0, w')"
    by (auto simp: operator_main_def quiet_operator_def)
  from operator_ex_starts obtain u where "operator_boot operator_ex ?bad init_world = Some (True, u)" by blast
  then obtain v' where b: "operator_main operator_ex ?bad init_world = Some (1, v')" by (auto simp: operator_main_def)
  from operator_main_starts [OF r] have o: "startup init_world w' = startup_order" "accepted quiet_operator [] (trace w')" by (simp_all add: e i)
  moreover from this have "startup init_world w' \<noteq> []" by (simp add: startup_order_def)
  with operator_main_starts [OF r] have "GetOvnController w' = None" "clientList w' = None" by (simp_all add: i)
  moreover have "NewOvnController operator_ex init_world \<noteq> Some (Some x, v')" for x using operator_ex_ovn by (auto split: option.splits)
  with operator_main_starts [OF b] have "stopped_at_error ?bad [] (trace v')" by (simp add: e i)
  ultimately show ?thesis using r b by blast
qed

section \<open>What every callback keeps\<close>

text \<open>
  A relation that also the writes of custom resources satisfy is satisfied by every callback of the
  operator.
\<close>

locale controller_relation = run_relation +
  assumes R_any: "R w (w\<lparr>trace := trace w @ [e]\<rparr>)"
begin

lemma preserves_any [preserves_intros]: "preserves R (request e answer)" "preserves R (kube_write E e)"
  by (simp_all add: preserves_def kube_write_def R_any)

lemma preserves_only_requests:
  assumes "frame m" and "emits (\<lambda>_. True) m"
  shows "preserves R m"
  unfolding preserves_def
proof (intro allI impI)
  fix w a w' assume m: "m w = Some (a, w')"
  from emitsD [OF assms(2) m] obtain es where es: "trace w' = trace w @ es" by blast
  have "R w (w\<lparr>trace := trace w @ es\<rparr>)" for es
  proof (induction es rule: rev_induct)
    case (snoc e es)
    have "R (w\<lparr>trace := trace w @ es\<rparr>) (w\<lparr>trace := trace w @ es @ [e]\<rparr>)" using R_any [of "w\<lparr>trace := trace w @ es\<rparr>" e] by simp
    with snoc show ?case by (rule R_trans)
  qed (simp add: R_refl)
  with frameD [OF assms(1) m] es show "R w w'" by metis
qed

lemma SendNotif_preserves [preserves_intros]: "preserves R (SendNotif E pn t n)"
  by (rule preserves_only_requests [OF SendNotif_frame emits_mono [OF SendNotif_keeps]]) simp

lemma finalize_preserves:
  assumes "\<And>x. preserves R (del E x)"
  shows "preserves R (finalize meta setMeta upd fin del E x)"
  unfolding finalize_def [abs_def] Let_def by (intro preserves_intros assms)

lemma reconcileObject_preserves:
  assumes "preserves R (fetch E ns name)" and "\<And>x. preserves R (fin E x)" and "\<And>x. preserves R (create E x)"
  shows "preserves R (reconcileObject fetch fin create E ns name)"
  unfolding reconcileObject_def [abs_def] by (intro preserves_intros assms)

lemma network_Reconcile_preserves: "preserves R (network_Reconcile E ns name)"
  unfolding network_Reconcile_def network_reconcileFinalizers_def network_createNetwork_def [abs_def] network_deleteNetwork_def [abs_def] Let_def
  by (intro reconcileObject_preserves finalize_preserves preserves_intros Controller_preserves)

lemma provider_Reconcile_preserves: "preserves R (provider_Reconcile E ns name)"
  unfolding provider_Reconcile_def provider_reconcileFinalizers_def provider_createNetwork_def [abs_def] provider_deleteNetwork_def [abs_def] Let_def
  by (intro reconcileObject_preserves finalize_preserves preserves_intros Controller_preserves)

lemma waitChain_preserves: "preserves R (waitChain E cr)"
proof -
  have "R w (snd y)" if "waitChain E cr w = Some y" for w y
  proof (rule waitChain.raw_induct [of "\<lambda>E cr w y. R w (snd y)", OF _ that])
    fix rec E cr w y
    assume IH: "\<And>E cr w y. rec E cr w = Some y \<Longrightarrow> R w (snd y)"
      and body: "Option.bind (CheckSFCPodLabelStatus E cr w) (\<lambda>(r, w). case r of Inl e \<Rightarrow> Some ((Some e, cr), w) | Inr ps \<Rightarrow> if ps then do {
            let cr = cr\<lparr>nc_State := Creating\<rparr>;
            (err, w) \<leftarrow> kube_write E (StatusChainingCR cr) w;
            Some ((err, cr), w) } else rec E cr w) = Some y"
    from body obtain r v where r: "CheckSFCPodLabelStatus E cr w = Some (r, v)"
      and k: "(case r of Inl e \<Rightarrow> Some ((Some e, cr), v) | Inr ps \<Rightarrow> if ps then do {
            let cr = cr\<lparr>nc_State := Creating\<rparr>;
            (err, w) \<leftarrow> kube_write E (StatusChainingCR cr) v;
            Some ((err, cr), w) } else rec E cr v) = Some y"
      by (auto simp: bind_eq_Some_conv)
    from k have "snd y = v \<or> snd y = v\<lparr>trace := trace v @ [StatusChainingCR (cr\<lparr>nc_State := Creating\<rparr>)]\<rparr> \<or> rec E cr v = Some y"
      by (auto simp: kube_write_def Let_def split: sum.splits if_splits)
    with preservesD [OF CheckSFCPodLabelStatus_preserves r] IH [of E cr v y] R_any [of v] show "R w (snd y)" by (auto intro: R_trans)
  qed
  then show ?thesis by (auto simp: preserves_def)
qed

lemma chaining_Reconcile_preserves: "preserves R (chaining_Reconcile E ns name)"
  unfolding chaining_Reconcile_def chaining_reconcileFinalizers_def createChain_def [abs_def] checkChain_def [abs_def] deleteChain_def [abs_def] Let_def
  by (intro reconcileObject_preserves finalize_preserves preserves_intros waitChain_preserves CalculateRoutes_preserves CheckNetForNetPool_preserves
      CheckSFCPodLabelStatus_preserves notify_preserves)

lemma pod_Reconcile_preserves: "preserves R (pod_Reconcile E ns name)"
  unfolding pod_Reconcile_def [abs_def] deleteLogicalPorts_def [abs_def] addLogicalPorts_def [abs_def] checkforsfc_def [abs_def] setPodAnnotation_def Let_def
  by (intro preserves_intros ports_preserve AddLogicalPorts_preserves)

lemma ConfigureforSFC_preserves: "preserves R (ConfigureforSFC E name ns)"
  unfolding ConfigureforSFC_def [abs_def] noSFCrequired_def [abs_def] Let_def
  by (intro preserves_intros SetAnnotationOnPod_preserves CalculateRoutes_preserves)

lemma pod_predicates_preserve: "preserves R (pod_UpdateFunc E pod)" "preserves R (pod_DeleteFunc E)"
  unfolding pod_UpdateFunc_def [abs_def] pod_DeleteFunc_def [abs_def] configureSFC_def [abs_def] setPodAnnotation_def
  by (intro preserves_intros RefreshNetworkPolicies_preserves ConfigureforSFC_preserves notify_preserves)+

lemma completed_preserves: "preserves R m \<Longrightarrow> preserves R (completed m)"
  unfolding completed_def [abs_def] by (intro preserves_intros)

lemma policy_Reconcile_preserves: "preserves R (policy_Reconcile Op ns name)"
  unfolding policy_Reconcile_def [abs_def] by (intro preserves_intros)

lemma dispatch_preserves: "preserves R (dispatch E Op c)"
  by (cases c) (simp_all add: completed_preserves network_Reconcile_preserves provider_Reconcile_preserves chaining_Reconcile_preserves
      pod_Reconcile_preserves pod_predicates_preserve policy_Reconcile_preserves onCreate_def onUpdate_def onDelete_def policy_preserves)

end

section \<open>The running operator\<close>

text \<open>
  What callbacks leave alone: the command runner, the network configuration, the list of clients and
  the variables of the agent; the OVN controller, once created, stays.
\<close>

definition steady :: "world \<Rightarrow> world \<Rightarrow> bool" where
  "steady w w' \<longleftrightarrow> runner w' = runner w \<and> ovnConf w' = ovnConf w \<and> clientList w' = clientList w \<and> inSync w' = inSync w \<and>
     pnCreateStore w' = pnCreateStore w \<and> (gatewayCache w \<noteq> None \<longrightarrow> gatewayCache w' \<noteq> None)"

interpretation steady: controller_relation steady
  by unfold_locales (auto simp: steady_def)

text \<open>The list of clients of a server: exactly the nodes with a subscription, each once, under its own name and with its stream.\<close>

definition lists :: "(string \<rightharpoonup> nat) \<Rightarrow> (string, client) gomap \<Rightarrow> bool" where
  "lists subs cl \<longleftrightarrow> map_ok cl \<and> (\<forall>node. map_of cl node = map_option (\<lambda>ss. \<lparr>cl_node = node, cl_stream = Some ss\<rparr>) (subs node))"

lemma lists_put: "lists subs cl \<Longrightarrow> lists (subs(node \<mapsto> ss)) (map_put node \<lparr>cl_node = node, cl_stream = Some ss\<rparr> cl)"
  by (auto simp: lists_def)

lemma Subscribe_steps:
  assumes "Subscribe E node ss w = Some (r, w')"
  shows "r \<noteq> Inr () \<and> steady w w' \<or> r = Inr () \<and> (\<exists>v cl. steady w v \<and> clientList v = Some cl \<and>
    steady (v\<lparr>clientList := Some (map_put node \<lparr>cl_node = node, cl_stream = Some ss\<rparr> cl)\<rparr>) w')"
proof (cases "node = []")
  case True
  with assms show ?thesis by (auto simp: Subscribe_def steady.R_refl)
next
  case False
  with assms obtain a v where a: "node_AddNodeLogicalPorts E node w = Some (a, v)" by (auto simp: Subscribe_def run_conv)
  have v: "steady w v" by (rule preservesD [OF steady.ports_preserve(2) a])
  obtain mac ip ip6 err where ae: "a = (mac, ip, ip6, err)" by (cases a) auto
  show ?thesis
  proof (cases err)
    case None
    let ?rest = "\<lambda>w. do {
       (r, w) \<leftarrow> request (KubeList KProviderNetwork ''default'' []) (env_listProviders E) w;
       (u, w) \<leftarrow> (case r of Inl e \<Rightarrow> Some ((), w) | Inr items \<Rightarrow> forall (\<lambda>pn. SendNotif E pn ''create'' node) items w);
       (e, w) \<leftarrow> stream_Send E ss (inSyncMsg ip mac ip6) w;
       Some (Inr (), w) }"
    from assms False a ae None obtain cl where cl: "clientList v = Some cl" by (auto simp: Subscribe_def split: option.splits)
    with assms False a ae None have rest: "?rest (v\<lparr>clientList := Some (map_put node \<lparr>cl_node = node, cl_stream = Some ss\<rparr> cl)\<rparr>) = Some (r, w')"
      by (cases "env_listProviders E (trace v)") (simp_all add: Subscribe_def Let_def)
    have "preserves steady ?rest" unfolding stream_Send_def by (intro preserves_intros)
    from preservesD [OF this rest] v cl rest show ?thesis by (auto simp: run_conv)
  next
    case (Some e)
    with assms False a ae v show ?thesis by (auto simp: Subscribe_def)
  qed
qed

lemma initNotifServer_effect:
  assumes "initNotifServer E Op w = Some (r, w')"
  shows "clientList w' = Some []" "steady w (w'\<lparr>clientList := clientList w\<rparr>)"
proof -
  from assms obtain tls u v where l: "u = w\<lparr>trace := trace w @ [ListenTcp '':50000'']\<rparr>"
    and s: "serverCredentials E (op_KubeClientset Op (trace w) = None) u = Some (tls, v)" and w': "w' = v\<lparr>clientList := Some newServer\<rparr>"
    by (auto simp: initNotifServer_def Let_def run_conv)
  show "clientList w' = Some []" by (simp add: w' newServer_def)
  from s obtain sec where o: "obtainSecret E (op_KubeClientset Op (trace w) = None) u = Some (sec, v)" by (auto simp: serverCredentials_def run_conv split: sum.splits)
  from frame_fields [OF obtainSecret_frame o] show "steady w (w'\<lparr>clientList := clientList w\<rparr>)"
    by (simp add: steady_def w' l)
qed

lemma operator_boot_ready:
  assumes "operator_boot E Op w = Some (True, w')"
  shows "\<exists>r. runner w' = Some r \<and> env_LookPath E ''ovn-nbctl'' = Inr (eh_nbctlPath r)" and "ovnConf w' = Some (netConf E)"
    and "gatewayCache w' \<noteq> None" and "clientList w' = clientList w" and "inSync w' = inSync w" and "pnCreateStore w' = pnCreateStore w"
proof -
  from assms obtain v new where n: "NewOvnController E w = Some (None, v)" and w': "w' = v\<lparr>trace := trace v @ new\<rparr>"
    by (rule operator_boot_run)
  from NewOvnController_ready [OF n] show "\<exists>r. runner w' = Some r \<and> env_LookPath E ''ovn-nbctl'' = Inr (eh_nbctlPath r)" "ovnConf w' = Some (netConf E)"
    "gatewayCache w' \<noteq> None" "clientList w' = clientList w" "inSync w' = inSync w" "pnCreateStore w' = pnCreateStore w" by (simp_all add: w')
qed

lemma operator_runs_ready:
  assumes "operator_runs E Op w0 up subs w" and "clientList w0 = None"
  shows "(\<exists>r. runner w = Some r \<and> env_LookPath E ''ovn-nbctl'' = Inr (eh_nbctlPath r)) \<and> ovnConf w = Some (netConf E) \<and> gatewayCache w \<noteq> None \<and>
     (if up then \<exists>cl. clientList w = Some cl \<and> lists subs cl else clientList w = None \<and> subs = Map.empty) \<and>
     inSync w = inSync w0 \<and> pnCreateStore w = pnCreateStore w0"
proof -
  define Inv where "Inv up subs w \<longleftrightarrow> (\<exists>r. runner w = Some r \<and> env_LookPath E ''ovn-nbctl'' = Inr (eh_nbctlPath r)) \<and> ovnConf w = Some (netConf E) \<and>
    gatewayCache w \<noteq> None \<and> (if up then \<exists>cl. clientList w = Some cl \<and> lists subs cl else clientList w = None \<and> subs = Map.empty) \<and>
    inSync w = inSync w0 \<and> pnCreateStore w = pnCreateStore w0" for up subs and w :: world
  have keep: "Inv up subs w'" if "steady w w'" "Inv up subs w" for up subs w w'
    using that by (auto simp: steady_def Inv_def split: if_splits)
  from assms(1) have "Inv up subs w"
  proof (induction rule: operator_runs.induct)
    case (boot w)
    from operator_boot_ready [OF boot] assms(2) show ?case by (simp add: Inv_def)
  next
    case (serve subs w r w')
    from initNotifServer_effect [OF serve(2)] serve.IH show ?case by (auto simp: Inv_def steady_def lists_def map_ok_def)
  next
    case (call up subs w c w')
    from keep [OF preservesD [OF steady.dispatch_preserves call(2)] call.IH] show ?case .
  next
    case (join subs w node ss w')
    from Subscribe_steps [OF join(2)] obtain v cl where v: "steady w v" "clientList v = Some cl"
      "steady (v\<lparr>clientList := Some (map_put node \<lparr>cl_node = node, cl_stream = Some ss\<rparr> cl)\<rparr>) w'" by auto
    from keep [OF v(1) join.IH] v(2) have "Inv True (subs(node \<mapsto> ss)) (v\<lparr>clientList := Some (map_put node \<lparr>cl_node = node, cl_stream = Some ss\<rparr> cl)\<rparr>)"
      by (simp add: Inv_def lists_put)
    from keep [OF v(3) this] show ?case .
  next
    case (refuse subs w node ss e w')
    from Subscribe_steps [OF refuse(2)] have "steady w w'" by simp
    from keep [OF this refuse.IH] show ?case .
  qed
  then show ?thesis by (simp add: Inv_def)
qed

text \<open>
  C24.  Invariants of the running operator, whatever reconciliations, pod and policy events,
  subscriptions and the set-up of the server happen in whatever order: the command runner found at
  the start stays in place, so that no OVN command panics for lack of one; the network configuration
  is still the one read from the operator's variables, and the OVN controller stays available, so
  that no reconciliation ever fails with \<^emph>\<open>not initialized\<close>; the clients exist exactly if the
  server has been set up, and then the list holds exactly the nodes that completed a subscription,
  each once, under its own name and with the stream of its last one.
\<close>

theorem operator_invariant:
  assumes "operator_runs E Op w0 up subs w" and "clientList w0 = None"
  shows "(\<exists>r. runner w = Some r \<and> env_LookPath E ''ovn-nbctl'' = Inr (eh_nbctlPath r)) \<and> ovnConf w = Some (netConf E) \<and> GetOvnController w = None \<and>
     (if up then \<exists>cl. clientList w = Some cl \<and> map_ok cl \<and>
        (\<forall>node. map_of cl node = map_option (\<lambda>ss. \<lparr>cl_node = node, cl_stream = Some ss\<rparr>) (subs node)) else clientList w = None) \<and>
     inSync w = inSync w0 \<and> pnCreateStore w = pnCreateStore w0"
  using operator_runs_ready [OF assms] by (auto simp: GetOvnController_def lists_def split: option.splits)

lemma operator_ex_serves: "\<exists>r w'. initNotifServer operator_ex quiet_operator w = Some (r, w')"
proof -
  let ?cert = "service_cert\<lparr>crt_IPAddresses := [''10.96.0.7'']\<rparr>"
  have s: "sameAddresses (secretAddresses old_secret) (crt_IPAddresses ?cert) = Some True" by code_simp
  have "WaitForSecretIP operator_ex ?cert v = Some ((Some old_secret, None), afterReads ?cert (Suc 0) v)" for v
    using s WaitForSecretIP_bounded [of 0 ?cert operator_ex v old_secret] by (simp add: secretRead_def operator_ex_def)
  moreover have "IsCertIPUpToDate ?cert (env_Getenv operator_ex NfnOperatorHostEnv)"
    by (simp add: IsCertIPUpToDate_def service_cert_def operator_ex_def NfnOperatorHostEnv_def)
  moreover have "env_getCertificate operator_ex h a b = Inr ?cert" "env_certManager operator_ex h = None" "env_kubeConfig operator_ex h = None" "env_X509KeyPair operator_ex c k = Inr c" for h a b c k
    by (simp_all add: operator_ex_def null_env_def)
  ultimately show ?thesis
    by (auto simp: initNotifServer_def serverCredentials_def obtainSecret_def GetCert_def getCertClient_def GetCertManagerClient_def GetKubeClient_def
        CreateServerTLSFromSecret_def createTLS_def LoadCertsFromSecret_def quiet_operator_def Let_def)
qed

lemma operator_ex_nbctl:
  assumes "runner w \<noteq> None"
  shows "RunOVNNbctl operator_ex args w = Some ((Ovn4nfvDefaultNw, [], None), w\<lparr>trace := trace w @ [ExecCmd (eh_nbctlPath (the (runner w)))
     (nbctlArgs (the (runner w)) ovsCommandTimeout args)]\<rparr>)"
proof -
  have t: "trimOutput Ovn4nfvDefaultNw = Ovn4nfvDefaultNw" by code_simp
  from assms obtain r where "runner w = Some r" by blast
  with RunOVNNbctl_ok [OF this, of operator_ex args Ovn4nfvDefaultNw "[]"] show ?thesis by (simp add: t operator_ex_def)
qed

lemma operator_ex_joins:
  assumes "runner w \<noteq> None" and "gatewayCache w \<noteq> None" and "clientList w = Some cl"
  shows "\<exists>w'. Subscribe operator_ex ''n1'' 7 w = Some (Inr (), w')"
proof -
  have s: "splitAddresses Ovn4nfvDefaultNw = [Ovn4nfvDefaultNw]" "Ovn4nfvDefaultNw \<noteq> ''[]''" by code_simp+
  have "pollAddresses operator_ex c p (Suc n) v = Some (Found Ovn4nfvDefaultNw, v\<lparr>trace := trace v @ [ExecCmd (eh_nbctlPath (the (runner v)))
     (nbctlArgs (the (runner v)) ovsCommandTimeout [''get'', ''logical_switch_port'', p, c])]\<rparr>)" if "runner v \<noteq> None" for c p n v
    using s(2) operator_ex_nbctl [OF that] by simp
  from this [where n = 29] have p: "\<exists>es. pollAddresses operator_ex c p 30 v = Some (Found Ovn4nfvDefaultNw, v\<lparr>trace := trace v @ es\<rparr>)" if "runner v \<noteq> None" for c p v
    using that by (simp del: pollAddresses.simps) blast
  obtain es where n: "AddNodeLogicalPorts operator_ex ''n1'' w = Some (([], [], [], None), w\<lparr>trace := trace w @ es\<rparr>)"
  proof -
    let ?port = "GetNodeIntfName (strings_ToLower ''n1'')"
    let ?add = "[''--wait=sb'', ''--'', ''--may-exist'', ''lsp-add'', Ovn4nfvDefaultNw, ?port, ''--'', ''lsp-set-addresses'', ?port, ''dynamic'']"
    obtain e1 where e1: "RunOVNNbctl operator_ex ?add w = Some ((Ovn4nfvDefaultNw, [], None), w\<lparr>trace := trace w @ [e1]\<rparr>)"
      using operator_ex_nbctl [OF assms(1)] by blast
    have "runner (w\<lparr>trace := trace w @ [e1]\<rparr>) \<noteq> None" using assms(1) by simp
    from p [OF this, of "''dynamic_addresses''" ?port] obtain e2 where
      "pollAddresses operator_ex ''dynamic_addresses'' ?port 30 (w\<lparr>trace := trace w @ [e1]\<rparr>) = Some (Found Ovn4nfvDefaultNw, w\<lparr>trace := trace w @ e1 # e2\<rparr>)" by auto
    with e1 s(1) that [of "e1 # e2"] show ?thesis by (simp add: AddNodeLogicalPorts_def addNodeLogicalPortWithSwitch_def del: pollAddresses.simps)
  qed
  moreover have "GetOvnController w = None" using assms(2) by (auto simp: GetOvnController_def)
  moreover have "env_listProviders operator_ex h = Inr []" for h by (simp add: operator_ex_def null_env_def)
  ultimately show ?thesis using assms(3) by (simp add: Subscribe_def node_AddNodeLogicalPorts_def stream_Send_def kube_write_def Let_def)
qed

theorem operator_invariant_witness:
  "\<exists>w cl. operator_runs operator_ex quiet_operator init_world True [''n1'' \<mapsto> 7] w \<and> ovnConf w = Some (netConf operator_ex) \<and>
     GetOvnController w = None \<and> clientList w = Some cl \<and> map_of cl ''n1'' = Some \<lparr>cl_node = ''n1'', cl_stream = Some 7\<rparr> \<and> map_of cl ''n2'' = None"
proof -
  have i: "clientList init_world = None" by (simp add: init_world_def)
  from operator_ex_boots obtain v where v: "operator_boot operator_ex quiet_operator init_world = Some (True, v)" by blast
  have "dispatch operator_ex quiet_operator (ReconcileNetworkPolicy ''default'' ''deny'') v = Some ((), v\<lparr>trace := trace v @ [KubeGet KNetworkPolicy ''default'' ''deny'']\<rparr>)"
    by (simp add: completed_def policy_Reconcile_def quiet_operator_def)
  from operator_runs.call [OF operator_runs.boot [OF v] this] obtain u where u: "operator_runs operator_ex quiet_operator init_world False Map.empty u" by blast
  from operator_ex_serves obtain r s where "initNotifServer operator_ex quiet_operator u = Some (r, s)" by blast
  from operator_runs.serve [OF u this] have s: "operator_runs operator_ex quiet_operator init_world True Map.empty s" .
  from operator_runs_ready [OF s i] obtain cl where "runner s \<noteq> None" "gatewayCache s \<noteq> None" "clientList s = Some cl" by auto
  from operator_ex_joins [OF this] obtain w where "Subscribe operator_ex ''n1'' 7 s = Some (Inr (), w)" by blast
  from operator_runs.join [OF s this] have w: "operator_runs operator_ex quiet_operator init_world True [''n1'' \<mapsto> 7] w" .
  from operator_invariant [OF w i] w show ?thesis by auto
qed

text \<open>
  C25.  The goroutine of the server is not waited for.  A controller that handles a provider network
  for all nodes before the server has been set up, which may take a minute because the goroutine
  first waits for its certificate, uses the nil server and panics, which ends the operator: the
  network need not even be new, an existing one is announced again when the operator restarts.
\<close>

theorem early_notification_panics:
  assumes "operator_reaches E Op w0 False w" and "clientList w0 = None"
    and "env_getProvider E (trace w) ns name = Inr pn" and "\<not> om_Deleting (pn_Meta pn)"
    and "nfnProviderNetworkFinalizer \<in> set (om_Finalizers (pn_Meta pn))" and "pn_CniType pn = ovn4nfv"
    and "pn_ProviderNetType pn \<in> {''VLAN'', ''DIRECT''}" and "strings_EqualFold (selector_of pn) ''ALL''"
    and "Controller_CreateProviderNetwork E pn (w\<lparr>trace := trace w @ [KubeGet KProviderNetwork ns name]\<rparr>) = Some (err, v)"
    and "err = None \<or> err = Some lsExists"
  shows "dispatch E Op (ReconcileProviderNetwork ns name) w = None"
proof -
  let ?u = "w\<lparr>trace := trace w @ [KubeGet KProviderNetwork ns name]\<rparr>"
  from assms(1) obtain subs where "operator_runs E Op w0 False subs w" by (auto simp: operator_reaches_def)
  note inv = operator_runs_ready [OF this assms(2)]
  from preservesD [OF steady.Controller_preserves(3) assms(9)] inv have cl: "clientList v = None" by (simp add: steady_def)
  have "SendNotif E pn ''create'' [] v = None"
    using assms(7)
  proof
    assume t: "pn_ProviderNetType pn = ''VLAN''"
    with assms(8) fold_ALL [OF assms(8)] assms(6) cl show ?thesis by (simp add: SendNotif_def sendSelected_def sendMsg_def selector_of_def)
  next
    assume "pn_ProviderNetType pn \<in> {''DIRECT''}"
    with assms(8) fold_ALL [OF assms(8)] assms(6) cl show ?thesis by (simp add: SendNotif_def sendSelected_def sendMsg_def selector_of_def)
  qed
  with assms(4,6,9,10) inv have "provider_createNetwork E pn ?u = None"
    by (auto simp: provider_createNetwork_def GetOvnController_def lsExists_def split: option.splits)
  with assms(3-5) show ?thesis
    by (simp add: completed_def provider_fin.rec_found finalize_def utils_Contains_set)
qed

theorem early_notification_panics_witness:
  "\<exists>w. operator_reaches operator_ex quiet_operator init_world False w \<and>
     dispatch operator_ex quiet_operator (ReconcileProviderNetwork ''default'' ''pnet'') w = None"
proof -
  from operator_ex_boots obtain w where "operator_boot operator_ex quiet_operator init_world = Some (True, w)" by blast
  then have r: "operator_reaches operator_ex quiet_operator init_world False w" unfolding operator_reaches_def by (blast intro: operator_runs.boot)
  have i: "clientList init_world = None" by (simp add: init_world_def)
  have g: "env_getProvider operator_ex (trace w) ''default'' ''pnet'' = Inr early_provider" by (simp add: operator_ex_def)
  have p: "\<not> om_Deleting (pn_Meta early_provider)" "nfnProviderNetworkFinalizer \<in> set (om_Finalizers (pn_Meta early_provider))"
    "pn_CniType early_provider = ovn4nfv" "pn_ProviderNetType early_provider \<in> {''VLAN'', ''DIRECT''}"
    by (simp_all add: early_provider_def demo_provider_def ovn4nfv_def)
  have f: "strings_EqualFold (selector_of early_provider) ''ALL''" by code_simp
  have c: "Controller_CreateProviderNetwork operator_ex early_provider u = Some (None, u)" for u
    by (simp add: Controller_CreateProviderNetwork_def early_provider_def demo_provider_def)
  from early_notification_panics [OF r i g p f c] r show ?thesis by blast
qed

end
