(* ===== verification/Nodus_Config.thy ===== *)
theory Nodus_Config
  imports Nodus_World
begin

text \<open>
  The configuration of the CNI plugin, \<^verbatim>\<open>internal/pkg/config/config.go\<close>: defaults, a file and
  command line flags merged by \<^verbatim>\<open>overrideFields\<close>, which works on any struct by reflection.
  The file system and the reader of the file (\<^verbatim>\<open>gcfg\<close>) are parameters; the logger's own
  level and output are not part of the model.
\<close>

section \<open>Structs by reflection\<close>

text \<open>The fields of a struct in their order; kinds other than the two handled are \<open>FOther\<close>.\<close>

datatype gofield = FString string | FInt int | FOther

definition overrideField :: "gofield \<Rightarrow> gofield \<Rightarrow> gofield option" where
  "overrideField dstField srcField =
     (case (dstField, srcField) of
        (FString d, FString s) \<Rightarrow> Some (FString (if s \<noteq> [] then s else d))
      | (FInt d, FInt s) \<Rightarrow> Some (FInt (if s \<noteq> 0 then s else d))
      | _ \<Rightarrow> None)"

fun overrideEach :: "gofield list \<Rightarrow> gofield list \<Rightarrow> gofield list option" where
  "overrideEach (d # ds) (s # ss) = do { f \<leftarrow> overrideField d s; fs \<leftarrow> overrideEach ds ss; Some (f # fs) }"
| "overrideEach ds ss = Some []"

definition overrideFields :: "gofield list \<Rightarrow> gofield list \<Rightarrow> gofield list option" where
  "overrideFields dst src = (if length dst \<noteq> length src then None else overrideEach dst src)"

section \<open>The configuration\<close>

record DefaultConfig = dc_MTU :: int
record LoggingConfig = lc_File :: string
  lc_Level :: int
record CNIConfig = cc_ConfDir :: string
  cc_Plugin :: string
record KubernetesConfig = kc_Kubeconfig :: string
  kc_Namespace :: string

record config =
  cfg_Default :: DefaultConfig
  cfg_Logging :: LoggingConfig
  cfg_CNI :: CNIConfig
  cfg_Kubernetes :: KubernetesConfig

text \<open>The package's variables as they are initialised, and the zero value of the struct.\<close>

definition default_config :: config where
  "default_config = \<lparr>cfg_Default = \<lparr>dc_MTU = 1400\<rparr>, cfg_Logging = \<lparr>lc_File = [], lc_Level = 4\<rparr>,
     cfg_CNI = \<lparr>cc_ConfDir = ''/etc/cni/net.d'', cc_Plugin = ''ovn4nfvk8s-cni''\<rparr>,
     cfg_Kubernetes = \<lparr>kc_Kubeconfig = [], kc_Namespace = []\<rparr>\<rparr>"

definition zero_config :: config where
  "zero_config = \<lparr>cfg_Default = \<lparr>dc_MTU = 0\<rparr>, cfg_Logging = \<lparr>lc_File = [], lc_Level = 0\<rparr>,
     cfg_CNI = \<lparr>cc_ConfDir = [], cc_Plugin = []\<rparr>, cfg_Kubernetes = \<lparr>kc_Kubeconfig = [], kc_Namespace = []\<rparr>\<rparr>"

text \<open>The fields of the four structs, and the structs from their fields.\<close>

definition default_fields :: "DefaultConfig \<Rightarrow> gofield list" where
  "default_fields c = [FInt (dc_MTU c)]"

fun default_of :: "gofield list \<Rightarrow> DefaultConfig option" where
  "default_of [FInt m] = Some \<lparr>dc_MTU = m\<rparr>"
| "default_of _ = None"

definition logging_fields :: "LoggingConfig \<Rightarrow> gofield list" where
  "logging_fields c = [FString (lc_File c), FInt (lc_Level c)]"

fun logging_of :: "gofield list \<Rightarrow> LoggingConfig option" where
  "logging_of [FString f, FInt l] = Some \<lparr>lc_File = f, lc_Level = l\<rparr>"
| "logging_of _ = None"

definition cni_fields :: "CNIConfig \<Rightarrow> gofield list" where
  "cni_fields c = [FString (cc_ConfDir c), FString (cc_Plugin c)]"

fun cni_of :: "gofield list \<Rightarrow> CNIConfig option" where
  "cni_of [FString d, FString p] = Some \<lparr>cc_ConfDir = d, cc_Plugin = p\<rparr>"
| "cni_of _ = None"

definition kubernetes_fields :: "KubernetesConfig \<Rightarrow> gofield list" where
  "kubernetes_fields c = [FString (kc_Kubeconfig c), FString (kc_Namespace c)]"

fun kubernetes_of :: "gofield list \<Rightarrow> KubernetesConfig option" where
  "kubernetes_of [FString k, FString n] = Some \<lparr>kc_Kubeconfig = k, kc_Namespace = n\<rparr>"
| "kubernetes_of _ = None"

text \<open>\<^verbatim>\<open>overrideFields(&dst, &src)\<close> for a struct given by its fields.\<close>

definition override_with :: "('s \<Rightarrow> gofield list) \<Rightarrow> (gofield list \<Rightarrow> 's option) \<Rightarrow> 's \<Rightarrow> 's \<Rightarrow> 's option" where
  "override_with flds of_flds dst src = do { fs \<leftarrow> overrideFields (flds dst) (flds src); of_flds fs }"

section \<open>Reading the configuration\<close>

record config_env =
  ce_Open :: "string \<Rightarrow> error + string"
  ce_ReadInto :: "string \<Rightarrow> error + config"
  ce_Stat :: "string \<Rightarrow> error option"
  ce_isNotExist :: "error \<Rightarrow> bool"

definition pathExists :: "config_env \<Rightarrow> string \<Rightarrow> bool" where
  "pathExists E path = (case ce_Stat E path of Some e \<Rightarrow> \<not> ce_isNotExist E e | None \<Rightarrow> True)"

definition getConfigFilePath :: "string \<Rightarrow> string \<times> bool" where
  "getConfigFilePath flag = (if flag \<noteq> [] then (flag, False) else (''/etc/openvswitch/ovn4nfv_k8s.conf'', True))"

text \<open>\<^verbatim>\<open>(error, new globals)\<close>; the globals are changed also when an error is returned.\<close>

definition buildKubernetesConfig :: "config_env \<Rightarrow> config \<Rightarrow> config \<Rightarrow> config \<Rightarrow> (error option \<times> config) option" where
  "buildKubernetesConfig E cli file g = do {
     k \<leftarrow> override_with kubernetes_fields kubernetes_of (cfg_Kubernetes g) (cfg_Kubernetes file);
     k \<leftarrow> override_with kubernetes_fields kubernetes_of k (cfg_Kubernetes cli);
     let g = g\<lparr>cfg_Kubernetes := k\<rparr>;
     Some (if kc_Kubeconfig k = [] \<or> \<not> pathExists E (kc_Kubeconfig k)
           then Some (Errorf (''kubernetes kubeconfig file '' @ fmt_q (kc_Kubeconfig k) @ '' not found'')) else None, g)
   }"

definition buildConfig :: "config_env \<Rightarrow> config \<Rightarrow> config \<Rightarrow> config \<Rightarrow> (error option \<times> config) option" where
  "buildConfig E cli file g = do {
     d \<leftarrow> override_with default_fields default_of (cfg_Default g) (cfg_Default file);
     d \<leftarrow> override_with default_fields default_of d (cfg_Default cli);
     c \<leftarrow> override_with cni_fields cni_of (cfg_CNI g) (cfg_CNI file);
     c \<leftarrow> override_with cni_fields cni_of c (cfg_CNI cli);
     l \<leftarrow> override_with logging_fields logging_of (cfg_Logging g) (cfg_Logging file);
     l \<leftarrow> override_with logging_fields logging_of l (cfg_Logging cli);
     buildKubernetesConfig E cli file (g\<lparr>cfg_Default := d, cfg_CNI := c, cfg_Logging := l\<rparr>)
   }"

definition InitConfigWithPath :: "config_env \<Rightarrow> string \<Rightarrow> config \<Rightarrow> string \<Rightarrow> config \<Rightarrow> ((error + string) \<times> config) option" where
  "InitConfigWithPath E flag cli configFile g =
     (let (configFile, configFileIsDefault) = (if configFile = [] then getConfigFilePath flag else (configFile, False));
          retConfigFile = (if configFileIsDefault then [] else configFile)
      in case (ce_Open E configFile, configFileIsDefault) of
           (Inl e, False) \<Rightarrow> Some (Inl (Errorf (''failed to open config file '' @ configFile @ '': '' @ error_msg e)), g)
         | (opened, _) \<Rightarrow>
        (case (case opened of Inl e \<Rightarrow> Inr zero_config | Inr content \<Rightarrow> ce_ReadInto E content) of
           Inl e \<Rightarrow> Some (Inl (Errorf (''failed to parse config file '' @ configFile @ '': '' @ error_msg e)), g)
         | Inr cfg \<Rightarrow> do {
             (err, g) \<leftarrow> buildConfig E cli cfg g;
             Some (case err of Some e \<Rightarrow> Inl e | None \<Rightarrow> Inr retConfigFile, g) }))"

definition InitConfig :: "config_env \<Rightarrow> string \<Rightarrow> config \<Rightarrow> config \<Rightarrow> ((error + string) \<times> config) option" where
  "InitConfig E flag cli g = InitConfigWithPath E flag cli [] g"

text \<open>
  \<^verbatim>\<open>NewClientset\<close>: without a kubeconfig the configuration stays nil and is handed to
  client-go as it is, which may panic.
\<close>

definition NewClientset :: "(string \<Rightarrow> error + 'rest) \<Rightarrow> ('rest option \<Rightarrow> (error + 'clientset) option) \<Rightarrow> KubernetesConfig \<Rightarrow> (error + 'clientset) option" where
  "NewClientset buildConfigFromFlags newForConfig conf =
     (if kc_Kubeconfig conf \<noteq> [] then
        (case buildConfigFromFlags (kc_Kubeconfig conf) of
           Inl e \<Rightarrow> Some (Inl e)
         | Inr kconfig \<Rightarrow> newForConfig (Some kconfig))
      else newForConfig None)"

section \<open>Overriding never panics\<close>

fun same_kind :: "gofield \<Rightarrow> gofield \<Rightarrow> bool" where
  "same_kind (FString a) (FString b) = True"
| "same_kind (FInt a) (FInt b) = True"
| "same_kind _ _ = False"

text \<open>The value that is set, if any.\<close>

fun pick :: "gofield \<Rightarrow> gofield \<Rightarrow> gofield" where
  "pick d s = (if s = FString [] \<or> s = FInt 0 then d else s)"

lemma overrideField_pick: "same_kind d s \<Longrightarrow> overrideField d s = Some (pick d s)"
  by (induction d s rule: same_kind.induct) (auto simp: overrideField_def)

lemma overrideEach_pick: "list_all2 same_kind ds ss \<Longrightarrow> overrideEach ds ss = Some (map2 pick ds ss)"
  by (induction rule: list_all2_induct) (simp_all add: overrideField_pick del: pick.simps)

text \<open>
  A struct type as reflection sees it: all its values have fields of the same kinds, strings and
  numbers only, and fields of these kinds are a value.
\<close>

locale gostruct =
  fixes flds :: "'s \<Rightarrow> gofield list" and of_flds :: "gofield list \<Rightarrow> 's option"
  assumes of_flds: "of_flds (flds x) = Some x"
    and kinds: "list_all2 same_kind (flds x) (flds y)"
    and closed: "list_all2 same_kind fs (flds x) \<Longrightarrow> \<exists>y. flds y = fs"
begin

lemma pick_kinds: "list_all2 same_kind (map2 pick (flds x) (flds y)) (flds x)"
proof -
  have "same_kind (pick a b) a" if "same_kind a b" for a b using that by (induction a b rule: same_kind.induct) auto
  moreover have "list_all2 same_kind ds ss \<Longrightarrow> list_all2 same_kind (map2 pick ds ss) ds"
    if "\<And>a b. same_kind a b \<Longrightarrow> same_kind (pick a b) a" for ds ss
    by (induction rule: list_all2_induct) (simp_all add: that del: pick.simps)
  ultimately show ?thesis using kinds by blast
qed

lemma override_total: "\<exists>z. override_with flds of_flds x y = Some z \<and> flds z = map2 pick (flds x) (flds y)"
proof -
  obtain z where z: "flds z = map2 pick (flds x) (flds y)" using closed [OF pick_kinds] by blast
  have "overrideFields (flds x) (flds y) = Some (map2 pick (flds x) (flds y))"
    using overrideEach_pick [OF kinds] list_all2_lengthD [OF kinds [of x y]] by (simp add: overrideFields_def)
  with z of_flds [of z] show ?thesis by (simp add: override_with_def)
qed

lemma override_idem: "override_with flds of_flds x y = Some z \<Longrightarrow> override_with flds of_flds z y = Some z"
proof -
  assume "override_with flds of_flds x y = Some z"
  with override_total [of x y] have z: "flds z = map2 pick (flds x) (flds y)" by auto
  have "map2 pick (map2 pick ds ss) ss = map2 pick ds ss" if "length ds = length ss" for ds ss
    using that by (induction ds ss rule: list_induct2) simp_all
  with z override_total [of z y] of_flds show ?thesis
    using list_all2_lengthD [OF kinds [of x y]] by (metis option.inject)
qed

end

lemma same_kind_simps [simp]:
  "same_kind f (FString b) \<longleftrightarrow> (\<exists>a. f = FString a)" "same_kind f (FInt i) \<longleftrightarrow> (\<exists>a. f = FInt a)"
  by (cases f; simp)+

interpretation default_struct: gostruct default_fields default_of
  by unfold_locales (auto simp: default_fields_def list_all2_Cons2 intro: exI [of _ "\<lparr>dc_MTU = _\<rparr>"])

interpretation logging_struct: gostruct logging_fields logging_of
  by unfold_locales (auto simp: logging_fields_def list_all2_Cons2 intro: exI [of _ "\<lparr>lc_File = _, lc_Level = _\<rparr>"])

interpretation cni_struct: gostruct cni_fields cni_of
  by unfold_locales (auto simp: cni_fields_def list_all2_Cons2 intro: exI [of _ "\<lparr>cc_ConfDir = _, cc_Plugin = _\<rparr>"])

interpretation kubernetes_struct: gostruct kubernetes_fields kubernetes_of
  by unfold_locales (auto simp: kubernetes_fields_def list_all2_Cons2 intro: exI [of _ "\<lparr>kc_Kubeconfig = _, kc_Namespace = _\<rparr>"])

section \<open>Flags win over the file, the file over the defaults\<close>

text \<open>The first value that is set.\<close>

definition first_set :: "'a \<Rightarrow> 'a list \<Rightarrow> 'a" where
  "first_set zero vs = (case filter (\<lambda>v. v \<noteq> zero) vs of [] \<Rightarrow> zero | v # _ \<Rightarrow> v)"

definition merged :: "config \<Rightarrow> config \<Rightarrow> config \<Rightarrow> config" where
  "merged cli file g =
     \<lparr>cfg_Default = \<lparr>dc_MTU = first_set 0 (map (\<lambda>c. dc_MTU (cfg_Default c)) [cli, file, g])\<rparr>,
      cfg_Logging = \<lparr>lc_File = first_set [] (map (\<lambda>c. lc_File (cfg_Logging c)) [cli, file, g]),
        lc_Level = first_set 0 (map (\<lambda>c. lc_Level (cfg_Logging c)) [cli, file, g])\<rparr>,
      cfg_CNI = \<lparr>cc_ConfDir = first_set [] (map (\<lambda>c. cc_ConfDir (cfg_CNI c)) [cli, file, g]),
        cc_Plugin = first_set [] (map (\<lambda>c. cc_Plugin (cfg_CNI c)) [cli, file, g])\<rparr>,
      cfg_Kubernetes = \<lparr>kc_Kubeconfig = first_set [] (map (\<lambda>c. kc_Kubeconfig (cfg_Kubernetes c)) [cli, file, g]),
        kc_Namespace = first_set [] (map (\<lambda>c. kc_Namespace (cfg_Kubernetes c)) [cli, file, g])\<rparr>\<rparr>"

lemma overrideField_simps [simp]:
  "overrideField (FString d) (FString s) = Some (FString (if s \<noteq> [] then s else d))"
  "overrideField (FInt m) (FInt n) = Some (FInt (if n \<noteq> 0 then n else m))"
  by (simp_all add: overrideField_def)

lemmas override_defs = override_with_def overrideFields_def default_fields_def logging_fields_def cni_fields_def kubernetes_fields_def

lemma first_set_3: "first_set z [a, b, c] = (if a \<noteq> z then a else if b \<noteq> z then b else c)"
  by (simp add: first_set_def)

lemma override_twice:
  "Option.bind (override_with default_fields default_of d1 d2) (\<lambda>d. override_with default_fields default_of d d3) =
     Some \<lparr>dc_MTU = first_set 0 [dc_MTU d3, dc_MTU d2, dc_MTU d1]\<rparr>"
  "Option.bind (override_with logging_fields logging_of l1 l2) (\<lambda>l. override_with logging_fields logging_of l l3) =
     Some \<lparr>lc_File = first_set [] [lc_File l3, lc_File l2, lc_File l1], lc_Level = first_set 0 [lc_Level l3, lc_Level l2, lc_Level l1]\<rparr>"
  "Option.bind (override_with cni_fields cni_of c1 c2) (\<lambda>c. override_with cni_fields cni_of c c3) =
     Some \<lparr>cc_ConfDir = first_set [] [cc_ConfDir c3, cc_ConfDir c2, cc_ConfDir c1], cc_Plugin = first_set [] [cc_Plugin c3, cc_Plugin c2, cc_Plugin c1]\<rparr>"
  "Option.bind (override_with kubernetes_fields kubernetes_of k1 k2) (\<lambda>k. override_with kubernetes_fields kubernetes_of k k3) =
     Some \<lparr>kc_Kubeconfig = first_set [] [kc_Kubeconfig k3, kc_Kubeconfig k2, kc_Kubeconfig k1],
       kc_Namespace = first_set [] [kc_Namespace k3, kc_Namespace k2, kc_Namespace k1]\<rparr>"
  by (simp_all add: override_defs first_set_3)

lemma bind_twice: "Option.bind a (\<lambda>x. Option.bind (f x) g) = Option.bind (Option.bind a f) g"
  by simp

lemma buildConfig_merged:
  "buildConfig E cli file g =
     (let g' = merged cli file g; k = kc_Kubeconfig (cfg_Kubernetes g')
      in Some (if k \<noteq> [] \<and> pathExists E k then None else Some (Errorf (''kubernetes kubeconfig file '' @ fmt_q k @ '' not found'')), g'))"
  unfolding buildConfig_def buildKubernetesConfig_def bind_twice override_twice
  by (simp add: merged_def Let_def)

text \<open>The file that is read, and what it says; a default file need not be there.\<close>

definition config_file :: "string \<Rightarrow> string \<Rightarrow> string" where
  "config_file flag path = first_set [] [path, flag, ''/etc/openvswitch/ovn4nfv_k8s.conf'']"

definition file_config :: "config_env \<Rightarrow> string \<Rightarrow> string \<Rightarrow> error + config" where
  "file_config E flag path =
     (case ce_Open E (config_file flag path) of
        Inl e \<Rightarrow> if path = [] \<and> flag = [] then Inr zero_config
          else Inl (Errorf (''failed to open config file '' @ config_file flag path @ '': '' @ error_msg e))
      | Inr content \<Rightarrow> (case ce_ReadInto E content of
          Inl e \<Rightarrow> Inl (Errorf (''failed to parse config file '' @ config_file flag path @ '': '' @ error_msg e)) | Inr cfg \<Rightarrow> Inr cfg))"

text \<open>
  C40.  Reading the configuration never panics, although it overrides structs by reflection.  An
  error of the file leaves every setting as it was.  Otherwise each setting is the flag if it is
  given, else the value of the file, else the value it had; this is done, with the path that was
  named explicitly as the result, exactly if the resulting kubeconfig is a file that exists, and
  when it is not the settings are changed all the same.
\<close>

theorem InitConfigWithPath_precedence:
  "InitConfigWithPath E flag cli path g =
     Some (case file_config E flag path of
        Inl e \<Rightarrow> (Inl e, g)
      | Inr file \<Rightarrow>
          (let g' = merged cli file g; k = kc_Kubeconfig (cfg_Kubernetes g')
           in (if k \<noteq> [] \<and> pathExists E k then Inr (first_set [] [path, flag])
               else Inl (Errorf (''kubernetes kubeconfig file '' @ fmt_q k @ '' not found'')), g')))"
proof -
  have "(if path = [] then getConfigFilePath flag else (path, False)) = (config_file flag path, path = [] \<and> flag = [])"
    by (simp add: getConfigFilePath_def config_file_def first_set_def)
  moreover have "(if path = [] \<and> flag = [] then [] else config_file flag path) = first_set [] [path, flag]"
    by (simp add: config_file_def first_set_def)
  ultimately show ?thesis
    unfolding InitConfigWithPath_def file_config_def buildConfig_merged
    by (cases "ce_Open E (config_file flag path)"; cases "path = [] \<and> flag = []") (auto simp: Let_def split: sum.split)
qed

end
