(* ===== verification/Plugin_Main.thy ===== *)
theory Plugin_Main
  imports Cni_Shim Nodus_Config
begin

text \<open>
  The plugin binary the container runtime runs, \<^verbatim>\<open>cmd/ovn4nfvk8s-cni/ovn4nfvk8s-cni.go\<close>: it reads
  the configuration and hands the three commands of the shim to \<^verbatim>\<open>skel.PluginMain\<close>.  The command
  line parser gives the flags, and \<^verbatim>\<open>PluginMain\<close>, which reads the environment and the standard
  input, calls a command and reports its error itself, is a parameter.
\<close>

type_synonym command = "string list \<Rightarrow> string \<Rightarrow> (world, error option) prog"

text \<open>The error printed to the standard output: its code and its message.\<close>

definition plugin_main ::
  "config_env \<Rightarrow> env \<Rightarrow> post \<Rightarrow> (command \<Rightarrow> command \<Rightarrow> command \<Rightarrow> (world, unit) prog) \<Rightarrow> string \<Rightarrow> config \<Rightarrow> config \<Rightarrow>
    (world, (int \<times> string) option \<times> config) prog" where
  "plugin_main CE E httpPost pluginMain flag cli g w =
     (let ep = CNIEndpoint []
      in do {
        (r, g) \<leftarrow> InitConfig CE flag cli g;
        (case r of
           Inl e \<Rightarrow> Some ((Some (100, error_msg e), g), w)
         | Inr path \<Rightarrow> do {
             (u, w) \<leftarrow> pluginMain (CmdAdd E httpPost ep) (\<lambda>_ _. CmdCheck) (CmdDel E httpPost ep) w;
             Some ((None, g), w) }) })"

text \<open>A plugin that is not configured prints an error and asks the server for nothing.\<close>

lemma plugin_main_unconfigured:
  assumes "InitConfig CE flag cli g = Some (Inl e, g')"
  shows "plugin_main CE E httpPost pm flag cli g w = Some ((Some (100, error_msg e), g'), w)"
  using assms by (simp add: plugin_main_def)

text \<open>
  A configured plugin that is called to delete makes exactly the request of the shim.
\<close>

lemma plugin_main_del:
  assumes "InitConfig CE flag cli g = Some (Inr path, g')"
    and "\<And>add chk del. pm add chk del w = (case del environ stdin w of None \<Rightarrow> None | Some (err, w') \<Rightarrow> Some ((), w'))"
  shows "plugin_main CE E httpPost pm flag cli g w =
    (case CmdDel E httpPost (CNIEndpoint []) environ stdin w of None \<Rightarrow> None | Some (err, w') \<Rightarrow> Some ((None, g'), w'))"
  using assms by (auto simp: plugin_main_def split: option.split)

end
