(* ===== verification/Ovn_Annotation.thy ===== *)
theory Ovn_Annotation
  imports Cni_Server Kube_Client
begin

text \<open>
  The way of a pod's interfaces from the operator to the node: the text
  \<^verbatim>\<open>AddLogicalPorts\<close> composes (\<^verbatim>\<open>internal/pkg/ovn/ovn.go\<close>), the patch
  \<^verbatim>\<open>SetAnnotationOnPod\<close> puts it in (\<^verbatim>\<open>internal/pkg/kube/kube.go\<close>) and the list
  of networks the CNI server reads back (\<^verbatim>\<open>internal/pkg/cniserver/cni.go\<close>).
\<close>

section \<open>What OVN answers\<close>

text \<open>
  \<^verbatim>\<open>ovn-nbctl get\<close> prints a string, quoted when it holds spaces or other special
  characters, and a set of one string in brackets; the columns the code reads hold MAC and IP
  addresses.
\<close>

definition address_text :: "string \<Rightarrow> bool" where
  "address_text x \<longleftrightarrow> plain x \<and> CHR ''['' \<notin> set x \<and> CHR '']'' \<notin> set x \<and> (x = [] \<or> \<not> is_space (hd x) \<and> \<not> is_space (last x))"

definition atom_answer :: "string \<Rightarrow> bool" where
  "atom_answer out \<longleftrightarrow> (\<exists>x nl. address_text x \<and> nl \<in> {[], [CHR 0x0A]} \<and> out \<in> {x @ nl, quoted x @ nl})"

definition set_answer :: "string \<Rightarrow> bool" where
  "set_answer out \<longleftrightarrow> atom_answer out \<or>
     (\<exists>x nl. address_text x \<and> nl \<in> {[], [CHR 0x0A]} \<and> out \<in> {''[]'' @ nl, ''['' @ quoted x @ '']'' @ nl})"

definition ovn_answers :: "env \<Rightarrow> bool" where
  "ovn_answers E \<longleftrightarrow> (\<forall>h cmd args out err. env_exec E h cmd args = (out, err, None) \<longrightarrow>
     (''external_ids:gateway_ip'' \<in> set args \<longrightarrow> atom_answer out) \<and>
     (''get'' \<in> set args \<and> ''logical_switch_port'' \<in> set args \<longrightarrow> set_answer out))"

lemma trim_left_hd: "s = [] \<or> \<not> p (hd s) \<Longrightarrow> trim_left p s = s"
  by (cases s) (auto simp: trim_left_def)

lemma trim_right_last: "s = [] \<or> \<not> p (last s) \<Longrightarrow> trim_right p s = s"
  by (cases s rule: rev_cases) (auto simp: trim_right_def)

lemma trim_left_Cons: "p c \<Longrightarrow> trim_left p (c # s) = trim_left p s"
  by (simp add: trim_left_def)

lemma trim_newline:
  assumes "s = [] \<or> \<not> is_space (hd s) \<and> \<not> is_space (last s)" and "nl \<in> {[], [CHR 0x0A]}"
  shows "strings_TrimSpace (s @ nl) = s"
proof (cases "s = []")
  case True
  with assms(2) show ?thesis by (auto simp: strings_TrimSpace_def trim_left_def trim_right_def is_space_def)
next
  case False
  with assms(1) have "trim_left is_space (s @ nl) = s @ nl" by (intro trim_left_hd) simp
  moreover have "is_space (CHR 0x0A)" by (simp add: is_space_def)
  ultimately show ?thesis using False assms trim_right_last [of s is_space] by (auto simp: strings_TrimSpace_def trim_right_snoc)
qed

lemma plain_no_quote: "plain x \<Longrightarrow> CHR 0x22 \<notin> set x"
  by (auto simp: plain_def)

lemma trim_quotes: "plain x \<Longrightarrow> strings_Trim x quote = x" "plain x \<Longrightarrow> strings_Trim (quoted x) quote = x"
proof -
  assume "plain x"
  then have q: "\<forall>c \<in> set x. c \<notin> set quote" using plain_no_quote by auto
  then show "strings_Trim x quote = x" by (simp add: strings_Trim_def trim_left_id trim_right_id)
  have "trim_left (\<lambda>c. c \<in> set quote) (quoted x) = trim_left (\<lambda>c. c \<in> set quote) (x @ quote)"
    by (simp add: quoted_def trim_left_Cons)
  also have "trim_right (\<lambda>c. c \<in> set quote) \<dots> = x"
  proof (cases x)
    case Nil
    then show ?thesis by (simp add: trim_left_def trim_right_def)
  next
    case (Cons c y)
    with q have "trim_left (\<lambda>c. c \<in> set quote) (x @ quote) = x @ quote" by (intro trim_left_hd) simp
    with q show ?thesis by (simp add: trim_right_snoc trim_right_id)
  qed
  finally show "strings_Trim (quoted x) quote = x" by (simp add: strings_Trim_def)
qed

lemma trimOutput_atom:
  assumes "atom_answer out" obtains x where "address_text x" "trimOutput out = x"
proof -
  from assms obtain x nl where x: "address_text x" "nl \<in> {[], [CHR 0x0A]}" "out \<in> {x @ nl, quoted x @ nl}"
    by (auto simp: atom_answer_def)
  have "strings_TrimSpace out \<in> {x, quoted x}"
    using x trim_newline [of x nl] trim_newline [of "quoted x" nl] by (auto simp: address_text_def quoted_def is_space_def)
  with trim_quotes [of x] x(1) have "trimOutput out = x" by (auto simp: trimOutput_def address_text_def)
  with x(1) that show ?thesis by blast
qed

lemma Split_plain: "plain x \<Longrightarrow> a \<in> set (strings_Split x c) \<Longrightarrow> plain a"
  unfolding plain_def strings_Split_def by (meson split_pred_parts)

lemma trimOutput_set:
  assumes "set_answer out" and "trimOutput out \<noteq> ''[]''" and "a \<in> set (splitAddresses (trimOutput out))"
  shows "plain a"
proof -
  let ?split = "\<lambda>out. strings_Trim (strings_TrimRight (strings_TrimLeft out ''['') '']'') quote"
  obtain x where x: "address_text x" "?split (trimOutput out) = x"
  proof (cases "atom_answer out")
    case True
    then obtain x where "address_text x" "trimOutput out = x" by (rule trimOutput_atom)
    moreover from this have "strings_TrimLeft x ''['' = x" "strings_TrimRight x '']'' = x"
      unfolding strings_TrimLeft_def strings_TrimRight_def by (auto intro!: trim_left_id trim_right_id simp: address_text_def)
    ultimately show ?thesis using that trim_quotes(1) [of x] by (simp add: address_text_def)
  next
    case False
    with assms(1) obtain x nl where x: "address_text x" "nl \<in> {[], [CHR 0x0A]}" "out \<in> {''[]'' @ nl, ''['' @ quoted x @ '']'' @ nl}"
      by (auto simp: set_answer_def)
    have s: "strings_TrimSpace out \<in> {''[]'', ''['' @ quoted x @ '']''}"
      using x(2,3) trim_newline [of "''[]''" nl] trim_newline [of "''['' @ quoted x @ '']''" nl] by (auto simp: is_space_def quoted_def)
    have t: "strings_Trim t quote = t" if "t \<in> {''[]'', ''['' @ quoted x @ '']''}" for t
      using that trim_left_hd [of t "\<lambda>c. c \<in> set quote"] trim_right_last [of t "\<lambda>c. c \<in> set quote"] by (auto simp: strings_Trim_def)
    from s t assms(2) have out: "trimOutput out = ''['' @ quoted x @ '']''" by (auto simp: trimOutput_def)
    have "strings_TrimLeft (''['' @ quoted x @ '']'') ''['' = quoted x @ '']''"
      using trim_left_hd [of "quoted x @ '']''" "\<lambda>c. c \<in> set ''[''"] by (simp add: strings_TrimLeft_def trim_left_Cons) (simp add: quoted_def)
    moreover have "strings_TrimRight (quoted x @ '']'') '']'' = quoted x"
      using trim_right_last [of "quoted x" "\<lambda>c. c \<in> set '']''"] by (simp add: strings_TrimRight_def trim_right_snoc) (simp add: quoted_def)
    ultimately show ?thesis using that [OF x(1)] out trim_quotes(2) [of x] x(1) by (simp add: address_text_def)
  qed
  with assms(3) show ?thesis by (auto simp: splitAddresses_def address_text_def intro: Split_plain)
qed

section \<open>The composed text\<close>

lemma composeAddresses_qlist: "composeAddresses a b = qlist esc (filter (\<lambda>s. s \<noteq> []) [a, b])"
  by (simp add: composeAddresses_def qstr_def esc_def Let_def)

definition netOf :: "string list \<Rightarrow> string \<Rightarrow> string list \<Rightarrow> string \<Rightarrow> string \<Rightarrow> OvnNetwork" where
  "netOf ips mac gws gw intf = \<lparr>on_IpAddress = ips, on_MacAddress = mac, on_GatewayIP = gws, on_DefaultGateway = gw, on_Interface = intf\<rparr>"

lemma annotationOf_net:
  "butlast (annotationOf (qlist esc ips) mac (qlist esc gws)) @
     (if gw = [] then [] else '','' @ esc @ ''defaultGateway'' @ esc @ '':'' @ esc @ gw @ esc) @
     '','' @ esc @ ''interface'' @ esc @ '':'' @ esc @ intf @ esc @ ''}'' = netText esc (netOf ips mac gws gw intf)"
  by (simp add: annotationOf_def netText_def netOf_def qstr_def butlast_append)

section \<open>What the program reads\<close>

lemma nbctl_answer:
  assumes "RunOVNNbctl E args w = Some ((out, se, None), w')"
  shows "\<exists>h cmd args' raw. set args \<subseteq> set args' \<and> env_exec E h cmd args' = (raw, se, None) \<and> out = trimOutput raw"
proof -
  from assms obtain r where r: "runner w = Some r"
    by (auto simp: RunOVNNbctl_def RunOVNNbctlWithTimeout_def run_conv)
  let ?p = "eh_nbctlPath r" and ?args = "nbctlArgs r ovsCommandTimeout args"
  obtain k where k: "retryLoop E 200 ?p ?args w = Some (env_exec E (trace w @ replicate k (ExecCmd ?p ?args)) ?p ?args,
      w\<lparr>trace := trace w @ replicate (Suc k) (ExecCmd ?p ?args)\<rparr>)"
    using retryLoop_spec [of w 200 E ?p ?args] r by auto
  obtain raw e1 er where x: "env_exec E (trace w @ replicate k (ExecCmd ?p ?args)) ?p ?args = (raw, e1, er)" by (metis prod_cases3)
  have "out = trimOutput raw \<and> e1 = se \<and> er = None" using assms r k x
    by (auto simp: RunOVNNbctl_def RunOVNNbctlWithTimeout_def runOVNretry_def)
  moreover have "set args \<subseteq> set ?args" by (auto simp: nbctlArgs_def)
  ultimately show ?thesis using x by blast
qed

definition cache_plain :: "world \<Rightarrow> bool" where
  "cache_plain w \<longleftrightarrow> (\<forall>c k v. gatewayCache w = Some c \<longrightarrow> map_of c k = Some v \<longrightarrow> plain v)"

lemma cache_plain_frame: "frame m \<Longrightarrow> m w = Some (a, w') \<Longrightarrow> cache_plain w \<Longrightarrow> cache_plain w'"
  by (simp add: cache_plain_def frame_fields(3))

lemma ovn_answersD:
  assumes "ovn_answers E" and "env_exec E h cmd args = (out, err, None)"
  shows "''external_ids:gateway_ip'' \<in> set args \<Longrightarrow> atom_answer out"
    and "''get'' \<in> set args \<Longrightarrow> ''logical_switch_port'' \<in> set args \<Longrightarrow> set_answer out"
  using assms unfolding ovn_answers_def by blast+

lemma pollAddresses_plain:
  assumes "ovn_answers E" and "pollAddresses E column port n w = Some (Found out, w')" and "a \<in> set (splitAddresses out)"
  shows "plain a"
  using assms(2)
proof (induction n arbitrary: w)
  case (Suc n)
  from Suc.prems obtain o1 se err v where run: "RunOVNNbctl E [''get'', ''logical_switch_port'', port, column] w = Some ((o1, se, err), v)"
    and rest: "(case err of None \<Rightarrow> if o1 \<noteq> ''[]'' then Some (Found o1, v) else pollAddresses E column port n v
      | Some e \<Rightarrow> Some (PollErr e, v)) = Some (Found out, w')"
    by (auto simp: bind_eq_Some_conv)
  show ?case
  proof (cases err)
    case None
    show ?thesis
    proof (cases "o1 = ''[]''")
      case True
      with rest None Suc.IH show ?thesis by simp
    next
      case False
      with rest None have "out = o1" by simp
      from nbctl_answer [OF run [unfolded None]] obtain h cmd args' raw where
        "set [''get'', ''logical_switch_port'', port, column] \<subseteq> set args'" "env_exec E h cmd args' = (raw, se, None)" and o1: "o1 = trimOutput raw" by blast
      then have "set_answer raw" using ovn_answersD(2) [OF assms(1)] by simp
      with trimOutput_set False assms(3) \<open>out = o1\<close> o1 show ?thesis by blast
    qed
  qed (use rest in simp)
qed simp

lemma parseGateways_plain:
  "\<forall>g \<in> set gs. plain g \<Longrightarrow> parseGateways gs = Inr (ips, ms) \<Longrightarrow> \<forall>s \<in> set ips \<union> set ms. plain s"
proof (induction gs arbitrary: ips ms)
  case (Cons g gs)
  from Cons.prems(2) obtain ip m is' ms' where g: "strings_Split g (CHR ''/'') = [ip, m]" "parseGateways gs = Inr (is', ms')"
    "ips = ip # is'" "ms = m # ms'" by (auto split: list.splits sum.splits)
  from g(1) have "ip \<in> set (strings_Split g (CHR ''/''))" "m \<in> set (strings_Split g (CHR ''/''))" by simp_all
  with Cons.prems(1) have "plain ip" "plain m" by (auto intro: Split_plain)
  with Cons.IH [OF _ g(2)] Cons.prems(1) g(3,4) show ?case by simp
qed simp

lemma getGatewayFromSwitch_plain:
  assumes "ovn_answers E" and "cache_plain w" and "getGatewayFromSwitch E sw w = Some (r, w')"
  shows "cache_plain w' \<and> (\<forall>ips ms. r = Inr (ips, ms) \<longrightarrow> length ms = length ips \<and> (\<forall>s \<in> set ips \<union> set ms. plain s))"
proof -
  have gs: "\<forall>g \<in> set (strings_Split s (CHR '','')). plain g" if "plain s" for s using that by (auto intro: Split_plain)
  obtain cache where c: "gatewayCache w = Some cache" using assms(3)
    by (cases "gatewayCache w") (simp_all add: getGatewayFromSwitch_def)
  show ?thesis
  proof (cases "map_of cache sw")
    case (Some s)
    with c assms(2) have "plain s" by (auto simp: cache_plain_def)
    with Some c assms(2,3) show ?thesis
      by (auto simp: getGatewayFromSwitch_def dest: parseGateways_length parseGateways_plain [OF gs])
  next
    case None
    with c assms(3) obtain s se err v where run: "RunOVNNbctl E [''--if-exists'', ''get'', ''logical_switch'', sw,
        ''external_ids:gateway_ip''] w = Some ((s, se, err), v)"
      and rest: "(\<exists>e. r = Inl e \<and> w' = v) \<or> err = None \<and> r = parseGateways (strings_Split s (CHR '','')) \<and>
        w' = v\<lparr>gatewayCache := Some (map_put sw s cache)\<rparr>"
      by (auto simp: getGatewayFromSwitch_def run_conv)
    from cache_plain_frame [OF RunOVNNbctl_frame run assms(2)] have v: "cache_plain v" .
    from rest show ?thesis
    proof (elim disjE exE conjE)
      assume n: "err = None" and r: "r = parseGateways (strings_Split s (CHR '',''))" "w' = v\<lparr>gatewayCache := Some (map_put sw s cache)\<rparr>"
      from nbctl_answer [OF run [unfolded n]] obtain h cmd args' raw where
        "set [''--if-exists'', ''get'', ''logical_switch'', sw, ''external_ids:gateway_ip''] \<subseteq> set args'" "env_exec E h cmd args' = (raw, se, None)"
        and s: "s = trimOutput raw" by blast
      then have "atom_answer raw" using ovn_answersD(1) [OF assms(1)] by simp
      then have "plain s" using s by (metis trimOutput_atom address_text_def)
      with r v c assms(2) show ?thesis
        by (auto simp: cache_plain_def dest: parseGateways_length parseGateways_plain [OF gs] split: if_splits)
    qed (use v in simp)
  qed
qed

lemma addressWithMask_plain:
  assumes "\<forall>a \<in> set addrs \<union> set gws \<union> set ms. plain a" and "length ms = length gws"
  shows "plain (addressWithMask addrs gws ms sep)"
proof -
  have "plain (addrs ! i @ ''/'' @ ms ! j)" if "findIndex addrs sep = Some i" "findIndex gws sep = Some j" for i j
    using assms findIndex_bound [OF that(1)] findIndex_bound [OF that(2)] by (auto simp: clean_char_def)
  then show ?thesis by (auto simp: addressWithMask_def split: option.splits)
qed

text \<open>The text of one port, and that the cache stays plain.\<close>

definition plain_port :: "string \<Rightarrow> string \<Rightarrow> bool" where
  "plain_port gwip out \<longleftrightarrow> out = [] \<or> (\<exists>ips mac gws. out = annotationOf (qlist esc ips) mac (qlist esc gws) \<and>
     plain mac \<and> (\<forall>s \<in> set ips \<union> set gws. plain s) \<and> (gwip \<noteq> [] \<longrightarrow> gws = [gwip]))"

lemma getNodeLogicalPortIPAddr_plain:
  assumes "ovn_answers E" and "getNodeLogicalPortIPAddr E pod w = Some ((ip, ip6, err), w')"
  shows "plain ip \<and> plain ip6"
proof -
  from assms(2) obtain p v where poll: "pollAddresses E ''dynamic_addresses'' (GetNodeIntfName (strings_ToLower (pod_NodeName pod))) 30 w = Some (p, v)"
    and rest: "(case p of PollErr e \<Rightarrow> Some (([], [], Some e), v) | TimedOut \<Rightarrow> Some (([], [], None), v)
      | Found out \<Rightarrow> (case splitAddresses out of mac # a # as \<Rightarrow> Some ((a, (case as of [] \<Rightarrow> [] | b # _ \<Rightarrow> b), None), v)
          | _ \<Rightarrow> Some (([], [], None), v))) = Some ((ip, ip6, err), w')"
    by (auto simp: getNodeLogicalPortIPAddr_def bind_eq_Some_conv Let_def)
  show ?thesis
  proof (cases p)
    case (Found out)
    have "\<forall>a \<in> set (splitAddresses out). plain a" using pollAddresses_plain [OF assms(1)] poll Found by blast
    with rest Found show ?thesis by (auto split: list.splits)
  qed (use rest in auto)
qed

text \<open>
  Programs that keep an invariant of the world and whose result satisfies a predicate.
\<close>

definition yields :: "(world \<Rightarrow> bool) \<Rightarrow> (world, 'a) prog \<Rightarrow> ('a \<Rightarrow> bool) \<Rightarrow> bool" where
  "yields I m P \<longleftrightarrow> (\<forall>w a w'. I w \<longrightarrow> m w = Some (a, w') \<longrightarrow> I w' \<and> P a)"

lemma yieldsD: "yields I m P \<Longrightarrow> I w \<Longrightarrow> m w = Some (a, w') \<Longrightarrow> I w' \<and> P a"
  unfolding yields_def by blast

lemma yields_mono: "yields I m P \<Longrightarrow> (\<And>a. P a \<Longrightarrow> Q a) \<Longrightarrow> yields I m Q"
  unfolding yields_def by blast

lemma yields_return: "P a \<Longrightarrow> yields I (\<lambda>w. Some (a, w)) P"
  by (simp add: yields_def)

lemma yields_bind:
  "yields I m P \<Longrightarrow> (\<And>a. P a \<Longrightarrow> yields I (f a) Q) \<Longrightarrow> yields I (\<lambda>w. do { (a, w) \<leftarrow> m w; f a w }) Q"
  unfolding yields_def bind_eq_Some_conv case_prod_unfold prod.collapse by (metis prod.collapse)

lemma yields_bind3:
  "yields I m P \<Longrightarrow> (\<And>a b c. P (a, b, c) \<Longrightarrow> yields I (f a b c) Q) \<Longrightarrow> yields I (\<lambda>w. do { ((a, b, c), w) \<leftarrow> m w; f a b c w }) Q"
  unfolding yields_def bind_eq_Some_conv case_prod_unfold prod.collapse by (metis prod.collapse)

lemma yields_if: "(b \<Longrightarrow> yields I m P) \<Longrightarrow> (\<not> b \<Longrightarrow> yields I n P) \<Longrightarrow> yields I (\<lambda>w. if b then m w else n w) P"
  by (simp add: yields_def)

lemma yields_let: "(\<And>y. y = x \<Longrightarrow> yields I (m y) P) \<Longrightarrow> yields I (\<lambda>w. let y = x in m y w) P"
  by (simp add: yields_def)

lemma yields_case_sum:
  "(\<And>e. r = Inl e \<Longrightarrow> yields I (f e) P) \<Longrightarrow> (\<And>x. r = Inr x \<Longrightarrow> yields I (g x) P) \<Longrightarrow>
   yields I (\<lambda>w. case r of Inl e \<Rightarrow> f e w | Inr x \<Rightarrow> g x w) P"
  by (cases r) (simp_all add: yields_def)

lemma yields_case_prod: "(\<And>a b. x = (a, b) \<Longrightarrow> yields I (f a b) P) \<Longrightarrow> yields I (\<lambda>w. case x of (a, b) \<Rightarrow> f a b w) P"
  by (cases x) (simp add: yields_def)

lemma yields_case_list:
  "(xs = [] \<Longrightarrow> yields I m P) \<Longrightarrow> (\<And>y ys. xs = y # ys \<Longrightarrow> yields I (f y ys) P) \<Longrightarrow>
   yields I (\<lambda>w. case xs of [] \<Rightarrow> m w | y # ys \<Rightarrow> f y ys w) P"
  by (cases xs) (simp_all add: yields_def)

lemma yields_case_poll:
  "(\<And>out. p = Found out \<Longrightarrow> yields I (f out) P) \<Longrightarrow> (\<And>e. p = PollErr e \<Longrightarrow> yields I (g e) P) \<Longrightarrow>
   (p = TimedOut \<Longrightarrow> yields I m P) \<Longrightarrow> yields I (\<lambda>w. case p of Found out \<Rightarrow> f out w | PollErr e \<Rightarrow> g e w | TimedOut \<Rightarrow> m w) P"
  by (cases p) (simp_all add: yields_def)

lemmas yields_rules = yields_if yields_let yields_case_sum yields_case_prod yields_case_list yields_case_poll

lemma yields_cache: "frame m \<Longrightarrow> yields cache_plain m (\<lambda>_. True)"
  by (auto simp: yields_def intro: cache_plain_frame)

lemma yields_poll:
  "ovn_answers E \<Longrightarrow> yields cache_plain (pollAddresses E column port n) (\<lambda>p. \<forall>out. p = Found out \<longrightarrow> (\<forall>a \<in> set (splitAddresses out). plain a))"
  by (auto simp: yields_def intro: cache_plain_frame [OF pollAddresses_frame] pollAddresses_plain)

lemma yields_gateway:
  "ovn_answers E \<Longrightarrow> yields cache_plain (getGatewayFromSwitch E sw)
     (\<lambda>r. \<forall>ips ms. r = Inr (ips, ms) \<longrightarrow> length ms = length ips \<and> (\<forall>s \<in> set ips \<union> set ms. plain s))"
  unfolding yields_def using getGatewayFromSwitch_plain by blast

lemma getNodeLogicalPortIPAddr_frame: "frame (getNodeLogicalPortIPAddr E pod)"
  unfolding getNodeLogicalPortIPAddr_def [abs_def] Let_def poll.case_distrib
  by (intro frame_intros) (auto simp: frame_def split: poll.splits list.splits)

lemma yields_nodeAddr:
  "ovn_answers E \<Longrightarrow> yields cache_plain (getNodeLogicalPortIPAddr E pod) (\<lambda>(ip, ip6, err). plain ip \<and> plain ip6)"
  by (auto simp: yields_def intro: cache_plain_frame [OF getNodeLogicalPortIPAddr_frame] dest: getNodeLogicalPortIPAddr_plain)

lemma annotationOf_plain_port:
  assumes "\<forall>s \<in> set (a # as) \<union> set gws \<union> set ms. plain s" and "length ms = length gws" and "plain mac" and "plain ip" and "plain ip6"
    and "gwip \<noteq> [] \<longrightarrow> ip = gwip \<and> ip6 = []"
  shows "plain_port gwip (annotationOf (composeAddresses (addressWithMask (a # as) gws ms ''.'') (addressWithMask (a # as) gws ms '':''))
     mac (composeAddresses ip ip6))"
  using assms addressWithMask_plain [OF assms(1,2)] unfolding plain_port_def composeAddresses_qlist
  by (intro disjI2 exI conjI) (auto split: if_splits)

lemma yields_choose_gw:
  assumes "ovn_answers E" and "plain gwip"
  shows "yields cache_plain (\<lambda>w. if gwip \<noteq> [] then Some ((gwip, [], None), w) else getNodeLogicalPortIPAddr E pod w)
     (\<lambda>(ip, ip6, err). plain ip \<and> plain ip6 \<and> (gwip \<noteq> [] \<longrightarrow> ip = gwip \<and> ip6 = []))"
  using assms by (intro yields_if yields_return yields_mono [OF yields_nodeAddr]) auto

lemma yields_mac: "yields cache_plain (\<lambda>w. if b then generateMac E w else Some (mac, w)) (\<lambda>_. True)"
  by (intro yields_if yields_cache frame_intros yields_return) simp

lemma yields_port:
  assumes "ovn_answers E" and "plain gwip"
  shows "yields cache_plain (addLogicalPortWithSwitch E pod sw ip mac gwip port) (plain_port gwip)"
  unfolding addLogicalPortWithSwitch_def [abs_def] Let_def
  by (intro yields_rules yields_return yields_bind [OF yields_mac] yields_bind3 [OF yields_cache [OF RunOVNNbctl_frame]]
      yields_bind [OF yields_poll [OF assms(1)]] yields_bind [OF yields_gateway [OF assms(1)]] yields_bind3 [OF yields_choose_gw [OF assms]])
    (auto simp: plain_port_def [of _ "[]"] intro!: annotationOf_plain_port)

section \<open>The interfaces asked for\<close>

text \<open>
  The network objects in turn: the variable \<^verbatim>\<open>ns\<close> of the loop of \<^verbatim>\<open>AddLogicalPorts\<close>
  after each of them, with the defaults filled in.
\<close>

definition withDefaults :: "NetInterface \<Rightarrow> NetInterface" where
  "withDefaults ns =
     (let ns = (if ni_DefaultGateway ns = [] then ns\<lparr>ni_DefaultGateway := ''false''\<rparr> else ns)
      in if ni_Interface ns = [] then ns\<lparr>ni_Interface := ''*''\<rparr> else ns)"

fun requested :: "env \<Rightarrow> jobject list \<Rightarrow> NetInterface \<Rightarrow> error + NetInterface list" where
  "requested E [] ns = Inr []"
| "requested E (net # nets) ns =
     (case env_mapstructure E net ns of
        Inl e \<Rightarrow> Inl e
      | Inr ns \<Rightarrow> (case requested E nets (withDefaults ns) of Inl e \<Rightarrow> Inl e | Inr rs \<Rightarrow> Inr (withDefaults ns # rs)))"

definition plain_request :: "NetInterface \<Rightarrow> bool" where
  "plain_request r \<longleftrightarrow> plain (ni_Interface r) \<and> plain (ni_DefaultGateway r) \<and> plain (ni_GWIPaddress r)"

text \<open>A network written for a request.\<close>

definition written :: "NetInterface \<Rightarrow> OvnNetwork \<Rightarrow> bool" where
  "written r n \<longleftrightarrow> on_Interface n = ni_Interface r \<and> on_DefaultGateway n = ni_DefaultGateway r \<and>
     (ni_GWIPaddress r \<noteq> [] \<longrightarrow> on_GatewayIP n = [ni_GWIPaddress r]) \<and> plain_net n"

definition openText :: "OvnNetwork list \<Rightarrow> string" where
  "openText ns = ''['' @ concat (map (\<lambda>n. netText esc n @ '','') ns)"

lemma openText_snoc: "openText (ns @ [n]) = openText ns @ netText esc n @ '',''"
  by (simp add: openText_def)

lemma netsText_concat: "ns \<noteq> [] \<Longrightarrow> netsText q ns @ '','' = concat (map (\<lambda>n. netText q n @ '','') ns)"
  by (induction ns) auto

lemma openText_close: "ns \<noteq> [] \<Longrightarrow> butlast (openText ns) = ''['' @ netsText esc ns"
  using netsText_concat [of ns esc] by (simp add: openText_def butlast_append) (metis append_is_Nil_conv butlast_snoc)

definition step_result :: "env \<Rightarrow> jobject \<Rightarrow> NetInterface \<Rightarrow> string \<Rightarrow> bool \<Rightarrow> NetInterface \<times> string \<times> bool \<Rightarrow> bool" where
  "step_result E net ns txt d r \<longleftrightarrow> (case r of (ns', txt', d') \<Rightarrow> \<exists>ns0 n. env_mapstructure E net ns = Inr ns0 \<and> ns' = withDefaults ns0 \<and>
     written ns' n \<and> txt' = txt @ netText esc n @ '','' \<and> d' = (d \<or> ni_Name ns' = Ovn4nfvDefaultNw))"

lemma withDefaults_fields:
  "ni_Name (withDefaults ns) = ni_Name ns" "ni_GWIPaddress (withDefaults ns) = ni_GWIPaddress ns"
  "ni_IPAddress (withDefaults ns) = ni_IPAddress ns" "ni_MacAddress (withDefaults ns) = ni_MacAddress ns"
  "ni_DefaultGateway (withDefaults ns) \<noteq> []"
  by (auto simp: withDefaults_def Let_def)

lemma plain_port_written:
  assumes "plain_port (ni_GWIPaddress r) out" and "out \<noteq> []" and "plain_request r" and "ni_DefaultGateway r \<noteq> []"
  shows "\<exists>n. written r n \<and> butlast out @ '','' @ esc @ ''defaultGateway'' @ esc @ '':'' @ esc @ ni_DefaultGateway r @ esc @
     '','' @ esc @ ''interface'' @ esc @ '':'' @ esc @ ni_Interface r @ esc @ ''}'' = netText esc n"
proof -
  from assms(1,2) obtain ips mac gws where out: "out = annotationOf (qlist esc ips) mac (qlist esc gws)" and p: "plain mac"
    "\<forall>s \<in> set ips \<union> set gws. plain s" "ni_GWIPaddress r \<noteq> [] \<longrightarrow> gws = [ni_GWIPaddress r]" by (auto simp: plain_port_def)
  let ?n = "netOf ips mac gws (ni_DefaultGateway r) (ni_Interface r)"
  have "written r ?n" using p assms(3) by (simp add: written_def netOf_def plain_net_def plain_request_def)
  with out annotationOf_net [of ips mac gws "ni_DefaultGateway r" "ni_Interface r"] assms(4) show ?thesis by (intro exI [of _ ?n]) simp
qed

lemma RetryOnConflict_frame [frame_intros]:
  assumes "frame fn" shows "frame (RetryOnConflict E fn)"
  unfolding frame_def
proof (intro allI impI)
  fix w a w' assume r: "RetryOnConflict E fn w = Some (a, w')"
  show "w' = w\<lparr>trace := trace w'\<rparr>"
  proof (rule RetryOnConflict_rule [OF r])
    fix u r v assume "fn u = Some (r, v)" and w': "w' = v\<lparr>trace := trace w'\<rparr>"
    from frameD [OF assms this(1)] have "v\<lparr>trace := trace w'\<rparr> = u\<lparr>trace := trace w'\<rparr>" by (metis world.surjective world.update_convs(1))
    with w' show "w' = u\<lparr>trace := trace w'\<rparr>" by simp
  qed (rule frameD [OF assms])
qed

lemma CreateNetworkFromPool_frame: "frame (CreateNetworkFromPool E ns)"
  unfolding CreateNetworkFromPool_def [abs_def] CheckVirtualNetworkConf_def [abs_def] UpdateNetworkPool_def [abs_def] CreateNetwork_def [abs_def]
    updatePoolOnce_def [abs_def] Let_def
  by (intro frame_intros frame_bind2)

lemma yields_addPortStep:
  assumes "ovn_answers E" and "\<And>ns0. env_mapstructure E net ns = Inr ns0 \<Longrightarrow> plain_request (withDefaults ns0)"
  shows "yields cache_plain (addPortStep E pod extra net (ns, txt, d)) (\<lambda>r. \<forall>s. r = Inl s \<longrightarrow> step_result E net ns txt d s)"
proof (cases "env_mapstructure E net ns")
  case (Inr ns0)
  have p: "plain (ni_GWIPaddress (withDefaults ns0))" using assms(2) [OF Inr] by (simp add: plain_request_def)
  let ?dg = "if ni_DefaultGateway ns0 = [] then ns0\<lparr>ni_DefaultGateway := ''false''\<rparr> else ns0"
  have wd: "withDefaults ns0 = (if ni_Interface ?dg = [] then ?dg\<lparr>ni_Interface := ''*''\<rparr> else ?dg)"
    by (simp add: withDefaults_def Let_def)
  have gw: "ni_GWIPaddress ?dg = ni_GWIPaddress (withDefaults ns0)" and nm: "ni_Name ?dg = ni_Name (withDefaults ns0)"
    by (simp_all add: withDefaults_fields)
  have last: "step_result E net ns txt d (withDefaults ns0, txt @ butlast out @ '','' @ esc @ ''defaultGateway'' @ esc @ '':'' @ esc @
      ni_DefaultGateway (withDefaults ns0) @ esc @ '','' @ esc @ ''interface'' @ esc @ '':'' @ esc @ ni_Interface (withDefaults ns0) @ esc @
      ''}'' @ '','', d \<or> ni_Name (withDefaults ns0) = Ovn4nfvDefaultNw)"
    if "plain_port (ni_GWIPaddress (withDefaults ns0)) out" "out \<noteq> []" for out
    using plain_port_written [OF that assms(2) [OF Inr] withDefaults_fields(5)] Inr unfolding step_result_def by fastforce
  show ?thesis
    unfolding addPortStep_def [of E pod extra net "(ns, txt, d)", abs_def] Inr sum.case prod.case Let_def wd [symmetric] gw nm
    by (intro yields_bind [OF yields_cache [OF FindLogicalSwitch_frame]] yields_bind [OF yields_cache [OF frame_if [OF CreateNetworkFromPool_frame frame_return]]]
        yields_bind [OF yields_port [OF assms(1) p]] yields_rules yields_return) (auto intro: last [simplified])
qed (simp add: addPortStep_def yields_def)

lemma ports_loop:
  assumes "ovn_answers E" and "rangeM (addPortStep E pod extra) objs (ns, openText nets0, d) w = Some (Inl (ns', txt, d'), w')"
    and "cache_plain w" and "requested E objs ns = Inr rs" and "\<forall>r \<in> set rs. plain_request r"
  shows "cache_plain w' \<and> (\<exists>nets. txt = openText (nets0 @ nets) \<and> list_all2 written rs nets \<and>
     d' = (d \<or> (\<exists>r \<in> set rs. ni_Name r = Ovn4nfvDefaultNw)))"
  using assms(2-)
proof (induction objs arbitrary: ns nets0 d w rs)
  case (Cons net objs)
  from Cons.prems(3) obtain ns0 rs' where m: "env_mapstructure E net ns = Inr ns0" "requested E objs (withDefaults ns0) = Inr rs'"
    and rs: "rs = withDefaults ns0 # rs'" by (auto split: sum.splits)
  from Cons.prems(1) obtain s v where st: "addPortStep E pod extra net (ns, openText nets0, d) w = Some (Inl s, v)"
    and rest: "rangeM (addPortStep E pod extra) objs s v = Some (Inl (ns', txt, d'), w')"
    by (auto simp: run_conv)
  have "plain_request (withDefaults ns1)" if "env_mapstructure E net ns = Inr ns1" for ns1 using that m rs Cons.prems(4) by simp
  from yieldsD [OF yields_addPortStep [OF assms(1) this] Cons.prems(2) st] m(1)
  obtain n where v: "cache_plain v" and n: "written (withDefaults ns0) n"
    "s = (withDefaults ns0, openText (nets0 @ [n]), d \<or> ni_Name (withDefaults ns0) = Ovn4nfvDefaultNw)"
    by (auto simp: step_result_def openText_snoc)
  from Cons.IH [OF rest [unfolded n(2)] v m(2)] Cons.prems(4) rs obtain nets where
    "cache_plain w'" "txt = openText (nets0 @ n # nets)" "list_all2 written rs' nets"
    "d' = (d \<or> ni_Name (withDefaults ns0) = Ovn4nfvDefaultNw \<or> (\<exists>r \<in> set rs'. ni_Name r = Ovn4nfvDefaultNw))" by auto
  with rs n(1) show ?case by (intro conjI exI [of _ "n # nets"]) auto
qed simp

text \<open>
  The networks written for the requests: one for each, in their order, and the default interface
  behind them unless the pod already has it or the ports are extra ones.
\<close>

definition interfaces_for :: "bool \<Rightarrow> NetInterface list \<Rightarrow> OvnNetwork list \<Rightarrow> bool" where
  "interfaces_for extra rs nets \<longleftrightarrow> (\<exists>ns ds. nets = ns @ ds \<and> list_all2 written rs ns \<and>
     (if extra \<or> (\<exists>r \<in> set rs. ni_Name r = Ovn4nfvDefaultNw) then ds = []
      else \<exists>n. ds = [n] \<and> on_Interface n = ''*'' \<and> on_DefaultGateway n = [] \<and> plain_net n))"

lemma interfaces_for_plain: "interfaces_for extra rs nets \<Longrightarrow> list_all plain_net nets"
  by (auto simp: interfaces_for_def written_def list_all_iff list_all2_conv_all_nth in_set_conv_nth split: if_splits)

lemma requested_length: "requested E objs ns = Inr rs \<Longrightarrow> length rs = length objs"
  by (induction objs arbitrary: ns rs) (auto split: sum.splits)

lemma AddLogicalPorts_text:
  assumes "ovn_answers E" and "cache_plain w" and "requested E objs empty_NetInterface = Inr rs" and "\<forall>r \<in> set rs. plain_request r"
    and "AddLogicalPorts E pod objs extra w = Some ((key, val), w')" and "val \<noteq> []" and "extra \<longrightarrow> objs \<noteq> []"
  shows "key = Ovn4nfvAnnotationTag \<and> (\<exists>nets. interfaces_for extra rs nets \<and> val = ''['' @ netsText esc nets @ '']'')"
proof -
  let ?tail = "\<lambda>out. '','' @ esc @ ''interface'' @ esc @ '':'' @ esc @ ''*'' @ esc @ ''}'' @ '',''"
  from assms(5,6) obtain r w1 where loop0: "rangeM (addPortStep E pod extra) objs (empty_NetInterface, ''['', False) w = Some (r, w1)"
    and body: "(case r of Inr _ \<Rightarrow> Some (([], []), w1)
      | Inl (ns, ovnString, defaultInterface) \<Rightarrow>
          if \<not> defaultInterface \<and> \<not> extra then do {
            (outStr, w) \<leftarrow> addLogicalPortWithSwitch E pod Ovn4nfvDefaultNw [] [] [] (portNameOf pod []) w1;
            (if outStr = [] then Some (([], []), w)
             else Some ((Ovn4nfvAnnotationTag, butlast (ovnString @ butlast outStr @ ?tail outStr) @ '']''), w)) }
          else Some ((Ovn4nfvAnnotationTag, butlast ovnString @ '']''), w1)) = Some ((key, val), w')"
    unfolding AddLogicalPorts_def by (auto simp: bind_eq_Some_conv split: if_splits)
  from body assms(6) obtain ns str d where r: "r = Inl (ns, str, d)" by (cases r) auto
  note loop = loop0 [unfolded r]
  have key: "key = Ovn4nfvAnnotationTag" and rest: "(d \<or> extra) \<and> val = butlast str @ '']'' \<or>
      \<not> (d \<or> extra) \<and> (\<exists>out. addLogicalPortWithSwitch E pod Ovn4nfvDefaultNw [] [] [] (portNameOf pod []) w1 = Some (out, w') \<and> out \<noteq> [] \<and>
         val = butlast (str @ butlast out @ ?tail out) @ '']'')"
    using body assms(6) unfolding r by (auto simp: bind_eq_Some_conv split: if_splits)
  have "rangeM (addPortStep E pod extra) objs (empty_NetInterface, openText [], False) w = Some (Inl (ns, str, d), w1)"
    using loop by (simp add: openText_def)
  from ports_loop [OF assms(1) this assms(2-4)] obtain nets where v: "cache_plain w1" and t: "str = openText nets" "list_all2 written rs nets"
    and d: "d = (\<exists>r \<in> set rs. ni_Name r = Ovn4nfvDefaultNw)" by auto
  show ?thesis
  proof (cases "d \<or> extra")
    case True
    have "rs \<noteq> []" using True assms(7) d requested_length [OF assms(3)] by auto
    with t(2) have "nets \<noteq> []" by auto
    from openText_close [OF this] rest True t key d show ?thesis
      by (intro conjI exI [of _ nets]) (auto simp: interfaces_for_def intro: exI [of _ "[]"])
  next
    case False
    with rest obtain out where port: "addLogicalPortWithSwitch E pod Ovn4nfvDefaultNw [] [] [] (portNameOf pod []) w1 = Some (out, w')" "out \<noteq> []"
      and val: "val = butlast (str @ butlast out @ '','' @ esc @ ''interface'' @ esc @ '':'' @ esc @ ''*'' @ esc @ ''}'' @ '','') @ '']''" by blast
    have "plain_port [] out" using yieldsD [OF yields_port [OF assms(1)] v port(1)] by simp
    with port(2) obtain ips mac gws where out: "out = annotationOf (qlist esc ips) mac (qlist esc gws)" "plain mac"
      "\<forall>s \<in> set ips \<union> set gws. plain s" by (auto simp: plain_port_def)
    let ?n = "netOf ips mac gws [] ''*''"
    have "str @ butlast out @ '','' @ esc @ ''interface'' @ esc @ '':'' @ esc @ ''*'' @ esc @ ''}'' @ '','' = openText (nets @ [?n])"
      using annotationOf_net [of ips mac gws "[]" "''*''"] out(1) t(1) by (simp add: openText_snoc)
    with val openText_close [of "nets @ [?n]"] have "val = ''['' @ netsText esc (nets @ [?n]) @ '']''" by simp
    moreover have "plain_net ?n" using out by (auto simp: plain_net_def netOf_def clean_char_def)
    then have "interfaces_for extra rs (nets @ [?n])" using False d t(2) unfolding interfaces_for_def
      by (intro exI [of _ nets] exI [of _ "[?n]"]) (auto simp: netOf_def)
    ultimately show ?thesis using key by blast
  qed
qed

section \<open>From the patch to the node\<close>

definition patchOf :: "string \<Rightarrow> string \<Rightarrow> json" where
  "patchOf key s = JObj [(''metadata'', JObj [(''annotations'', JObj [(key, JStr s)])])]"

lemma annotationPatch_parses:
  assumes "plain key" and "escapes s val"
  shows "json_parse (annotationPatch key val) = Some (patchOf key s)"
proof (rule json_parse_lexes)
  have k: "plain ''metadata''" "plain ''annotations''" by (simp_all add: clean_char_def)
  have "val = escq s" "\<forall>c \<in> set s. clean_char c" using assms(2) by (auto simp: escapes_def)
  then have q: "lexes t ts \<Longrightarrow> lexes (quoted val @ t) (TVal (JStr s) # ts)" for t ts
    using lexes_string [of s t ts] by (simp add: quoted_def)
  have "quoted x = qstr quote x" for x by (simp add: quoted_def qstr_def)
  then have p: "plain x \<Longrightarrow> lexes t ts \<Longrightarrow> lexes (quoted x @ t) (TVal (JStr x) # ts)" for x t ts using lexes_qstr by simp
  show "lexes (annotationPatch key val) (toks (patchOf key s))"
    unfolding annotationPatch_def patchOf_def by (auto intro!: lexes_marks p k assms(1) q lexes_Nil)
qed (simp add: patchOf_def maxNestingDepth_def)

text \<open>
  C16.  The interfaces of a pod survive the way from the operator to its node.  Whatever the operator
  returns for a pod's requests, as long as OVN prints addresses the way it documents and the
  requested names hold no quotation marks, backslashes or control characters: the patch it puts
  the text in is valid JSON that sets exactly one annotation, and the CNI server reads back from
  that annotation one network per request, in order, with the requested interface name, gateway
  flag and gateway, and the default interface behind them.  The text with its backslashes
  dropped, which the agent is sent for extra interfaces, is the same.
\<close>

theorem annotation_reaches_node:
  assumes "ovn_answers E" and "cache_plain w"
    and "requested E objs empty_NetInterface = Inr rs" and "\<forall>r \<in> set rs. plain_request r"
    and "AddLogicalPorts E pod objs extra w = Some ((key, val), w')" and "val \<noteq> []" and "extra \<longrightarrow> objs \<noteq> []"
  shows "\<exists>s nets. json_parse (annotationPatch key val) =
       Some (JObj [(''metadata'', JObj [(''annotations'', JObj [(Ovn4nfvAnnotationTag, JStr s)])])]) \<and>
     strings_ReplaceAll val [CHR 0x5C] [] = s \<and> cni_parseOvnNetworkObject s = Inr nets \<and> interfaces_for extra rs nets"
proof -
  from AddLogicalPorts_text [OF assms] obtain nets where key: "key = Ovn4nfvAnnotationTag" and nets: "interfaces_for extra rs nets"
    and val: "val = ''['' @ netsText esc nets @ '']''" by blast
  let ?s = "''['' @ netsText quote nets @ '']''"
  note p = interfaces_for_plain [OF nets]
  have e: "escapes ?s val" unfolding val using escapes_netsText [OF p]
    by (auto intro!: escapes_intros simp: clean_char_def esc_def)
  have "plain key" by (simp add: key Ovn4nfvAnnotationTag_def clean_char_def)
  from annotationPatch_parses [OF this e] key have "json_parse (annotationPatch key val) = Some (patchOf Ovn4nfvAnnotationTag ?s)" by simp
  moreover have "strings_ReplaceAll val [CHR 0x5C] [] = ?s" using e by (simp add: ReplaceAll_char escapes_def unslash_def)
  moreover have "cni_parseOvnNetworkObject ?s = Inr nets"
    using unmarshalOvnNets_text [OF p] by (simp add: cni_parseOvnNetworkObject_def parseOvnNetwork_def)
  ultimately show ?thesis using nets unfolding patchOf_def by blast
qed

definition ann_exec :: "string list \<Rightarrow> string" where
  "ann_exec args = (if ''external_ids:gateway_ip'' \<in> set args then quoted ''10.0.0.1/24'' @ [CHR 0x0A]
     else if ''get'' \<in> set args \<and> ''logical_switch_port'' \<in> set args then ''['' @ quoted ''0a:00:00:00:00:07 10.0.0.7'' @ '']'' @ [CHR 0x0A]
     else ''red'')"

definition ann_env :: env where
  "ann_env = null_env\<lparr>env_exec := (\<lambda>h c args. (ann_exec args, [], None)),
     env_mapstructure := (\<lambda>net ns. Inr (ns\<lparr>ni_Name := the (map_of net ''name''), ni_Interface := the (map_of net ''interface'')\<rparr>))\<rparr>"

definition ann_pod :: Pod where
  "ann_pod = zero_Pod\<lparr>pod_NodeName := ''n1''\<rparr>"

definition ann_world :: world where
  "ann_world = exec_world\<lparr>gatewayCache := Some []\<rparr>"

definition ann_objs :: "jobject list" where
  "ann_objs = [[(''name'', ''red''), (''interface'', ''net0'')]]"

lemma ann_answers: "ovn_answers ann_env"
proof -
  have a: "address_text ''10.0.0.1/24''" "address_text ''0a:00:00:00:00:07 10.0.0.7''"
    by (simp_all add: address_text_def clean_char_def is_space_def)
  show ?thesis using a unfolding ovn_answers_def ann_env_def
    by (auto simp: ann_exec_def atom_answer_def set_answer_def)
qed

lemma ann_trim:
  "trimOutput ''red'' = ''red''" "trimOutput (quoted ''10.0.0.1/24'' @ [CHR 0x0A]) = ''10.0.0.1/24''"
  "trimOutput (''['' @ quoted ''0a:00:00:00:00:07 10.0.0.7'' @ '']'' @ [CHR 0x0A]) = ''['' @ quoted ''0a:00:00:00:00:07 10.0.0.7'' @ '']''"
  "splitAddresses (''['' @ quoted ''0a:00:00:00:00:07 10.0.0.7'' @ '']'') = [''0a:00:00:00:00:07'', ''10.0.0.7'']"
  "parseGateways (strings_Split ''10.0.0.1/24'' (CHR '','')) = Inr ([''10.0.0.1''], [''24''])"
  by code_simp+

lemma ann_run: "runner w = runner exec_world \<Longrightarrow> \<exists>w'. RunOVNNbctl ann_env args w = Some ((trimOutput (ann_exec args), [], None), w') \<and>
    runner w' = runner exec_world \<and> gatewayCache w' = gatewayCache w"
proof -
  have "show_nat 15 = ''15''" by code_simp
  then have "ann_exec ((''--timeout='' @ show_nat 15) # args) = ann_exec args" by (simp add: ann_exec_def)
  then show "runner w = runner exec_world \<Longrightarrow> ?thesis"
    by (simp add: RunOVNNbctl_def RunOVNNbctlWithTimeout_def runOVNretry_def retryLoop.simps [of _ 200] run_def ann_env_def nbctlArgs_def
      exec_world_def ovsCommandTimeout_def)
qed

lemma ann_poll:
  assumes "runner w = runner exec_world" and "port \<noteq> ''external_ids:gateway_ip''" and "col \<noteq> ''external_ids:gateway_ip''"
  shows "\<exists>w'. pollAddresses ann_env col port 30 w =
    Some (Found (''['' @ quoted ''0a:00:00:00:00:07 10.0.0.7'' @ '']''), w') \<and> runner w' = runner exec_world \<and> gatewayCache w' = gatewayCache w"
proof -
  have "ann_exec [''get'', ''logical_switch_port'', port, col] = ''['' @ quoted ''0a:00:00:00:00:07 10.0.0.7'' @ '']'' @ [CHR 0x0A]"
    using assms(2,3) by (simp add: ann_exec_def)
  with ann_run [OF assms(1), of "[''get'', ''logical_switch_port'', port, col]"] obtain w' where
    "RunOVNNbctl ann_env [''get'', ''logical_switch_port'', port, col] w =
       Some ((''['' @ quoted ''0a:00:00:00:00:07 10.0.0.7'' @ '']'', [], None), w')" "runner w' = runner exec_world" "gatewayCache w' = gatewayCache w"
    using ann_trim(3) by auto
  moreover have e: "(30 :: nat) = Suc 29" by simp
  ultimately show ?thesis unfolding e pollAddresses.simps(2) by (simp add: quoted_def)
qed

lemma ann_port:
  assumes "runner w = runner exec_world" and "gatewayCache w = Some c" and "\<forall>k v. map_of c k = Some v \<longrightarrow> v = ''10.0.0.1/24''"
    and "port \<noteq> ''external_ids:gateway_ip''"
  shows "\<exists>out w' c'. addLogicalPortWithSwitch ann_env ann_pod sw [] [] [] port w = Some (out, w') \<and> out \<noteq> [] \<and>
    runner w' = runner exec_world \<and> gatewayCache w' = Some c' \<and> (\<forall>k v. map_of c' k = Some v \<longrightarrow> v = ''10.0.0.1/24'')"
proof -
  obtain w1 where w1: "RunOVNNbctl ann_env (lspAddArgs ann_pod sw port None) w = Some ((trimOutput (ann_exec (lspAddArgs ann_pod sw port None)), [], None), w1)"
    "runner w1 = runner exec_world" "gatewayCache w1 = Some c" using ann_run [OF assms(1)] assms(2) by metis
  obtain w2 where w2: "pollAddresses ann_env ''dynamic_addresses'' port 30 w1 = Some (Found (''['' @ quoted ''0a:00:00:00:00:07 10.0.0.7'' @ '']''), w2)"
    "runner w2 = runner exec_world" "gatewayCache w2 = Some c" using ann_poll [OF w1(2) assms(4), of "''dynamic_addresses''"] w1(3) by auto
  obtain w3 c' where w3: "getGatewayFromSwitch ann_env sw w2 = Some (Inr ([''10.0.0.1''], [''24'']), w3)" "runner w3 = runner exec_world"
    "gatewayCache w3 = Some c'" "\<forall>k v. map_of c' k = Some v \<longrightarrow> v = ''10.0.0.1/24''"
  proof (cases "map_of c sw")
    case None
    have "ann_exec [''--if-exists'', ''get'', ''logical_switch'', sw, ''external_ids:gateway_ip''] = quoted ''10.0.0.1/24'' @ [CHR 0x0A]"
      by (simp add: ann_exec_def)
    with ann_run [OF w2(2), of "[''--if-exists'', ''get'', ''logical_switch'', sw, ''external_ids:gateway_ip'']"] ann_trim(2) obtain v where
      "RunOVNNbctl ann_env [''--if-exists'', ''get'', ''logical_switch'', sw, ''external_ids:gateway_ip''] w2 = Some ((''10.0.0.1/24'', [], None), v)"
      "runner v = runner exec_world" "gatewayCache v = Some c" using w2(3) by auto
    with None w2(3) ann_trim(5) assms(3) that show ?thesis by (simp add: getGatewayFromSwitch_def)
  next
    case (Some s)
    with assms(3) have "s = ''10.0.0.1/24''" by simp
    with Some w2(3) ann_trim(5) have "getGatewayFromSwitch ann_env sw w2 = Some (Inr ([''10.0.0.1''], [''24'']), w2)"
      by (simp add: getGatewayFromSwitch_def)
    with that w2(2,3) assms(3) show ?thesis by blast
  qed
  have ne: "GetNodeIntfName (strings_ToLower (pod_NodeName ann_pod)) \<noteq> ''external_ids:gateway_ip''" by (simp add: GetNodeIntfName_def)
  obtain w4 where w4: "pollAddresses ann_env ''dynamic_addresses'' (GetNodeIntfName (strings_ToLower (pod_NodeName ann_pod))) 30 w3 =
     Some (Found (''['' @ quoted ''0a:00:00:00:00:07 10.0.0.7'' @ '']''), w4)"
    "runner w4 = runner exec_world" "gatewayCache w4 = Some c'" using ann_poll [OF w3(2) ne, of "''dynamic_addresses''"] w3(3) by auto
  have h: "\<not> pod_HostNetwork ann_pod" by (simp add: ann_pod_def zero_Pod_def)
  have ne: "annotationOf a b d \<noteq> []" for a b d by (simp add: annotationOf_def)
  have "\<exists>out. addLogicalPortWithSwitch ann_env ann_pod sw [] [] [] port w = Some (out, w4) \<and> out \<noteq> []"
  proof -
    obtain raw m a where raw: "raw = ''['' @ quoted ''0a:00:00:00:00:07 10.0.0.7'' @ '']''" "splitAddresses raw = [m, a]" using ann_trim(4) by blast
    have node: "\<exists>x y. getNodeLogicalPortIPAddr ann_env ann_pod w3 = Some ((x, y, None), w4)"
      using w4(1) [folded raw(1)] raw(2) by (simp add: getNodeLogicalPortIPAddr_def)
    show ?thesis using w1(1) w2(1) [folded raw(1)] raw(2) w3(1) node h by (auto simp: addLogicalPortWithSwitch_def ne)
  qed
  with w3(4) w4(2,3) show ?thesis by blast
qed

lemma ann_run_ports:
  "\<exists>val w'. AddLogicalPorts ann_env ann_pod ann_objs False ann_world = Some ((Ovn4nfvAnnotationTag, val), w') \<and> val \<noteq> []"
proof -
  have r: "runner ann_world = runner exec_world" and c: "gatewayCache ann_world = Some []" by (simp_all add: ann_world_def)
  let ?find = "[''--data=bare'', ''--no-heading'', ''--columns=name'', ''find'', ''logical_switch'', ''name='' @ ''red'']"
  have "ann_exec ?find = ''red''" by (simp add: ann_exec_def)
  then have find: "\<exists>w'. FindLogicalSwitch ann_env ''red'' w = Some (True, w') \<and> runner w' = runner exec_world \<and> gatewayCache w' = gatewayCache w"
    if "runner w = runner exec_world" for w using ann_run [OF that, of ?find] ann_trim(1) by (auto simp: FindLogicalSwitch_def)
  obtain w1 where w1: "FindLogicalSwitch ann_env ''red'' ann_world = Some (True, w1)" "runner w1 = runner exec_world" "gatewayCache w1 = Some []"
    using find [OF r] c by auto
  obtain w2 where w2: "FindLogicalSwitch ann_env ''red'' w1 = Some (True, w2)" "runner w2 = runner exec_world" "gatewayCache w2 = Some []"
    using find [OF w1(2)] w1(3) by auto
  have pn: "portNameOf ann_pod ''net0'' \<noteq> ''external_ids:gateway_ip''" "portNameOf ann_pod [] \<noteq> ''external_ids:gateway_ip''" by code_simp+
  from ann_port [OF w2(2,3) _ pn(1), of "''red''"] obtain out w3 c' where w3: "addLogicalPortWithSwitch ann_env ann_pod ''red'' [] [] [] (portNameOf ann_pod ''net0'') w2 =
     Some (out, w3)" "out \<noteq> []" "runner w3 = runner exec_world" "gatewayCache w3 = Some c'" "\<forall>k v. map_of c' k = Some v \<longrightarrow> v = ''10.0.0.1/24''" by auto
  from ann_port [OF w3(3,4,5) pn(2), of Ovn4nfvDefaultNw] obtain out' w4 where w4: "addLogicalPortWithSwitch ann_env ann_pod Ovn4nfvDefaultNw [] [] []
     (portNameOf ann_pod []) w3 = Some (out', w4)" "out' \<noteq> []" by auto
  have m: "env_mapstructure ann_env [(''name'', ''red''), (''interface'', ''net0'')] ns = Inr (ns\<lparr>ni_Name := ''red'', ni_Interface := ''net0''\<rparr>)" for ns
    by (simp add: ann_env_def)
  have p: "\<not> pod_HostNetwork ann_pod" "map_of (pod_Annotations ann_pod) Ovn4nfvAnnotationTag = None" "''red'' \<noteq> Ovn4nfvDefaultNw"
    by (simp_all add: ann_pod_def zero_Pod_def zero_Meta_def Ovn4nfvDefaultNw_def)
  show ?thesis using m w1 w2 w3 w4 p
    by (simp add: AddLogicalPorts_def ann_objs_def addPortStep_def empty_NetInterface_def)
qed

theorem annotation_reaches_node_witness:
  "\<exists>val w' s nets. AddLogicalPorts ann_env ann_pod ann_objs False ann_world = Some ((Ovn4nfvAnnotationTag, val), w') \<and>
     json_parse (annotationPatch Ovn4nfvAnnotationTag val) = Some (JObj [(''metadata'', JObj [(''annotations'', JObj [(Ovn4nfvAnnotationTag, JStr s)])])]) \<and>
     cni_parseOvnNetworkObject s = Inr nets \<and> map on_Interface nets = [''net0'', ''*'']"
proof -
  obtain val w' where run: "AddLogicalPorts ann_env ann_pod ann_objs False ann_world = Some ((Ovn4nfvAnnotationTag, val), w')" and ne: "val \<noteq> []"
    using ann_run_ports by blast
  let ?r = "empty_NetInterface\<lparr>ni_Name := ''red'', ni_Interface := ''net0'', ni_DefaultGateway := ''false''\<rparr>"
  have req: "requested ann_env ann_objs empty_NetInterface = Inr [?r]"
    by (simp add: ann_objs_def ann_env_def withDefaults_def empty_NetInterface_def)
  have pl: "\<forall>r \<in> set [?r]. plain_request r" by (simp add: plain_request_def empty_NetInterface_def clean_char_def)
  have cp: "cache_plain ann_world" by (simp add: cache_plain_def ann_world_def)
  have ex: "False \<longrightarrow> ann_objs \<noteq> []" by simp
  from annotation_reaches_node [OF ann_answers cp req pl run ne ex] obtain s nets where
    j: "json_parse (annotationPatch Ovn4nfvAnnotationTag val) = Some (JObj [(''metadata'', JObj [(''annotations'', JObj [(Ovn4nfvAnnotationTag, JStr s)])])])"
    and c: "cni_parseOvnNetworkObject s = Inr nets" and n: "interfaces_for False [?r] nets" by blast
  have i: "map on_Interface nets = [''net0'', ''*'']"
    using n by (auto simp: interfaces_for_def list_all2_Cons1 written_def Ovn4nfvDefaultNw_def)
  from run j c i show ?thesis by (intro exI conjI)
qed

text \<open>
  The value is put into the patch as it is: a quotation mark that is not escaped ends it, and what
  follows is read as further members.  A pod whose requested interface name holds one sets
  annotations of its own choice with the operator's rights.
\<close>

lemma annotationPatch_injects:
  assumes "plain key" and "plain a" and "plain k" and "plain b"
  shows "json_parse (annotationPatch key (a @ quote @ '','' @ quoted k @ '':'' @ quote @ b)) =
    Some (JObj [(''metadata'', JObj [(''annotations'', JObj [(key, JStr a), (k, JStr b)])])])"
proof (rule json_parse_lexes)
  have k: "plain ''metadata''" "plain ''annotations''" by (simp_all add: clean_char_def)
  have e: "annotationPatch key (a @ quote @ '','' @ quoted k @ '':'' @ quote @ b) =
      ''{'' @ qstr quote ''metadata'' @ '':{'' @ qstr quote ''annotations'' @ '':{'' @ qstr quote key @ '':'' @ qstr quote a @
      '','' @ qstr quote k @ '':'' @ qstr quote b @ ''}}}''" by (simp add: annotationPatch_def quoted_def qstr_def)
  show "lexes (annotationPatch key (a @ quote @ '','' @ quoted k @ '':'' @ quote @ b))
      (toks (JObj [(''metadata'', JObj [(''annotations'', JObj [(key, JStr a), (k, JStr b)])])]))"
    unfolding e by (auto intro!: lexes_marks lexes_qstr k assms lexes_Nil)
qed (simp add: maxNestingDepth_def)

end
