(* ===== verification/Spec2Isabelle.thy ===== *)
theory Spec2Isabelle
  imports Agent_Main Operator_Main Plugin_Main Ovn_Annotation
begin

text \<open>
  \<^bold>\<open>A verification library for Nodus\<close>

  Nodus is a Kubernetes network controller and CNI plugin on top of OVN.  Its \<^emph>\<open>operator\<close>
  watches custom resources (networks, provider networks, service chains), pods and network policies,
  drives the OVN northbound database with \<^verbatim>\<open>ovn-nbctl\<close> and sends notifications to the
  nodes over gRPC.  On every node an \<^emph>\<open>agent\<close> handles the notifications, makes VLANs, bridges
  and routes, and serves the CNI requests of a small \<^emph>\<open>shim\<close> binary, which the container
  runtime runs for each pod.  The parts meet in five places, each of which has a theorem: the
  operator adds the logical port the CNI server plugs; it writes the interfaces of a pod into an
  annotation, a JSON text which the CNI server reads back; it sends the messages the agent handles,
  when a node joins and when a network is withdrawn; the shim sends the requests the server
  handles; both ends of the channel take their credentials from secrets of the API server.

  \<^bold>\<open>How programs are modelled.\<close>  A Go function with effects is a function
  \<^verbatim>\<open>world => (result * world) option\<close> (type \<open>prog\<close> of \<open>Go_Prelude\<close>).  \<open>None\<close> is a panic or a call that
  never returns.  The \<open>world\<close> of \<open>Nodus_World\<close> holds the package variables (the runner, the
  OVN configuration, the gateway cache, the clients of the server, the agent's \<open>inSync\<close> flag and store)
  and the history of requests to code outside of the repository.  That code, from the Kubernetes API
  server, OVN, Open vSwitch, netlink and iptables to the file system, is the record
  \<open>env\<close>, an argument of every definition, whose answers may depend on the whole history.
  What a theorem needs of it is a hypothesis that states documented behaviour (for instance
  \<open>next_is_following\<close>, or \<open>working_iptables\<close> for a packet filter that carries out what it is asked), and its witness instantiates \<open>env\<close> by concrete functions.
  Go errors are the type \<open>error\<close>, results with errors are sums with the error on the left, a nil
  pointer is \<open>None\<close>, an index out of range and a nil dereference are panics, map iteration
  uses the order \<open>env_rangeOrder\<close>, and 32-bit addresses are words.  \<^verbatim>\<open>encoding/json\<close> is
  translated for the types whose text is passed between the parts (the interfaces of a pod, the
  pool, the request of the shim); texts that only the outside writes or reads are decoded by the environment.

  \<^bold>\<open>Theories and sources\<close> (paths below \<^verbatim>\<open>src/\<close>):

  \<^item> \<open>Go_Prelude\<close>, \<open>Go_Strings\<close>, \<open>Go_Net\<close>, \<open>Go_Sha1\<close>: the Go
    standard library as far as it is used: errors, maps, loops (\<open>foreach\<close>, \<open>forall\<close>,
    \<open>rangeM\<close>), strings, \<^verbatim>\<open>strconv\<close>, \<^verbatim>\<open>net\<close>, \<^verbatim>\<open>crypto/sha1\<close>.  \<open>Go_Json\<close>:
    \<^verbatim>\<open>encoding/json\<close>, a scanner, a stack machine for the grammar and an encoder, with the
    theorem that what is printed is parsed back; \<open>Nodus_Json\<close>: the structs that are
    read and written with it; \<open>Shim_Json\<close>: the request of the shim, with base 64.
  \<^item> \<open>Nodus_Types\<close>: \<^verbatim>\<open>pkg/apis/k8s/v1alpha1/*_types.go\<close>, the notifications of
    \<^verbatim>\<open>nfn.proto\<close>, the Kubernetes and CNI data.  \<open>Nodus_World\<close>: requests, environment, world.
  \<^item> \<open>Virtual_Subnet\<close>, \<open>Network_Pool\<close>: \<^verbatim>\<open>internal/pkg/network/subnet.go\<close>,
    \<^verbatim>\<open>pool.go\<close>.
  \<^item> \<open>Ovn_Exec\<close>, \<open>Ovn_Common\<close>, \<open>Ovn_Acl\<close>, \<open>Ovn_Controller\<close>:
    \<^verbatim>\<open>internal/pkg/ovn/\<close> \<^verbatim>\<open>utils.go\<close>, \<^verbatim>\<open>common.go\<close>, \<^verbatim>\<open>acl.go\<close> with
    \<^verbatim>\<open>port_group.go\<close>, and \<^verbatim>\<open>ovn.go\<close>.
  \<^item> \<open>Network_Policy\<close>: \<^verbatim>\<open>pkg/controller/networkpolicy\<close>.
  \<^item> \<open>Notify_Server\<close>: \<^verbatim>\<open>internal/pkg/nfnNotify/server.go\<close>, \<^verbatim>\<open>internal/pkg/node/node.go\<close>.
  \<^item> \<open>Kube_Client\<close>, \<open>Nodus_Auth\<close>: \<^verbatim>\<open>internal/pkg/kube/kube.go\<close>,
    \<^verbatim>\<open>internal/pkg/auth/auth.go\<close> and the certificate stages of the two binaries.
  \<^item> \<open>Chaining\<close>, \<open>Container_Chain\<close>: the operator's and the agent's half of
    \<^verbatim>\<open>internal/pkg/utils/chain.go\<close>.
  \<^item> \<open>Run_Relation\<close>: what the operator's operations do to the world, once for a whole
    family of relations.
  \<^item> \<open>Reconcilers\<close>: the network, provider network, chaining and pod controllers under
    \<^verbatim>\<open>pkg/controller\<close> and \<^verbatim>\<open>pkg/utils/finalizer_utils.go\<close>.
  \<^item> \<open>Host_Network\<close>, \<open>Pod_Interface\<close>: \<^verbatim>\<open>internal/pkg/network/iface.go\<close>,
    \<^verbatim>\<open>iptables.go\<close>; \<^verbatim>\<open>cmd/ovn4nfvk8s-cni/app/helper_linux.go\<close>.
  \<^item> \<open>Cni_Server\<close>, \<open>Cni_Shim\<close>: \<^verbatim>\<open>internal/pkg/cniserver\<close>,
    \<^verbatim>\<open>internal/pkg/cnishim\<close>.  \<open>Cri_Client\<close>: \<^verbatim>\<open>internal/pkg/criclient\<close> with the docker,
    containerd and crio clients.  \<open>Nodus_Config\<close>: \<^verbatim>\<open>internal/pkg/config/config.go\<close>.
  \<^item> \<open>Nfn_Agent\<close>, \<open>Agent_Main\<close>: \<^verbatim>\<open>cmd/nfn-agent/nfn-agent.go\<close>.  \<open>Plugin_Main\<close>:
    \<^verbatim>\<open>cmd/ovn4nfvk8s-cni/ovn4nfvk8s-cni.go\<close>.  \<open>Operator_Main\<close>:
    \<^verbatim>\<open>cmd/nfn-operator/nfn-operator.go\<close>, the registration of types and controllers under
    \<^verbatim>\<open>pkg/apis\<close> and \<^verbatim>\<open>pkg/controller\<close>, \<^verbatim>\<open>SetupNotifServer\<close>, and the running
    operator as a transition system (\<open>operator_runs\<close>) whose steps are its callbacks and the subscriptions.
  \<^item> \<open>Ovn_Annotation\<close>: the way of a pod's interfaces from the operator to the node.
  \<^item> \<open>Spec2Isabelle\<close>: the properties that span the operator and the agent.

  \<^bold>\<open>Interfaces.\<close>  Contracts between components are locales, each interpreted on the
  model's own definitions: \<open>codec\<close> (printing and reading back), \<open>string_map\<close> (Go maps),
  \<open>requests_only\<close> (an operation that makes only certain requests), the allocator of
  \<open>Network_Pool\<close>, \<open>notifier\<close> (announcing and withdrawing routes),
  \<open>finalizer_controller\<close> (the three reconcilers with a finalizer),
  \<open>gostruct\<close> (a struct as reflection sees it), \<open>cri_client\<close> (a container runtime), and
  \<open>run_relation\<close> with its extension \<open>controller_relation\<close> (a relation between worlds that
  every operation, and every callback, of the operator keeps; interpreted as \<^emph>\<open>writes no
  custom resource\<close> and as \<open>steady\<close>).
  Three collections carry most proofs: \<open>emits_intros\<close> (which requests a program may make),
  \<open>frame_intros\<close> (which programs leave the package variables alone) and \<open>runs_intros\<close>
  (which programs return), with \<open>run_conv\<close> to invert a run.

  \<^bold>\<open>What is shown.\<close>  Subnets partition their network, with gateways inside, and the loop over 32-bit addresses
  stops in spite of wrap-around; the pool hands out free networks in order and is written only after
  the network exists; retries are bounded; bridge mappings and ACLs are read back; the OVN controller is available only with its router and
  default switch in place, and its gateway cache holds only what OVN answered; policies are
  denied before they are allowed and their port matches mean what they should; deletion undoes
  creation; messages reach exactly the node they are for; withdrawals mirror announcements; chains
  are completed and pass through the states of their state machine; objects are protected by their
  finalizer before anything is created for them; the agent's state is determined by its messages;
  whatever is plugged for a pod is unplugged, and bound to the operator's port; results refer to the
  pod's interfaces; what the operator writes about a pod is valid JSON that the node reads back; the
  operator starts its parts in order, stops with code 1 at the first failure, and keeps its
  invariants whatever callbacks interleave; the shim's call is the server's call; neither end of the
  notification channel works without mutual authentication, and the CNI socket, which is served
  without TLS, is private to root; configuration never panics and flags
  win.  Several theorems state what the code does where that is not what it means to do; they are
  listed as findings of the manifest.

  \<^bold>\<open>Bounds and fuel.\<close>  No definition has fuel of its own.  Loops with a bound of the
  source keep it: 201 attempts of the command runner, 30 readings of an address, 60 of a secret,
  10 ports deleted for a sandbox.  \<open>subnetLoop\<close>, \<open>RetryOnConflict\<close> and the loops that wait for
  pods and chains (\<open>waitPod\<close>, \<open>waitSelector\<close>, \<open>waitChain\<close>) are partial
  functions, as is the agent's subscription, which has no end: \<open>subnetLoop\<close> has a termination theorem, \<open>waitPod\<close> returns at the first
  reading that finds the pod ready, and the number of retries is the environment's; the back-off of the CNI server makes \<open>env_backoffTries\<close> attempts.

  \<^bold>\<open>Not modelled.\<close>  Generated code (deep copies, schemas, clients, informers, listers,
  protobuf) and the fakes of the tests: a deep copy of an immutable value is the value, and what the
  clients and the protocol do are requests and data of the model.  Concurrency is modelled between
  callbacks of the operator, not inside them: each handler runs to its end, so races on the server's
  client list within a callback are outside of the model.  Sleeping and logging have no effect; the
  serving loops of gRPC and HTTP, the manager of controller-runtime, the command line parser and the
  CNI skeleton are parameters; signals are left out.
\<close>

section \<open>From the operator to the agent\<close>

text \<open>
  C36.  What the operator sends when a provider network is deleted, handled by an agent in sync:
  the agent removes the bridge of the network exactly if the custom resource names a logical
  interface (for a VLAN network) or a provider interface (for a direct one).  A VLAN network whose
  logical interface was left to its default is created, but its withdrawal does nothing.
\<close>

theorem withdrawal_reaches_bridge:
  assumes "inSync w" and "pn_ProviderNetType pn = ''VLAN'' \<or> pn_ProviderNetType pn = ''DIRECT''"
    and "handleNotif E (notif_of pn ''delete'') w = Some ((), w')"
  shows "if (if pn_ProviderNetType pn = ''VLAN'' then vs_LogicalInterfaceName (pn_Vlan pn) else ds_ProviderInterfaceName (pn_Direct pn)) \<noteq> []
     then \<exists>e \<in> set (new_events w w'). vsctl [''--if-exist'', ''del-br'', ''br-'' @ om_Name (pn_Meta pn)] e else w' = w"
proof -
  obtain p where msg: "notif_of pn ''delete'' = \<lparr>nt_CniType = ''ovn4nfv'', nt_Payload = Some (Notification_ProviderNwRemove p)\<rparr>"
    and name: "pr_ProviderNwName p = om_Name (pn_Meta pn)" and
    key: "withdrawal_key p \<longleftrightarrow>
       (if pn_ProviderNetType pn = ''VLAN'' then vs_LogicalInterfaceName (pn_Vlan pn) else ds_ProviderInterfaceName (pn_Direct pn)) \<noteq> []"
    using assms(2) by (auto simp: notif_of_def deleteVlanMsg_def deleteDirectMsg_def ovn4nfv_def withdrawal_key_def)
  from assms(3) msg have "handleProviderNwRemove E p w = Some ((), w')" by (simp add: handleNotif_def)
  from handleProviderNwRemove_sends [OF this assms(1)] show ?thesis unfolding key name by (auto dest: sends_new_events split: if_splits)
qed

theorem withdrawal_reaches_bridge_witness:
  "\<exists>w'. handleNotif null_env (notif_of (demo_provider ''all'') ''delete'') (exec_world\<lparr>inSync := True\<rparr>) = Some ((), w') \<and>
     (\<exists>e \<in> set (new_events (exec_world\<lparr>inSync := True\<rparr>) w'). vsctl [''--if-exist'', ''del-br'', ''br-pnet''] e)"
proof -
  have "case handleNotif null_env (notif_of (demo_provider ''all'') ''delete'') (exec_world\<lparr>inSync := True\<rparr>) of Some (u, w') \<Rightarrow> True | None \<Rightarrow> False"
    by code_simp
  then obtain w' where r: "handleNotif null_env (notif_of (demo_provider ''all'') ''delete'') (exec_world\<lparr>inSync := True\<rparr>) = Some ((), w')"
    by (auto split: option.splits)
  from withdrawal_reaches_bridge [OF _ _ r] r show ?thesis by (simp add: demo_provider_def)
qed

section \<open>From the operator to the pod's interface\<close>

lemma ConfigureInterface_binds:
  "emits (\<lambda>e. plugged e = None \<or> (\<exists>port. e = ExecCmd ''ovs-vsctl'' (plugArgs port mac (ifaceIDOf ns p i) ips cid)))
     (ConfigureInterface E netns cid ifn ns p mac ips gws i dg k mtu b)"
  unfolding ConfigureInterface_def [abs_def] openNS_def [abs_def] Let_def CombinedOutput_def
  by (intro emits_bind emits_ask emits_return emits_case_option emits_mono [OF setupInterface_quiet] emits_case_sum emits_case_prod
      emits_bind_unsplit emits_request) auto

text \<open>
  C35.  The port the CNI server plugs for an interface of a pod is bound to the logical port the
  operator added for it: the identifier Open vSwitch is given is the name of the operator's port,
  both for a named interface and for the default one, which the annotation calls \<^verbatim>\<open>*\<close>.
\<close>

theorem pod_port_binding:
  assumes "ConfigureInterface E netns cid ifn (pod_Namespace pod) (pod_Name pod) mac ips gws i dg k mtu b w = Some (r, w')" and "i \<noteq> []"
    and "e \<in> set (new_events w w')" and "plugged e = Some port"
  shows "e = ExecCmd ''ovs-vsctl'' (plugArgs port mac (portNameOf pod (if i = ''*'' then [] else i)) ips cid)"
proof -
  have "ifaceIDOf (pod_Namespace pod) (pod_Name pod) i = portNameOf pod (if i = ''*'' then [] else i)"
    using assms(2) by (simp add: ifaceIDOf_def portNameOf_def)
  with new_events_emits [OF ConfigureInterface_binds assms(1,3)] assms(4) show ?thesis by (auto simp: plugArgs_def)
qed

theorem pod_port_binding_witness:
  "\<exists>r w'. ConfigureInterface pod_env ''/proc/1/ns/net'' ''0123456789abcdef'' ''net1'' (pod_Namespace zero_Pod) (pod_Name zero_Pod) ''0a:00:00:00:00:07''
       [''10.154.142.7/18''] [''10.154.142.1''] ''net0'' ''false'' 1 1400 False exec_world = Some (r, w') \<and>
     ExecCmd ''ovs-vsctl'' (plugArgs ''0123456789abcd1'' ''0a:00:00:00:00:07'' (portNameOf zero_Pod ''net0'') [''10.154.142.7/18''] ''0123456789abcdef'')
       \<in> set (new_events exec_world w')"
proof -
  have one: "strconv_Itoa 1 = ''1''" by code_simp
  from pod_configures [OF mac_literals(1), of "''net0''" "''/proc/1/ns/net''" "''net1''" "pod_Namespace zero_Pod" "pod_Name zero_Pod" "''10.154.142.7/18''"
      "[''10.154.142.1'']" 1 1400 False exec_world] one
  obtain h c v where r: "ConfigureInterface pod_env ''/proc/1/ns/net'' ''0123456789abcdef'' ''net1'' (pod_Namespace zero_Pod) (pod_Name zero_Pod) ''0a:00:00:00:00:07''
       [''10.154.142.7/18''] [''10.154.142.1''] ''net0'' ''false'' 1 1400 False exec_world = Some (Inr [h, c], v)"
    and l: "trace v \<noteq> []" "plugged (last (trace v)) = Some ''0123456789abcd1''" by auto
  from l have e: "last (trace v) \<in> set (new_events exec_world v)" by (simp add: new_events_def exec_world_def init_world_def)
  from pod_port_binding [OF r _ e l(2)] r e show ?thesis by simp
qed

section \<open>A node that joins\<close>

text \<open>The messages a history sent on a stream, and a message a subscription may send before the last.\<close>

definition delivered :: "nat \<Rightarrow> history \<Rightarrow> Notification list" where
  "delivered ss es = concat (map (\<lambda>e. case e of StreamSend st m \<Rightarrow> if st = ss then [m] else [] | _ \<Rightarrow> []) es)"

definition announcement :: "Notification \<Rightarrow> bool" where
  "announcement m \<longleftrightarrow> m = empty_Notification \<or> (\<exists>p. nt_Payload m = Some (Notification_ProviderNwCreate p))"

definition announces :: "event \<Rightarrow> bool" where
  "announces e = (case e of StreamSend st m \<Rightarrow> announcement m | _ \<Rightarrow> True)"

lemma SendNotif_announces: "emits announces (SendNotif E pn ''create'' n)"
  unfolding SendNotif_def [abs_def] sendSelected_def updatePnStatus_def
  by (intro emits_intros sendMsg_sends) (auto simp: announces_def announcement_def createVlanMsg_def createDirectMsg_def)

lemma delivered_announcements: "\<forall>e \<in> set es. announces e \<Longrightarrow> m \<in> set (delivered ss es) \<Longrightarrow> announcement m"
  by (auto simp: delivered_def announces_def split: event.splits if_splits)

text \<open>Before it is in sync an agent does nothing but store the networks announced to it.\<close>

lemma announcement_stored:
  "announcement m \<Longrightarrow> \<not> inSync w \<Longrightarrow> handleNotif E m w = Some ((), w') \<Longrightarrow> trace w' = trace w \<and> \<not> inSync w'"
  by (auto simp: announcement_def handleNotif_def handleProviderNwCreate_def empty_Notification_def split: if_splits)

lemma announcements_stored:
  assumes "agent_reaches E w0 ms w" and "\<not> inSync w0" and "\<forall>m \<in> set ms. announcement m"
  shows "trace w = trace w0 \<and> \<not> inSync w"
  using assms by (induction rule: agent_reaches.induct) (auto dest: announcement_stored)

inductive_cases agent_reaches_snocE: "agent_reaches E w0 (ms @ [m]) w"

text \<open>
  C37.  A node that joins makes none of the provider networks that exist.  The operator completes a
  subscription, and a fresh agent handles what was sent on its stream, in that order: in the end it
  is in sync, it has forgotten the networks announced to it, and it has not added a bridge or a
  VLAN link for any of them.
\<close>

theorem joining_node_builds_nothing:
  assumes "Subscribe E node ss w = Some (Inr (), w')" and "agent_reaches A a0 (delivered ss (new_events w w')) a" and "\<not> inSync a0"
  shows "inSync a \<and> pnCreateStore a = [] \<and> (\<forall>e \<in> set (new_events a0 a). \<not> creates_network e)"
proof -
  have "any_nbctl e \<Longrightarrow> announces e" for e by (auto simp: any_nbctl_def nbctl_def announces_def)
  from Subscribe_run [OF assms(1), of announces, OF SendNotif_announces this] obtain es ip mac ip6 where
    es: "trace w' = trace w @ es @ [StreamSend ss (inSyncMsg ip mac ip6)]" "\<forall>e \<in> set es. announces e"
    by (auto simp: announces_def)
  let ?sync = "inSyncMsg ip mac ip6"
  have "delivered ss (new_events w w') = delivered ss es @ [?sync]" by (simp add: new_events_def es(1) delivered_def)
  with assms(2) obtain b where b: "agent_reaches A a0 (delivered ss es) b" and last: "handleNotif A ?sync b = Some ((), a)"
    by (auto elim: agent_reaches_snocE)
  have t: "trace b = trace a0" using announcements_stored [OF b assms(3)] delivered_announcements [OF es(2)] by simp
  obtain p where p: "handleInSync A p b = Some ((), a)" using last by (auto simp: handleNotif_def inSyncMsg_def ovn4nfv_def)
  have "new_events a0 a = new_events b a" by (simp add: new_events_def t)
  with new_events_emits [OF handleInSync_builds_nothing p] handleInSync_state [OF p] show ?thesis by simp
qed

lemma agent_stores: "announcement m \<Longrightarrow> \<not> inSync w \<Longrightarrow> \<exists>w'. handleNotif E m w = Some ((), w') \<and> \<not> inSync w' \<and> runner w' = runner w"
  by (auto simp: announcement_def handleNotif_def handleProviderNwCreate_def empty_Notification_def)

lemma agent_stores_all:
  "\<forall>m \<in> set ms. announcement m \<Longrightarrow> \<not> inSync w0 \<Longrightarrow> \<exists>w. agent_reaches E w0 ms w \<and> \<not> inSync w \<and> runner w = runner w0"
proof (induction ms rule: rev_induct)
  case Nil
  then show ?case by (blast intro: start)
next
  case (snoc m ms)
  then obtain w where "agent_reaches E w0 ms w" "\<not> inSync w" "runner w = runner w0" by auto
  with snoc.prems agent_stores [of m w E] show ?case by (auto intro: handle)
qed

text \<open>A node without links, whose commands all fail.\<close>

definition bare_env :: env where
  "bare_env = null_env\<lparr>env_exec := (\<lambda>h c args. ([], [], Some (ExtErr []))), env_combined := (\<lambda>h c args. ([], Some (ExtErr [])))\<rparr>"

lemma syncVlans_bare: "\<exists>r. rangeM (syncVlan E []) ps d w = Some (r, w)"
  by (induction ps arbitrary: d) (auto simp: syncVlan_def vlanOf_def CreateVlan_def Let_def)

lemma syncBridges_bare:
  "(\<And>p. \<not> skip p \<Longrightarrow> intf p = []) \<Longrightarrow> rangeM (syncBridge E [] skip intf) ps d w = Some (Inl d, w)"
  by (induction ps arbitrary: d) (auto simp: syncBridge_def bridgeFor_def CreatePnBridge_def Let_def)

lemma syncBridges_bare_both:
  "rangeM (syncBridge E [] (\<lambda>p. pc_Vlan p \<noteq> None) (\<lambda>p. vi_LogicalIntf (vlanOf p))) ps d w = Some (Inl d, w)"
  "rangeM (syncBridge E [] (\<lambda>p. pc_Direct p \<noteq> None) (\<lambda>p. di_ProviderIntf (directOf p))) ps d w = Some (Inl d, w)"
  by (rule syncBridges_bare, simp add: vlanOf_def directOf_def)+

lemma bare_queries:
  "GetVlan bare_env w = Some ([], w\<lparr>trace := trace w @ [LinkList]\<rparr>)"
  "runner w = Some r \<Longrightarrow> \<exists>es. GetPnBridge bare_env x w = Some ([], w\<lparr>trace := trace w @ es\<rparr>)"
  by (auto simp: GetVlan_def GetPnBridge_def RunOVSVsctl_def run_def bare_env_def null_env_def)

lemma bare_agent_syncs:
  assumes "runner w = Some r"
  shows "\<exists>w'. handleNotif bare_env (inSyncMsg ip mac ip6) w = Some ((), w')"
proof -
  have direct: "\<exists>w'. inSyncDirectProvidernetwork bare_env v = Some ((), w')" if "runner v = Some r" for v
    using bare_queries(2) [OF that, of "''nfn''"]
    by (auto simp: inSyncDirectProvidernetwork_def syncBridges_bare_both deleteStaleBridges_def simp del: not_None_eq)
  have vlan: "\<exists>es. inSyncVlanProvidernetwork bare_env w = Some ((), w\<lparr>trace := es\<rparr>)"
  proof -
    let ?w = "w\<lparr>trace := trace w @ [LinkList]\<rparr>"
    obtain es where "GetPnBridge bare_env ''nfn'' ?w = Some ([], ?w\<lparr>trace := trace ?w @ es\<rparr>)" using bare_queries(2) [of ?w] assms by auto
    moreover obtain q where "rangeM (syncVlan bare_env []) (pnCreateStore w) [] (?w\<lparr>trace := trace ?w @ es\<rparr>) = Some (q, ?w\<lparr>trace := trace ?w @ es\<rparr>)"
      using syncVlans_bare by blast
    ultimately show ?thesis
      by (cases q) (auto simp: inSyncVlanProvidernetwork_def bare_queries(1) syncBridges_bare_both deleteStaleVlans_def deleteStaleBridges_def
          simp del: not_None_eq)
  qed
  then obtain es where s1: "inSyncVlanProvidernetwork bare_env w = Some ((), w\<lparr>trace := es\<rparr>)" by blast
  obtain w2 where s: "inSyncDirectProvidernetwork bare_env (w\<lparr>trace := es\<rparr>) = Some ((), w2)"
    using direct [of "w\<lparr>trace := es\<rparr>"] assms by auto
  have "\<exists>x v. createNodeOVSInternalPort bare_env p u = Some (x, v)" for p u
    by (cases "net_ParseMAC (unquoteField (is_NodeIntfMacAddress p))")
      (auto simp: createNodeOVSInternalPort_def CreateNodeOVSInternalPort_def CombinedOutput_def bare_env_def Let_def)
  then obtain x v where "createNodeOVSInternalPort bare_env \<lparr>is_NodeIntfIpAddress = ip, is_NodeIntfMacAddress = mac, is_NodeIntfIpv6Address = ip6\<rparr>
      (w2\<lparr>pnCreateStore := [], inSync := True\<rparr>) = Some (x, v)" by blast
  with s1 s show ?thesis by (simp add: handleNotif_def inSyncMsg_def ovn4nfv_def handleInSync_def Let_def)
qed

theorem joining_node_builds_nothing_witness:
  "\<exists>w' a. Subscribe ready_env ''n3'' 3 ready_world = Some (Inr (), w') \<and>
     agent_reaches bare_env exec_world (delivered 3 (new_events ready_world w')) a \<and> inSync a \<and> pnCreateStore a = [] \<and>
     (\<forall>e \<in> set (new_events exec_world a). \<not> creates_network e)"
proof -
  obtain w' where s: "Subscribe ready_env ''n3'' 3 ready_world = Some (Inr (), w')" using ready_subscribes by blast
  have "any_nbctl e \<Longrightarrow> announces e" for e by (auto simp: any_nbctl_def nbctl_def announces_def)
  from Subscribe_run [OF s, of announces, OF SendNotif_announces this] obtain es ip mac ip6 where
    es: "trace w' = trace ready_world @ es @ [StreamSend 3 (inSyncMsg ip mac ip6)]" "\<forall>e \<in> set es. announces e"
    by (auto simp: announces_def)
  have i: "\<not> inSync exec_world" and r: "runner exec_world \<noteq> None" by (simp_all add: exec_world_def init_world_def)
  from agent_stores_all [of "delivered 3 es" exec_world bare_env] delivered_announcements [OF es(2)] i obtain b where
    b: "agent_reaches bare_env exec_world (delivered 3 es) b" "runner b = runner exec_world" by blast
  with r obtain q where "runner b = Some q" by auto
  then obtain a where "handleNotif bare_env (inSyncMsg ip mac ip6) b = Some ((), a)" using bare_agent_syncs by blast
  with b(1) have "agent_reaches bare_env exec_world (delivered 3 es @ [inSyncMsg ip mac ip6]) a" by (rule handle)
  then have "agent_reaches bare_env exec_world (delivered 3 (new_events ready_world w')) a" by (simp add: new_events_def es(1) delivered_def)
  with s joining_node_builds_nothing [OF s this i] show ?thesis by blast
qed

end
